(* ===== verification/Prelude.thy ===== *)
theory Prelude
  imports Main "HOL-Library.Sublist"
begin

text \<open>
  Shared vocabulary of the development. It holds what every component of the operator uses
  of the Go language and its standard library (string formatting, maps, wrapped errors, the
  32-bit conversion), the sequencing of fallible steps over a state, and a small calculus for
  what a composed step keeps of that state.

  \<^item> \<open>goerror\<close> is a Go \<open>error\<close> value: its text and the API reason that
    \<open>apierrors.IsNotFound\<close> and its relatives read through any number of \<open>%w\<close> wrappings.
  \<^item> \<open>('s, 'a) op\<close> is a Go function that reads and writes a state \<open>'s\<close> and returns
    \<open>('a, error)\<close>; \<open>bindE\<close> is \<open>x, err := m(); if err != nil { return err }\<close>.
  \<^item> \<open>keeps R m\<close> says that every run of \<open>m\<close> relates the state before to the state after
    by \<open>R\<close>; the locale \<open>frame_rel\<close> proves once, for every preorder \<open>R\<close>, that composition
    keeps it.
\<close>

named_theorems op_defs "unfolding equations of the fallible-step combinators"
named_theorems keeps_intros "rules that compose keeps over the combinators"
named_theorems go_defs "unfolding equations of the Go library functions"

section \<open>Strings\<close>

definition digit :: "nat \<Rightarrow> char" where
  "digit d = ''0123456789'' ! d"

fun nat_dec :: "nat \<Rightarrow> string" where
  "nat_dec n = (if n < 10 then [digit n] else nat_dec (n div 10) @ [digit (n mod 10)])"

declare nat_dec.simps [simp del]

text \<open>The verb \<open>%d\<close> of \<open>fmt.Sprintf\<close> and \<open>strconv.FormatInt(n, 10)\<close>.\<close>

definition itoa :: "int \<Rightarrow> string" where
  "itoa i = (if i < 0 then ''-'' @ nat_dec (nat (- i)) else nat_dec (nat i))"

text \<open>\<open>strings.Join\<close>.\<close>

fun joinWith :: "string \<Rightarrow> string list \<Rightarrow> string" where
  "joinWith sep [] = []"
| "joinWith sep [x] = x"
| "joinWith sep (x # y # ys) = x @ sep @ joinWith sep (y # ys)"

text \<open>\<open>strings.Contains\<close>, as a search over the positions of the text.\<close>

fun contains :: "string \<Rightarrow> string \<Rightarrow> bool" where
  "contains [] pat = (pat = [])"
| "contains (c # cs) pat = (prefix pat (c # cs) \<or> contains cs pat)"

text \<open>A text given line by line, each line closed by a newline.\<close>

definition unlines :: "string list \<Rightarrow> string" where
  "unlines ls = concat (map (\<lambda>l. l @ [CHR 0x0A]) ls)"

text \<open>
  The verb \<open>%q\<close>: double quotes around the text, with the quote, the backslash and the control
  characters escaped. Bytes from 0x80 on are kept, as \<open>strconv.Quote\<close> keeps printable runes.
\<close>

definition hexdigit :: "nat \<Rightarrow> char" where
  "hexdigit d = ''0123456789abcdef'' ! d"

definition quote_char :: "char \<Rightarrow> string" where
  "quote_char c =
     (let n = of_char c :: nat in
      if c = CHR 0x22 then [CHR 0x5C, CHR 0x22]
      else if c = CHR 0x5C then [CHR 0x5C, CHR 0x5C]
      else if n = 7 then CHR 0x5C # ''a''
      else if n = 8 then CHR 0x5C # ''b''
      else if n = 12 then CHR 0x5C # ''f''
      else if n = 10 then CHR 0x5C # ''n''
      else if n = 13 then CHR 0x5C # ''r''
      else if n = 9 then CHR 0x5C # ''t''
      else if n = 11 then CHR 0x5C # ''v''
      else if n < 32 \<or> n = 127 then CHR 0x5C # ''x'' @ [hexdigit (n div 16), hexdigit (n mod 16)]
      else [c])"

definition quote :: "string \<Rightarrow> string" where
  "quote s = [CHR 0x22] @ concat (map quote_char s) @ [CHR 0x22]"

lemma digit_eval [simp]:
  "digit 0 = CHR ''0''" "digit (Suc 0) = CHR ''1''" "digit 1 = CHR ''1''" "digit 2 = CHR ''2''"
  "digit 3 = CHR ''3''" "digit 4 = CHR ''4''" "digit 5 = CHR ''5''" "digit 6 = CHR ''6''"
  "digit 7 = CHR ''7''" "digit 8 = CHR ''8''" "digit 9 = CHR ''9''"
  by (simp_all add: digit_def)

lemma nat_dec_nonempty: "nat_dec n \<noteq> []"
  by (subst nat_dec.simps) simp

lemma digit_in_digits: "d < 10 \<Longrightarrow> digit d \<in> set ''0123456789''"
  unfolding digit_def by (rule nth_mem) simp

lemma nat_dec_digits: "set (nat_dec n) \<subseteq> set ''0123456789''"
proof (induction n rule: nat_dec.induct)
  case (1 n)
  show ?case
  proof (cases "n < 10")
    case True
    then have "nat_dec n = [digit n]"
      by (simp add: nat_dec.simps [of n])
    then show ?thesis using digit_in_digits [OF True] by simp
  next
    case False
    then have "nat_dec n = nat_dec (n div 10) @ [digit (n mod 10)]"
      by (simp add: nat_dec.simps [of n])
    moreover have "digit (n mod 10) \<in> set ''0123456789''"
      by (rule digit_in_digits) simp
    ultimately show ?thesis using "1.IH" [OF False] by auto
  qed
qed

lemma length_joinWith_le: "x \<in> set xs \<Longrightarrow> length x \<le> length (joinWith sep xs)"
  by (induction sep xs rule: joinWith.induct) auto

lemma contains_sublist: "contains s pat \<longleftrightarrow> sublist pat s"
  by (induction s pat rule: contains.induct) (auto simp: sublist_Cons_right)

section \<open>Maps, lists and machine integers\<close>

text \<open>
  A Go \<open>map[string]string\<close> is an association list with distinct keys; a missing key reads as the
  empty string, and \<open>v, ok := m[k]\<close> is \<open>map_of\<close>.
\<close>

type_synonym 'v gomap = "(string \<times> 'v) list"

definition mapGet :: "string gomap \<Rightarrow> string \<Rightarrow> string" where
  "mapGet m k = (case map_of m k of None \<Rightarrow> [] | Some v \<Rightarrow> v)"

text \<open>\<open>maps.Equal\<close>: equal lengths, and every pair of the first map is in the second.\<close>

definition mapsEqual :: "'v gomap \<Rightarrow> 'v gomap \<Rightarrow> bool" where
  "mapsEqual m1 m2 =
     (length m1 = length m2 \<and> list_all (\<lambda>(k, v). map_of m2 k = Some v) m1)"

definition wf_gomap :: "'v gomap \<Rightarrow> bool" where
  "wf_gomap m = distinct (map fst m)"

lemma mapsEqual_refl: "wf_gomap m \<Longrightarrow> mapsEqual m m"
  by (auto simp: mapsEqual_def wf_gomap_def list_all_iff intro: map_of_is_SomeI)

lemma mapsEqual_iff:
  assumes "wf_gomap m1" and "wf_gomap m2"
  shows "mapsEqual m1 m2 \<longleftrightarrow> map_of m1 = map_of m2"
proof
  assume eq: "mapsEqual m1 m2"
  have sub: "set m1 \<subseteq> set m2"
    using eq by (auto simp: mapsEqual_def list_all_iff dest: map_of_SomeD)
  have "card (set m1) = card (set m2)"
    using eq assms by (simp add: mapsEqual_def wf_gomap_def distinct_card distinct_map)
  with sub have "set m1 = set m2" by (simp add: card_subset_eq)
  then show "map_of m1 = map_of m2"
    using assms by (simp add: wf_gomap_def map_of_inject_set)
next
  assume eq: "map_of m1 = map_of m2"
  with assms have "set m1 = set m2" by (simp add: wf_gomap_def map_of_inject_set)
  then have "length m1 = length m2"
    using assms by (metis distinct_card distinct_map wf_gomap_def)
  moreover have "list_all (\<lambda>(k, v). map_of m2 k = Some v) m1"
    using assms eq by (auto simp: list_all_iff wf_gomap_def simp flip: eq)
  ultimately show "mapsEqual m1 m2" by (simp add: mapsEqual_def)
qed

text \<open>The conversion \<open>int32(n)\<close>: two's complement wrap-around at 32 bits.\<close>

definition int32_of :: "int \<Rightarrow> int" where
  "int32_of n = (n + 2 ^ 31) mod 2 ^ 32 - 2 ^ 31"

lemma int32_of_range: "- (2 ^ 31) \<le> int32_of n \<and> int32_of n < 2 ^ 31"
  by (simp add: int32_of_def)

lemma int32_of_id: "- (2 ^ 31) \<le> n \<Longrightarrow> n < 2 ^ 31 \<Longrightarrow> int32_of n = n"
  by (simp add: int32_of_def)

text \<open>The size of a set filled from a list: \<open>sets.New(xs...).Len()\<close>.\<close>

definition setLen :: "'a list \<Rightarrow> nat" where
  "setLen xs = length (remdups xs)"

lemma setLen_card: "setLen xs = card (set xs)"
  by (simp add: setLen_def length_remdups_card_conv)

section \<open>Errors\<close>

text \<open>
  The classification of an API error that the sources test with \<open>apierrors.IsNotFound\<close>,
  \<open>IsAlreadyExists\<close>, \<open>IsInvalid\<close> and \<open>meta.IsNoMatchError\<close>; every other error, and every
  error made with \<open>fmt.Errorf\<close> without \<open>%w\<close>, is \<open>OtherReason\<close>.
\<close>

datatype reason = NotFound | AlreadyExists | Invalid | NoMatch | OtherReason

record goerror =
  err_reason :: reason
  err_msg :: string

definition errorf :: "string \<Rightarrow> goerror" where
  "errorf m = \<lparr>err_reason = OtherReason, err_msg = m\<rparr>"

definition wrap :: "string \<Rightarrow> goerror \<Rightarrow> goerror" where
  "wrap p e = e\<lparr>err_msg := p @ '': '' @ err_msg e\<rparr>"

definition IsNotFound :: "goerror \<Rightarrow> bool" where
  "IsNotFound e = (err_reason e = NotFound)"

definition IsAlreadyExists :: "goerror \<Rightarrow> bool" where
  "IsAlreadyExists e = (err_reason e = AlreadyExists)"

definition IsInvalid :: "goerror \<Rightarrow> bool" where
  "IsInvalid e = (err_reason e = Invalid)"

definition IsNoMatchError :: "goerror \<Rightarrow> bool" where
  "IsNoMatchError e = (err_reason e = NoMatch)"

lemma wrap_sel [simp]:
  "err_reason (wrap p e) = err_reason e" "err_msg (wrap p e) = p @ '': '' @ err_msg e"
  by (simp_all add: wrap_def)

lemma wrap_class [simp]:
  "IsNotFound (wrap p e) = IsNotFound e" "IsInvalid (wrap p e) = IsInvalid e"
  "IsAlreadyExists (wrap p e) = IsAlreadyExists e" "IsNoMatchError (wrap p e) = IsNoMatchError e"
  by (simp_all add: IsNotFound_def IsInvalid_def IsAlreadyExists_def IsNoMatchError_def)

lemma errorf_sel [simp]:
  "err_reason (errorf m) = OtherReason" "err_msg (errorf m) = m"
  by (simp_all add: errorf_def)

lemma errorf_not_NotFound [simp]: "\<not> IsNotFound (errorf m)"
  by (simp add: IsNotFound_def)

text \<open>\<open>errors.Join\<close>: no error for the empty list, else the messages one per line.\<close>

definition joinErrors :: "goerror list \<Rightarrow> goerror option" where
  "joinErrors es =
     (case es of [] \<Rightarrow> None
      | e # _ \<Rightarrow> Some (e\<lparr>err_msg := joinWith [CHR 0x0A] (map err_msg es)\<rparr>))"

lemma joinErrors_None [simp]: "joinErrors es = None \<longleftrightarrow> es = []"
  by (simp add: joinErrors_def split: list.splits)

section \<open>Fallible steps over a state\<close>

type_synonym ('s, 'a) op = "'s \<Rightarrow> (goerror + 'a) \<times> 's"

definition returnE :: "'a \<Rightarrow> ('s, 'a) op" where
  [op_defs]: "returnE x s = (Inr x, s)"

definition throwE :: "goerror \<Rightarrow> ('s, 'a) op" where
  [op_defs]: "throwE e s = (Inl e, s)"

definition bindE :: "('s, 'a) op \<Rightarrow> ('a \<Rightarrow> ('s, 'b) op) \<Rightarrow> ('s, 'b) op" where
  [op_defs]: "bindE m f s = (case m s of (Inl e, t) \<Rightarrow> (Inl e, t) | (Inr x, t) \<Rightarrow> f x t)"

definition wrapE :: "string \<Rightarrow> ('s, 'a) op \<Rightarrow> ('s, 'a) op" where
  [op_defs]: "wrapE p m s = (case m s of (Inl e, t) \<Rightarrow> (Inl (wrap p e), t) | (Inr x, t) \<Rightarrow> (Inr x, t))"

text \<open>\<open>x, err := m()\<close> with the error kept as a value for the caller to inspect.\<close>

definition tryE :: "('s, 'a) op \<Rightarrow> ('s, goerror + 'a) op" where
  [op_defs]: "tryE m s = (case m s of (r, t) \<Rightarrow> (Inr r, t))"

definition getsE :: "('s \<Rightarrow> 'a) \<Rightarrow> ('s, 'a) op" where
  [op_defs]: "getsE f s = (Inr (f s), s)"

definition modifyE :: "('s \<Rightarrow> 's) \<Rightarrow> ('s, unit) op" where
  [op_defs]: "modifyE f s = (Inr (), f s)"

text \<open>A list of steps run in order, stopping at the first error.\<close>

fun seqE :: "('s, unit) op list \<Rightarrow> ('s, unit) op" where
  "seqE [] = returnE ()"
| "seqE (m # ms) = bindE m (\<lambda>_. seqE ms)"

text \<open>A \<open>for range\<close> loop whose body may return an error.\<close>

fun forE :: "'a list \<Rightarrow> ('a \<Rightarrow> ('s, unit) op) \<Rightarrow> ('s, unit) op" where
  "forE [] f = returnE ()"
| "forE (x # xs) f = bindE (f x) (\<lambda>_. forE xs f)"

text \<open>A \<open>for range\<close> loop that collects what its body yields and never stops early.\<close>

fun collectE :: "'a list \<Rightarrow> ('a \<Rightarrow> ('s, 'b list) op) \<Rightarrow> ('s, 'b list) op" where
  "collectE [] f = returnE []"
| "collectE (x # xs) f = bindE (f x) (\<lambda>ys. bindE (collectE xs f) (\<lambda>zs. returnE (ys @ zs)))"

lemma bindE_assoc: "bindE (bindE m f) g = bindE m (\<lambda>x. bindE (f x) g)"
  by (rule ext) (simp add: bindE_def split: prod.splits sum.splits)

lemma bindE_return_left [simp]: "bindE (returnE x) f = f x"
  by (rule ext) (simp add: op_defs)

lemma bindE_return_right [simp]: "bindE m returnE = m"
  by (rule ext) (simp add: op_defs split: prod.splits sum.splits)

lemma bindE_Inl: "m s = (Inl e, t) \<Longrightarrow> bindE m f s = (Inl e, t)"
  by (simp add: bindE_def)

lemma bindE_Inr: "m s = (Inr x, t) \<Longrightarrow> bindE m f s = f x t"
  by (simp add: bindE_def)

lemma bindE_InrD:
  "bindE m f s = (Inr y, u) \<Longrightarrow> \<exists>x t. m s = (Inr x, t) \<and> f x t = (Inr y, u)"
  by (auto simp: bindE_def split: prod.splits sum.splits)

lemma wrapE_Inr [simp]: "wrapE p m s = (Inr x, t) \<longleftrightarrow> m s = (Inr x, t)"
  by (auto simp: wrapE_def split: prod.splits sum.splits)

lemma snd_wrapE [simp]: "snd (wrapE p m s) = snd (m s)"
  by (simp add: wrapE_def split: prod.splits sum.splits)

lemma seqE_append: "seqE (ms @ ns) = bindE (seqE ms) (\<lambda>_. seqE ns)"
  by (induction ms) (simp_all add: bindE_assoc)

lemma seqE_Inr_append:
  "seqE (ms @ ns) s = (Inr (), u) \<Longrightarrow> \<exists>t. seqE ms s = (Inr (), t) \<and> seqE ns t = (Inr (), u)"
  by (auto simp: seqE_append dest: bindE_InrD)

lemma forE_append: "forE (xs @ ys) f = bindE (forE xs f) (\<lambda>_. forE ys f)"
  by (induction xs) (simp_all add: bindE_assoc)

section \<open>What a step keeps of the state\<close>

definition keeps :: "('s \<Rightarrow> 's \<Rightarrow> bool) \<Rightarrow> ('s, 'a) op \<Rightarrow> bool" where
  "keeps R m = (\<forall>s. R s (snd (m s)))"

lemma keepsD: "keeps R m \<Longrightarrow> R s (snd (m s))"
  by (simp add: keeps_def)

lemma keepsI: "(\<And>s. R s (snd (m s))) \<Longrightarrow> keeps R m"
  by (simp add: keeps_def)

locale frame_rel =
  fixes R :: "'s \<Rightarrow> 's \<Rightarrow> bool"
  assumes R_refl: "R s s"
    and R_trans: "R s t \<Longrightarrow> R t u \<Longrightarrow> R s u"
begin

lemma keeps_return: "keeps R (returnE x)"
  by (simp add: keeps_def returnE_def R_refl)

lemma keeps_throw: "keeps R (throwE e)"
  by (simp add: keeps_def throwE_def R_refl)

lemma keeps_gets: "keeps R (getsE f)"
  by (simp add: keeps_def getsE_def R_refl)

lemma keeps_modify: "(\<And>s. R s (f s)) \<Longrightarrow> keeps R (modifyE f)"
  by (simp add: keeps_def modifyE_def)

lemma keeps_wrap: "keeps R m \<Longrightarrow> keeps R (wrapE p m)"
  by (simp add: keeps_def)

lemma keeps_try: "keeps R m \<Longrightarrow> keeps R (tryE m)"
  by (simp add: keeps_def tryE_def case_prod_beta)

lemma keeps_bind:
  assumes m: "keeps R m" and f: "\<And>x. keeps R (f x)"
  shows "keeps R (bindE m f)"
proof (rule keepsI)
  fix s
  obtain r t where ms: "m s = (r, t)" by (cases "m s")
  have st: "R s t" using keepsD [OF m, of s] ms by simp
  show "R s (snd (bindE m f s))"
  proof (cases r)
    case (Inl e)
    with ms st show ?thesis by (simp add: bindE_def)
  next
    case (Inr x)
    with ms have "bindE m f s = f x t" by (simp add: bindE_def)
    with R_trans [OF st keepsD [OF f, of t x]] show ?thesis by simp
  qed
qed

lemma keeps_if: "keeps R m \<Longrightarrow> keeps R n \<Longrightarrow> keeps R (if b then m else n)"
  by simp

lemma keeps_seq: "(\<And>m. m \<in> set ms \<Longrightarrow> keeps R m) \<Longrightarrow> keeps R (seqE ms)"
  by (induction ms) (auto intro: keeps_return keeps_bind)

lemma keeps_for: "(\<And>x. x \<in> set xs \<Longrightarrow> keeps R (f x)) \<Longrightarrow> keeps R (forE xs f)"
  by (induction xs) (auto intro: keeps_return keeps_bind)

lemma keeps_collect: "(\<And>x. x \<in> set xs \<Longrightarrow> keeps R (f x)) \<Longrightarrow> keeps R (collectE xs f)"
  by (induction xs) (auto intro!: keeps_return keeps_bind)

lemmas keeps_rules =
  keeps_return keeps_throw keeps_gets keeps_wrap keeps_try keeps_bind keeps_if

end

end
