(* ===== verification/KubeTypes.thy ===== *)
theory KubeTypes
  imports Prelude
begin

text \<open>
  The Kubernetes API data the operator reads and writes, as records with the fields the sources
  set or test. A pointer field is an \<open>option\<close>, a slice a list, a \<open>map[string]string\<close> an
  association list, a byte slice a \<open>string\<close>. Fields that only pass through the operator
  unread (tolerations, schema of a CRD, the parts of a webhook rule it does not look at) are
  \<open>json\<close>. Each \<open>empty\<close> constant is the Go zero value of its struct, so that a composite
  literal of the sources is an update of it.
\<close>

datatype json = JNull | JBool bool | JNum int | JStr string | JArr "json list" | JObj "(string \<times> json) list"

type_synonym bytes = string
type_synonym quantity = string
type_synonym nsname = "string \<times> string"
type_synonym selector = json

record gvk =
  gvk_group :: string
  gvk_version :: string
  gvk_kind :: string

definition GVK :: "string \<Rightarrow> string \<Rightarrow> string \<Rightarrow> gvk" where
  "GVK g v k = \<lparr>gvk_group = g, gvk_version = v, gvk_kind = k\<rparr>"

section \<open>Object metadata, conditions\<close>

record ownerRef =
  or_kind :: string
  or_name :: string
  or_uid :: string
  or_controller :: bool

record objectMeta =
  om_name :: string
  om_namespace :: string
  om_labels :: "string gomap"
  om_annotations :: "string gomap"
  om_uid :: string
  om_generation :: int
  om_resourceVersion :: string
  om_ownerReferences :: "ownerRef list"
  om_finalizers :: "string list"
  om_managedFields :: "json list"
  om_deletionTimestamp :: "nat option"

definition emptyMeta :: objectMeta where
  "emptyMeta = \<lparr>om_name = [], om_namespace = [], om_labels = [], om_annotations = [], om_uid = [],
     om_generation = 0, om_resourceVersion = [], om_ownerReferences = [], om_finalizers = [],
     om_managedFields = [], om_deletionTimestamp = None\<rparr>"

record condition =
  c_type :: string
  c_status :: string
  c_reason :: string
  c_message :: string
  c_observedGeneration :: int
  c_lastTransitionTime :: nat

abbreviation ConditionTrue :: string where "ConditionTrue \<equiv> ''True''"
abbreviation ConditionFalse :: string where "ConditionFalse \<equiv> ''False''"

definition mkCondition :: "string \<Rightarrow> string \<Rightarrow> string \<Rightarrow> string \<Rightarrow> int \<Rightarrow> condition" where
  "mkCondition ty st rs ms og = \<lparr>c_type = ty, c_status = st, c_reason = rs, c_message = ms,
     c_observedGeneration = og, c_lastTransitionTime = 0\<rparr>"

lemma mkCondition_sel [simp]:
  "c_type (mkCondition ty st rs ms og) = ty" "c_status (mkCondition ty st rs ms og) = st"
  "c_reason (mkCondition ty st rs ms og) = rs" "c_message (mkCondition ty st rs ms og) = ms"
  "c_observedGeneration (mkCondition ty st rs ms og) = og"
  by (simp_all add: mkCondition_def)

record labelSelector =
  ls_matchLabels :: "string gomap"
  ls_matchExpressions :: "json list"

section \<open>Pods\<close>

record keyToPath =
  kp_key :: string
  kp_path :: string
  kp_mode :: "int option"

datatype volumeSource =
    EmptyDir
  | SecretVolume string "keyToPath list"
  | ConfigMapVolume string "bool option"
  | OtherVolume json

record volume =
  vol_name :: string
  vol_source :: volumeSource

record volumeMount =
  vm_name :: string
  vm_mountPath :: string
  vm_readOnly :: bool

record secretKeySelector =
  sks_name :: string
  sks_key :: string

record envVar =
  ev_name :: string
  ev_value :: string
  ev_secretKeyRef :: "secretKeySelector option"

record containerPort =
  cp_name :: string
  cp_containerPort :: int
  cp_protocol :: string

datatype probeHandler = TCPSocket int | HTTPGet string int string

record probe =
  pr_handler :: probeHandler
  pr_initialDelaySeconds :: int
  pr_periodSeconds :: int

record resourceRequirements =
  rr_requests :: "quantity gomap option"
  rr_limits :: "quantity gomap option"

definition emptyResources :: resourceRequirements where
  "emptyResources = \<lparr>rr_requests = None, rr_limits = None\<rparr>"

record securityContext =
  sc_allowPrivilegeEscalation :: "bool option"
  sc_dropCapabilities :: "string list"
  sc_addCapabilities :: "string list"

record podSecurityContext =
  psc_runAsNonRoot :: "bool option"
  psc_seccompProfile :: "string option"
  psc_runAsUser :: "int option"
  psc_fsGroup :: "int option"

record container =
  ct_name :: string
  ct_image :: string
  ct_command :: "string list"
  ct_args :: "string list"
  ct_env :: "envVar list"
  ct_envFrom :: "string list"
  ct_resources :: resourceRequirements
  ct_securityContext :: "securityContext option"
  ct_ports :: "containerPort list"
  ct_volumeMounts :: "volumeMount list"
  ct_readinessProbe :: "probe option"
  ct_livenessProbe :: "probe option"

record weightedTerm =
  wt_weight :: int
  wt_matchLabels :: "string gomap"
  wt_topologyKey :: string

record affinity =
  af_podAffinity :: "weightedTerm list option"
  af_podAntiAffinity :: "weightedTerm list option"

record podSpec =
  ps_serviceAccountName :: string
  ps_terminationGracePeriodSeconds :: "int option"
  ps_securityContext :: "podSecurityContext option"
  ps_nodeSelector :: "string gomap"
  ps_tolerations :: "json list"
  ps_topologySpreadConstraints :: "json list"
  ps_affinity :: "affinity option"
  ps_containers :: "container list"
  ps_volumes :: "volume list"

definition emptyPodSpec :: podSpec where
  "emptyPodSpec = \<lparr>ps_serviceAccountName = [], ps_terminationGracePeriodSeconds = None,
     ps_securityContext = None, ps_nodeSelector = [], ps_tolerations = [],
     ps_topologySpreadConstraints = [], ps_affinity = None, ps_containers = [], ps_volumes = []\<rparr>"

section \<open>Workloads and services\<close>

record deployStrategy =
  ds_type :: string
  ds_maxUnavailable :: int
  ds_maxSurge :: int

record replicaStatus =
  rs_replicas :: int
  rs_readyReplicas :: int
  rs_availableReplicas :: int
  rs_updatedReplicas :: int

definition emptyStatus :: replicaStatus where
  "emptyStatus = \<lparr>rs_replicas = 0, rs_readyReplicas = 0, rs_availableReplicas = 0, rs_updatedReplicas = 0\<rparr>"

record deployment =
  d_meta :: objectMeta
  d_replicas :: "int option"
  d_strategy :: "deployStrategy option"
  d_selector :: "string gomap"
  d_templateLabels :: "string gomap"
  d_podSpec :: podSpec
  d_status :: replicaStatus

record pvc =
  pvc_name :: string
  pvc_accessModes :: "string list"
  pvc_storageClassName :: "string option"
  pvc_requests :: "quantity gomap"

record statefulSet =
  ss_meta :: objectMeta
  ss_replicas :: "int option"
  ss_serviceName :: string
  ss_selector :: "string gomap"
  ss_templateLabels :: "string gomap"
  ss_podSpec :: podSpec
  ss_volumeClaimTemplates :: "pvc list"
  ss_status :: replicaStatus

record servicePort =
  sp_name :: string
  sp_port :: int
  sp_targetPort :: int
  sp_protocol :: string

record service =
  sv_meta :: objectMeta
  sv_selector :: "string gomap"
  sv_ports :: "servicePort list"
  sv_trafficDistribution :: "string option"

record pdb =
  pdb_meta :: objectMeta
  pdb_maxUnavailable :: int
  pdb_selector :: "string gomap"

section \<open>Configuration, identity and access\<close>

record secret =
  sec_meta :: objectMeta
  sec_type :: string
  sec_data :: "bytes gomap"
  sec_stringData :: "string gomap"

record configMap =
  cm_meta :: objectMeta
  cm_data :: "string gomap"

record policyRule =
  pol_apiGroups :: "string list"
  pol_resources :: "string list"
  pol_resourceNames :: "string list"
  pol_nonResourceURLs :: "string list"
  pol_verbs :: "string list"

record role =
  rl_meta :: objectMeta
  rl_rules :: "policyRule list"

record roleRef =
  rr_apiGroup :: string
  rr_kind :: string
  rr_name :: string

record subject =
  sj_kind :: string
  sj_name :: string
  sj_namespace :: string

record roleBinding =
  rb_meta :: objectMeta
  rb_roleRef :: roleRef
  rb_subjects :: "subject list"

text \<open>The scheme constants of the monitoring API; their spelling on the wire is that package's.\<close>

datatype monScheme = SchemeHTTP | SchemeHTTPS

record smEndpoint =
  sme_port :: string
  sme_path :: string
  sme_scheme :: "monScheme option"
  sme_interval :: string
  sme_bearer :: "secretKeySelector option"
  sme_ca :: "secretKeySelector option"
  sme_serverName :: "string option"

record serviceMonitor =
  sm_meta :: objectMeta
  sm_selector :: "string gomap"
  sm_endpoints :: "smEndpoint list"

section \<open>Aggregation, CRDs and webhooks\<close>

record serviceReference =
  sr_name :: string
  sr_namespace :: string
  sr_path :: "string option"
  sr_port :: "int option"

record apiService =
  as_meta :: objectMeta
  as_group :: string
  as_version :: string
  as_groupPriorityMinimum :: int
  as_versionPriority :: int
  as_service :: "(string \<times> string) option"
  as_caBundle :: bytes
  as_insecureSkipTLSVerify :: bool
  as_conditions :: "condition list"

text \<open>\<open>WebhookClientConfig\<close>, of the admission and of the conversion API alike.\<close>

record clientConfig =
  cc_url :: "string option"
  cc_service :: "serviceReference option"
  cc_caBundle :: bytes

record conversionWebhook =
  cw_clientConfig :: "clientConfig option"
  cw_conversionReviewVersions :: "string list"

record conversion =
  cv_strategy :: string
  cv_webhook :: "conversionWebhook option"

record crd =
  crd_meta :: objectMeta
  crd_group :: string
  crd_conversion :: "conversion option"
  crd_specRest :: json

record webhookRule =
  whr_apiGroups :: "string list"
  whr_rest :: json

record webhook =
  wh_name :: string
  wh_clientConfig :: clientConfig
  wh_rules :: "webhookRule list"
  wh_rest :: json

record webhookConfiguration =
  whc_meta :: objectMeta
  whc_webhooks :: "webhook list"

record namespaceObj =
  ns_meta :: objectMeta

record unstructured =
  un_gvk :: gvk
  un_meta :: objectMeta
  un_body :: "(string \<times> json) list"

end
