(* ===== verification/ApiTypes.thy ===== *)
theory ApiTypes
  imports KubeTypes
begin

text \<open>
  The custom resources of the operator, \<open>operator/api/v1alpha1\<close>: \<open>APIShard\<close>,
  \<open>NamespaceSync\<close>, \<open>WebhookSync\<close> with their spec and status, and the names of the status
  conditions and phases.
\<close>

section \<open>Storage types, conditions and phases\<close>

definition StorageTypeSQLite :: string where
  [go_defs]: "StorageTypeSQLite = ''SQLite''"

definition StorageTypeInClusterPostgreSQL :: string where
  [go_defs]: "StorageTypeInClusterPostgreSQL = ''InClusterPostgreSQL''"

definition StorageTypePostgreSQL :: string where
  [go_defs]: "StorageTypePostgreSQL = ''PostgreSQL''"

definition ConditionSecondaryHealthy :: string where
  [go_defs]: "ConditionSecondaryHealthy = ''SecondaryHealthy''"

definition ConditionAPIServicesRegistered :: string where
  [go_defs]: "ConditionAPIServicesRegistered = ''APIServicesRegistered''"

definition ConditionCRDConflictDetected :: string where
  [go_defs]: "ConditionCRDConflictDetected = ''CRDConflict''"

definition ConditionNamespaceSyncReady :: string where
  [go_defs]: "ConditionNamespaceSyncReady = ''NamespaceSyncReady''"

definition ConditionWebhookSyncReady :: string where
  [go_defs]: "ConditionWebhookSyncReady = ''WebhookSyncReady''"

definition ConditionStorageReady :: string where
  [go_defs]: "ConditionStorageReady = ''StorageReady''"

definition ConditionReconciled :: string where
  [go_defs]: "ConditionReconciled = ''Reconciled''"

definition ConditionMonitoringDegraded :: string where
  [go_defs]: "ConditionMonitoringDegraded = ''MonitoringDegraded''"

definition PhaseProvisioning :: string where
  [go_defs]: "PhaseProvisioning = ''Provisioning''"

definition PhaseReady :: string where
  [go_defs]: "PhaseReady = ''Ready''"

definition PhaseError :: string where
  [go_defs]: "PhaseError = ''Error''"

section \<open>APIShard\<close>

record apiGroupSpec =
  ag_group :: string
  ag_versions :: "string list"

record secretKeyReference =
  skr_name :: string
  skr_key :: string

record postgreSQLMonitoringSpec =
  pm_bloatInterval :: string

record storageMonitoringSpec =
  mo_enabled :: bool
  mo_collectionInterval :: string
  mo_caCertSecret :: "secretKeyReference option"
  mo_postgreSQL :: "postgreSQLMonitoringSpec option"

record persistenceSpec =
  pe_storageClassName :: "string option"
  pe_size :: quantity

record inClusterStorage =
  ic_resources :: resourceRequirements
  ic_persistence :: "persistenceSpec option"

record storageSpec =
  st_type :: string
  st_connectionSecretRef :: "secretKeyReference option"
  st_inCluster :: "inClusterStorage option"
  st_monitoring :: "storageMonitoringSpec option"

record secondarySpec =
  se_replicas :: int
  se_image :: string
  se_resources :: resourceRequirements
  se_nodeSelector :: "string gomap"
  se_tolerations :: "json list"
  se_topologySpreadConstraints :: "json list"

text \<open>A \<open>metav1.Duration\<close> is kept as the text its \<open>String\<close> method gives.\<close>

record connectionPoolConfig =
  po_maxIdleConnections :: "int option"
  po_maxOpenConnections :: "int option"
  po_maxLifetime :: "string option"

record compactionConfig =
  co_interval :: "string option"
  co_minRetain :: "int option"
  co_batchSize :: "int option"
  co_timeout :: "string option"

record kineSpec =
  ki_replicas :: int
  ki_image :: string
  ki_resources :: resourceRequirements
  ki_nodeSelector :: "string gomap"
  ki_tolerations :: "json list"
  ki_topologySpreadConstraints :: "json list"
  ki_connectionPool :: "connectionPoolConfig option"
  ki_compaction :: "compactionConfig option"
  ki_pollBatchSize :: "int option"
  ki_watchProgressNotifyInterval :: "string option"

record monitoringSpec =
  ms_prometheusServiceAccountName :: string
  ms_prometheusNamespace :: string

record apiShardSpec =
  targetNamespace :: string
  apiGroups :: "apiGroupSpec list"
  storage :: storageSpec
  nsSelector :: labelSelector
  secondarySp :: secondarySpec
  kineSp :: kineSpec
  monitoring :: "monitoringSpec option"
  colocateComponents :: "bool option"

record apiShardStatus =
  phase :: string
  message :: string
  connectionSecret :: "nsname option"
  secondaryEndpointStatus :: string
  registeredAPIServices :: "string list"
  conditions :: "condition list"
  observedGeneration :: int

record apiShard =
  sh_meta :: objectMeta
  spec :: apiShardSpec
  status :: apiShardStatus

abbreviation shardName :: "apiShard \<Rightarrow> string" where
  "shardName sh \<equiv> om_name (sh_meta sh)"

abbreviation shardNS :: "apiShard \<Rightarrow> string" where
  "shardNS sh \<equiv> targetNamespace (spec sh)"

abbreviation storageType :: "apiShard \<Rightarrow> string" where
  "storageType sh \<equiv> st_type (storage (spec sh))"

section \<open>NamespaceSync and WebhookSync\<close>

record connServiceRef =
  cs_name :: string
  cs_namespace :: string
  cs_port :: int

record secondaryConnectionSpec =
  sn_serviceRef :: connServiceRef
  sn_authSecretRef :: string
  sn_caSecretRef :: string

record namespaceSyncSpec =
  nss_secondaryConnection :: secondaryConnectionSpec
  nss_labelSelector :: labelSelector
  nss_excludeNamespaces :: "string list"

record namespaceSyncStatus =
  nst_conditions :: "condition list"
  nst_syncedNamespaces :: int
  nst_lastSyncTime :: "nat option"
  nst_observedGeneration :: int

record namespaceSync =
  nsy_meta :: objectMeta
  nsy_spec :: namespaceSyncSpec
  nsy_status :: namespaceSyncStatus

record syncedWebhookCounts =
  swc_validating :: int
  swc_mutating :: int

record webhookSyncSpec =
  wss_secondaryConnection :: secondaryConnectionSpec
  wss_apiGroups :: "string list"

record webhookSyncStatus =
  wst_conditions :: "condition list"
  wst_syncedWebhooks :: syncedWebhookCounts
  wst_lastSyncTime :: "nat option"
  wst_observedGeneration :: int

record webhookSync =
  wsy_meta :: objectMeta
  wsy_spec :: webhookSyncSpec
  wsy_status :: webhookSyncStatus

lemmas condition_names =
  ConditionSecondaryHealthy_def ConditionAPIServicesRegistered_def ConditionCRDConflictDetected_def
  ConditionNamespaceSyncReady_def ConditionWebhookSyncReady_def ConditionStorageReady_def
  ConditionReconciled_def ConditionMonitoringDegraded_def

lemmas phase_names = PhaseProvisioning_def PhaseReady_def PhaseError_def

lemmas storage_names =
  StorageTypeSQLite_def StorageTypeInClusterPostgreSQL_def StorageTypePostgreSQL_def

end
