(* ===== verification/Cluster.thy ===== *)
theory Cluster
  imports ApiTypes
begin

text \<open>
  The boundary of the operator. Everything outside its own sources (the primary and the secondary
  API server, cert-manager, the kube-aggregator, other writers, \<open>controller-runtime\<close>, the
  tracking client, \<open>apimachinery\<close>) is the record \<open>env\<close> of functions, an argument of every
  definition that calls out.

  API calls are made against \<open>answer\<close>, which gives the response to a call from the whole history of
  calls and responses so far. Nothing is assumed of it: reads may fail, writes may fail, objects may
  change between two calls. Each call and its response is appended to the trace \<open>tr\<close>, so that what
  the operator did, and in which order, is a statement about the trace. The properties that do need
  something of the platform name it as a hypothesis; the laws of the status-condition helpers
  are the locale \<open>condition_store\<close>.
\<close>

section \<open>Objects, calls and responses\<close>

datatype kobj =
    KNamespace namespaceObj | KSecret secret | KConfigMap configMap
  | KDeployment deployment | KStatefulSet statefulSet | KService service
  | KServiceAccount objectMeta | KPDB pdb
  | KClusterRole role | KRole role | KClusterRoleBinding roleBinding | KRoleBinding roleBinding
  | KServiceMonitor serviceMonitor | KAPIService apiService | KCRD crd
  | KVWHC webhookConfiguration | KMWHC webhookConfiguration
  | KUnstructured unstructured
  | KAPIShard apiShard | KNamespaceSync namespaceSync | KWebhookSync webhookSync

fun metaOf :: "kobj \<Rightarrow> objectMeta" where
  "metaOf (KNamespace x) = ns_meta x"
| "metaOf (KSecret x) = sec_meta x"
| "metaOf (KConfigMap x) = cm_meta x"
| "metaOf (KDeployment x) = d_meta x"
| "metaOf (KStatefulSet x) = ss_meta x"
| "metaOf (KService x) = sv_meta x"
| "metaOf (KServiceAccount m) = m"
| "metaOf (KPDB x) = pdb_meta x"
| "metaOf (KClusterRole x) = rl_meta x"
| "metaOf (KRole x) = rl_meta x"
| "metaOf (KClusterRoleBinding x) = rb_meta x"
| "metaOf (KRoleBinding x) = rb_meta x"
| "metaOf (KServiceMonitor x) = sm_meta x"
| "metaOf (KAPIService x) = as_meta x"
| "metaOf (KCRD x) = crd_meta x"
| "metaOf (KVWHC x) = whc_meta x"
| "metaOf (KMWHC x) = whc_meta x"
| "metaOf (KUnstructured x) = un_meta x"
| "metaOf (KAPIShard x) = sh_meta x"
| "metaOf (KNamespaceSync x) = nsy_meta x"
| "metaOf (KWebhookSync x) = wsy_meta x"

fun gvkOf :: "kobj \<Rightarrow> gvk" where
  "gvkOf (KNamespace x) = GVK '''' ''v1'' ''Namespace''"
| "gvkOf (KSecret x) = GVK '''' ''v1'' ''Secret''"
| "gvkOf (KConfigMap x) = GVK '''' ''v1'' ''ConfigMap''"
| "gvkOf (KDeployment x) = GVK ''apps'' ''v1'' ''Deployment''"
| "gvkOf (KStatefulSet x) = GVK ''apps'' ''v1'' ''StatefulSet''"
| "gvkOf (KService x) = GVK '''' ''v1'' ''Service''"
| "gvkOf (KServiceAccount m) = GVK '''' ''v1'' ''ServiceAccount''"
| "gvkOf (KPDB x) = GVK ''policy'' ''v1'' ''PodDisruptionBudget''"
| "gvkOf (KClusterRole x) = GVK ''rbac.authorization.k8s.io'' ''v1'' ''ClusterRole''"
| "gvkOf (KRole x) = GVK ''rbac.authorization.k8s.io'' ''v1'' ''Role''"
| "gvkOf (KClusterRoleBinding x) = GVK ''rbac.authorization.k8s.io'' ''v1'' ''ClusterRoleBinding''"
| "gvkOf (KRoleBinding x) = GVK ''rbac.authorization.k8s.io'' ''v1'' ''RoleBinding''"
| "gvkOf (KServiceMonitor x) = GVK ''monitoring.coreos.com'' ''v1'' ''ServiceMonitor''"
| "gvkOf (KAPIService x) = GVK ''apiregistration.k8s.io'' ''v1'' ''APIService''"
| "gvkOf (KCRD x) = GVK ''apiextensions.k8s.io'' ''v1'' ''CustomResourceDefinition''"
| "gvkOf (KVWHC x) = GVK ''admissionregistration.k8s.io'' ''v1'' ''ValidatingWebhookConfiguration''"
| "gvkOf (KMWHC x) = GVK ''admissionregistration.k8s.io'' ''v1'' ''MutatingWebhookConfiguration''"
| "gvkOf (KUnstructured x) = un_gvk x"
| "gvkOf (KAPIShard x) = GVK ''kube-shard.konflux-ci.dev'' ''v1alpha1'' ''APIShard''"
| "gvkOf (KNamespaceSync x) = GVK ''kube-shard.konflux-ci.dev'' ''v1alpha1'' ''NamespaceSync''"
| "gvkOf (KWebhookSync x) = GVK ''kube-shard.konflux-ci.dev'' ''v1alpha1'' ''WebhookSync''"

text \<open>The name and the namespace of an object.\<close>

definition keyOf :: "kobj \<Rightarrow> nsname" where
  "keyOf x = (om_namespace (metaOf x), om_name (metaOf x))"

text \<open>The kinds of object the operator reads.\<close>

datatype kind =
    NamespaceKind | SecretKind | ConfigMapKind | DeploymentKind | StatefulSetKind | APIServiceKind
  | CRDKind | VWHCKind | MWHCKind | APIShardKind | NamespaceSyncKind | WebhookSyncKind

text \<open>The configuration a secondary client is built from, and the server a call goes to.\<close>

record restConfig =
  rc_host :: string
  rc_caData :: bytes
  rc_insecure :: bool
  rc_bearerToken :: string
  rc_certData :: bytes
  rc_keyData :: bytes

datatype cluster = Primary | Secondary restConfig

text \<open>
  \<open>ApplyCall\<close> is a server-side apply with the operator's field manager and forced ownership,
  \<open>ApplyOwnedCall\<close> the same through the tracking client, which adds the owner reference and the
  tracking labels, \<open>CleanupCall\<close> its removal of owned objects that were not applied, and
  \<open>CreateOrUpdateCall\<close> the \<open>controllerutil\<close> helper with the object its callback produces.
\<close>

datatype call =
    GetCall cluster kind nsname
  | ListCall cluster kind "string option" "selector option"
  | ApplyCall cluster kobj
  | ApplyOwnedCall kobj
  | CleanupCall string string "gvk list"
  | CreateCall cluster kobj
  | UpdateCall cluster kobj
  | StatusUpdateCall kobj
  | MergePatchCall kobj kobj
  | DeleteCall cluster kobj
  | CreateOrUpdateCall kobj

datatype resp = RErr goerror | ROk | RObj kobj | RObjs "kobj list"

type_synonym event = "call \<times> resp"
type_synonym history = "event list"

section \<open>The environment\<close>

record env =
  answer :: "history \<Rightarrow> call \<Rightarrow> resp"
  setStatusCondition :: "history \<Rightarrow> condition list \<Rightarrow> condition \<Rightarrow> condition list"
  findStatusCondition :: "condition list \<Rightarrow> string \<Rightarrow> condition option"
  removeStatusCondition :: "condition list \<Rightarrow> string \<Rightarrow> condition list"
  setControllerReference :: "apiShard \<Rightarrow> objectMeta \<Rightarrow> goerror + objectMeta"
  newClient :: "restConfig \<Rightarrow> goerror option"
  sha256hex :: "bytes \<Rightarrow> string"
  randomBytes :: "history \<Rightarrow> nat \<Rightarrow> goerror + bytes"
  unmarshalStrings :: "string \<Rightarrow> goerror + string list"
  cmpQuantity :: "quantity \<Rightarrow> quantity \<Rightarrow> int"
  labelSelectorAsSelector :: "labelSelector \<Rightarrow> goerror + selector"
  buildConfigMapName :: "string \<Rightarrow> string \<Rightarrow> string"
  parseDSNURL :: "string \<Rightarrow> goerror + (string \<times> (string \<times> string option) option \<times> string \<times> string \<times> string)"
  now :: "history \<Rightarrow> nat"

text \<open>
  What the sources rely on of \<open>meta.SetStatusCondition\<close>, \<open>meta.FindStatusCondition\<close> and
  \<open>meta.RemoveStatusCondition\<close>: setting a condition makes it the one found for its type, up to
  the transition time, and leaves the other types alone; removing a type makes it absent.
\<close>

locale condition_store =
  fixes setc :: "history \<Rightarrow> condition list \<Rightarrow> condition \<Rightarrow> condition list"
    and findc :: "condition list \<Rightarrow> string \<Rightarrow> condition option"
    and removec :: "condition list \<Rightarrow> string \<Rightarrow> condition list"
  assumes find_set_same: "\<exists>ts. findc (setc h cs c) (c_type c) = Some (c\<lparr>c_lastTransitionTime := ts\<rparr>)"
    and find_set_other: "t \<noteq> c_type c \<Longrightarrow> findc (setc h cs c) t = findc cs t"
    and find_remove_same: "findc (removec cs t) t = None"
    and find_remove_other: "t \<noteq> u \<Longrightarrow> findc (removec cs u) t = findc cs t"
begin

lemma find_set_fields:
  "\<exists>d. findc (setc h cs c) (c_type c) = Some d \<and> c_type d = c_type c \<and> c_status d = c_status c \<and>
     c_reason d = c_reason c \<and> c_message d = c_message c \<and>
     c_observedGeneration d = c_observedGeneration c"
  using find_set_same [of h cs c] by fastforce

lemma status_set:
  "map_option c_status (findc (setc h cs c) t) =
     (if t = c_type c then Some (c_status c) else map_option c_status (findc cs t))"
  using find_set_fields [of h cs c] find_set_other [of t c h cs] by auto

lemma reason_set:
  "map_option c_reason (findc (setc h cs c) t) =
     (if t = c_type c then Some (c_reason c) else map_option c_reason (findc cs t))"
  using find_set_fields [of h cs c] find_set_other [of t c h cs] by auto

lemma message_set:
  "map_option c_message (findc (setc h cs c) t) =
     (if t = c_type c then Some (c_message c) else map_option c_message (findc cs t))"
  using find_set_fields [of h cs c] find_set_other [of t c h cs] by auto

lemma find_remove: "findc (removec cs u) t = (if t = u then None else findc cs t)"
  by (simp add: find_remove_same find_remove_other)

lemmas condition_rules = status_set reason_set message_set find_remove

end

abbreviation condition_laws :: "env \<Rightarrow> bool" where
  "condition_laws E \<equiv>
     condition_store (setStatusCondition E) (findStatusCondition E) (removeStatusCondition E)"

text \<open>
  The documented behaviour of the helpers as functions on a list: the first entry of a type is
  the one found, setting replaces it in place or appends, and the transition time moves when
  the status does.
\<close>

definition listFind :: "condition list \<Rightarrow> string \<Rightarrow> condition option" where
  "listFind cs t = find (\<lambda>c. c_type c = t) cs"

fun listSet :: "nat \<Rightarrow> condition list \<Rightarrow> condition \<Rightarrow> condition list" where
  "listSet t [] c = [c\<lparr>c_lastTransitionTime := t\<rparr>]"
| "listSet t (d # ds) c =
     (if c_type d = c_type c
      then c\<lparr>c_lastTransitionTime :=
             (if c_status d = c_status c then c_lastTransitionTime d else t)\<rparr> # ds
      else d # listSet t ds c)"

definition listRemove :: "condition list \<Rightarrow> string \<Rightarrow> condition list" where
  "listRemove cs t = filter (\<lambda>c. c_type c \<noteq> t) cs"

lemma listFind_Cons:
  "listFind (d # ds) t = (if c_type d = t then Some d else listFind ds t)"
  by (simp add: listFind_def)

lemma listFind_Nil: "listFind [] t = None"
  by (simp add: listFind_def)

lemma listFind_set_same:
  "\<exists>ts. listFind (listSet n cs c) (c_type c) = Some (c\<lparr>c_lastTransitionTime := ts\<rparr>)"
  by (induction cs) (auto simp: listFind_Cons listFind_Nil)

lemma listFind_set_other:
  "t \<noteq> c_type c \<Longrightarrow> listFind (listSet n cs c) t = listFind cs t"
  by (induction cs) (auto simp: listFind_Cons listFind_Nil)

lemma listFind_remove: "listFind (listRemove cs u) t = (if t = u then None else listFind cs t)"
  by (induction cs) (auto simp: listFind_Cons listFind_Nil listRemove_def)

interpretation lc: condition_store "\<lambda>h. listSet (length h)" listFind listRemove
  by unfold_locales (auto simp: listFind_set_same listFind_set_other listFind_remove)

section \<open>The state of a reconcile and the API calls\<close>

text \<open>
  A cached secondary client (\<open>clientEntry\<close> of \<open>secondary/client.go\<close>) and the state every
  reconciler works on: the trace, and the cache of the shared \<open>ClientProvider\<close>.
\<close>

record clientEntry =
  ce_client :: restConfig
  ce_host :: string
  ce_fingerprint :: string
  ce_pinned :: bool

record base =
  tr :: history
  clients :: "clientEntry gomap"

definition request :: "env \<Rightarrow> call \<Rightarrow> ('z base_scheme, resp) op" where
  [op_defs]: "request E c s =
     (let r = answer E (tr s) c; s' = s\<lparr>tr := tr s @ [(c, r)]\<rparr>
      in case r of RErr e \<Rightarrow> (Inl e, s') | _ \<Rightarrow> (Inr r, s'))"

text \<open>A write whose response carries nothing the caller reads.\<close>

definition requestU :: "env \<Rightarrow> call \<Rightarrow> ('z base_scheme, unit) op" where
  [op_defs]: "requestU E c = bindE (request E c) (\<lambda>_. returnE ())"

definition decodeError :: goerror where
  "decodeError = errorf ''unexpected object in response''"

definition asOne :: "(kobj \<Rightarrow> 'a option) \<Rightarrow> resp \<Rightarrow> ('s, 'a) op" where
  [op_defs]: "asOne p r =
     (case r of RObj x \<Rightarrow> (case p x of Some y \<Rightarrow> returnE y | None \<Rightarrow> throwE decodeError)
      | _ \<Rightarrow> throwE decodeError)"

definition asMany :: "(kobj \<Rightarrow> 'a option) \<Rightarrow> resp \<Rightarrow> ('s, 'a list) op" where
  [op_defs]: "asMany p r =
     (case r of RObjs xs \<Rightarrow> (case those (map p xs) of Some ys \<Rightarrow> returnE ys | None \<Rightarrow> throwE decodeError)
      | _ \<Rightarrow> throwE decodeError)"

text \<open>Typed reads: a response of another kind is a decoding error, as in the typed Go client.\<close>

fun asSecret where "asSecret (KSecret x) = Some x" | "asSecret _ = None"
fun asConfigMap where "asConfigMap (KConfigMap x) = Some x" | "asConfigMap _ = None"
fun asDeployment where "asDeployment (KDeployment x) = Some x" | "asDeployment _ = None"
fun asStatefulSet where "asStatefulSet (KStatefulSet x) = Some x" | "asStatefulSet _ = None"
fun asAPIService where "asAPIService (KAPIService x) = Some x" | "asAPIService _ = None"
fun asCRD where "asCRD (KCRD x) = Some x" | "asCRD _ = None"
fun asNamespace where "asNamespace (KNamespace x) = Some x" | "asNamespace _ = None"
fun asVWHC where "asVWHC (KVWHC x) = Some x" | "asVWHC _ = None"
fun asMWHC where "asMWHC (KMWHC x) = Some x" | "asMWHC _ = None"
fun asAPIShard where "asAPIShard (KAPIShard x) = Some x" | "asAPIShard _ = None"
fun asNamespaceSync where "asNamespaceSync (KNamespaceSync x) = Some x" | "asNamespaceSync _ = None"
fun asWebhookSync where "asWebhookSync (KWebhookSync x) = Some x" | "asWebhookSync _ = None"

definition getObj :: "env \<Rightarrow> (kobj \<Rightarrow> 'a option) \<Rightarrow> cluster \<Rightarrow> kind \<Rightarrow> nsname \<Rightarrow> ('z base_scheme, 'a) op" where
  [op_defs]: "getObj E p cl k key = bindE (request E (GetCall cl k key)) (asOne p)"

definition listObjs :: "env \<Rightarrow> (kobj \<Rightarrow> 'a option) \<Rightarrow> cluster \<Rightarrow> kind \<Rightarrow> string option \<Rightarrow> selector option \<Rightarrow>
    ('z base_scheme, 'a list) op" where
  [op_defs]: "listObjs E p cl k ns sel = bindE (request E (ListCall cl k ns sel)) (asMany p)"

abbreviation applyOwned :: "env \<Rightarrow> kobj \<Rightarrow> ('z base_scheme, unit) op" where
  "applyOwned E x \<equiv> requestU E (ApplyOwnedCall x)"

abbreviation getSecret :: "env \<Rightarrow> nsname \<Rightarrow> ('z base_scheme, secret) op" where
  "getSecret E key \<equiv> getObj E asSecret Primary SecretKind key"

section \<open>Traces\<close>

text \<open>
  \<open>extends P s t\<close>: from \<open>s\<close> to \<open>t\<close> the trace only grew, by events that satisfy \<open>P\<close>.
\<close>

definition extends :: "(event \<Rightarrow> bool) \<Rightarrow> 'z base_scheme \<Rightarrow> 'z base_scheme \<Rightarrow> bool" where
  "extends P s t = (\<exists>es. tr t = tr s @ es \<and> list_all P es)"

definition newEvents :: "'z base_scheme \<Rightarrow> 'z base_scheme \<Rightarrow> event list" where
  "newEvents s t = drop (length (tr s)) (tr t)"

lemma extends_refl: "extends P s s"
  by (simp add: extends_def)

lemma extends_trans: "extends P s t \<Longrightarrow> extends P t u \<Longrightarrow> extends P s u"
  by (auto simp: extends_def)

interpretation ext: frame_rel "extends P"
  by unfold_locales (auto intro: extends_refl extends_trans)

lemma extends_mono: "extends P s t \<Longrightarrow> (\<And>e. P e \<Longrightarrow> Q e) \<Longrightarrow> extends Q s t"
  by (auto simp: extends_def list_all_iff)

lemma extends_newEvents: "extends P s t \<Longrightarrow> e \<in> set (newEvents s t) \<Longrightarrow> P e"
  by (auto simp: extends_def newEvents_def list_all_iff)

lemma extends_prefix: "extends P s t \<Longrightarrow> prefix (tr s) (tr t)"
  by (auto simp: extends_def)

lemma extends_same_trace: "tr t = tr s \<Longrightarrow> extends P s t"
  by (simp add: extends_def)

lemma keeps_mono: "keeps (extends P) m \<Longrightarrow> (\<And>e. P e \<Longrightarrow> Q e) \<Longrightarrow> keeps (extends Q) m"
  unfolding keeps_def by (blast intro: extends_mono)

lemma snd_request: "tr (snd (request E c s)) = tr s @ [(c, answer E (tr s) c)]"
  by (simp add: request_def Let_def split: resp.splits)

lemma keeps_request: "(\<And>r. P (c, r)) \<Longrightarrow> keeps (extends P) (request E c)"
  by (rule keepsI) (simp add: extends_def snd_request)

lemma keeps_requestU: "(\<And>r. P (c, r)) \<Longrightarrow> keeps (extends P) (requestU E c)"
  unfolding requestU_def by (intro ext.keeps_bind keeps_request ext.keeps_return) auto

lemma keeps_asOne: "keeps (extends P) (asOne p r)"
  unfolding asOne_def by (auto split: resp.splits option.splits intro: ext.keeps_return ext.keeps_throw)

lemma keeps_asMany: "keeps (extends P) (asMany p r)"
  unfolding asMany_def by (auto split: resp.splits option.splits intro: ext.keeps_return ext.keeps_throw)

lemma keeps_getObj: "(\<And>r. P (GetCall cl k key, r)) \<Longrightarrow> keeps (extends P) (getObj E p cl k key)"
  unfolding getObj_def by (intro ext.keeps_bind keeps_request keeps_asOne) auto

lemma keeps_listObjs: "(\<And>r. P (ListCall cl k ns sel, r)) \<Longrightarrow> keeps (extends P) (listObjs E p cl k ns sel)"
  unfolding listObjs_def by (intro ext.keeps_bind keeps_request keeps_asMany) auto

lemmas trace_rules [keeps_intros] =
  ext.keeps_rules keeps_requestU keeps_getObj keeps_listObjs

end
