(* ===== verification/Trace.thy ===== *)
theory Trace
  imports Cluster
begin

text \<open>
  Reasoning about runs. The collection \<open>runs\<close> turns a successful run of a composed step into the
  successful runs of its parts; the event lemmas say in which part of a sequence a new event of
  the trace was made, which is how the ordering properties ("deleted only after", "written only
  when") are proved.
\<close>

named_theorems runs

declare wrapE_Inr [runs]

section \<open>Successful runs\<close>

definition okResp :: "resp \<Rightarrow> bool" where
  "okResp r = (case r of RErr _ \<Rightarrow> False | _ \<Rightarrow> True)"

lemma okResp_simps [simp]: "\<not> okResp (RErr e)" "okResp ROk" "okResp (RObj x)" "okResp (RObjs xs)"
  by (simp_all add: okResp_def)

text \<open>\<open>performed c es\<close>: the events contain the call \<open>c\<close> with a response that is no error.\<close>

definition performed :: "call \<Rightarrow> event list \<Rightarrow> bool" where
  "performed c es = (\<exists>r. (c, r) \<in> set es \<and> okResp r)"

lemma performed_append [simp]: "performed c (es @ fs) \<longleftrightarrow> performed c es \<or> performed c fs"
  by (auto simp: performed_def)

lemma performed_Nil [simp]: "\<not> performed c []"
  by (simp add: performed_def)

lemma performed_Cons: "performed c ((d, r) # es) \<longleftrightarrow> (d = c \<and> okResp r) \<or> performed c es"
  by (auto simp: performed_def)

lemma bindE_run [runs]:
  "bindE m f s = (Inr y, u) \<longleftrightarrow> (\<exists>x t. m s = (Inr x, t) \<and> f x t = (Inr y, u))"
  by (auto simp: bindE_def split: prod.splits sum.splits)

lemma returnE_run [runs]: "returnE x s = (Inr y, u) \<longleftrightarrow> y = x \<and> u = s"
  by (auto simp: returnE_def)

lemma throwE_run [runs]: "\<not> throwE e s = (Inr y, u)"
  by (simp add: throwE_def)

lemma getsE_run [runs]: "getsE f s = (Inr y, u) \<longleftrightarrow> y = f s \<and> u = s"
  by (auto simp: getsE_def)

lemma modifyE_run [runs]: "modifyE f s = (Inr y, u) \<longleftrightarrow> u = f s"
  by (auto simp: modifyE_def)

lemma tryE_run [runs]: "tryE m s = (Inr r, u) \<longleftrightarrow> m s = (r, u)"
  by (auto simp: tryE_def split: prod.splits)

lemma request_run [runs]:
  "request E c s = (Inr r, t) \<longleftrightarrow>
     r = answer E (tr s) c \<and> okResp r \<and> t = s\<lparr>tr := tr s @ [(c, r)]\<rparr>"
  by (auto simp: request_def Let_def okResp_def split: resp.splits)

lemma requestU_run [runs]:
  "requestU E c s = (Inr u, t) \<longleftrightarrow>
     okResp (answer E (tr s) c) \<and> t = s\<lparr>tr := tr s @ [(c, answer E (tr s) c)]\<rparr>"
  by (auto simp: requestU_def runs)

lemma asOne_run: "asOne p r s = (Inr x, t) \<longleftrightarrow> (\<exists>y. r = RObj y \<and> p y = Some x) \<and> t = s"
  by (auto simp: asOne_def returnE_def throwE_def split: resp.splits option.splits)

lemma getObj_run [runs]:
  "getObj E p cl k key s = (Inr x, t) \<longleftrightarrow>
     (\<exists>y. answer E (tr s) (GetCall cl k key) = RObj y \<and> p y = Some x \<and>
        t = s\<lparr>tr := tr s @ [(GetCall cl k key, RObj y)]\<rparr>)"
  by (auto simp: getObj_def runs asOne_run)

lemma asMany_run: "asMany p r s = (Inr ys, t) \<longleftrightarrow> (\<exists>xs. r = RObjs xs \<and> those (map p xs) = Some ys) \<and> t = s"
  by (auto simp: asMany_def returnE_def throwE_def split: resp.splits option.splits)

lemma listObjs_run [runs]:
  "listObjs E p cl k ns sel s = (Inr ys, t) \<longleftrightarrow>
     (\<exists>xs. answer E (tr s) (ListCall cl k ns sel) = RObjs xs \<and> those (map p xs) = Some ys \<and>
        t = s\<lparr>tr := tr s @ [(ListCall cl k ns sel, RObjs xs)]\<rparr>)"
  by (auto simp: listObjs_def runs asMany_run)

text \<open>A typed list is the list of its decoded objects.\<close>

lemma those_decoded:
  assumes "\<And>y a. p y = Some a \<longleftrightarrow> y = K a"
  shows "those (map p xs) = Some ys \<longleftrightarrow> xs = map K ys"
proof (induction xs arbitrary: ys)
  case Nil
  then show ?case by auto
next
  case (Cons x xs)
  have K: "p (K a) = Some a" for a by (simp add: assms)
  show ?case
  proof (cases "p x")
    case None
    then have "x \<noteq> K a" for a using K by auto
    with None show ?thesis by auto
  next
    case (Some a)
    then have "x = K a" by (simp add: assms)
    moreover have "K a = K b \<longleftrightarrow> a = b" for b using K by (metis option.inject)
    ultimately show ?thesis using Some by (auto simp: Cons.IH)
  qed
qed

text \<open>A failed typed read: the call was made, and the error is the server's or a decoding error.\<close>

lemma getObj_fail:
  assumes "getObj E p cl k key s = (Inl e, t)"
  shows "tr t = tr s @ [(GetCall cl k key, answer E (tr s) (GetCall cl k key))]"
    and "answer E (tr s) (GetCall cl k key) = RErr e \<or> e = decodeError"
  using assms
  by (auto simp: getObj_def bindE_def request_def Let_def asOne_def returnE_def throwE_def
      split: resp.splits option.splits)

lemma getObj_NotFound:
  assumes "getObj E p cl k key s = (Inl e, t)" and "IsNotFound e"
  shows "t = s\<lparr>tr := tr s @ [(GetCall cl k key, RErr e)]\<rparr>"
  using assms
  by (auto simp: getObj_def bindE_def request_def Let_def asOne_def returnE_def throwE_def decodeError_def
      split: resp.splits option.splits)

lemma decoders [simp]:
  "asSecret y = Some sec \<longleftrightarrow> y = KSecret sec" "asConfigMap y = Some cm \<longleftrightarrow> y = KConfigMap cm"
  "asDeployment y = Some d \<longleftrightarrow> y = KDeployment d" "asStatefulSet y = Some ss \<longleftrightarrow> y = KStatefulSet ss"
  "asAPIService y = Some a \<longleftrightarrow> y = KAPIService a" "asCRD y = Some c \<longleftrightarrow> y = KCRD c"
  "asNamespace y = Some n \<longleftrightarrow> y = KNamespace n" "asVWHC y = Some w \<longleftrightarrow> y = KVWHC w"
  "asMWHC y = Some w \<longleftrightarrow> y = KMWHC w" "asAPIShard y = Some sh \<longleftrightarrow> y = KAPIShard sh"
  "asNamespaceSync y = Some ny \<longleftrightarrow> y = KNamespaceSync ny" "asWebhookSync y = Some wy \<longleftrightarrow> y = KWebhookSync wy"
  by (cases y; simp)+

lemma decoded_lists [simp]:
  "those (map asAPIService xs) = Some as \<longleftrightarrow> xs = map KAPIService as"
  "those (map asCRD xs) = Some cs \<longleftrightarrow> xs = map KCRD cs"
  "those (map asNamespace xs) = Some ns \<longleftrightarrow> xs = map KNamespace ns"
  "those (map asVWHC xs) = Some ws \<longleftrightarrow> xs = map KVWHC ws"
  "those (map asMWHC xs) = Some ws \<longleftrightarrow> xs = map KMWHC ws"
  "those (map asConfigMap xs) = Some cms \<longleftrightarrow> xs = map KConfigMap cms"
  "those (map asNamespaceSync xs) = Some nys \<longleftrightarrow> xs = map KNamespaceSync nys"
  "those (map asWebhookSync xs) = Some wys \<longleftrightarrow> xs = map KWebhookSync wys"
  "those (map asAPIShard xs) = Some shs \<longleftrightarrow> xs = map KAPIShard shs"
  by (rule those_decoded, simp)+

section \<open>Events of composed steps\<close>

abbreviation grows :: "('z base_scheme, 'a) op \<Rightarrow> bool" where
  "grows m \<equiv> keeps (extends (\<lambda>_. True)) m"

lemma newEvents_self [simp]: "newEvents s s = []"
  by (simp add: newEvents_def)

lemma newEvents_tr: "prefix (tr s) (tr t) \<Longrightarrow> tr t = tr s @ newEvents s t"
  by (auto simp: newEvents_def prefix_def)

lemma newEvents_cong: "tr t = tr s @ es \<Longrightarrow> newEvents s t = es"
  by (simp add: newEvents_def)

lemma newEvents_trans:
  "prefix (tr s) (tr t) \<Longrightarrow> prefix (tr t) (tr u) \<Longrightarrow> newEvents s u = newEvents s t @ newEvents t u"
  by (auto simp: newEvents_def prefix_def)

lemma grows_prefix: "grows m \<Longrightarrow> prefix (tr s) (tr (snd (m s)))"
  by (auto dest: keepsD extends_prefix)

lemma grows_run: "grows m \<Longrightarrow> m s = (r, t) \<Longrightarrow> prefix (tr s) (tr t)"
  using grows_prefix [of m s] by simp

lemma grows_weaken: "keeps (extends P) m \<Longrightarrow> grows m"
  by (rule keeps_mono) auto

lemma keeps_run: "keeps (extends P) m \<Longrightarrow> m s = (r, t) \<Longrightarrow> e \<in> set (newEvents s t) \<Longrightarrow> P e"
  using keepsD [of "extends P" m s] extends_newEvents by fastforce

text \<open>
  An event of a sequence that the first part cannot make was made by the second part, after the
  first part succeeded.
\<close>

lemma bind_event:
  assumes e: "e \<in> set (newEvents s (snd (bindE m f s)))"
    and m: "keeps (extends P) m" and notP: "\<not> P e" and f: "\<And>x. grows (f x)"
  obtains x t where "m s = (Inr x, t)" "e \<in> set (newEvents t (snd (f x t)))"
    and "newEvents s (snd (bindE m f s)) = newEvents s t @ newEvents t (snd (f x t))"
proof (cases "m s")
  case (Pair r t)
  have st: "prefix (tr s) (tr t)" using grows_run [OF grows_weaken [OF m] Pair] .
  have none: "e \<notin> set (newEvents s t)" using keeps_run [OF m Pair] notP by blast
  show thesis
  proof (cases r)
    case (Inl err)
    with Pair e none show thesis by (simp add: bindE_def)
  next
    case (Inr x)
    with Pair have run: "m s = (Inr x, t)" by simp
    have split: "newEvents s (snd (bindE m f s)) = newEvents s t @ newEvents t (snd (f x t))"
      using newEvents_trans [OF st grows_prefix [OF f]] by (simp add: bindE_Inr [where m = m, OF run])
    with e none have "e \<in> set (newEvents t (snd (f x t)))" by simp
    with run split show thesis by (blast intro: that)
  qed
qed

text \<open>An event of a loop was made by one of its iterations, after the earlier ones succeeded.\<close>

lemma for_event:
  assumes "e \<in> set (newEvents s (snd (forE xs f s)))" and "\<And>x. x \<in> set xs \<Longrightarrow> grows (f x)"
  shows "\<exists>x \<in> set xs. \<exists>t. prefix (tr s) (tr t) \<and> e \<in> set (newEvents t (snd (f x t)))"
  using assms
proof (induction xs arbitrary: s)
  case Nil
  then show ?case by (simp add: returnE_def)
next
  case (Cons x xs)
  obtain r t where run: "f x s = (r, t)" by (cases "f x s")
  have st: "prefix (tr s) (tr t)" using grows_run [OF Cons.prems(2) run] by simp
  show ?case
  proof (cases r)
    case (Inl err)
    with run Cons.prems(1) have "e \<in> set (newEvents s (snd (f x s)))" by (simp add: bindE_def)
    then show ?thesis by (metis list.set_intros(1) prefix_order.refl)
  next
    case (Inr y)
    have rest: "grows (forE xs f)" using Cons.prems(2) by (intro ext.keeps_for) simp
    have "newEvents s (snd (forE (x # xs) f s)) = newEvents s t @ newEvents t (snd (forE xs f t))"
      using newEvents_trans [OF st grows_prefix [OF rest]] run Inr by (simp add: bindE_def)
    with Cons.prems(1) consider "e \<in> set (newEvents s t)" | "e \<in> set (newEvents t (snd (forE xs f t)))"
      by auto
    then show ?thesis
    proof cases
      case 1
      with run have "e \<in> set (newEvents s (snd (f x s)))" by simp
      then show ?thesis by (metis list.set_intros(1) prefix_order.refl)
    next
      case 2
      from Cons.IH [OF this] Cons.prems(2) obtain y u
        where "y \<in> set xs" "prefix (tr t) (tr u)" "e \<in> set (newEvents u (snd (f y u)))" by auto
      with st show ?thesis by (meson list.set_intros(2) prefix_order.trans)
    qed
  qed
qed

text \<open>A loop that succeeds has run every iteration successfully, within the events of the loop.\<close>

lemma for_run:
  assumes "forE xs f s = (Inr u, t)" and "x \<in> set xs" and "\<And>y. y \<in> set xs \<Longrightarrow> grows (f y)"
  shows "\<exists>s1 t1. f x s1 = (Inr (), t1) \<and> prefix (tr s) (tr s1) \<and> prefix (tr s1) (tr t1) \<and> prefix (tr t1) (tr t)"
  using assms
proof (induction xs arbitrary: s)
  case Nil
  then show ?case by simp
next
  case (Cons y ys)
  from Cons.prems(1) obtain v where run: "f y s = (Inr (), v)" and rest: "forE ys f v = (Inr u, t)"
    by (auto simp: runs)
  have sv: "prefix (tr s) (tr v)" using grows_run [OF Cons.prems(3) run] by simp
  have "grows (forE ys f)" using Cons.prems(3) by (intro ext.keeps_for) simp
  then have vt: "prefix (tr v) (tr t)" using rest by (rule grows_run)
  show ?case
  proof (cases "x = y")
    case True
    with run sv vt show ?thesis by blast
  next
    case False
    with Cons.prems(2) have "x \<in> set ys" by simp
    from Cons.IH [OF rest this] Cons.prems(3) sv show ?thesis
      by (meson list.set_intros(2) prefix_order.trans)
  qed
qed

lemma events_between:
  assumes "prefix (tr s) (tr s1)" "prefix (tr s1) (tr t1)" "prefix (tr t1) (tr t)"
  shows "set (newEvents s1 t1) \<subseteq> set (newEvents s t)"
  using assms by (auto simp: newEvents_def prefix_def)

lemma performed_mono: "set es \<subseteq> set fs \<Longrightarrow> performed c es \<Longrightarrow> performed c fs"
  by (auto simp: performed_def)

text \<open>
  A loop of single calls that succeeds has made exactly those calls, in order, each with a
  response that is no error.
\<close>

lemma for_requests:
  assumes "forE xs (\<lambda>x. requestU E (c x)) s = (Inr u, t)"
  shows "map fst (newEvents s t) = map c xs \<and> list_all (\<lambda>(_, r). okResp r) (newEvents s t) \<and>
    (\<exists>es. t = s\<lparr>tr := tr s @ es\<rparr>)"
  using assms
proof (induction xs arbitrary: s)
  case Nil
  then show ?case by (auto simp: runs intro: exI [of _ "[]"])
next
  case (Cons x xs)
  define v where "v = s\<lparr>tr := tr s @ [(c x, answer E (tr s) (c x))]\<rparr>"
  from Cons.prems have ok: "okResp (answer E (tr s) (c x))"
    and rest: "forE xs (\<lambda>x. requestU E (c x)) v = (Inr u, t)"
    by (auto simp: runs v_def)
  from Cons.IH [OF rest] obtain es where es: "t = v\<lparr>tr := tr v @ es\<rparr>"
    and ih: "map fst (newEvents v t) = map c xs" "list_all (\<lambda>(_, r). okResp r) (newEvents v t)" by blast
  from es ih ok show ?case by (auto simp: newEvents_def v_def)
qed

text \<open>Reads, as opposed to calls that may change an object.\<close>

fun isRead :: "event \<Rightarrow> bool" where
  "isRead (GetCall _ _ _, _) = True"
| "isRead (ListCall _ _ _ _, _) = True"
| "isRead _ = False"

text \<open>
  A write made by a sequence that begins with a part that only reads: the part succeeded, its
  result is known, and the events before the write's part are reads.
\<close>

lemma write_after_reads:
  fixes s :: "'z base_scheme"
  assumes e: "e \<in> set (newEvents s (snd (bindE m f s)))" and w: "\<not> isRead e"
    and m: "keeps (extends isRead) m" and f: "\<And>x. grows (f x)"
  obtains x t where "m s = (Inr x, t)" "e \<in> set (newEvents t (snd (f x t)))" "prefix (tr s) (tr t)"
    "snd (bindE m f s) = snd (f x t)" "\<forall>d \<in> set (newEvents s t). isRead d"
proof -
  from bind_event [OF e m w f] obtain x t where run: "m s = (Inr x, t)" "e \<in> set (newEvents t (snd (f x t)))" by metis
  moreover have "prefix (tr s) (tr t)" using grows_run [OF grows_weaken [OF m] run(1)] .
  moreover have "snd (bindE m f s) = snd (f x t)" by (simp add: bindE_Inr [where m = m, OF run(1)])
  moreover have "\<forall>d \<in> set (newEvents s t). isRead d" using keeps_run [OF m run(1)] by blast
  ultimately show thesis by (rule that)
qed

text \<open>What the sources rely on of a typed read: it returns the object of the name asked for.\<close>

definition reads_by_name :: "env \<Rightarrow> bool" where
  "reads_by_name E = (\<forall>h cl k key x. answer E h (GetCall cl k key) = RObj x \<longrightarrow> keyOf x = key)"

lemma reads_by_nameD: "reads_by_name E \<Longrightarrow> answer E h (GetCall cl k key) = RObj x \<Longrightarrow> keyOf x = key"
  unfolding reads_by_name_def by blast

end
