(* ===== verification/Reference.thy ===== *)
theory Reference
  imports Trace
begin

text \<open>
  A concrete environment: a server that holds a fixed list of objects, answers reads from it and
  accepts every write, the documented list functions for status conditions, and the owner
  reference that \<open>SetControllerReference\<close> adds. The applications of the theorems to concrete
  inputs run against it, which also shows that the named hypotheses on the platform can hold.
\<close>

fun kindOf :: "kobj \<Rightarrow> kind option" where
  "kindOf (KNamespace _) = Some NamespaceKind"
| "kindOf (KSecret _) = Some SecretKind"
| "kindOf (KConfigMap _) = Some ConfigMapKind"
| "kindOf (KDeployment _) = Some DeploymentKind"
| "kindOf (KStatefulSet _) = Some StatefulSetKind"
| "kindOf (KAPIService _) = Some APIServiceKind"
| "kindOf (KCRD _) = Some CRDKind"
| "kindOf (KVWHC _) = Some VWHCKind"
| "kindOf (KMWHC _) = Some MWHCKind"
| "kindOf (KAPIShard _) = Some APIShardKind"
| "kindOf (KNamespaceSync _) = Some NamespaceSyncKind"
| "kindOf (KWebhookSync _) = Some WebhookSyncKind"
| "kindOf _ = None"

definition notFoundError :: goerror where
  "notFoundError = \<lparr>err_reason = NotFound, err_msg = ''not found''\<rparr>"

fun heldServer :: "kobj list \<Rightarrow> history \<Rightarrow> call \<Rightarrow> resp" where
  "heldServer xs h (GetCall cl k key) =
     (case find (\<lambda>x. kindOf x = Some k \<and> keyOf x = key) xs of
        None \<Rightarrow> RErr notFoundError | Some x \<Rightarrow> RObj x)"
| "heldServer xs h (ListCall cl k ns sel) =
     RObjs (filter (\<lambda>x. kindOf x = Some k \<and> (case ns of None \<Rightarrow> True | Some n \<Rightarrow> fst (keyOf x) = n)) xs)"
| "heldServer xs h _ = ROk"

definition ownedMeta :: "apiShard \<Rightarrow> objectMeta \<Rightarrow> objectMeta" where
  "ownedMeta sh m = m\<lparr>om_ownerReferences := om_ownerReferences m @
     [\<lparr>or_kind = ''APIShard'', or_name = shardName sh, or_uid = om_uid (sh_meta sh), or_controller = True\<rparr>]\<rparr>"

definition refEnv :: "(history \<Rightarrow> call \<Rightarrow> resp) \<Rightarrow> env" where
  "refEnv ans =
     \<lparr>answer = ans, setStatusCondition = (\<lambda>h. listSet (length h)), findStatusCondition = listFind,
      removeStatusCondition = listRemove, setControllerReference = (\<lambda>sh m. Inr (ownedMeta sh m)),
      newClient = (\<lambda>_. None), sha256hex = (\<lambda>b. b),
      randomBytes = (\<lambda>h n. Inr (replicate n (CHR 0x2A))),
      unmarshalStrings = (\<lambda>s. Inr [s]), cmpQuantity = (\<lambda>a b. if a = b then 0 else 1),
      labelSelectorAsSelector = (\<lambda>_. Inr JNull),
      buildConfigMapName = (\<lambda>b c. b @ ''-hash''), parseDSNURL = (\<lambda>s. Inl (errorf ''no URL'')),
      now = length\<rparr>"

lemma refEnv_sel [simp]:
  "answer (refEnv ans) = ans" "setStatusCondition (refEnv ans) = (\<lambda>h. listSet (length h))"
  "findStatusCondition (refEnv ans) = listFind" "removeStatusCondition (refEnv ans) = listRemove"
  "setControllerReference (refEnv ans) = (\<lambda>sh m. Inr (ownedMeta sh m))"
  "newClient (refEnv ans) = (\<lambda>_. None)" "sha256hex (refEnv ans) = (\<lambda>b. b)"
  by (simp_all add: refEnv_def)

lemma refEnv_condition_laws: "condition_laws (refEnv ans)"
  unfolding refEnv_sel by (rule lc.condition_store_axioms)

lemma heldServer_reads_by_name: "reads_by_name (refEnv (heldServer xs))"
  by (auto simp: reads_by_name_def find_Some_iff split: option.splits)

text \<open>A small shard, and the state before any call.\<close>

definition sampleSpec :: apiShardSpec where
  "sampleSpec =
     \<lparr>targetNamespace = ''shards'',
      apiGroups = [\<lparr>ag_group = ''tekton.dev'', ag_versions = [''v1'']\<rparr>],
      storage = \<lparr>st_type = StorageTypeSQLite, st_connectionSecretRef = None, st_inCluster = None, st_monitoring = None\<rparr>,
      nsSelector = \<lparr>ls_matchLabels = [], ls_matchExpressions = []\<rparr>,
      secondarySp = \<lparr>se_replicas = 0, se_image = [], se_resources = emptyResources, se_nodeSelector = [],
                     se_tolerations = [], se_topologySpreadConstraints = []\<rparr>,
      kineSp = \<lparr>ki_replicas = 0, ki_image = [], ki_resources = emptyResources, ki_nodeSelector = [],
                ki_tolerations = [], ki_topologySpreadConstraints = [], ki_connectionPool = None,
                ki_compaction = None, ki_pollBatchSize = None, ki_watchProgressNotifyInterval = None\<rparr>,
      monitoring = None, colocateComponents = None\<rparr>"

definition sampleStatus :: apiShardStatus where
  "sampleStatus =
     \<lparr>phase = [], message = [], connectionSecret = None, secondaryEndpointStatus = [],
      registeredAPIServices = [], conditions = [], observedGeneration = 0\<rparr>"

definition sampleShard :: apiShard where
  "sampleShard =
     \<lparr>sh_meta = emptyMeta\<lparr>om_name := ''a'', om_uid := ''u1'', om_generation := 1\<rparr>,
      spec = sampleSpec, status = sampleStatus\<rparr>"

definition initialBase :: base where
  "initialBase = \<lparr>tr = [], clients = []\<rparr>"

end
