(* ===== verification/SecondaryClient.thy ===== *)
theory SecondaryClient
  imports Reference
begin

text \<open>
  \<open>operator/internal/secondary/client.go\<close>: the cache of clients for secondary API servers, keyed by
  consumer and checked against the endpoint and a digest of the credentials, the construction of a
  client from a connection specification, and the health probe.

  \<open>GetOrCreate\<close> is split where the code releases its read lock: \<open>getOrCreateLocked\<close> is the section
  under the write lock, so that the interleavings of concurrent callers are sequences of such
  sections (\<open>reachableCache\<close>).
\<close>

section \<open>Configuration\<close>

record clientConfiguration =
  cfg_Host :: string
  cfg_CACert :: bytes
  cfg_Token :: string
  cfg_ClientCert :: bytes
  cfg_ClientKey :: bytes

text \<open>The bytes written to the hash, and the digest in hexadecimal.\<close>

definition credentialBytes :: "clientConfiguration \<Rightarrow> bytes" where
  "credentialBytes c =
     cfg_CACert c @ [CHR 0x00] @ cfg_ClientCert c @ [CHR 0x00] @ cfg_ClientKey c @ [CHR 0x00] @ cfg_Token c"

definition fingerprint :: "env \<Rightarrow> clientConfiguration \<Rightarrow> string" where
  "fingerprint E c = sha256hex E (credentialBytes c)"

definition buildRESTConfig :: "clientConfiguration \<Rightarrow> restConfig" where
  "buildRESTConfig cfg =
     (let tls = (if cfg_CACert cfg \<noteq> [] then (cfg_CACert cfg, False) else ([], True));
          certAuth = (cfg_ClientCert cfg \<noteq> [] \<and> cfg_ClientKey cfg \<noteq> [])
      in \<lparr>rc_host = cfg_Host cfg, rc_caData = fst tls, rc_insecure = snd tls,
          rc_bearerToken = (if cfg_Token cfg \<noteq> [] then cfg_Token cfg else []),
          rc_certData = (if cfg_Token cfg = [] \<and> certAuth then cfg_ClientCert cfg else []),
          rc_keyData = (if cfg_Token cfg = [] \<and> certAuth then cfg_ClientKey cfg else [])\<rparr>)"

section \<open>The cache\<close>

definition mapDelete :: "string \<Rightarrow> 'v gomap \<Rightarrow> 'v gomap" where
  "mapDelete k m = filter (\<lambda>(k', _). k' \<noteq> k) m"

definition mapPut :: "string \<Rightarrow> 'v \<Rightarrow> 'v gomap \<Rightarrow> 'v gomap" where
  "mapPut k v m = (k, v) # mapDelete k m"

definition NewClientProvider :: "clientEntry gomap" where
  "NewClientProvider = []"

text \<open>The condition under which a cached entry is served for a configuration.\<close>

definition cacheHit :: "env \<Rightarrow> clientConfiguration \<Rightarrow> clientEntry \<Rightarrow> bool" where
  "cacheHit E cfg e = (ce_pinned e \<or> (ce_host e = cfg_Host cfg \<and> ce_fingerprint e = fingerprint E cfg))"

definition cachedClient :: "env \<Rightarrow> string \<Rightarrow> clientConfiguration \<Rightarrow> clientEntry gomap \<Rightarrow> restConfig option" where
  "cachedClient E k cfg m =
     (case map_of m k of None \<Rightarrow> None | Some e \<Rightarrow> if cacheHit E cfg e then Some (ce_client e) else None)"

definition getOrCreateLocked :: "env \<Rightarrow> string \<Rightarrow> clientConfiguration \<Rightarrow> ('z base_scheme, restConfig) op" where
  "getOrCreateLocked E name cfg =
     bindE (getsE (\<lambda>s. cachedClient E name cfg (clients s))) (\<lambda>hit.
       case hit of Some c \<Rightarrow> returnE c
       | None \<Rightarrow>
          let restCfg = buildRESTConfig cfg in
          case newClient E restCfg of
            Some e \<Rightarrow> throwE (wrap (''creating client for shard '' @ name) e)
          | None \<Rightarrow>
             bindE (modifyE (\<lambda>s. s\<lparr>clients := mapPut name
                 \<lparr>ce_client = restCfg, ce_host = cfg_Host cfg, ce_fingerprint = fingerprint E cfg, ce_pinned = False\<rparr>
                 (clients s)\<rparr>)) (\<lambda>_. returnE restCfg))"

definition GetOrCreate :: "env \<Rightarrow> string \<Rightarrow> clientConfiguration \<Rightarrow> ('z base_scheme, restConfig) op" where
  "GetOrCreate E name cfg =
     bindE (getsE (\<lambda>s. cachedClient E name cfg (clients s))) (\<lambda>hit.
       case hit of Some c \<Rightarrow> returnE c | None \<Rightarrow> getOrCreateLocked E name cfg)"

definition InjectClientForTest :: "string \<Rightarrow> restConfig \<Rightarrow> ('z base_scheme, unit) op" where
  "InjectClientForTest name c =
     modifyE (\<lambda>s. s\<lparr>clients := mapPut name
       \<lparr>ce_client = c, ce_host = [], ce_fingerprint = [], ce_pinned = True\<rparr> (clients s)\<rparr>)"

definition Invalidate :: "string \<Rightarrow> ('z base_scheme, unit) op" where
  "Invalidate name = modifyE (\<lambda>s. s\<lparr>clients := mapDelete name (clients s)\<rparr>)"

section \<open>Clients from a connection specification\<close>

definition connectionCA :: "string \<Rightarrow> secret \<Rightarrow> goerror + bytes" where
  "connectionCA nm caSecret =
     (let ca = mapGet (sec_data caSecret) ''ca.crt'';
          caCert = (if ca = [] then mapGet (sec_data caSecret) ''tls.crt'' else ca)
      in if caCert = [] then Inl (errorf (''CA secret '' @ nm @ '' has no ca.crt or tls.crt key'')) else Inr caCert)"

definition connectionAuth :: "string \<Rightarrow> secret \<Rightarrow> clientConfiguration \<Rightarrow> goerror + clientConfiguration" where
  "connectionAuth nm authSecret cfg =
     (let data = sec_data authSecret in
      if mapGet data ''tls.crt'' \<noteq> [] \<and> mapGet data ''tls.key'' \<noteq> []
      then Inr (cfg\<lparr>cfg_ClientCert := mapGet data ''tls.crt'', cfg_ClientKey := mapGet data ''tls.key''\<rparr>)
      else if mapGet data ''token'' \<noteq> [] then Inr (cfg\<lparr>cfg_Token := mapGet data ''token''\<rparr>)
      else Inl (errorf (''auth secret '' @ nm @ '' has no client cert (tls.crt/tls.key) or bearer token'')))"

definition connectionHost :: "secondaryConnectionSpec \<Rightarrow> string" where
  "connectionHost conn =
     (let ref = sn_serviceRef conn; port = (if cs_port ref = 0 then 443 else cs_port ref)
      in ''https://'' @ cs_name ref @ ''.'' @ cs_namespace ref @ ''.svc:'' @ itoa port)"

definition liftE :: "goerror + 'a \<Rightarrow> ('s, 'a) op" where
  [op_defs]: "liftE r = (case r of Inl e \<Rightarrow> throwE e | Inr x \<Rightarrow> returnE x)"

definition BuildClient ::
  "env \<Rightarrow> secondaryConnectionSpec \<Rightarrow> string \<Rightarrow> string \<Rightarrow> ('z base_scheme, restConfig) op" where
  "BuildClient E conn namespace cacheKey =
     bindE (wrapE (''reading CA secret '' @ sn_caSecretRef conn) (getSecret E (namespace, sn_caSecretRef conn))) (\<lambda>caSecret.
     bindE (liftE (connectionCA (sn_caSecretRef conn) caSecret)) (\<lambda>caCert.
     bindE (wrapE (''reading auth secret '' @ sn_authSecretRef conn) (getSecret E (namespace, sn_authSecretRef conn))) (\<lambda>authSecret.
     bindE (liftE (connectionAuth (sn_authSecretRef conn) authSecret
       \<lparr>cfg_Host = [], cfg_CACert = caCert, cfg_Token = [], cfg_ClientCert = [], cfg_ClientKey = []\<rparr>)) (\<lambda>cfg.
     GetOrCreate E cacheKey (cfg\<lparr>cfg_Host := connectionHost conn\<rparr>)))))"

section \<open>Health probe\<close>

text \<open>The part of the HTTP transport that depends on the CA: the roots, and whether they are checked.\<close>

record healthChecker =
  hc_rootCAs :: "bytes option"
  hc_insecureSkipVerify :: bool

definition NewHealthChecker :: "bytes \<Rightarrow> healthChecker" where
  "NewHealthChecker caCert =
     (if caCert \<noteq> [] then \<lparr>hc_rootCAs = Some caCert, hc_insecureSkipVerify = False\<rparr>
      else \<lparr>hc_rootCAs = None, hc_insecureSkipVerify = True\<rparr>)"

text \<open>\<open>newReq\<close> and \<open>doReq\<close> are \<open>http.NewRequestWithContext\<close> and \<open>Client.Do\<close> giving the status code.\<close>

definition CheckHealth ::
  "(string \<Rightarrow> goerror option) \<Rightarrow> (healthChecker \<Rightarrow> string \<Rightarrow> goerror + int) \<Rightarrow> healthChecker \<Rightarrow> string \<Rightarrow> goerror + bool" where
  "CheckHealth newReq doReq h endpoint =
     (let url = endpoint @ ''/healthz'' in
      case newReq url of
        Some e \<Rightarrow> Inl (wrap ''creating health check request'' e)
      | None \<Rightarrow> (case doReq h url of Inl e \<Rightarrow> Inr False | Inr code \<Rightarrow> Inr (code = 200)))"

section \<open>Lemmas\<close>

lemma map_of_mapDelete [simp]: "map_of (mapDelete k m) = (map_of m)(k := None)"
  by (induction m) (auto simp: mapDelete_def)

lemma map_of_mapPut [simp]: "map_of (mapPut k v m) = (map_of m)(k \<mapsto> v)"
  by (auto simp: mapPut_def)

lemma wf_mapPut: "wf_gomap m \<Longrightarrow> wf_gomap (mapPut k v m)"
  by (auto simp: wf_gomap_def mapPut_def mapDelete_def distinct_map inj_on_def)

lemma liftE_run [runs]: "liftE r s = (Inr x, t) \<longleftrightarrow> r = Inr x \<and> t = s"
  by (auto simp: liftE_def returnE_def throwE_def split: sum.splits)

lemma keeps_liftE [keeps_intros]: "keeps (extends P) (liftE r)"
  by (auto simp: liftE_def split: sum.splits intro: ext.keeps_return ext.keeps_throw)

text \<open>
  The digest input separates its parts when the certificates and the key hold no zero byte, as
  text encodings do; the token is last and may hold any byte.
\<close>

definition zeroFree :: "clientConfiguration \<Rightarrow> bool" where
  "zeroFree c = (CHR 0x00 \<notin> set (cfg_CACert c) \<and> CHR 0x00 \<notin> set (cfg_ClientCert c) \<and> CHR 0x00 \<notin> set (cfg_ClientKey c))"

lemma separator_inject:
  assumes "xs @ z # ys = us @ z # vs" and "z \<notin> set xs" and "z \<notin> set us"
  shows "xs = us \<and> ys = vs"
  using assms
proof (induction xs arbitrary: us)
  case Nil
  then show ?case by (cases us) auto
next
  case (Cons x xs)
  then show ?case by (cases us) auto
qed

lemma credentialBytes_inject:
  assumes "credentialBytes c = credentialBytes d" and "zeroFree c" and "zeroFree d"
  shows "cfg_CACert c = cfg_CACert d \<and> cfg_ClientCert c = cfg_ClientCert d \<and>
    cfg_ClientKey c = cfg_ClientKey d \<and> cfg_Token c = cfg_Token d"
proof -
  let ?z = "CHR 0x00"
  have 1: "cfg_CACert c @ ?z # (cfg_ClientCert c @ ?z # (cfg_ClientKey c @ ?z # cfg_Token c)) =
      cfg_CACert d @ ?z # (cfg_ClientCert d @ ?z # (cfg_ClientKey d @ ?z # cfg_Token d))"
    using assms(1) by (simp add: credentialBytes_def)
  note sep = assms(2,3) [unfolded zeroFree_def]
  from separator_inject [OF 1] sep have ca: "cfg_CACert c = cfg_CACert d"
    and 2: "cfg_ClientCert c @ ?z # (cfg_ClientKey c @ ?z # cfg_Token c) =
      cfg_ClientCert d @ ?z # (cfg_ClientKey d @ ?z # cfg_Token d)" by blast+
  from separator_inject [OF 2] sep have cert: "cfg_ClientCert c = cfg_ClientCert d"
    and 3: "cfg_ClientKey c @ ?z # cfg_Token c = cfg_ClientKey d @ ?z # cfg_Token d" by blast+
  from separator_inject [OF 3] sep ca cert show ?thesis by blast
qed

text \<open>
  A cache that was filled for the configurations in \<open>U\<close>: every entry is the client of one of them,
  under its own endpoint and digest. Pinned entries, which only tests inject, are excluded.
\<close>

definition cacheOf :: "env \<Rightarrow> clientConfiguration set \<Rightarrow> clientEntry gomap \<Rightarrow> bool" where
  "cacheOf E U m = (\<forall>k e. map_of m k = Some e \<longrightarrow> \<not> ce_pinned e \<and>
     (\<exists>cfg \<in> U. ce_client e = buildRESTConfig cfg \<and> ce_host e = cfg_Host cfg \<and> ce_fingerprint e = fingerprint E cfg))"

definition servesConfig :: "env \<Rightarrow> clientConfiguration set \<Rightarrow> clientConfiguration \<Rightarrow> restConfig \<Rightarrow> bool" where
  "servesConfig E U cfg c = (\<exists>cfg' \<in> insert cfg U. c = buildRESTConfig cfg' \<and>
     cfg_Host cfg' = cfg_Host cfg \<and> fingerprint E cfg' = fingerprint E cfg)"

lemma cacheOf_mono: "cacheOf E U m \<Longrightarrow> U \<subseteq> V \<Longrightarrow> cacheOf E V m"
  unfolding cacheOf_def by blast

lemma cacheOf_new: "cacheOf E U NewClientProvider"
  by (simp add: cacheOf_def NewClientProvider_def)

lemma cacheOf_delete: "cacheOf E U m \<Longrightarrow> cacheOf E U (mapDelete k m)"
  by (simp add: cacheOf_def)

lemma cacheOf_put:
  "cacheOf E U m \<Longrightarrow> cfg \<in> U \<Longrightarrow>
   cacheOf E U (mapPut k \<lparr>ce_client = buildRESTConfig cfg, ce_host = cfg_Host cfg,
     ce_fingerprint = fingerprint E cfg, ce_pinned = False\<rparr> m)"
  by (auto simp: cacheOf_def)

lemma cachedClient_serves:
  "cacheOf E U m \<Longrightarrow> cachedClient E k cfg m = Some c \<Longrightarrow> servesConfig E U cfg c"
  by (fastforce simp: cacheOf_def cachedClient_def cacheHit_def servesConfig_def split: option.splits if_splits)

lemma getOrCreateLocked_cases:
  "getOrCreateLocked E k cfg s =
     (case cachedClient E k cfg (clients s) of Some c \<Rightarrow> (Inr c, s)
      | None \<Rightarrow> (case newClient E (buildRESTConfig cfg) of
           Some e \<Rightarrow> (Inl (wrap (''creating client for shard '' @ k) e), s)
         | None \<Rightarrow> (Inr (buildRESTConfig cfg), s\<lparr>clients := mapPut k
             \<lparr>ce_client = buildRESTConfig cfg, ce_host = cfg_Host cfg, ce_fingerprint = fingerprint E cfg, ce_pinned = False\<rparr>
             (clients s)\<rparr>)))"
  by (simp add: getOrCreateLocked_def op_defs Let_def split: option.splits)

lemma GetOrCreate_locked: "GetOrCreate E k cfg s = getOrCreateLocked E k cfg s"
  by (simp add: GetOrCreate_def getOrCreateLocked_cases op_defs split: option.splits)

lemma getOrCreateLocked_cacheOf:
  "cacheOf E U (clients s) \<Longrightarrow> cacheOf E (insert cfg U) (clients (snd (getOrCreateLocked E k cfg s)))"
  using cacheOf_mono [of E U "clients s" "insert cfg U"] cacheOf_put [of E "insert cfg U" "clients s" cfg k]
  by (auto simp: getOrCreateLocked_cases split: option.splits)

lemma getOrCreateLocked_serves:
  "cacheOf E U (clients s) \<Longrightarrow> getOrCreateLocked E k cfg s = (Inr c, t) \<Longrightarrow> servesConfig E U cfg c"
  using cachedClient_serves [of E U "clients s" k cfg]
  by (auto simp: getOrCreateLocked_cases servesConfig_def split: option.splits)

lemma tr_GetOrCreate [simp]: "tr (snd (GetOrCreate E k cfg s)) = tr s"
  by (simp add: GetOrCreate_locked getOrCreateLocked_cases split: option.splits)

lemma keeps_GetOrCreate [keeps_intros]: "keeps (extends P) (GetOrCreate E k cfg)"
  by (rule keepsI) (simp add: extends_same_trace)

lemma keeps_Invalidate [keeps_intros]: "keeps (extends P) (Invalidate k)"
  by (rule keepsI) (simp add: extends_same_trace Invalidate_def modifyE_def)

lemma keeps_BuildClient [keeps_intros]:
  assumes "\<And>n r. P (GetCall Primary SecretKind (ns, n), r)"
  shows "keeps (extends P) (BuildClient E conn ns key)"
  unfolding BuildClient_def by (intro keeps_intros assms)

lemma buildRESTConfig_sel [simp]:
  "rc_host (buildRESTConfig cfg) = cfg_Host cfg" "rc_caData (buildRESTConfig cfg) = cfg_CACert cfg"
  "rc_insecure (buildRESTConfig cfg) \<longleftrightarrow> cfg_CACert cfg = []" "rc_bearerToken (buildRESTConfig cfg) = cfg_Token cfg"
  "rc_certData (buildRESTConfig cfg) =
     (if cfg_Token cfg = [] \<and> cfg_ClientCert cfg \<noteq> [] \<and> cfg_ClientKey cfg \<noteq> [] then cfg_ClientCert cfg else [])"
  "rc_keyData (buildRESTConfig cfg) =
     (if cfg_Token cfg = [] \<and> cfg_ClientCert cfg \<noteq> [] \<and> cfg_ClientKey cfg \<noteq> [] then cfg_ClientKey cfg else [])"
  by (simp_all add: buildRESTConfig_def Let_def)

lemma connectionCA_run:
  "connectionCA nm ca = Inr caCert \<Longrightarrow> caCert \<noteq> [] \<and>
     (caCert = mapGet (sec_data ca) ''ca.crt'' \<or> caCert = mapGet (sec_data ca) ''tls.crt'')"
  by (simp add: connectionCA_def Let_def split: if_splits)

lemma connectionAuth_run:
  assumes "connectionAuth nm auth cfg0 = Inr cfg" and "cfg_Token cfg0 = []" "cfg_ClientCert cfg0 = []" "cfg_ClientKey cfg0 = []"
  shows "cfg_CACert cfg = cfg_CACert cfg0 \<and>
    (if mapGet (sec_data auth) ''tls.crt'' \<noteq> [] \<and> mapGet (sec_data auth) ''tls.key'' \<noteq> []
     then cfg_ClientCert cfg = mapGet (sec_data auth) ''tls.crt'' \<and> cfg_ClientKey cfg = mapGet (sec_data auth) ''tls.key'' \<and>
       cfg_Token cfg = []
     else cfg_Token cfg = mapGet (sec_data auth) ''token'' \<and> cfg_Token cfg \<noteq> [] \<and> cfg_ClientCert cfg = [] \<and> cfg_ClientKey cfg = [])"
  using assms by (auto simp: connectionAuth_def Let_def split: if_splits)

section \<open>Concurrent callers\<close>

text \<open>
  The contract the reconcilers use: whatever clients were handed out before, a client handed out
  serves the configuration it was asked for.
\<close>

locale client_cache =
  fixes get :: "string \<Rightarrow> 'cfg \<Rightarrow> ('s, 'c) op"
    and inval :: "string \<Rightarrow> ('s, unit) op"
    and inv :: "'cfg set \<Rightarrow> 's \<Rightarrow> bool"
    and serves :: "'cfg set \<Rightarrow> 'cfg \<Rightarrow> 'c \<Rightarrow> bool"
  assumes get_inv: "inv U s \<Longrightarrow> inv (insert cfg U) (snd (get k cfg s))"
    and inval_inv: "inv U s \<Longrightarrow> inv U (snd (inval k s))"
    and get_serves: "inv U s \<Longrightarrow> get k cfg s = (Inr c, t) \<Longrightarrow> serves U cfg c"
begin

lemma after_get:
  assumes "inv U s" and "get k cfg s = (r, t)"
  shows "inv (insert cfg U) t"
  using get_inv [OF assms(1), of cfg k] unfolding assms(2) snd_conv .

text \<open>A client obtained after another caller's request still serves its own configuration.\<close>

lemma interleaved_serves:
  assumes "inv U s" and "get k cfg s = (r, t)" and "inval j t = (r', u)" and "get k' cfg' u = (Inr c, v)"
  shows "serves (insert cfg U) cfg' c"
proof -
  have "inv (insert cfg U) (snd (inval j t))" using after_get [OF assms(1,2)] by (rule inval_inv)
  then have "inv (insert cfg U) u" unfolding assms(3) snd_conv .
  then show ?thesis using assms(4) by (rule get_serves)
qed

end

interpretation cc: client_cache "getOrCreateLocked E" Invalidate
  "\<lambda>U s. cacheOf E U (clients s)" "servesConfig E"
proof unfold_locales
  show "cacheOf E (insert cfg U) (clients (snd (getOrCreateLocked E k cfg s)))"
    if "cacheOf E U (clients s)" for U cfg k and s :: "'z base_scheme"
    using that by (rule getOrCreateLocked_cacheOf)
  show "cacheOf E U (clients (snd (Invalidate k s)))" if "cacheOf E U (clients s)" for U k and s :: "'z base_scheme"
    using that by (simp add: Invalidate_def modifyE_def cacheOf_delete)
  show "servesConfig E U cfg c" if "cacheOf E U (clients s)" "getOrCreateLocked E k cfg s = (Inr c, t)"
    for U k cfg c and s t :: "'z base_scheme"
    using that by (rule getOrCreateLocked_serves)
qed

text \<open>The caches that interleaved callers can produce from an empty provider, with what they asked for.\<close>

inductive reachableCache :: "env \<Rightarrow> clientConfiguration set \<Rightarrow> base \<Rightarrow> bool" for E where
  start: "clients s = NewClientProvider \<Longrightarrow> reachableCache E {} s"
| locked: "reachableCache E U s \<Longrightarrow> reachableCache E (insert cfg U) (snd (getOrCreateLocked E k cfg s))"
| invalidated: "reachableCache E U s \<Longrightarrow> reachableCache E U (snd (Invalidate k s))"
| calls: "reachableCache E U s \<Longrightarrow> reachableCache E U (s\<lparr>tr := h\<rparr>)"

lemma reachableCache_cacheOf: "reachableCache E U s \<Longrightarrow> cacheOf E U (clients s)"
proof (induction rule: reachableCache.induct)
  case (start s)
  then show ?case by (simp add: cacheOf_new)
next
  case (locked U s cfg k)
  show ?case using locked.IH by (rule cc.get_inv)
next
  case (invalidated U s k)
  show ?case using invalidated.IH by (rule cc.inval_inv)
next
  case (calls U s h)
  then show ?case by simp
qed

section \<open>Properties\<close>

text \<open>
  C19: whatever requests and invalidations of concurrent callers came before, a client returned
  for a configuration is the client that configuration describes, provided that the digests of
  the credentials asked for so far do not collide and certificates and keys hold no zero byte: a
  rotated credential or a changed endpoint is never served by a stale client.
\<close>

theorem GetOrCreate_serves_config:
  assumes "reachableCache E U s" and "GetOrCreate E k cfg s = (Inr c, t)"
    and "inj_on (sha256hex E) (credentialBytes ` insert cfg U)" and "\<forall>d \<in> insert cfg U. zeroFree d"
  shows "c = buildRESTConfig cfg"
proof -
  have "servesConfig E U cfg c"
    using cc.get_serves [OF reachableCache_cacheOf [OF assms(1)]] assms(2) by (simp add: GetOrCreate_locked)
  then obtain d where d: "d \<in> insert cfg U" "c = buildRESTConfig d" "cfg_Host d = cfg_Host cfg"
    "fingerprint E d = fingerprint E cfg" by (auto simp: servesConfig_def)
  from d(1,4) assms(3) have "credentialBytes d = credentialBytes cfg"
    unfolding fingerprint_def by (meson imageI inj_onD insertI1)
  with credentialBytes_inject [of d cfg] d assms(4) have "d = cfg" by (auto intro: clientConfiguration.equality)
  with d(2) show ?thesis by simp
qed

definition oldCredentials :: clientConfiguration where
  "oldCredentials = \<lparr>cfg_Host = ''https://h'', cfg_CACert = ''ca'', cfg_Token = ''t1'', cfg_ClientCert = [], cfg_ClientKey = []\<rparr>"

definition newCredentials :: clientConfiguration where
  "newCredentials = oldCredentials\<lparr>cfg_Token := ''t2''\<rparr>"

theorem GetOrCreate_serves_config_witness:
  "fst (GetOrCreate (refEnv (heldServer [])) ''k'' newCredentials
     (snd (getOrCreateLocked (refEnv (heldServer [])) ''k'' oldCredentials initialBase))) = Inr (buildRESTConfig newCredentials)"
proof -
  let ?E = "refEnv (heldServer [])"
  let ?s = "snd (getOrCreateLocked ?E ''k'' oldCredentials initialBase)"
  have reach: "reachableCache ?E {oldCredentials} ?s"
    using reachableCache.locked [OF reachableCache.start] by (simp add: initialBase_def NewClientProvider_def)
  have free: "\<forall>d \<in> insert newCredentials {oldCredentials}. zeroFree d"
    by (simp add: zeroFree_def newCredentials_def oldCredentials_def)
  have inj: "inj_on (sha256hex ?E) (credentialBytes ` insert newCredentials {oldCredentials})"
    by (simp add: inj_on_def)
  have "fst (GetOrCreate ?E ''k'' newCredentials ?s) = Inr (buildRESTConfig newCredentials)"
    if "GetOrCreate ?E ''k'' newCredentials ?s = (Inr c, t)" for c t
    using GetOrCreate_serves_config [OF reach that inj free] by (simp add: that)
  moreover have "\<exists>c t. GetOrCreate ?E ''k'' newCredentials ?s = (Inr c, t)"
    by (auto simp: GetOrCreate_locked getOrCreateLocked_cases split: option.splits)
  ultimately show ?thesis by blast
qed

text \<open>
  C20: building a client for a connection that has none cached succeeds only with the CA of the CA secret (its
  \<open>ca.crt\<close>, else its \<open>tls.crt\<close>) and with the credentials of the auth secret; the configuration is
  never insecure, and carries either a client certificate with its key or a bearer token, never both.
\<close>

theorem BuildClient_secure:
  assumes "BuildClient E conn ns key s = (Inr c, t)" and "map_of (clients s) key = None"
  shows "\<exists>ca auth. newEvents s t = [(GetCall Primary SecretKind (ns, sn_caSecretRef conn), RObj (KSecret ca)),
       (GetCall Primary SecretKind (ns, sn_authSecretRef conn), RObj (KSecret auth))] \<and>
    rc_host c = connectionHost conn \<and> \<not> rc_insecure c \<and> rc_caData c \<noteq> [] \<and>
    rc_caData c \<in> {mapGet (sec_data ca) ''ca.crt'', mapGet (sec_data ca) ''tls.crt''} \<and>
    (if mapGet (sec_data auth) ''tls.crt'' \<noteq> [] \<and> mapGet (sec_data auth) ''tls.key'' \<noteq> []
     then rc_certData c = mapGet (sec_data auth) ''tls.crt'' \<and> rc_keyData c = mapGet (sec_data auth) ''tls.key'' \<and>
       rc_bearerToken c = []
     else rc_bearerToken c = mapGet (sec_data auth) ''token'' \<and> rc_bearerToken c \<noteq> [] \<and> rc_certData c = [] \<and> rc_keyData c = [])"
proof -
  let ?cfg0 = "\<lambda>ca. \<lparr>cfg_Host = [], cfg_CACert = ca, cfg_Token = [], cfg_ClientCert = [], cfg_ClientKey = []\<rparr>"
  from assms(1) obtain ca auth cfg caCert
    where caCert: "connectionCA (sn_caSecretRef conn) ca = Inr caCert"
      and cfg: "connectionAuth (sn_authSecretRef conn) auth (?cfg0 caCert) = Inr cfg"
      and get: "GetOrCreate E key (cfg\<lparr>cfg_Host := connectionHost conn\<rparr>)
        (s\<lparr>tr := tr s @ [(GetCall Primary SecretKind (ns, sn_caSecretRef conn), RObj (KSecret ca)),
          (GetCall Primary SecretKind (ns, sn_authSecretRef conn), RObj (KSecret auth))]\<rparr>) = (Inr c, t)"
    unfolding BuildClient_def runs decoders by auto
  define u where ev: "u = s\<lparr>tr := tr s @ [(GetCall Primary SecretKind (ns, sn_caSecretRef conn), RObj (KSecret ca)),
       (GetCall Primary SecretKind (ns, sn_authSecretRef conn), RObj (KSecret auth))]\<rparr>"
  have c: "c = buildRESTConfig (cfg\<lparr>cfg_Host := connectionHost conn\<rparr>)" and tr: "tr t = tr u"
    using get assms(2) by (auto simp: ev GetOrCreate_locked getOrCreateLocked_cases cachedClient_def split: option.splits)
  have "newEvents s t = [(GetCall Primary SecretKind (ns, sn_caSecretRef conn), RObj (KSecret ca)),
       (GetCall Primary SecretKind (ns, sn_authSecretRef conn), RObj (KSecret auth))]"
    using tr by (simp add: ev newEvents_def)
  moreover have "rc_host c = connectionHost conn" by (simp add: c)
  moreover have ca: "cfg_CACert cfg = caCert" "caCert \<noteq> []" "caCert \<in> {mapGet (sec_data ca) ''ca.crt'', mapGet (sec_data ca) ''tls.crt''}"
    using connectionCA_run [OF caCert] connectionAuth_run [OF cfg] by simp_all
  moreover have "\<not> rc_insecure c" "rc_caData c = caCert" using ca by (simp_all add: c)
  moreover have "if mapGet (sec_data auth) ''tls.crt'' \<noteq> [] \<and> mapGet (sec_data auth) ''tls.key'' \<noteq> []
     then rc_certData c = mapGet (sec_data auth) ''tls.crt'' \<and> rc_keyData c = mapGet (sec_data auth) ''tls.key'' \<and>
       rc_bearerToken c = []
     else rc_bearerToken c = mapGet (sec_data auth) ''token'' \<and> rc_bearerToken c \<noteq> [] \<and> rc_certData c = [] \<and> rc_keyData c = []"
    using connectionAuth_run [OF cfg]
    by (cases "mapGet (sec_data auth) ''tls.crt'' \<noteq> [] \<and> mapGet (sec_data auth) ''tls.key'' \<noteq> []") (auto simp: c)
  ultimately show ?thesis
    by (intro exI [of _ ca] exI [of _ auth] conjI) (assumption | simp)+
qed

definition connSample :: secondaryConnectionSpec where
  "connSample = \<lparr>sn_serviceRef = \<lparr>cs_name = ''svc'', cs_namespace = ''ns'', cs_port = 0\<rparr>,
     sn_authSecretRef = ''auth'', sn_caSecretRef = ''ca''\<rparr>"

definition secretSample :: "string \<Rightarrow> (string \<times> string) list \<Rightarrow> secret" where
  "secretSample nm d = \<lparr>sec_meta = emptyMeta\<lparr>om_name := nm, om_namespace := ''ns''\<rparr>, sec_type = ''Opaque'',
     sec_data = d, sec_stringData = []\<rparr>"

definition connServer :: "history \<Rightarrow> call \<Rightarrow> resp" where
  "connServer = heldServer [KSecret (secretSample ''ca'' [(''ca.crt'', ''root'')]), KSecret (secretSample ''auth'' [(''token'', ''tok'')])]"

lemma secretSample_sel [simp]:
  "keyOf (KSecret (secretSample nm d)) = (''ns'', nm)" "sec_data (secretSample nm d) = d"
  by (simp_all add: keyOf_def secretSample_def emptyMeta_def)

lemma connServer_answers [simp]:
  "connServer h (GetCall cl SecretKind (''ns'', ''ca'')) = RObj (KSecret (secretSample ''ca'' [(''ca.crt'', ''root'')]))"
  "connServer h (GetCall cl SecretKind (''ns'', ''auth'')) = RObj (KSecret (secretSample ''auth'' [(''token'', ''tok'')]))"
  by (simp_all add: connServer_def)

theorem BuildClient_secure_witness:
  "\<exists>c t. BuildClient (refEnv connServer) connSample ''ns'' ''k'' initialBase = (Inr c, t) \<and>
     \<not> rc_insecure c \<and> rc_host c = ''https://svc.ns.svc:443''"
proof -
  let ?E = "refEnv connServer"
  have "\<exists>c t. BuildClient ?E connSample ''ns'' ''k'' initialBase = (Inr c, t)"
    by (simp add: BuildClient_def runs connSample_def connectionCA_def connectionAuth_def mapGet_def
        GetOrCreate_locked getOrCreateLocked_cases cachedClient_def initialBase_def Let_def)
  then obtain c t where run: "BuildClient ?E connSample ''ns'' ''k'' initialBase = (Inr c, t)" by blast
  have "map_of (clients initialBase) ''k'' = None" by (simp add: initialBase_def)
  from BuildClient_secure [OF run this] have "\<not> rc_insecure c" "rc_host c = connectionHost connSample" by auto
  moreover have "connectionHost connSample = ''https://svc.ns.svc:443''"
    by (simp add: connectionHost_def connSample_def itoa_def nat_dec.simps)
  ultimately show ?thesis using run by auto
qed

end
