(* ===== verification/Hoare.thy ===== *)
theory Hoare
  imports SecondaryClient
begin

text \<open>
  Weakest preconditions for fallible steps over a trace. A guard \<open>G h e\<close> says when the event \<open>e\<close>
  may be made after the history \<open>h\<close>; \<open>wp G m Q X s\<close> says that the run of \<open>m\<close> from \<open>s\<close> makes only
  guarded events, ends in \<open>Q\<close> when it succeeds and in \<open>X\<close> when it fails. Nothing is assumed of
  the API server: a guard that holds for every step of a reconcile is a property of every run.
\<close>

named_theorems wps "introduction rules for weakest preconditions"

section \<open>Guarded traces\<close>

fun guardedFrom :: "(history \<Rightarrow> event \<Rightarrow> bool) \<Rightarrow> history \<Rightarrow> event list \<Rightarrow> bool" where
  "guardedFrom G h [] = True"
| "guardedFrom G h (e # es) = (G h e \<and> guardedFrom G (h @ [e]) es)"

definition guards :: "(history \<Rightarrow> event \<Rightarrow> bool) \<Rightarrow> 'z base_scheme \<Rightarrow> 'z base_scheme \<Rightarrow> bool" where
  "guards G s t = (\<exists>es. tr t = tr s @ es \<and> guardedFrom G (tr s) es)"

lemma guardedFrom_append [simp]:
  "guardedFrom G h (es @ fs) \<longleftrightarrow> guardedFrom G h es \<and> guardedFrom G (h @ es) fs"
  by (induction es arbitrary: h) auto

lemma guards_refl: "guards G s s"
  by (simp add: guards_def)

lemma guards_trans: "guards G s t \<Longrightarrow> guards G t u \<Longrightarrow> guards G s u"
  by (auto simp: guards_def)

interpretation guarded: frame_rel "guards G"
  by unfold_locales (auto intro: guards_refl guards_trans)

lemma guards_same_trace: "tr t = tr s \<Longrightarrow> guards G s t"
  by (simp add: guards_def)

lemma guards_one: "tr t = tr s @ [e] \<Longrightarrow> G (tr s) e \<Longrightarrow> guards G s t"
  by (simp add: guards_def)

lemma guardedFrom_by:
  assumes "\<And>es e. list_all P es \<Longrightarrow> P e \<Longrightarrow> G (h @ es) e" and "list_all P es"
  shows "guardedFrom G h es"
  using assms(2)
proof (induction es rule: rev_induct)
  case (snoc e es)
  then show ?case using assms(1) [of es e] by simp
qed simp

lemma extends_guards_by:
  assumes "extends P s t" and "\<And>es e. list_all P es \<Longrightarrow> P e \<Longrightarrow> G (tr s @ es) e"
  shows "guards G s t"
  using assms(1) guardedFrom_by [where P = P and G = G and h = "tr s", OF assms(2)]
  by (auto simp: extends_def guards_def)

lemma extends_guards:
  assumes "extends P s t" and "\<And>h e. prefix (tr s) h \<Longrightarrow> P e \<Longrightarrow> G h e"
  shows "guards G s t"
  using assms(1) by (rule extends_guards_by) (simp add: assms(2))

lemma guards_event:
  "guards G s t \<Longrightarrow> newEvents s t = es @ e # fs \<Longrightarrow> G (tr s @ es) e"
  by (auto simp: guards_def newEvents_def)

section \<open>Weakest preconditions\<close>

definition wp :: "(history \<Rightarrow> event \<Rightarrow> bool) \<Rightarrow> ('z base_scheme, 'a) op \<Rightarrow>
    ('a \<Rightarrow> 'z base_scheme \<Rightarrow> bool) \<Rightarrow> (goerror \<Rightarrow> 'z base_scheme \<Rightarrow> bool) \<Rightarrow> 'z base_scheme \<Rightarrow> bool" where
  "wp G m Q X s = (guards G s (snd (m s)) \<and>
     (case m s of (Inr x, t) \<Rightarrow> Q x t | (Inl e, t) \<Rightarrow> X e t))"

lemma wpI:
  assumes "guards G s (snd (m s))" and "\<And>x t. m s = (Inr x, t) \<Longrightarrow> Q x t" and "\<And>e t. m s = (Inl e, t) \<Longrightarrow> X e t"
  shows "wp G m Q X s"
  using assms by (auto simp: wp_def split: prod.splits sum.splits)

lemma wp_guards: "wp G m Q X s \<Longrightarrow> guards G s (snd (m s))"
  by (simp add: wp_def)

lemma wp_run: "wp G m Q X s \<Longrightarrow> m s = (Inr x, t) \<Longrightarrow> Q x t"
  by (simp add: wp_def)

lemma wp_fail: "wp G m Q X s \<Longrightarrow> m s = (Inl e, t) \<Longrightarrow> X e t"
  by (simp add: wp_def)

text \<open>Every event of a run is guarded by the history before it.\<close>

lemma wp_event:
  assumes "wp G m Q X s" and "newEvents s (snd (m s)) = es @ e # fs"
  shows "G (tr s @ es) e"
  using guards_event [OF wp_guards [OF assms(1)] assms(2)] .

lemma wp_member:
  assumes "wp G m Q X s" and "e \<in> set (newEvents s (snd (m s)))"
  shows "\<exists>es fs. newEvents s (snd (m s)) = es @ e # fs \<and> G (tr s @ es) e"
  using split_list [OF assms(2)] wp_event [OF assms(1)] by blast

lemma wp_weaken:
  assumes "wp G m Q X s" and "\<And>x t. m s = (Inr x, t) \<Longrightarrow> Q x t \<Longrightarrow> Q' x t" and "\<And>e t. X e t \<Longrightarrow> X' e t"
  shows "wp G m Q' X' s"
  using assms by (auto simp: wp_def split: prod.splits sum.splits)

lemma wp_return [wps]: "Q x s \<Longrightarrow> wp G (returnE x) Q X s"
  by (simp add: wp_def returnE_def guards_refl)

lemma wp_throw [wps]: "X e s \<Longrightarrow> wp G (throwE e) Q X s"
  by (simp add: wp_def throwE_def guards_refl)

lemma wp_gets [wps]: "Q (f s) s \<Longrightarrow> wp G (getsE f) Q X s"
  by (simp add: wp_def getsE_def guards_refl)

lemma wp_modify [wps]: "tr (f s) = tr s \<Longrightarrow> Q () (f s) \<Longrightarrow> wp G (modifyE f) Q X s"
  by (simp add: wp_def modifyE_def guards_same_trace)

lemma wp_bind [wps]:
  assumes "wp G m (\<lambda>x t. wp G (f x) Q X t) X s"
  shows "wp G (bindE m f) Q X s"
proof (cases "m s")
  case (Pair r t)
  show ?thesis
  proof (cases r)
    case (Inl e)
    with Pair assms show ?thesis by (simp add: wp_def bindE_def)
  next
    case (Inr x)
    with Pair have "bindE m f s = f x t" by (simp add: bindE_def)
    with Pair Inr assms guards_trans [of G s t "snd (f x t)"] show ?thesis
      by (auto simp: wp_def split: prod.splits sum.splits)
  qed
qed

lemma wp_wrap [wps]: "wp G m Q (\<lambda>e. X (wrap p e)) s \<Longrightarrow> wp G (wrapE p m) Q X s"
  by (auto simp: wp_def wrapE_def split: prod.splits sum.splits)

lemma wp_try [wps]: "wp G m (\<lambda>x. Q (Inr x)) (\<lambda>e. Q (Inl e)) s \<Longrightarrow> wp G (tryE m) Q X s"
  by (auto simp: wp_def tryE_def split: prod.splits sum.splits)

lemma wp_if [wps]: "(b \<Longrightarrow> wp G m Q X s) \<Longrightarrow> (\<not> b \<Longrightarrow> wp G n Q X s) \<Longrightarrow> wp G (if b then m else n) Q X s"
  by simp

lemma wp_case_sum [wps]:
  assumes "\<And>e. r = Inl e \<Longrightarrow> wp G (f e) Q X s" and "\<And>x. r = Inr x \<Longrightarrow> wp G (g x) Q X s"
  shows "wp G (case r of Inl e \<Rightarrow> f e | Inr x \<Rightarrow> g x) Q X s"
  using assms by (cases r) simp_all

lemma wp_case_option [wps]:
  assumes "r = None \<Longrightarrow> wp G m Q X s" and "\<And>x. r = Some x \<Longrightarrow> wp G (g x) Q X s"
  shows "wp G (case r of None \<Rightarrow> m | Some x \<Rightarrow> g x) Q X s"
  using assms by (cases r) simp_all

lemma wp_case_prod [wps]:
  assumes "\<And>a b. r = (a, b) \<Longrightarrow> wp G (f a b) Q X s"
  shows "wp G (case r of (a, b) \<Rightarrow> f a b) Q X s"
  using assms by (cases r) simp

lemma wp_let [wps]: "(\<And>x. x = v \<Longrightarrow> wp G (f x) Q X s) \<Longrightarrow> wp G (Let v f) Q X s"
  by simp

lemma wp_lift [wps]:
  assumes "\<And>x. r = Inr x \<Longrightarrow> Q x s" and "\<And>e. r = Inl e \<Longrightarrow> X e s"
  shows "wp G (liftE r) Q X s"
  using assms by (auto simp: liftE_def split: sum.splits intro: wp_return wp_throw)

section \<open>Calls\<close>

abbreviation logged :: "call \<Rightarrow> resp \<Rightarrow> 'z base_scheme \<Rightarrow> 'z base_scheme" where
  "logged c r s \<equiv> s\<lparr>tr := tr s @ [(c, r)]\<rparr>"

lemma guards_logged: "G (tr s) (c, r) \<Longrightarrow> guards G s (logged c r s)"
  by (rule guards_one) auto

lemma wp_request [wps]:
  assumes "\<And>r. G (tr s) (c, r)" and "\<And>r. okResp r \<Longrightarrow> r = answer E (tr s) c \<Longrightarrow> Q r (logged c r s)"
    and "\<And>e. answer E (tr s) c = RErr e \<Longrightarrow> X e (logged c (RErr e) s)"
  shows "wp G (request E c) Q X s"
proof (rule wpI)
  have "guards G s (logged c (answer E (tr s) c) s)" using assms(1) by (rule guards_logged)
  then show "guards G s (snd (request E c s))" by (auto simp: request_def Let_def split: resp.splits)
  show "Q r t" if "request E c s = (Inr r, t)" for r t using that assms(2) [of r] by (auto simp: request_run)
  show "X e t" if "request E c s = (Inl e, t)" for e t
    using that assms(3) by (auto simp: request_def Let_def split: resp.splits)
qed

lemma wp_requestU [wps]:
  assumes "\<And>r. G (tr s) (c, r)" and "\<And>r. okResp r \<Longrightarrow> r = answer E (tr s) c \<Longrightarrow> Q () (logged c r s)"
    and "\<And>e. answer E (tr s) c = RErr e \<Longrightarrow> X e (logged c (RErr e) s)"
  shows "wp G (requestU E c) Q X s"
  unfolding requestU_def by (intro wp_bind wp_request wp_return assms)

lemma wp_getObj [wps]:
  assumes "\<And>r. G (tr s) (GetCall cl k key, r)"
    and "\<And>y x. answer E (tr s) (GetCall cl k key) = RObj y \<Longrightarrow> p y = Some x \<Longrightarrow> Q x (logged (GetCall cl k key) (RObj y) s)"
    and "\<And>e r. answer E (tr s) (GetCall cl k key) = r \<Longrightarrow> r = RErr e \<or> e = decodeError \<Longrightarrow>
           X e (logged (GetCall cl k key) r s)"
  shows "wp G (getObj E p cl k key) Q X s"
  unfolding getObj_def
proof (intro wp_bind wp_request assms(1))
  show "wp G (asOne p r) Q X (logged (GetCall cl k key) r s)" if "r = answer E (tr s) (GetCall cl k key)" for r
    unfolding asOne_def using that
    by (auto split: resp.splits option.splits intro!: wp_return wp_throw assms(2) assms(3))
  show "X e (logged (GetCall cl k key) (RErr e) s)" if "answer E (tr s) (GetCall cl k key) = RErr e" for e
    using assms(3) [OF that] by simp
qed

lemma wp_listObjs [wps]:
  assumes "\<And>r. G (tr s) (ListCall cl k ns sel, r)"
    and "\<And>ys xs. answer E (tr s) (ListCall cl k ns sel) = RObjs ys \<Longrightarrow> those (map p ys) = Some xs \<Longrightarrow>
           Q xs (logged (ListCall cl k ns sel) (RObjs ys) s)"
    and "\<And>e r. answer E (tr s) (ListCall cl k ns sel) = r \<Longrightarrow> r = RErr e \<or> e = decodeError \<Longrightarrow>
           X e (logged (ListCall cl k ns sel) r s)"
  shows "wp G (listObjs E p cl k ns sel) Q X s"
  unfolding listObjs_def
proof (intro wp_bind wp_request assms(1))
  show "wp G (asMany p r) Q X (logged (ListCall cl k ns sel) r s)" if "r = answer E (tr s) (ListCall cl k ns sel)" for r
    unfolding asMany_def using that
    by (auto split: resp.splits option.splits intro!: wp_return wp_throw assms(2) assms(3))
  show "X e (logged (ListCall cl k ns sel) (RErr e) s)" if "answer E (tr s) (ListCall cl k ns sel) = RErr e" for e
    using assms(3) [OF that] by simp
qed

text \<open>
  A step known only by the events it makes: the events are guarded whatever came before, and the
  postconditions follow from how the trace grew.
\<close>

lemma wp_extends:
  assumes m: "keeps (extends P) m" and G: "\<And>h e. prefix (tr s) h \<Longrightarrow> P e \<Longrightarrow> G h e"
    and Q: "\<And>x t. m s = (Inr x, t) \<Longrightarrow> extends P s t \<Longrightarrow> Q x t"
    and X: "\<And>e t. m s = (Inl e, t) \<Longrightarrow> extends P s t \<Longrightarrow> X e t"
  shows "wp G m Q X s"
proof (rule wpI)
  have ext: "extends P s (snd (m s))" by (rule keepsD [OF m])
  then show "guards G s (snd (m s))" using G by (rule extends_guards)
  show "Q x t" if "m s = (Inr x, t)" for x t using Q [OF that] ext that by simp
  show "X e t" if "m s = (Inl e, t)" for e t using X [OF that] ext that by simp
qed

section \<open>Loops\<close>

lemma wp_for:
  assumes "I xs s" and "\<And>y ys t. I (y # ys) t \<Longrightarrow> y \<in> set xs \<Longrightarrow> wp G (f y) (\<lambda>_. I ys) X t" and "\<And>t. I [] t \<Longrightarrow> Q () t"
  shows "wp G (forE xs f) Q X s"
  using assms
proof (induction xs arbitrary: s)
  case Nil
  then show ?case by (auto intro: wp_return)
next
  case (Cons x xs)
  have "wp G (forE xs f) Q X t" if "I xs t" for t
    using Cons.IH [OF that] Cons.prems(2,3) by simp
  moreover have "wp G (f x) (\<lambda>_. I xs) X s" using Cons.prems(2) [OF Cons.prems(1)] by simp
  ultimately have "wp G (f x) (\<lambda>_ t. wp G (forE xs f) Q X t) X s" by (blast intro: wp_weaken)
  then show ?case unfolding forE.simps by (rule wp_bind)
qed

lemma wp_for_inv:
  assumes "I s" and "\<And>y t. I t \<Longrightarrow> y \<in> set xs \<Longrightarrow> wp G (f y) (\<lambda>_. I) X t" and "\<And>t. I t \<Longrightarrow> Q () t"
  shows "wp G (forE xs f) Q X s"
  using assms by (intro wp_for [where I = "\<lambda>_. I"]) auto

lemma wp_collect_inv:
  assumes "I s" and "\<And>y t. I t \<Longrightarrow> y \<in> set xs \<Longrightarrow> wp G (f y) (\<lambda>_. I) X t" and "\<And>zs t. I t \<Longrightarrow> Q zs t"
  shows "wp G (collectE xs f) Q X s"
  using assms
proof (induction xs arbitrary: s Q)
  case Nil
  then show ?case by (auto intro: wp_return)
next
  case (Cons x xs)
  have "wp G (collectE xs f) (\<lambda>zs. wp G (returnE (ys @ zs)) Q X) X t" if "I t" for ys t
    using that Cons.prems(2,3) by (intro Cons.IH) (auto intro: wp_return)
  then have rest: "wp G (bindE (collectE xs f) (\<lambda>zs. returnE (ys @ zs))) Q X t" if "I t" for ys t
    using that by (intro wp_bind)
  have "wp G (f x) (\<lambda>_. I) X s" using Cons.prems(2) [OF Cons.prems(1)] by simp
  then have "wp G (f x) (\<lambda>ys. wp G (bindE (collectE xs f) (\<lambda>zs. returnE (ys @ zs))) Q X) X s"
    by (rule wp_weaken) (auto intro: rest)
  then show ?case unfolding collectE.simps by (rule wp_bind)
qed

lemma wp_seq_inv:
  assumes "I s" and "\<And>m t. I t \<Longrightarrow> m \<in> set ms \<Longrightarrow> wp G m (\<lambda>_. I) X t" and "\<And>t. I t \<Longrightarrow> Q () t"
  shows "wp G (seqE ms) Q X s"
  using assms
proof (induction ms arbitrary: s)
  case Nil
  then show ?case by (auto intro: wp_return)
next
  case (Cons m ms)
  have "wp G (seqE ms) Q X t" if "I t" for t using Cons.IH [OF that] Cons.prems(2,3) by simp
  moreover have "wp G m (\<lambda>_. I) X s" using Cons.prems(2) [OF Cons.prems(1)] by simp
  ultimately have "wp G m (\<lambda>_ t. wp G (seqE ms) Q X t) X s" by (blast intro: wp_weaken)
  then show ?case unfolding seqE.simps by (rule wp_bind)
qed

lemma wp_nil_seq [wps]: "Q () s \<Longrightarrow> wp G (seqE []) Q X s"
  by (simp add: wp_return)

lemma wp_cons_seq [wps]: "wp G m (\<lambda>_ t. wp G (seqE ms) Q X t) X s \<Longrightarrow> wp G (seqE (m # ms)) Q X s"
  by (simp add: wp_bind)

section \<open>Cached clients\<close>

lemma wp_GetOrCreate [wps]:
  assumes "\<And>c cs. Q c (s\<lparr>clients := cs\<rparr>)" and "\<And>e. X e s"
  shows "wp G (GetOrCreate E k cfg) Q X s"
proof (rule wpI)
  show "guards G s (snd (GetOrCreate E k cfg s))" by (rule guards_same_trace) simp
  have upd: "s = s\<lparr>clients := clients s\<rparr>" by simp
  show "Q c t" if "GetOrCreate E k cfg s = (Inr c, t)" for c t
    using that assms(1) [of c "clients s"] assms(1)
    by (auto simp: GetOrCreate_locked getOrCreateLocked_cases split: option.splits)
  show "X e t" if "GetOrCreate E k cfg s = (Inl e, t)" for e t
    using that assms(2) by (auto simp: GetOrCreate_locked getOrCreateLocked_cases split: option.splits)
qed

lemma wp_Invalidate [wps]: "Q () (s\<lparr>clients := mapDelete k (clients s)\<rparr>) \<Longrightarrow> wp G (Invalidate k) Q X s"
  unfolding Invalidate_def by (rule wp_modify) auto

lemma wp_BuildClient:
  assumes G: "\<And>h e. isRead e \<Longrightarrow> G h e"
    and Q: "\<And>c t. extends isRead s t \<Longrightarrow> Q c t" and X: "\<And>e t. extends isRead s t \<Longrightarrow> X e t"
  shows "wp G (BuildClient E conn ns key) Q X s"
  by (rule wp_extends [OF keeps_BuildClient [where P = isRead]]) (auto intro: G Q X)

end
