(* ===== verification/Mirror.thy ===== *)
theory Mirror
  imports Hoare
begin

text \<open>
  What the two sync controllers (\<open>namespacesync\<close>, \<open>webhooksync\<close>) share: the key of their cached
  client, loops that record the error of an item and go on, and the mapping of secrets to the
  objects that use them. The locale \<open>effect_loop\<close> is the contract of such a loop: no item stops
  it, and when no error was recorded the calls it made changed the mirrored store by exactly the
  intended change of every item.
\<close>

definition syncCacheKey :: "objectMeta \<Rightarrow> string" where
  "syncCacheKey m = om_namespace m @ ''/'' @ om_name m"

text \<open>An error of one item is recorded and the loop goes on.\<close>

definition recordE :: "string \<Rightarrow> ('s, unit) op \<Rightarrow> ('s, goerror list) op" where
  [op_defs]: "recordE p m = bindE (tryE m) (\<lambda>r. case r of Inl e \<Rightarrow> returnE [wrap p e] | Inr _ \<Rightarrow> returnE [])"

text \<open>A list that fails gives no requests.\<close>

definition listOrNone :: "('s, 'a list) op \<Rightarrow> ('s, 'a list) op" where
  [op_defs]: "listOrNone m = bindE (tryE m) (\<lambda>r. case r of Inl e \<Rightarrow> returnE [] | Inr xs \<Rightarrow> returnE xs)"

abbreviation requestOf :: "objectMeta \<Rightarrow> nsname" where
  "requestOf m \<equiv> (om_namespace m, om_name m)"

definition usesSecret :: "string \<Rightarrow> secondaryConnectionSpec \<Rightarrow> bool" where
  "usesSecret nm conn = (sn_authSecretRef conn = nm \<or> sn_caSecretRef conn = nm)"

section \<open>Loops over items\<close>

locale effect_loop =
  fixes eff :: "event \<Rightarrow> 'x \<Rightarrow> 'x"
    and step :: "'a \<Rightarrow> ('z base_scheme, goerror list) op"
    and target :: "'a \<Rightarrow> 'x \<Rightarrow> 'x"
  assumes step_total: "\<exists>errs t. step a s = (Inr errs, t)"
    and step_grows: "grows (step a)"
    and step_effect: "step a s = (Inr [], t) \<Longrightarrow> fold eff (newEvents s t) X = target a X"
begin

lemma loop_grows: "grows (collectE as step)"
  by (intro ext.keeps_collect step_grows)

lemma loop_total: "\<exists>errs t. collectE as step s = (Inr errs, t)"
proof (induction as arbitrary: s)
  case Nil
  then show ?case by (simp add: returnE_def)
next
  case (Cons a as)
  obtain e t where "step a s = (Inr e, t)" using step_total by blast
  moreover obtain es u where "collectE as step t = (Inr es, u)" using Cons.IH by blast
  ultimately show ?case by (simp add: bindE_def returnE_def)
qed

lemma loop_effect:
  "collectE as step s = (Inr [], t) \<Longrightarrow> fold eff (newEvents s t) X = fold target as X"
proof (induction as arbitrary: s X)
  case Nil
  then show ?case by (simp add: runs)
next
  case (Cons a as)
  then obtain u where a: "step a s = (Inr [], u)" and rest: "collectE as step u = (Inr [], t)"
    by (auto simp: runs)
  have "newEvents s t = newEvents s u @ newEvents u t"
    using grows_run [OF step_grows a] grows_run [OF loop_grows rest] by (rule newEvents_trans)
  with step_effect [OF a] Cons.IH [OF rest] show ?case by simp
qed

end

lemma recordE_total: "\<exists>errs t. recordE p m s = (Inr errs, t)"
  by (cases "m s"; cases "fst (m s)") (auto simp: recordE_def op_defs)

lemma recordE_Nil: "recordE p m s = (Inr [], t) \<longleftrightarrow> (\<exists>u. m s = (Inr u, t))"
  by (auto simp: recordE_def bindE_def tryE_def returnE_def split: prod.splits sum.splits)

lemma keeps_recordE [keeps_intros]: "keeps (extends P) m \<Longrightarrow> keeps (extends P) (recordE p m)"
  unfolding recordE_def by (auto split: sum.splits intro!: keeps_intros)

lemma keeps_listOrNone [keeps_intros]: "keeps (extends P) m \<Longrightarrow> keeps (extends P) (listOrNone m)"
  unfolding listOrNone_def by (auto split: sum.splits intro!: keeps_intros)

lemma requestU_cases:
  "requestU E c s =
     ((case answer E (tr s) c of RErr e \<Rightarrow> Inl e | _ \<Rightarrow> Inr ()), s\<lparr>tr := tr s @ [(c, answer E (tr s) c)]\<rparr>)"
  by (simp add: requestU_def op_defs Let_def split: resp.splits)

end
