(* ===== verification/Scheduling.thy ===== *)
theory Scheduling
  imports Cluster
begin

text \<open>
  \<open>operator/internal/resources\<close>, the parts every workload shares: the label keys and values and the
  affinity rules of \<open>scheduling.go\<close>, the security contexts of \<open>security.go\<close> and the disruption
  budget of \<open>pdb.go\<close>.
\<close>

named_theorems res_defs "unfolding equations of the resource builders"

section \<open>Labels (scheduling.go)\<close>

definition LabelName :: string where
  [go_defs]: "LabelName = ''app.kubernetes.io/name''"
definition LabelInstance :: string where
  [go_defs]: "LabelInstance = ''app.kubernetes.io/instance''"
definition LabelManagedBy :: string where
  [go_defs]: "LabelManagedBy = ''app.kubernetes.io/managed-by''"
definition LabelComponent :: string where
  [go_defs]: "LabelComponent = ''app.kubernetes.io/component''"
definition ManagedByValue :: string where
  [go_defs]: "ManagedByValue = ''kube-shard-operator''"
definition ComponentAPIServer :: string where
  [go_defs]: "ComponentAPIServer = ''apiserver''"
definition ComponentStorage :: string where
  [go_defs]: "ComponentStorage = ''storage''"
definition ComponentDatabase :: string where
  [go_defs]: "ComponentDatabase = ''database''"
definition ComponentMonitoring :: string where
  [go_defs]: "ComponentMonitoring = ''monitoring''"
definition NameKine :: string where
  [go_defs]: "NameKine = ''kine''"
definition NameAPIServer :: string where
  [go_defs]: "NameAPIServer = ''kube-apiserver''"
definition NameOTelCollector :: string where
  [go_defs]: "NameOTelCollector = ''otel-collector''"
definition CACertKey :: string where
  [go_defs]: "CACertKey = ''ca.crt''"
definition LabelOTelConfig :: string where
  [go_defs]: "LabelOTelConfig = ''kube-shard.konflux-ci.dev/otel-config''"

text \<open>The four-entry label map that the workload builders write out.\<close>

definition stdLabels :: "string \<Rightarrow> string \<Rightarrow> string \<Rightarrow> string gomap" where
  [res_defs]: "stdLabels nm inst cpt =
     [(LabelName, nm), (LabelInstance, inst), (LabelManagedBy, ManagedByValue), (LabelComponent, cpt)]"

definition namedMeta :: "string \<Rightarrow> string \<Rightarrow> string gomap \<Rightarrow> objectMeta" where
  [res_defs]: "namedMeta nm ns ls = emptyMeta\<lparr>om_name := nm, om_namespace := ns, om_labels := ls\<rparr>"

lemma namedMeta_sel [simp]:
  "om_name (namedMeta nm ns ls) = nm" "om_namespace (namedMeta nm ns ls) = ns"
  "om_labels (namedMeta nm ns ls) = ls" "om_finalizers (namedMeta nm ns ls) = []"
  "om_ownerReferences (namedMeta nm ns ls) = []" "om_annotations (namedMeta nm ns ls) = []"
  by (simp_all add: namedMeta_def emptyMeta_def)

section \<open>Affinity (scheduling.go)\<close>

definition isColocateEnabled :: "apiShard \<Rightarrow> bool" where
  "isColocateEnabled sh =
     (case colocateComponents (spec sh) of None \<Rightarrow> True | Some b \<Rightarrow> b)"

text \<open>\<open>if replicas == 0 { replicas = 1 }\<close>\<close>

definition defaultReplicas :: "int \<Rightarrow> int" where
  "defaultReplicas n = (if n = 0 then 1 else n)"

definition hostnameTerm :: "apiShard \<Rightarrow> int \<Rightarrow> string \<Rightarrow> weightedTerm" where
  "hostnameTerm sh w cpt =
     \<lparr>wt_weight = w, wt_matchLabels = [(LabelInstance, shardName sh), (LabelComponent, cpt)],
      wt_topologyKey = ''kubernetes.io/hostname''\<rparr>"

definition BuildSecondaryAffinity :: "apiShard \<Rightarrow> affinity option" where
  "BuildSecondaryAffinity sh =
     (let replicas = defaultReplicas (se_replicas (secondarySp (spec sh)));
          colocate = isColocateEnabled sh
      in if replicas \<le> 1 \<and> \<not> colocate then None
         else Some
           \<lparr>af_podAffinity =
              (if colocate then Some [hostnameTerm sh 80 ComponentStorage] else None),
            af_podAntiAffinity =
              (if replicas > 1 then Some [hostnameTerm sh 100 ComponentAPIServer] else None)\<rparr>)"

definition BuildKineAffinity :: "apiShard \<Rightarrow> affinity option" where
  "BuildKineAffinity sh =
     (let replicas = defaultReplicas (ki_replicas (kineSp (spec sh)))
      in if replicas \<le> 1 then None
         else Some \<lparr>af_podAffinity = None,
                    af_podAntiAffinity = Some [hostnameTerm sh 100 ComponentStorage]\<rparr>)"

section \<open>Security contexts (security.go)\<close>

definition RestrictedPodSecurityContext :: podSecurityContext where
  "RestrictedPodSecurityContext =
     \<lparr>psc_runAsNonRoot = Some True, psc_seccompProfile = Some ''RuntimeDefault'',
      psc_runAsUser = None, psc_fsGroup = None\<rparr>"

definition RestrictedContainerSecurityContext :: securityContext where
  "RestrictedContainerSecurityContext =
     \<lparr>sc_allowPrivilegeEscalation = Some False, sc_dropCapabilities = [''ALL''],
      sc_addCapabilities = []\<rparr>"

definition APIServerPodSecurityContext :: podSecurityContext where
  "APIServerPodSecurityContext =
     \<lparr>psc_runAsNonRoot = None, psc_seccompProfile = Some ''RuntimeDefault'',
      psc_runAsUser = None, psc_fsGroup = None\<rparr>"

definition APIServerContainerSecurityContext :: securityContext where
  "APIServerContainerSecurityContext =
     \<lparr>sc_allowPrivilegeEscalation = Some True, sc_dropCapabilities = [''ALL''],
      sc_addCapabilities = [''NET_BIND_SERVICE'']\<rparr>"

text \<open>
  What the Restricted pod security standard asks of a container and its pod: no root user, the
  runtime's seccomp profile, no privilege escalation, every capability dropped and none but
  \<open>NET_BIND_SERVICE\<close> added back.
\<close>

definition restrictedPod :: "podSpec \<Rightarrow> bool" where
  "restrictedPod p =
     (case ps_securityContext p of None \<Rightarrow> False
      | Some c \<Rightarrow> psc_runAsNonRoot c = Some True \<and> psc_seccompProfile c = Some ''RuntimeDefault'') "

definition restrictedContainer :: "container \<Rightarrow> bool" where
  "restrictedContainer k =
     (case ct_securityContext k of None \<Rightarrow> False
      | Some c \<Rightarrow> sc_allowPrivilegeEscalation c = Some False \<and> ''ALL'' \<in> set (sc_dropCapabilities c) \<and>
          set (sc_addCapabilities c) \<subseteq> {''NET_BIND_SERVICE''})"

section \<open>Disruption budgets (pdb.go)\<close>

definition BuildPDB :: "string \<Rightarrow> string \<Rightarrow> int \<Rightarrow> string gomap \<Rightarrow> pdb option" where
  "BuildPDB nm ns replicas sel =
     (if replicas < 2 then None
      else Some \<lparr>pdb_meta = namedMeta nm ns sel, pdb_maxUnavailable = 1, pdb_selector = sel\<rparr>)"

lemma BuildPDB_Some:
  "BuildPDB nm ns n sel = Some p \<Longrightarrow>
     2 \<le> n \<and> om_name (pdb_meta p) = nm \<and> om_namespace (pdb_meta p) = ns \<and>
     pdb_selector p = sel \<and> pdb_maxUnavailable p < n"
  by (auto simp: BuildPDB_def split: if_splits)

section \<open>Well-formed workloads\<close>

text \<open>
  A pod is wired when its volume names are distinct and every mount of its containers names a
  volume of the pod or a claim template of its StatefulSet, and no volume shares a
  name with a claim template.
\<close>

definition podWired :: "string list \<Rightarrow> podSpec \<Rightarrow> bool" where
  "podWired claims p =
     (distinct (map vol_name (ps_volumes p)) \<and> distinct claims \<and>
      list_all (\<lambda>v. vol_name v \<notin> set claims) (ps_volumes p) \<and>
      list_all (\<lambda>k. list_all (\<lambda>m. vm_name m \<in> set (map vol_name (ps_volumes p)) \<union> set claims)
                  (ct_volumeMounts k)) (ps_containers p))"

text \<open>A label map selects a pod or a service when each of its entries is among the labels.\<close>

definition selects :: "string gomap \<Rightarrow> string gomap \<Rightarrow> bool" where
  "selects sel ls = list_all (\<lambda>(k, v). map_of ls k = Some v) sel"

end
