(* ===== verification/Kine.thy ===== *)
theory Kine
  imports Scheduling
begin

text \<open>
  \<open>operator/internal/resources/kine.go\<close>: the Kine Deployment and Service. Kine translates the etcd
  gRPC calls of the secondary API server into SQL. \<open>BuildKineDeployment\<close> is split at the variables
  the source builds first: its arguments, environment, volumes and mounts.
\<close>

definition DefaultKineImage :: string where
  [go_defs]: "DefaultKineImage = ''ghcr.io/k3s-io/kine:v0.16.3''"
definition KinePort :: int where
  [go_defs]: "KinePort = 2379"
definition KineMetricsPort :: int where
  [go_defs]: "KineMetricsPort = 8080"
definition dataVolumeName :: string where
  [go_defs]: "dataVolumeName = ''data''"
definition tmpVolumeName :: string where
  [go_defs]: "tmpVolumeName = ''tmp''"
definition kineServingCertVolumeName :: string where
  [go_defs]: "kineServingCertVolumeName = ''kine-serving-cert''"
definition postgresqlCAVolumeName :: string where
  [go_defs]: "postgresqlCAVolumeName = ''postgresql-ca''"
definition postgresqlCAMountPath :: string where
  [go_defs]: "postgresqlCAMountPath = ''/etc/kine/pg-ca''"

definition KineDeploymentName :: "apiShard \<Rightarrow> string" where
  "KineDeploymentName sh = shardName sh @ ''-kine''"

definition KineServiceName :: "apiShard \<Rightarrow> string" where
  "KineServiceName sh = shardName sh @ ''-kine''"

definition PostgreSQLSecretName :: "apiShard \<Rightarrow> string" where
  "PostgreSQLSecretName sh = shardName sh @ ''-postgresql-credentials''"

definition KineEndpoint :: "apiShard \<Rightarrow> string" where
  "KineEndpoint sh =
     (if storageType sh = StorageTypeSQLite then ''sqlite:///data/kine.db''
      else if storageType sh = StorageTypeInClusterPostgreSQL \<or> storageType sh = StorageTypePostgreSQL
      then ''$(KINE_ENDPOINT)''
      else ''sqlite:///data/kine.db'')"

definition kineLabels :: "apiShard \<Rightarrow> string gomap" where
  [res_defs]: "kineLabels sh = stdLabels NameKine (shardName sh) ComponentStorage"

text \<open>An optional flag and its value.\<close>

definition optFlag :: "string \<Rightarrow> string option \<Rightarrow> string list" where
  "optFlag f v = (case v of None \<Rightarrow> [] | Some x \<Rightarrow> [f, x])"

definition kineBaseArgs :: "apiShard \<Rightarrow> string list" where
  "kineBaseArgs sh =
     [''--endpoint'', KineEndpoint sh,
      ''--listen-address'', ''tcp://0.0.0.0:'' @ itoa KinePort,
      ''--metrics-bind-address'', '':'' @ itoa KineMetricsPort,
      ''--server-cert-file'', ''/etc/kine/tls/tls.crt'',
      ''--server-key-file'', ''/etc/kine/tls/tls.key'',
      ''--trusted-ca-file'', ''/etc/kine/tls/ca.crt'']"

definition kineArgs :: "apiShard \<Rightarrow> string list" where
  "kineArgs sh =
     (let k = kineSp (spec sh) in
      kineBaseArgs sh @
      (case ki_connectionPool k of None \<Rightarrow> []
       | Some cp \<Rightarrow>
           optFlag ''--datastore-max-idle-connections'' (map_option itoa (po_maxIdleConnections cp)) @
           optFlag ''--datastore-max-open-connections'' (map_option itoa (po_maxOpenConnections cp)) @
           optFlag ''--datastore-connection-max-lifetime'' (po_maxLifetime cp)) @
      (case ki_compaction k of None \<Rightarrow> []
       | Some c \<Rightarrow>
           optFlag ''--compact-interval'' (co_interval c) @
           optFlag ''--compact-min-retain'' (map_option itoa (co_minRetain c)) @
           optFlag ''--compact-batch-size'' (map_option itoa (co_batchSize c)) @
           optFlag ''--compact-timeout'' (co_timeout c)) @
      optFlag ''--poll-batch-size'' (map_option itoa (ki_pollBatchSize k)) @
      optFlag ''--watch-progress-notify-interval'' (ki_watchProgressNotifyInterval k))"

definition kineEnv :: "apiShard \<Rightarrow> envVar list" where
  "kineEnv sh =
     (if storageType sh = StorageTypePostgreSQL
      then (case st_connectionSecretRef (storage (spec sh)) of None \<Rightarrow> []
            | Some ref \<Rightarrow> [\<lparr>ev_name = ''KINE_ENDPOINT'', ev_value = [],
                ev_secretKeyRef = Some \<lparr>sks_name = skr_name ref, sks_key = skr_key ref\<rparr>\<rparr>])
      else [])"

definition kineEnvFrom :: "apiShard \<Rightarrow> string list" where
  "kineEnvFrom sh =
     (if storageType sh = StorageTypeInClusterPostgreSQL then [PostgreSQLSecretName sh] else [])"

definition kineVolumes :: "apiShard \<Rightarrow> volume list" where
  "kineVolumes sh =
     [\<lparr>vol_name = tmpVolumeName, vol_source = EmptyDir\<rparr>,
      \<lparr>vol_name = kineServingCertVolumeName,
       vol_source = SecretVolume (shardName sh @ ''-kine-serving-cert'') []\<rparr>] @
     (if storageType sh = StorageTypeSQLite
      then [\<lparr>vol_name = dataVolumeName, vol_source = EmptyDir\<rparr>] else []) @
     (if storageType sh = StorageTypeInClusterPostgreSQL
      then [\<lparr>vol_name = postgresqlCAVolumeName,
             vol_source = SecretVolume (shardName sh @ ''-postgresql-ca-keypair'')
               [\<lparr>kp_key = CACertKey, kp_path = CACertKey, kp_mode = None\<rparr>]\<rparr>] else [])"

definition kineVolumeMounts :: "apiShard \<Rightarrow> volumeMount list" where
  "kineVolumeMounts sh =
     [\<lparr>vm_name = tmpVolumeName, vm_mountPath = ''/tmp'', vm_readOnly = False\<rparr>,
      \<lparr>vm_name = kineServingCertVolumeName, vm_mountPath = ''/etc/kine/tls'', vm_readOnly = True\<rparr>] @
     (if storageType sh = StorageTypeSQLite
      then [\<lparr>vm_name = dataVolumeName, vm_mountPath = ''/data'', vm_readOnly = False\<rparr>] else []) @
     (if storageType sh = StorageTypeInClusterPostgreSQL
      then [\<lparr>vm_name = postgresqlCAVolumeName, vm_mountPath = postgresqlCAMountPath,
             vm_readOnly = True\<rparr>] else [])"

definition rollingZeroDowntime :: deployStrategy where
  "rollingZeroDowntime = \<lparr>ds_type = ''RollingUpdate'', ds_maxUnavailable = 0, ds_maxSurge = 1\<rparr>"

definition kineContainer :: "apiShard \<Rightarrow> container" where
  "kineContainer sh =
     \<lparr>ct_name = NameKine,
      ct_image = (if ki_image (kineSp (spec sh)) = [] then DefaultKineImage else ki_image (kineSp (spec sh))),
      ct_command = [], ct_args = kineArgs sh, ct_env = kineEnv sh, ct_envFrom = kineEnvFrom sh,
      ct_resources = ki_resources (kineSp (spec sh)),
      ct_securityContext = Some RestrictedContainerSecurityContext,
      ct_ports =
        [\<lparr>cp_name = ''grpc'', cp_containerPort = KinePort, cp_protocol = ''TCP''\<rparr>,
         \<lparr>cp_name = ''metrics'', cp_containerPort = KineMetricsPort, cp_protocol = ''TCP''\<rparr>],
      ct_volumeMounts = kineVolumeMounts sh,
      ct_readinessProbe = Some \<lparr>pr_handler = TCPSocket KinePort, pr_initialDelaySeconds = 5, pr_periodSeconds = 10\<rparr>,
      ct_livenessProbe = Some \<lparr>pr_handler = TCPSocket KinePort, pr_initialDelaySeconds = 15, pr_periodSeconds = 20\<rparr>\<rparr>"

definition BuildKineDeployment :: "apiShard \<Rightarrow> deployment" where
  "BuildKineDeployment sh =
     \<lparr>d_meta = namedMeta (KineDeploymentName sh) (shardNS sh) (kineLabels sh),
      d_replicas = Some (defaultReplicas (ki_replicas (kineSp (spec sh)))),
      d_strategy = Some rollingZeroDowntime,
      d_selector = kineLabels sh,
      d_templateLabels = kineLabels sh,
      d_podSpec = emptyPodSpec\<lparr>
        ps_securityContext := Some RestrictedPodSecurityContext,
        ps_nodeSelector := ki_nodeSelector (kineSp (spec sh)),
        ps_tolerations := ki_tolerations (kineSp (spec sh)),
        ps_topologySpreadConstraints := ki_topologySpreadConstraints (kineSp (spec sh)),
        ps_affinity := BuildKineAffinity sh,
        ps_containers := [kineContainer sh],
        ps_volumes := kineVolumes sh\<rparr>,
      d_status = emptyStatus\<rparr>"

definition BuildKineService :: "apiShard \<Rightarrow> service" where
  "BuildKineService sh =
     \<lparr>sv_meta = namedMeta (KineServiceName sh) (shardNS sh) (kineLabels sh),
      sv_selector = kineLabels sh,
      sv_ports =
        [\<lparr>sp_name = ''grpc'', sp_port = KinePort, sp_targetPort = KinePort, sp_protocol = ''TCP''\<rparr>,
         \<lparr>sp_name = ''metrics'', sp_port = KineMetricsPort, sp_targetPort = KineMetricsPort,
          sp_protocol = ''TCP''\<rparr>],
      sv_trafficDistribution = (if isColocateEnabled sh then Some ''PreferSameNode'' else None)\<rparr>"

section \<open>Correctness\<close>

lemma kine_pod_wired: "podWired [] (d_podSpec (BuildKineDeployment sh))"
  by (simp add: podWired_def BuildKineDeployment_def emptyPodSpec_def kineContainer_def
      kineVolumes_def kineVolumeMounts_def go_defs)

lemma kine_replicas_positive:
  "0 \<le> ki_replicas (kineSp (spec sh)) \<Longrightarrow> \<exists>n. d_replicas (BuildKineDeployment sh) = Some n \<and> 0 < n"
  by (simp add: BuildKineDeployment_def defaultReplicas_def)

lemma kine_service_selects_pods:
  "selects (sv_selector (BuildKineService sh)) (d_templateLabels (BuildKineDeployment sh))"
  by (simp add: selects_def BuildKineService_def BuildKineDeployment_def kineLabels_def stdLabels_def go_defs)

lemma kine_restricted:
  "restrictedPod (d_podSpec (BuildKineDeployment sh)) \<and>
   list_all restrictedContainer (ps_containers (d_podSpec (BuildKineDeployment sh)))"
  by (simp add: BuildKineDeployment_def kineContainer_def restrictedPod_def restrictedContainer_def
      RestrictedPodSecurityContext_def RestrictedContainerSecurityContext_def emptyPodSpec_def)

end
