(* ===== verification/Postgres.thy ===== *)
theory Postgres
  imports SecondaryServer
begin

text \<open>
  \<open>operator/internal/resources/postgresql.go\<close> and \<open>postgresql_volumes.go\<close>: the in-cluster PostgreSQL
  (credentials Secret, init ConfigMap, StatefulSet, Service) and the treatment of the immutable
  volume claim templates of a live StatefulSet.
\<close>

section \<open>Names and credentials (postgresql.go)\<close>

definition DefaultPostgreSQLImage :: string where
  [go_defs]: "DefaultPostgreSQLImage = ''registry.access.redhat.com/hi/postgresql:18.4''"
definition PostgreSQLPort :: int where
  [go_defs]: "PostgreSQLPort = 5432"
definition postgresqlTLSVolumeName :: string where
  [go_defs]: "postgresqlTLSVolumeName = ''postgresql-tls''"
definition postgresqlTLSMountPath :: string where
  [go_defs]: "postgresqlTLSMountPath = ''/etc/postgresql/tls''"
definition postgresqlTLSCertMode :: int where
  [go_defs]: "postgresqlTLSCertMode = 420"
definition postgresqlTLSKeyMode :: int where
  [go_defs]: "postgresqlTLSKeyMode = 416"

definition PostgreSQLStatefulSetName :: "apiShard \<Rightarrow> string" where
  "PostgreSQLStatefulSetName sh = shardName sh @ ''-postgresql''"

definition PostgreSQLServiceName :: "apiShard \<Rightarrow> string" where
  "PostgreSQLServiceName sh = shardName sh @ ''-postgresql''"

definition PostgreSQLInitConfigMapName :: "apiShard \<Rightarrow> string" where
  "PostgreSQLInitConfigMapName sh = shardName sh @ ''-postgresql-init''"

definition PostgreSQLDSN :: "apiShard \<Rightarrow> string \<Rightarrow> string \<Rightarrow> string" where
  "PostgreSQLDSN sh user password =
     ''postgres://'' @ user @ '':'' @ password @ ''@'' @ PostgreSQLServiceName sh @ ''.'' @ shardNS sh @
     ''.svc:'' @ itoa PostgreSQLPort @ ''/kine?sslmode=verify-full&sslrootcert=/etc/kine/pg-ca/ca.crt''"

text \<open>\<open>hex.EncodeToString\<close>\<close>

definition hexEncode :: "bytes \<Rightarrow> string" where
  "hexEncode bs = concat (map (\<lambda>c. let n = of_char c :: nat in [hexdigit (n div 16), hexdigit (n mod 16)]) bs)"

definition GeneratePassword :: "env \<Rightarrow> ('z base_scheme, string) op" where
  "GeneratePassword E s =
     (case randomBytes E (tr s) 16 of
        Inl e \<Rightarrow> (Inl (wrap ''generating random password'' e), s)
      | Inr b \<Rightarrow> (Inr (hexEncode b), s))"

definition postgresLabels :: "apiShard \<Rightarrow> string gomap" where
  [res_defs]: "postgresLabels sh = stdLabels ''postgresql'' (shardName sh) ComponentDatabase"

definition BuildPostgreSQLSecret :: "apiShard \<Rightarrow> string \<Rightarrow> secret" where
  "BuildPostgreSQLSecret sh password =
     \<lparr>sec_meta = namedMeta (PostgreSQLSecretName sh) (shardNS sh) (postgresLabels sh),
      sec_type = [], sec_data = [],
      sec_stringData =
        [(''POSTGRES_USER'', NameKine), (''POSTGRES_PASSWORD'', password), (''POSTGRES_DB'', NameKine),
         (''KINE_ENDPOINT'', PostgreSQLDSN sh NameKine password)]\<rparr>"

section \<open>StatefulSet and Service (postgresql.go)\<close>

definition persistenceFromShard :: "apiShard \<Rightarrow> persistenceSpec option" where
  "persistenceFromShard sh =
     (case st_inCluster (storage (spec sh)) of None \<Rightarrow> None | Some ic \<Rightarrow> ic_persistence ic)"

definition postgresResources :: "apiShard \<Rightarrow> resourceRequirements" where
  "postgresResources sh =
     (let rr = (case st_inCluster (storage (spec sh)) of None \<Rightarrow> emptyResources | Some ic \<Rightarrow> ic_resources ic)
      in if rr_requests rr = None
         then rr\<lparr>rr_requests := Some [(''cpu'', ''100m''), (''memory'', ''256Mi'')]\<rparr> else rr)"

definition postgresClaims :: "apiShard \<Rightarrow> pvc list" where
  "postgresClaims sh =
     (case persistenceFromShard sh of None \<Rightarrow> []
      | Some p \<Rightarrow> [\<lparr>pvc_name = dataVolumeName, pvc_accessModes = [''ReadWriteOnce''],
                    pvc_storageClassName = pe_storageClassName p,
                    pvc_requests = [(''storage'', pe_size p)]\<rparr>])"

definition postgresVolumes :: "apiShard \<Rightarrow> volume list" where
  "postgresVolumes sh =
     (case persistenceFromShard sh of
        None \<Rightarrow> [\<lparr>vol_name = dataVolumeName, vol_source = EmptyDir\<rparr>]
      | Some p \<Rightarrow> []) @
     [\<lparr>vol_name = ''tmp'', vol_source = EmptyDir\<rparr>,
      \<lparr>vol_name = postgresqlTLSVolumeName,
       vol_source = SecretVolume (shardName sh @ ''-postgresql-serving-cert'')
         [\<lparr>kp_key = ''tls.crt'', kp_path = ''tls.crt'', kp_mode = Some postgresqlTLSCertMode\<rparr>,
          \<lparr>kp_key = ''tls.key'', kp_path = ''tls.key'', kp_mode = Some postgresqlTLSKeyMode\<rparr>,
          \<lparr>kp_key = CACertKey, kp_path = CACertKey, kp_mode = Some postgresqlTLSCertMode\<rparr>]\<rparr>,
      \<lparr>vol_name = ''init-scripts'',
       vol_source = ConfigMapVolume (PostgreSQLInitConfigMapName sh) (Some True)\<rparr>]"

definition postgresContainer :: "apiShard \<Rightarrow> container" where
  "postgresContainer sh =
     \<lparr>ct_name = ''postgresql'', ct_image = DefaultPostgreSQLImage, ct_command = [],
      ct_args =
        [''-c'', ''ssl=on'',
         ''-c'', ''ssl_cert_file='' @ postgresqlTLSMountPath @ ''/tls.crt'',
         ''-c'', ''ssl_key_file='' @ postgresqlTLSMountPath @ ''/tls.key'',
         ''-c'', ''ssl_ca_file='' @ postgresqlTLSMountPath @ ''/ca.crt''],
      ct_env = [\<lparr>ev_name = ''PGDATA'', ev_value = ''/var/lib/postgresql/data/pgdata'', ev_secretKeyRef = None\<rparr>],
      ct_envFrom = [PostgreSQLSecretName sh],
      ct_resources = postgresResources sh,
      ct_securityContext = Some RestrictedContainerSecurityContext,
      ct_ports = [\<lparr>cp_name = ''tcp'', cp_containerPort = PostgreSQLPort, cp_protocol = ''TCP''\<rparr>],
      ct_volumeMounts =
        [rwMount dataVolumeName ''/var/lib/postgresql/data'',
         rwMount ''tmp'' ''/tmp'',
         roMount postgresqlTLSVolumeName postgresqlTLSMountPath] @
        [roMount ''init-scripts'' ''/docker-entrypoint-initdb.d''],
      ct_readinessProbe = Some \<lparr>pr_handler = TCPSocket PostgreSQLPort, pr_initialDelaySeconds = 10, pr_periodSeconds = 10\<rparr>,
      ct_livenessProbe = Some \<lparr>pr_handler = TCPSocket PostgreSQLPort, pr_initialDelaySeconds = 30, pr_periodSeconds = 30\<rparr>\<rparr>"

definition BuildPostgreSQLStatefulSet :: "apiShard \<Rightarrow> statefulSet" where
  "BuildPostgreSQLStatefulSet sh =
     \<lparr>ss_meta = namedMeta (PostgreSQLStatefulSetName sh) (shardNS sh) (postgresLabels sh),
      ss_replicas = Some 1,
      ss_serviceName = PostgreSQLServiceName sh,
      ss_selector = postgresLabels sh,
      ss_templateLabels = postgresLabels sh,
      ss_podSpec = emptyPodSpec\<lparr>
        ps_securityContext := Some RestrictedPodSecurityContext,
        ps_containers := [postgresContainer sh],
        ps_volumes := postgresVolumes sh\<rparr>,
      ss_volumeClaimTemplates = postgresClaims sh,
      ss_status = emptyStatus\<rparr>"

definition BuildPostgreSQLService :: "apiShard \<Rightarrow> service" where
  "BuildPostgreSQLService sh =
     \<lparr>sv_meta = namedMeta (PostgreSQLServiceName sh) (shardNS sh) (postgresLabels sh),
      sv_selector = postgresLabels sh,
      sv_ports = [\<lparr>sp_name = ''tcp'', sp_port = PostgreSQLPort, sp_targetPort = PostgreSQLPort, sp_protocol = ''TCP''\<rparr>],
      sv_trafficDistribution = None\<rparr>"

definition StorageMonitoringEnabled :: "apiShard \<Rightarrow> bool" where
  "StorageMonitoringEnabled sh =
     (case st_monitoring (storage (spec sh)) of None \<Rightarrow> False | Some m \<Rightarrow> mo_enabled m)"

definition BuildPostgreSQLInitConfigMap :: "apiShard \<Rightarrow> configMap" where
  "BuildPostgreSQLInitConfigMap sh =
     \<lparr>cm_meta = namedMeta (PostgreSQLInitConfigMapName sh) (shardNS sh) (postgresLabels sh),
      cm_data = [(''init-pgstattuple.sql'', unlines [''CREATE EXTENSION IF NOT EXISTS pgstattuple;''])]\<rparr>"

section \<open>Immutable volume claim templates (postgresql\_volumes.go)\<close>

definition volumeClaimTemplateNames :: "pvc list \<Rightarrow> string list" where
  "volumeClaimTemplateNames vcts = map pvc_name vcts"

definition volumeNames :: "volume list \<Rightarrow> string list" where
  "volumeNames vols = map vol_name vols"

definition AlignPostgreSQLVolumeClaims :: "statefulSet \<Rightarrow> statefulSet \<Rightarrow> statefulSet" where
  "AlignPostgreSQLVolumeClaims desired existing =
     (let d = desired\<lparr>ss_volumeClaimTemplates := ss_volumeClaimTemplates existing\<rparr>;
          liveVCTNames = volumeClaimTemplateNames (ss_volumeClaimTemplates existing);
          vols = ps_volumes (ss_podSpec d)
      in if length liveVCTNames > 0
         then d\<lparr>ss_podSpec := (ss_podSpec d)\<lparr>
                 ps_volumes := filter (\<lambda>v. vol_name v \<notin> set liveVCTNames) vols\<rparr>\<rparr>
         else d\<lparr>ss_podSpec := (ss_podSpec d)\<lparr>
                 ps_volumes := vols @ filter (\<lambda>v. vol_source v = EmptyDir \<and>
                                               vol_name v \<notin> set (volumeNames vols))
                                        (ps_volumes (ss_podSpec existing))\<rparr>\<rparr>)"

definition storageClassNamesMatch :: "string option \<Rightarrow> string option \<Rightarrow> bool" where
  "storageClassNamesMatch requested live =
     (case requested of
        None \<Rightarrow> (case live of None \<Rightarrow> True | Some l \<Rightarrow> l \<noteq> [])
      | Some r \<Rightarrow> (case live of None \<Rightarrow> False | Some l \<Rightarrow> r = l))"

text \<open>A missing \<open>storage\<close> request reads as the zero quantity.\<close>

definition storageRequest :: "pvc \<Rightarrow> quantity" where
  "storageRequest p = (case map_of (pvc_requests p) ''storage'' of None \<Rightarrow> ''0'' | Some q \<Rightarrow> q)"

definition VolumeClaimTemplatesMatch :: "env \<Rightarrow> pvc list \<Rightarrow> pvc list \<Rightarrow> bool" where
  "VolumeClaimTemplatesMatch E requested live =
     (length requested = length live \<and>
      list_all (\<lambda>(r, l). pvc_name r = pvc_name l \<and>
                         cmpQuantity E (storageRequest r) (storageRequest l) = 0 \<and>
                         storageClassNamesMatch (pvc_storageClassName r) (pvc_storageClassName l))
        (zip requested live))"

definition describeStorageClassName :: "string option \<Rightarrow> string" where
  "describeStorageClassName sc =
     (case sc of None \<Rightarrow> ''<default>'' | Some c \<Rightarrow> if c = [] then ''<none>'' else c)"

definition DescribeVolumeClaimTemplates :: "pvc list \<Rightarrow> string" where
  "DescribeVolumeClaimTemplates vcts =
     (case vcts of [] \<Rightarrow> ''emptyDir (no persistent volume)''
      | v # _ \<Rightarrow> ''size '' @ storageRequest v @ '', storageClassName '' @
                  describeStorageClassName (pvc_storageClassName v))"

section \<open>Correctness\<close>

lemma hexEncode_length: "length (hexEncode bs) = 2 * length bs"
  by (induction bs) (auto simp: hexEncode_def Let_def)

lemma hexdigit_set: "n < 16 \<Longrightarrow> hexdigit n \<in> set ''0123456789abcdef''"
  unfolding hexdigit_def by (rule nth_mem) simp

lemma hexEncode_digits: "set (hexEncode bs) \<subseteq> set ''0123456789abcdef''"
proof -
  have hi: "hexdigit ((of_char c :: nat) div 16) \<in> set ''0123456789abcdef''" for c
    by (rule hexdigit_set) (simp add: div_less_iff_less_mult)
  have lo: "hexdigit ((of_char c :: nat) mod 16) \<in> set ''0123456789abcdef''" for c
    by (rule hexdigit_set) simp
  show ?thesis
  proof
    fix x assume "x \<in> set (hexEncode bs)"
    then obtain c where "x = hexdigit ((of_char c :: nat) div 16) \<or> x = hexdigit ((of_char c :: nat) mod 16)"
      by (auto simp: hexEncode_def Let_def)
    then show "x \<in> set ''0123456789abcdef''" using hi lo by (auto simp del: list.set)
  qed
qed

lemma align_claims: "ss_volumeClaimTemplates (AlignPostgreSQLVolumeClaims d e) = ss_volumeClaimTemplates e"
  by (simp add: AlignPostgreSQLVolumeClaims_def Let_def)

lemma align_containers:
  "ps_containers (ss_podSpec (AlignPostgreSQLVolumeClaims d e)) = ps_containers (ss_podSpec d)"
  by (simp add: AlignPostgreSQLVolumeClaims_def Let_def)

lemma postgres_pod_wired:
  "podWired (map pvc_name (postgresClaims sh)) (ss_podSpec (BuildPostgreSQLStatefulSet sh))"
  by (simp add: podWired_def BuildPostgreSQLStatefulSet_def postgresContainer_def postgresVolumes_def
      postgresClaims_def emptyPodSpec_def roMount_def rwMount_def go_defs split: option.splits)

lemma align_podSpec_cases:
  "ss_volumeClaimTemplates e \<noteq> [] \<Longrightarrow>
     ps_volumes (ss_podSpec (AlignPostgreSQLVolumeClaims d e)) =
       filter (\<lambda>v. vol_name v \<notin> set (map pvc_name (ss_volumeClaimTemplates e))) (ps_volumes (ss_podSpec d))"
  "ss_volumeClaimTemplates e = [] \<Longrightarrow>
     ps_volumes (ss_podSpec (AlignPostgreSQLVolumeClaims d e)) =
       ps_volumes (ss_podSpec d) @ filter (\<lambda>v. vol_source v = EmptyDir \<and>
          vol_name v \<notin> set (map vol_name (ps_volumes (ss_podSpec d)))) (ps_volumes (ss_podSpec e))"
  by (simp_all add: AlignPostgreSQLVolumeClaims_def Let_def volumeClaimTemplateNames_def volumeNames_def)

end
