(* ===== verification/Certs.thy ===== *)
theory Certs
  imports Postgres
begin

text \<open>
  \<open>operator/internal/certs/certmanager.go\<close>: the cert-manager Issuers and Certificates of a shard,
  built as unstructured objects. Three independent chains exist, each from a self-signed Issuer to a
  CA Certificate to a CA-backed Issuer to leaf certificates: the shard's, Kine's and PostgreSQL's.
\<close>

section \<open>Names\<close>

definition IssuerName :: "apiShard \<Rightarrow> string" where
  "IssuerName sh = shardName sh @ ''-ca-issuer''"
definition KineCAIssuerName :: "apiShard \<Rightarrow> string" where
  "KineCAIssuerName sh = shardName sh @ ''-kine-ca-issuer''"
definition KineCACertificateName :: "apiShard \<Rightarrow> string" where
  "KineCACertificateName sh = shardName sh @ ''-kine-ca''"
definition KineCASecretName :: "apiShard \<Rightarrow> string" where
  "KineCASecretName sh = shardName sh @ ''-kine-ca-keypair''"
definition CACertificateName :: "apiShard \<Rightarrow> string" where
  "CACertificateName sh = shardName sh @ ''-front-proxy-ca''"
definition ServingCertificateName :: "apiShard \<Rightarrow> string" where
  "ServingCertificateName sh = shardName sh @ ''-serving-cert''"
definition PKISecretName :: "apiShard \<Rightarrow> string" where
  "PKISecretName sh = shardName sh @ ''-pki''"
definition KineServingCertificateName :: "apiShard \<Rightarrow> string" where
  "KineServingCertificateName sh = shardName sh @ ''-kine-serving''"
definition KineServingSecretName :: "apiShard \<Rightarrow> string" where
  "KineServingSecretName sh = shardName sh @ ''-kine-serving-cert''"
definition PostgreSQLCAIssuerName :: "apiShard \<Rightarrow> string" where
  "PostgreSQLCAIssuerName sh = shardName sh @ ''-postgresql-ca-issuer''"
definition PostgreSQLCACertificateName :: "apiShard \<Rightarrow> string" where
  "PostgreSQLCACertificateName sh = shardName sh @ ''-postgresql-ca''"
definition PostgreSQLCASecretName :: "apiShard \<Rightarrow> string" where
  "PostgreSQLCASecretName sh = shardName sh @ ''-postgresql-ca-keypair''"
definition PostgreSQLServingCertificateName :: "apiShard \<Rightarrow> string" where
  "PostgreSQLServingCertificateName sh = shardName sh @ ''-postgresql-serving''"
definition PostgreSQLServingSecretName :: "apiShard \<Rightarrow> string" where
  "PostgreSQLServingSecretName sh = shardName sh @ ''-postgresql-serving-cert''"
definition EtcdClientCertificateName :: "apiShard \<Rightarrow> string" where
  "EtcdClientCertificateName sh = shardName sh @ ''-etcd-client''"
definition EtcdClientSecretName :: "apiShard \<Rightarrow> string" where
  "EtcdClientSecretName sh = shardName sh @ ''-etcd-client-cert''"
definition AdminClientCertificateName :: "apiShard \<Rightarrow> string" where
  "AdminClientCertificateName sh = shardName sh @ ''-admin-client''"
definition AdminClientSecretName :: "apiShard \<Rightarrow> string" where
  "AdminClientSecretName sh = shardName sh @ ''-admin-client-cert''"

lemmas cert_names =
  IssuerName_def KineCAIssuerName_def KineCACertificateName_def KineCASecretName_def CACertificateName_def
  ServingCertificateName_def PKISecretName_def KineServingCertificateName_def KineServingSecretName_def
  PostgreSQLCAIssuerName_def PostgreSQLCACertificateName_def PostgreSQLCASecretName_def
  PostgreSQLServingCertificateName_def PostgreSQLServingSecretName_def EtcdClientCertificateName_def
  EtcdClientSecretName_def AdminClientCertificateName_def AdminClientSecretName_def

section \<open>Builders\<close>

definition certLabels :: "apiShard \<Rightarrow> string gomap" where
  "certLabels sh =
     [(LabelManagedBy, ManagedByValue), (LabelInstance, shardName sh), (LabelComponent, ''certificates'')]"

definition certObject :: "string \<Rightarrow> apiShard \<Rightarrow> string \<Rightarrow> json \<Rightarrow> unstructured" where
  "certObject k sh nm sp =
     \<lparr>un_gvk = GVK ''cert-manager.io'' ''v1'' k, un_meta = namedMeta nm (shardNS sh) (certLabels sh),
      un_body = [(''spec'', sp)]\<rparr>"

definition issuerRef :: "string \<Rightarrow> json" where
  "issuerRef nm = JObj [(''name'', JStr nm), (''kind'', JStr ''Issuer''), (''group'', JStr ''cert-manager.io'')]"

definition BuildSelfSignedIssuer :: "apiShard \<Rightarrow> unstructured" where
  "BuildSelfSignedIssuer sh =
     certObject ''Issuer'' sh (shardName sh @ ''-selfsigned'') (JObj [(''selfSigned'', JObj [])])"

definition BuildCACertificate :: "apiShard \<Rightarrow> unstructured" where
  "BuildCACertificate sh = certObject ''Certificate'' sh (CACertificateName sh) (JObj
     [(''isCA'', JBool True), (''commonName'', JStr (shardName sh @ ''-ca'')),
      (''secretName'', JStr (shardName sh @ ''-ca-keypair'')), (''duration'', JStr ''87600h''),
      (''issuerRef'', issuerRef (shardName sh @ ''-selfsigned''))])"

definition BuildCAIssuer :: "apiShard \<Rightarrow> unstructured" where
  "BuildCAIssuer sh = certObject ''Issuer'' sh (IssuerName sh) (JObj
     [(''ca'', JObj [(''secretName'', JStr (shardName sh @ ''-ca-keypair''))])])"

definition BuildKineSelfSignedIssuer :: "apiShard \<Rightarrow> unstructured" where
  "BuildKineSelfSignedIssuer sh =
     certObject ''Issuer'' sh (shardName sh @ ''-kine-selfsigned'') (JObj [(''selfSigned'', JObj [])])"

definition BuildKineCACertificate :: "apiShard \<Rightarrow> unstructured" where
  "BuildKineCACertificate sh = certObject ''Certificate'' sh (KineCACertificateName sh) (JObj
     [(''isCA'', JBool True), (''commonName'', JStr (shardName sh @ ''-kine-ca'')),
      (''secretName'', JStr (KineCASecretName sh)), (''duration'', JStr ''87600h''),
      (''issuerRef'', issuerRef (shardName sh @ ''-kine-selfsigned''))])"

definition BuildKineCAIssuer :: "apiShard \<Rightarrow> unstructured" where
  "BuildKineCAIssuer sh = certObject ''Issuer'' sh (KineCAIssuerName sh) (JObj
     [(''ca'', JObj [(''secretName'', JStr (KineCASecretName sh))])])"

definition serviceDNSNames :: "string \<Rightarrow> string \<Rightarrow> string list" where
  "serviceDNSNames svc ns =
     [svc, svc @ ''.'' @ ns, svc @ ''.'' @ ns @ ''.svc'', svc @ ''.'' @ ns @ ''.svc.cluster.local'']"

definition buildServingCert :: "apiShard \<Rightarrow> string \<Rightarrow> string \<Rightarrow> string \<Rightarrow> string \<Rightarrow> unstructured" where
  "buildServingCert sh certName secretName svcName issuer =
     certObject ''Certificate'' sh certName (JObj
       [(''secretName'', JStr secretName), (''duration'', JStr ''8760h''), (''renewBefore'', JStr ''720h''),
        (''dnsNames'', JArr (map JStr (serviceDNSNames svcName (shardNS sh)))),
        (''issuerRef'', issuerRef issuer)])"

definition BuildServingCertificate :: "apiShard \<Rightarrow> unstructured" where
  "BuildServingCertificate sh =
     buildServingCert sh (ServingCertificateName sh) (PKISecretName sh) (SecondaryServiceName sh) (IssuerName sh)"

definition BuildKineServingCertificate :: "apiShard \<Rightarrow> unstructured" where
  "BuildKineServingCertificate sh =
     buildServingCert sh (KineServingCertificateName sh) (KineServingSecretName sh) (KineServiceName sh)
       (KineCAIssuerName sh)"

definition BuildPostgreSQLSelfSignedIssuer :: "apiShard \<Rightarrow> unstructured" where
  "BuildPostgreSQLSelfSignedIssuer sh =
     certObject ''Issuer'' sh (shardName sh @ ''-postgresql-selfsigned'') (JObj [(''selfSigned'', JObj [])])"

definition BuildPostgreSQLCACertificate :: "apiShard \<Rightarrow> unstructured" where
  "BuildPostgreSQLCACertificate sh = certObject ''Certificate'' sh (PostgreSQLCACertificateName sh) (JObj
     [(''isCA'', JBool True), (''commonName'', JStr (shardName sh @ ''-postgresql-ca'')),
      (''secretName'', JStr (PostgreSQLCASecretName sh)), (''duration'', JStr ''87600h''),
      (''issuerRef'', issuerRef (shardName sh @ ''-postgresql-selfsigned''))])"

definition BuildPostgreSQLCAIssuer :: "apiShard \<Rightarrow> unstructured" where
  "BuildPostgreSQLCAIssuer sh = certObject ''Issuer'' sh (PostgreSQLCAIssuerName sh) (JObj
     [(''ca'', JObj [(''secretName'', JStr (PostgreSQLCASecretName sh))])])"

definition BuildPostgreSQLServingCertificate :: "apiShard \<Rightarrow> unstructured" where
  "BuildPostgreSQLServingCertificate sh =
     buildServingCert sh (PostgreSQLServingCertificateName sh) (PostgreSQLServingSecretName sh)
       (PostgreSQLServiceName sh) (PostgreSQLCAIssuerName sh)"

definition BuildEtcdClientCertificate :: "apiShard \<Rightarrow> unstructured" where
  "BuildEtcdClientCertificate sh = certObject ''Certificate'' sh (EtcdClientCertificateName sh) (JObj
     [(''secretName'', JStr (EtcdClientSecretName sh)), (''commonName'', JStr (shardName sh @ ''-etcd-client'')),
      (''duration'', JStr ''8760h''), (''renewBefore'', JStr ''720h''),
      (''usages'', JArr [JStr ''client auth'']),
      (''issuerRef'', issuerRef (KineCAIssuerName sh))])"

definition BuildAdminClientCertificate :: "apiShard \<Rightarrow> unstructured" where
  "BuildAdminClientCertificate sh = certObject ''Certificate'' sh (AdminClientCertificateName sh) (JObj
     [(''secretName'', JStr (AdminClientSecretName sh)), (''commonName'', JStr ''kube-shard-admin''),
      (''duration'', JStr ''8760h''), (''renewBefore'', JStr ''720h''),
      (''usages'', JArr [JStr ''client auth'']),
      (''subject'', JObj [(''organizations'', JArr [JStr ''system:masters''])]),
      (''issuerRef'', issuerRef (IssuerName sh))])"

text \<open>\<open>buildCertResources\<close> of \<open>controller/apishard/reconciler.go\<close>: the objects to apply, in order.\<close>

definition buildCertResources :: "apiShard \<Rightarrow> unstructured list" where
  "buildCertResources sh =
     [BuildSelfSignedIssuer sh, BuildCACertificate sh, BuildCAIssuer sh, BuildServingCertificate sh,
      BuildAdminClientCertificate sh,
      BuildKineSelfSignedIssuer sh, BuildKineCACertificate sh, BuildKineCAIssuer sh,
      BuildKineServingCertificate sh, BuildEtcdClientCertificate sh] @
     (if storageType sh = StorageTypeInClusterPostgreSQL
      then [BuildPostgreSQLSelfSignedIssuer sh, BuildPostgreSQLCACertificate sh, BuildPostgreSQLCAIssuer sh,
            BuildPostgreSQLServingCertificate sh] else [])"

section \<open>Reading the objects back\<close>

text \<open>A path into an unstructured object, as \<open>unstructured.NestedFieldNoCopy\<close> follows it.\<close>

fun jpath :: "json \<Rightarrow> string list \<Rightarrow> json option" where
  "jpath j [] = Some j"
| "jpath (JObj m) (k # ks) = (case map_of m k of None \<Rightarrow> None | Some j \<Rightarrow> jpath j ks)"
| "jpath _ (k # ks) = None"

fun jstr :: "json option \<Rightarrow> string option" where
  "jstr (Some (JStr s)) = Some s"
| "jstr _ = None"

definition specField :: "unstructured \<Rightarrow> string list \<Rightarrow> json option" where
  "specField u p = jpath (JObj (un_body u)) (''spec'' # p)"

definition unName :: "unstructured \<Rightarrow> string" where
  "unName u = om_name (un_meta u)"

definition isKind :: "string \<Rightarrow> unstructured \<Rightarrow> bool" where
  "isKind k u = (gvk_kind (un_gvk u) = k)"

definition certIssuer :: "unstructured \<Rightarrow> string option" where
  "certIssuer u = jstr (specField u [''issuerRef'', ''name''])"

definition certSecret :: "unstructured \<Rightarrow> string option" where
  "certSecret u = jstr (specField u [''secretName''])"

definition issuerCASecret :: "unstructured \<Rightarrow> string option" where
  "issuerCASecret u = jstr (specField u [''ca'', ''secretName''])"

definition certDNS :: "unstructured \<Rightarrow> string list" where
  "certDNS u =
     (case specField u [''dnsNames''] of Some (JArr js) \<Rightarrow> List.map_filter (\<lambda>j. jstr (Some j)) js | _ \<Rightarrow> [])"

lemmas cert_builders =
  BuildSelfSignedIssuer_def BuildCACertificate_def BuildCAIssuer_def BuildServingCertificate_def
  BuildAdminClientCertificate_def BuildKineSelfSignedIssuer_def BuildKineCACertificate_def
  BuildKineCAIssuer_def BuildKineServingCertificate_def BuildEtcdClientCertificate_def
  BuildPostgreSQLSelfSignedIssuer_def BuildPostgreSQLCACertificate_def BuildPostgreSQLCAIssuer_def
  BuildPostgreSQLServingCertificate_def buildServingCert_def certObject_def issuerRef_def

lemmas cert_readers =
  specField_def unName_def isKind_def certIssuer_def certSecret_def issuerCASecret_def certDNS_def GVK_def

lemma certDNS_serving [simp]:
  "certDNS (buildServingCert sh cn sn svc iss) = serviceDNSNames svc (shardNS sh)"
  by (simp add: cert_builders cert_readers serviceDNSNames_def map_filter_simps)

lemma buildCertResources_meta:
  "u \<in> set (buildCertResources sh) \<Longrightarrow> om_namespace (un_meta u) = shardNS sh \<and>
     un_gvk u \<in> {GVK ''cert-manager.io'' ''v1'' ''Issuer'', GVK ''cert-manager.io'' ''v1'' ''Certificate''}"
  by (auto simp: buildCertResources_def cert_builders split: if_splits)

section \<open>The chains\<close>

text \<open>
  An Issuer is usable in a set of objects when it is self-signed or its CA secret is written by a CA
  certificate of the set; a set is closed when every certificate names an Issuer of the set and
  every Issuer is usable.
\<close>

definition closedPKI :: "unstructured list \<Rightarrow> bool" where
  "closedPKI us =
     (list_all (\<lambda>u. isKind ''Certificate'' u \<longrightarrow>
         list_ex (\<lambda>i. isKind ''Issuer'' i \<and> certIssuer u = Some (unName i)) us) us \<and>
      list_all (\<lambda>i. isKind ''Issuer'' i \<longrightarrow>
         specField i [''selfSigned''] = Some (JObj []) \<or>
         list_ex (\<lambda>u. isKind ''Certificate'' u \<and> specField u [''isCA''] = Some (JBool True) \<and>
                      certSecret u = issuerCASecret i) us) us)"

lemma buildCertResources_closed: "closedPKI (buildCertResources sh)"
  by (cases "storageType sh = StorageTypeInClusterPostgreSQL")
    (simp_all add: closedPKI_def buildCertResources_def cert_builders cert_readers cert_names serviceDNSNames_def)

lemma buildCertResources_distinct:
  "distinct (map (\<lambda>u. (gvk_kind (un_gvk u), unName u)) (buildCertResources sh))"
  by (cases "storageType sh = StorageTypeInClusterPostgreSQL")
    (simp_all add: buildCertResources_def cert_builders cert_readers cert_names)

lemma buildCertResources_secrets_distinct:
  "distinct (map certSecret (filter (isKind ''Certificate'') (buildCertResources sh)))"
  by (cases "storageType sh = StorageTypeInClusterPostgreSQL")
    (simp_all add: buildCertResources_def cert_builders cert_readers cert_names serviceDNSNames_def)

end
