(* ===== verification/Monitoring.thy ===== *)
theory Monitoring
  imports Certs
begin

text \<open>
  \<open>operator/internal/resources/metrics.go\<close>, \<open>otel_collector.go\<close> and \<open>scc.go\<close>: Prometheus
  scraping of Kine and the secondary (ServiceMonitors, reader identity, discovery role), the
  OpenTelemetry collector for PostgreSQL, and the OpenShift security constraints of the secondary.
\<close>

section \<open>Prometheus scraping (metrics.go)\<close>

definition MetricsReaderClusterRoleName :: string where
  [go_defs]: "MetricsReaderClusterRoleName = ''kube-shard-metrics-reader''"
definition metricsScrapeInterval :: string where
  [go_defs]: "metricsScrapeInterval = ''30s''"
definition OTelMetricsPortName :: string where
  [go_defs]: "OTelMetricsPortName = ''otel-metrics''"

definition pkiSecretName :: "apiShard \<Rightarrow> string" where
  "pkiSecretName sh = shardName sh @ ''-pki''"
definition kineServingSecretName :: "apiShard \<Rightarrow> string" where
  "kineServingSecretName sh = shardName sh @ ''-kine-serving-cert''"
definition MetricsReaderServiceAccountName :: "apiShard \<Rightarrow> string" where
  "MetricsReaderServiceAccountName sh = shardName sh @ ''-metrics-reader''"
definition MetricsReaderTokenSecretName :: "apiShard \<Rightarrow> string" where
  "MetricsReaderTokenSecretName sh = shardName sh @ ''-metrics-reader-token''"

definition instanceLabels :: "apiShard \<Rightarrow> string gomap" where
  [res_defs]: "instanceLabels sh = [(LabelManagedBy, ManagedByValue), (LabelInstance, shardName sh)]"

definition BuildKineServiceMonitor :: "apiShard \<Rightarrow> serviceMonitor" where
  "BuildKineServiceMonitor sh =
     \<lparr>sm_meta = namedMeta (shardName sh @ ''-kine-metrics'') (shardNS sh) (instanceLabels sh),
      sm_selector = [(LabelName, NameKine), (LabelInstance, shardName sh)],
      sm_endpoints =
        [\<lparr>sme_port = ''metrics'', sme_path = ''/metrics'', sme_scheme = Some SchemeHTTPS,
          sme_interval = metricsScrapeInterval, sme_bearer = None,
          sme_ca = Some \<lparr>sks_name = kineServingSecretName sh, sks_key = CACertKey\<rparr>,
          sme_serverName = Some (KineServiceName sh @ ''.'' @ shardNS sh @ ''.svc'')\<rparr>]\<rparr>"

definition BuildSecondaryServiceMonitor :: "apiShard \<Rightarrow> serviceMonitor" where
  "BuildSecondaryServiceMonitor sh =
     \<lparr>sm_meta = namedMeta (shardName sh @ ''-apiserver-metrics'') (shardNS sh) (instanceLabels sh),
      sm_selector = [(LabelName, NameAPIServer), (LabelInstance, shardName sh)],
      sm_endpoints =
        [\<lparr>sme_port = ''https'', sme_path = ''/metrics'', sme_scheme = Some SchemeHTTPS,
          sme_interval = metricsScrapeInterval,
          sme_bearer = Some \<lparr>sks_name = MetricsReaderTokenSecretName sh, sks_key = ''token''\<rparr>,
          sme_ca = Some \<lparr>sks_name = pkiSecretName sh, sks_key = CACertKey\<rparr>,
          sme_serverName = Some (SecondaryServiceName sh @ ''.'' @ shardNS sh @ ''.svc'')\<rparr>]\<rparr>"

definition BuildMetricsReaderServiceAccount :: "apiShard \<Rightarrow> objectMeta" where
  "BuildMetricsReaderServiceAccount sh =
     namedMeta (MetricsReaderServiceAccountName sh) (shardNS sh) (instanceLabels sh)"

definition emptyRule :: policyRule where
  "emptyRule = \<lparr>pol_apiGroups = [], pol_resources = [], pol_resourceNames = [], pol_nonResourceURLs = [],
     pol_verbs = []\<rparr>"

definition BuildMetricsReaderClusterRole :: role where
  "BuildMetricsReaderClusterRole =
     \<lparr>rl_meta = namedMeta MetricsReaderClusterRoleName [] [(LabelManagedBy, ManagedByValue)],
      rl_rules = [emptyRule\<lparr>pol_nonResourceURLs := [''/metrics''], pol_verbs := [''get'']\<rparr>]\<rparr>"

definition BuildMetricsReaderClusterRoleBinding :: "apiShard \<Rightarrow> roleBinding" where
  "BuildMetricsReaderClusterRoleBinding sh =
     \<lparr>rb_meta = namedMeta (shardName sh @ ''-metrics-reader'') [] (instanceLabels sh),
      rb_roleRef = \<lparr>rr_apiGroup = ''rbac.authorization.k8s.io'', rr_kind = ''ClusterRole'',
                    rr_name = MetricsReaderClusterRoleName\<rparr>,
      rb_subjects = [\<lparr>sj_kind = ''ServiceAccount'', sj_name = MetricsReaderServiceAccountName sh,
                      sj_namespace = shardNS sh\<rparr>]\<rparr>"

definition BuildMetricsReaderTokenSecret :: "apiShard \<Rightarrow> secret" where
  "BuildMetricsReaderTokenSecret sh =
     \<lparr>sec_meta = (namedMeta (MetricsReaderTokenSecretName sh) (shardNS sh) (instanceLabels sh))\<lparr>
        om_annotations := [(''kubernetes.io/service-account.name'', MetricsReaderServiceAccountName sh)]\<rparr>,
      sec_type = ''kubernetes.io/service-account-token'', sec_data = [], sec_stringData = []\<rparr>"

definition PrometheusServiceAccount :: "apiShard \<Rightarrow> string \<times> string" where
  "PrometheusServiceAccount sh =
     (case monitoring (spec sh) of
        None \<Rightarrow> (''prometheus-k8s'', ''openshift-monitoring'')
      | Some m \<Rightarrow>
         (if ms_prometheusServiceAccountName m \<noteq> [] then ms_prometheusServiceAccountName m else ''prometheus-k8s'',
          if ms_prometheusNamespace m \<noteq> [] then ms_prometheusNamespace m else ''openshift-monitoring''))"

definition prometheusDiscoveryRoleName :: "apiShard \<Rightarrow> string" where
  "prometheusDiscoveryRoleName sh = shardName sh @ ''-prometheus-discovery''"

definition BuildPrometheusDiscoveryRole :: "apiShard \<Rightarrow> role" where
  "BuildPrometheusDiscoveryRole sh =
     \<lparr>rl_meta = namedMeta (prometheusDiscoveryRoleName sh) (shardNS sh) (instanceLabels sh),
      rl_rules =
        [emptyRule\<lparr>pol_apiGroups := [''''], pol_resources := [''services'', ''endpoints'', ''pods''],
                   pol_verbs := [''get'', ''list'', ''watch'']\<rparr>,
         emptyRule\<lparr>pol_apiGroups := [''monitoring.coreos.com''], pol_resources := [''servicemonitors''],
                   pol_verbs := [''get'', ''list'', ''watch'']\<rparr>]\<rparr>"

definition BuildPrometheusDiscoveryRoleBinding :: "apiShard \<Rightarrow> roleBinding" where
  "BuildPrometheusDiscoveryRoleBinding sh =
     (let (saName, saNamespace) = PrometheusServiceAccount sh in
      \<lparr>rb_meta = namedMeta (prometheusDiscoveryRoleName sh) (shardNS sh) (instanceLabels sh),
       rb_roleRef = \<lparr>rr_apiGroup = ''rbac.authorization.k8s.io'', rr_kind = ''Role'',
                     rr_name = prometheusDiscoveryRoleName sh\<rparr>,
       rb_subjects = [\<lparr>sj_kind = ''ServiceAccount'', sj_name = saName, sj_namespace = saNamespace\<rparr>]\<rparr>)"

definition BuildPostgreSQLMetricsServiceMonitor :: "apiShard \<Rightarrow> serviceMonitor" where
  "BuildPostgreSQLMetricsServiceMonitor sh =
     \<lparr>sm_meta = namedMeta (shardName sh @ ''-postgresql-metrics'') (shardNS sh) (instanceLabels sh),
      sm_selector = [(LabelName, NameOTelCollector), (LabelInstance, shardName sh)],
      sm_endpoints =
        [\<lparr>sme_port = OTelMetricsPortName, sme_path = ''/metrics'', sme_scheme = None,
          sme_interval = metricsScrapeInterval, sme_bearer = None, sme_ca = None, sme_serverName = None\<rparr>]\<rparr>"

section \<open>PostgreSQL metrics collector (otel\_collector.go)\<close>

definition DefaultOTelCollectorImage :: string where
  [go_defs]: "DefaultOTelCollectorImage = ''registry.access.redhat.com/hi/opentelemetry-collector-contrib:0.155.0''"
definition OTelMetricsPort :: int where
  [go_defs]: "OTelMetricsPort = 9187"
definition OTelHealthPort :: int where
  [go_defs]: "OTelHealthPort = 13133"
definition otelTLSVolumeName :: string where
  [go_defs]: "otelTLSVolumeName = ''tls-ca''"
definition otelTLSMountPath :: string where
  [go_defs]: "otelTLSMountPath = ''/etc/otel/tls''"
definition otelCACertFile :: string where
  [go_defs]: "otelCACertFile = ''/etc/otel/tls/ca.crt''"

definition defaultCollectionInterval :: string where
  [go_defs]: "defaultCollectionInterval = ''30s''"
definition defaultBloatInterval :: string where
  [go_defs]: "defaultBloatInterval = ''5m''"

definition OTelCollectorDeploymentName :: "apiShard \<Rightarrow> string" where
  "OTelCollectorDeploymentName sh = shardName sh @ ''-postgresql-metrics''"
definition OTelCollectorServiceName :: "apiShard \<Rightarrow> string" where
  "OTelCollectorServiceName sh = shardName sh @ ''-postgresql-metrics''"
definition OTelCollectorConfigMapBaseName :: "apiShard \<Rightarrow> string" where
  "OTelCollectorConfigMapBaseName sh = shardName sh @ ''-postgresql-metrics-config''"

definition BuildOTelCollectorConfigMap :: "apiShard \<Rightarrow> string \<Rightarrow> string \<Rightarrow> configMap" where
  "BuildOTelCollectorConfigMap sh nm content =
     \<lparr>cm_meta = namedMeta nm (shardNS sh) [(LabelOTelConfig, ''true'')],
      cm_data = [(''config.yaml'', content)]\<rparr>"

record oTelConnectionParams =
  op_Host :: string
  op_Port :: string
  op_User :: string
  op_Password :: string
  op_DBName :: string
  op_CACertSecretName :: string
  op_CACertSecretKey :: string

text \<open>\<open>net.JoinHostPort\<close>: a host with a colon or a percent sign is an IPv6 literal and bracketed.\<close>

definition JoinHostPort :: "string \<Rightarrow> string \<Rightarrow> string" where
  "JoinHostPort host port =
     (if CHR '':'' \<in> set host \<or> CHR ''%'' \<in> set host then ''['' @ host @ '']:'' @ port
      else host @ '':'' @ port)"

definition otelIntervals :: "apiShard \<Rightarrow> string \<times> string" where
  "otelIntervals sh =
     (case st_monitoring (storage (spec sh)) of
        None \<Rightarrow> (defaultCollectionInterval, defaultBloatInterval)
      | Some m \<Rightarrow>
         (if mo_collectionInterval m \<noteq> [] then mo_collectionInterval m else defaultCollectionInterval,
          case mo_postgreSQL m of None \<Rightarrow> defaultBloatInterval
          | Some p \<Rightarrow> if pm_bloatInterval p \<noteq> [] then pm_bloatInterval p else defaultBloatInterval))"

definition otelQueries :: "string list" where
  "otelQueries =
     [''    queries:'',
      ''      - sql: |'',
      ''          CREATE EXTENSION IF NOT EXISTS pgstattuple;'',
      ''          SET statement_timeout = '' @ [CHR 0x27] @ ''60s'' @ [CHR 0x27] @ '';'',
      ''          SELECT'',
      ''            coalesce(sum(dead_tuple_len + approx_free_space), 0)::bigint AS reclaimable_bytes,'',
      ''            coalesce(sum(approx_tuple_len), 0)::bigint AS live_bytes,'',
      ''            coalesce(sum(table_len), 0)::bigint AS total_table_bytes'',
      ''          FROM ('',
      ''            SELECT (pgstattuple_approx(oid)).*'',
      ''            FROM pg_class'',
      ''            WHERE relkind IN ('' @ [CHR 0x27] @ ''r'' @ [CHR 0x27] @ '', '' @ [CHR 0x27] @ ''t'' @ [CHR 0x27] @ '')'',
      ''              AND relnamespace NOT IN ('',
      ''                SELECT oid FROM pg_namespace'',
      ''                WHERE nspname IN ('' @ [CHR 0x27] @ ''pg_catalog'' @ [CHR 0x27] @ '', '' @ [CHR 0x27] @
        ''information_schema'' @ [CHR 0x27] @ '')'',
      ''              )'',
      ''          ) t'',
      ''        metrics:'',
      ''          - metric_name: postgresql.tables_reclaimable_bytes'',
      ''            value_column: reclaimable_bytes'',
      ''            data_type: gauge'',
      ''            value_type: int'',
      ''            description: '' @ [CHR 0x22] @ ''Approximate bytes reclaimable by VACUUM FULL across all user tables (dead tuples + free space)'' @ [CHR 0x22],
      ''          - metric_name: postgresql.tables_live_bytes'',
      ''            value_column: live_bytes'',
      ''            data_type: gauge'',
      ''            value_type: int'',
      ''            description: '' @ [CHR 0x22] @ ''Approximate bytes used by live tuples across all user tables'' @ [CHR 0x22],
      ''          - metric_name: postgresql.tables_size_bytes'',
      ''            value_column: total_table_bytes'',
      ''            data_type: gauge'',
      ''            value_type: int'',
      ''            description: '' @ [CHR 0x22] @ ''Total bytes on disk across all user tables (live + dead + free)'' @ [CHR 0x22]]"

definition BuildOTelCollectorConfig :: "apiShard \<Rightarrow> oTelConnectionParams \<Rightarrow> string" where
  "BuildOTelCollectorConfig sh params =
     (let (collectionInterval, bloatInterval) = otelIntervals sh;
          q = [CHR 0x27]; dq = [CHR 0x22] in unlines (
      [''extensions:'', ''  health_check:'', ''    endpoint: '' @ dq @ ''0.0.0.0:'' @ itoa OTelHealthPort @ dq, '''',
       ''receivers:'', ''  postgresql:'',
       ''    endpoint: '' @ JoinHostPort (op_Host params) (op_Port params),
       ''    username: ${env:PG_USERNAME}'', ''    password: ${env:PG_PASSWORD}'',
       ''    databases: ['' @ op_DBName params @ '']'',
       ''    collection_interval: '' @ collectionInterval,
       ''    tls:'', ''      insecure: false'', ''      ca_file: '' @ otelCACertFile, '''',
       ''  sqlquery:'', ''    driver: postgres'',
       ''    datasource: '' @ dq @ ''host='' @ q @ op_Host params @ q @ '' port='' @ q @ op_Port params @ q @
         '' user='' @ q @ ''${env:PG_USERNAME}'' @ q @ '' password='' @ q @ ''${env:PG_PASSWORD}'' @ q @
         '' dbname='' @ q @ op_DBName params @ q @ '' sslmode=verify-full sslrootcert='' @ otelCACertFile @ dq,
       ''    collection_interval: '' @ bloatInterval] @ otelQueries @
      ['''', ''exporters:'', ''  prometheus:'', ''    endpoint: '' @ dq @ ''0.0.0.0:'' @ itoa OTelMetricsPort @ dq, '''',
       ''service:'', ''  extensions: [health_check]'', ''  pipelines:'', ''    metrics:'',
       ''      receivers: [postgresql, sqlquery]'', ''      exporters: [prometheus]'']))"

definition otelLabels :: "apiShard \<Rightarrow> string gomap" where
  [res_defs]: "otelLabels sh = stdLabels NameOTelCollector (shardName sh) ComponentMonitoring"

definition otelVolumes :: "string \<Rightarrow> oTelConnectionParams \<Rightarrow> volume list" where
  "otelVolumes configMapName params =
     (let certKey = (if op_CACertSecretKey params = [] then ''ca.crt'' else op_CACertSecretKey params) in
      [\<lparr>vol_name = ''otel-config'', vol_source = ConfigMapVolume configMapName None\<rparr>,
       \<lparr>vol_name = otelTLSVolumeName,
        vol_source = SecretVolume (op_CACertSecretName params)
          [\<lparr>kp_key = certKey, kp_path = ''ca.crt'', kp_mode = None\<rparr>]\<rparr>])"

definition otelContainer :: "string \<Rightarrow> container" where
  "otelContainer credentialSecretName =
     \<lparr>ct_name = NameOTelCollector, ct_image = DefaultOTelCollectorImage, ct_command = [],
      ct_args = [''--config=/etc/otel/config.yaml''],
      ct_env =
        [\<lparr>ev_name = ''PG_USERNAME'', ev_value = [],
          ev_secretKeyRef = Some \<lparr>sks_name = credentialSecretName, sks_key = ''POSTGRES_USER''\<rparr>\<rparr>,
         \<lparr>ev_name = ''PG_PASSWORD'', ev_value = [],
          ev_secretKeyRef = Some \<lparr>sks_name = credentialSecretName, sks_key = ''POSTGRES_PASSWORD''\<rparr>\<rparr>],
      ct_envFrom = [],
      ct_resources = \<lparr>rr_requests = Some [(''cpu'', ''50m''), (''memory'', ''128Mi'')],
                      rr_limits = Some [(''memory'', ''256Mi'')]\<rparr>,
      ct_securityContext = Some RestrictedContainerSecurityContext,
      ct_ports =
        [\<lparr>cp_name = OTelMetricsPortName, cp_containerPort = OTelMetricsPort, cp_protocol = ''TCP''\<rparr>,
         \<lparr>cp_name = ''health'', cp_containerPort = OTelHealthPort, cp_protocol = ''TCP''\<rparr>],
      ct_volumeMounts = [roMount ''otel-config'' ''/etc/otel'', roMount otelTLSVolumeName otelTLSMountPath],
      ct_readinessProbe = Some \<lparr>pr_handler = HTTPGet ''/'' OTelHealthPort [], pr_initialDelaySeconds = 5, pr_periodSeconds = 10\<rparr>,
      ct_livenessProbe = Some \<lparr>pr_handler = HTTPGet ''/'' OTelHealthPort [], pr_initialDelaySeconds = 15, pr_periodSeconds = 30\<rparr>\<rparr>"

definition BuildOTelCollectorDeployment :: "apiShard \<Rightarrow> string \<Rightarrow> string \<Rightarrow> oTelConnectionParams \<Rightarrow> deployment" where
  "BuildOTelCollectorDeployment sh credentialSecretName configMapName params =
     \<lparr>d_meta = namedMeta (OTelCollectorDeploymentName sh) (shardNS sh) (otelLabels sh),
      d_replicas = Some 1, d_strategy = None,
      d_selector = otelLabels sh, d_templateLabels = otelLabels sh,
      d_podSpec = emptyPodSpec\<lparr>
        ps_securityContext := Some RestrictedPodSecurityContext,
        ps_containers := [otelContainer credentialSecretName],
        ps_volumes := otelVolumes configMapName params\<rparr>,
      d_status = emptyStatus\<rparr>"

definition BuildOTelCollectorService :: "apiShard \<Rightarrow> service" where
  "BuildOTelCollectorService sh =
     \<lparr>sv_meta = namedMeta (OTelCollectorServiceName sh) (shardNS sh) (otelLabels sh),
      sv_selector = otelLabels sh,
      sv_ports = [\<lparr>sp_name = OTelMetricsPortName, sp_port = OTelMetricsPort, sp_targetPort = OTelMetricsPort,
                   sp_protocol = ''TCP''\<rparr>],
      sv_trafficDistribution = None\<rparr>"

definition InClusterPostgreSQLConnectionParams :: "apiShard \<Rightarrow> oTelConnectionParams" where
  "InClusterPostgreSQLConnectionParams sh =
     \<lparr>op_Host = PostgreSQLServiceName sh @ ''.'' @ shardNS sh @ ''.svc'', op_Port = itoa PostgreSQLPort,
      op_User = NameKine, op_Password = [], op_DBName = NameKine, op_CACertSecretName = [],
      op_CACertSecretKey = []\<rparr>"

text \<open>
  \<open>strings.TrimSpace\<close> removes the white space code points of Unicode at both ends, here in their
  UTF-8 encodings, and \<open>strings.TrimPrefix\<close> removes one leading occurrence.
\<close>

definition spaceRunes :: "string list" where
  "spaceRunes =
     [[CHR 0x09], [CHR 0x0A], [CHR 0x0B], [CHR 0x0C], [CHR 0x0D], [CHR 0x20],
      [CHR 0xC2, CHR 0x85], [CHR 0xC2, CHR 0xA0], [CHR 0xE1, CHR 0x9A, CHR 0x80]] @
     map (\<lambda>c. [CHR 0xE2, CHR 0x80, c])
       [CHR 0x80, CHR 0x81, CHR 0x82, CHR 0x83, CHR 0x84, CHR 0x85, CHR 0x86, CHR 0x87, CHR 0x88, CHR 0x89,
        CHR 0x8A, CHR 0xA8, CHR 0xA9, CHR 0xAF] @
     [[CHR 0xE2, CHR 0x81, CHR 0x9F], [CHR 0xE3, CHR 0x80, CHR 0x80]]"

lemma spaceRunes_nonempty: "r \<in> set spaceRunes \<Longrightarrow> r \<noteq> []"
  by (auto simp: spaceRunes_def)

function trimLeftRunes :: "string list \<Rightarrow> string \<Rightarrow> string" where
  "trimLeftRunes rs s =
     (case find (\<lambda>r. r \<noteq> [] \<and> prefix r s) rs of None \<Rightarrow> s | Some r \<Rightarrow> trimLeftRunes rs (drop (length r) s))"
  by pat_completeness auto
termination
  by (relation "measure (\<lambda>(rs, s). length s)")
     (auto simp: find_Some_iff prefix_def)

declare trimLeftRunes.simps [simp del]

definition TrimSpace :: "string \<Rightarrow> string" where
  "TrimSpace s = rev (trimLeftRunes (map rev spaceRunes) (rev (trimLeftRunes spaceRunes s)))"

definition TrimPrefix :: "string \<Rightarrow> string \<Rightarrow> string" where
  "TrimPrefix s p = (if prefix p s then drop (length p) s else s)"

definition isDigit :: "char \<Rightarrow> bool" where
  "isDigit c = (c \<in> set ''0123456789'')"

definition hasNewline :: "string \<Rightarrow> bool" where
  "hasNewline s = (CHR 0x0A \<in> set s \<or> CHR 0x0D \<in> set s)"

text \<open>
  \<open>parseDSNURL\<close> is \<open>url.Parse\<close> with the accessors the function uses: scheme, user with optional
  password, host name, port and path.
\<close>

definition ParsePostgreSQLDSN :: "env \<Rightarrow> string \<Rightarrow> goerror + oTelConnectionParams" where
  "ParsePostgreSQLDSN E dsn =
     (case parseDSNURL E (TrimSpace dsn) of
        Inl e \<Rightarrow> Inl (wrap ''invalid DSN'' e)
      | Inr (scheme, userinfo, hostname, port, path) \<Rightarrow>
         if scheme \<noteq> ''postgres'' \<and> scheme \<noteq> ''postgresql''
         then Inl (errorf (''invalid DSN: unsupported scheme '' @ quote scheme))
         else
           let user = (case userinfo of None \<Rightarrow> [] | Some (u, _) \<Rightarrow> u);
               pass = (case userinfo of Some (_, Some p) \<Rightarrow> p | _ \<Rightarrow> []);
               portv = (if port \<noteq> [] then port else ''5432'');
               db = TrimPrefix path ''/'';
               dbv = (if db \<noteq> [] then db else ''kine'')
           in if hostname = [] then Inl (errorf ''invalid DSN: host is empty'')
              else if user = [] then Inl (errorf ''invalid DSN: user is empty'')
              else if \<not> list_all isDigit portv
              then Inl (errorf (''invalid DSN: port '' @ quote portv @ '' contains non-digit characters''))
              else if hasNewline hostname then Inl (errorf ''invalid DSN: host contains newline characters'')
              else if hasNewline dbv then Inl (errorf ''invalid DSN: dbname contains newline characters'')
              else if hasNewline user then Inl (errorf ''invalid DSN: user contains newline characters'')
              else Inr \<lparr>op_Host = hostname, op_Port = portv, op_User = user, op_Password = pass,
                        op_DBName = dbv, op_CACertSecretName = [], op_CACertSecretKey = []\<rparr>)"

section \<open>OpenShift security constraints (scc.go)\<close>

definition APIServerSCCName :: "apiShard \<Rightarrow> string" where
  "APIServerSCCName sh = shardName sh @ ''-apiserver''"
definition APIServerSCCClusterRoleName :: "apiShard \<Rightarrow> string" where
  "APIServerSCCClusterRoleName sh = shardName sh @ ''-apiserver-scc''"

definition sccLabels :: "apiShard \<Rightarrow> string gomap" where
  [res_defs]: "sccLabels sh =
     [(LabelInstance, shardName sh), (LabelManagedBy, ManagedByValue), (LabelComponent, ComponentAPIServer)]"

definition BuildAPIServerSCC :: "apiShard \<Rightarrow> unstructured" where
  "BuildAPIServerSCC sh =
     \<lparr>un_gvk = GVK ''security.openshift.io'' ''v1'' ''SecurityContextConstraints'',
      un_meta = namedMeta (APIServerSCCName sh) [] (sccLabels sh),
      un_body =
        [(''allowPrivilegeEscalation'', JBool True), (''allowPrivilegedContainer'', JBool False),
         (''allowHostDirVolumePlugin'', JBool False), (''allowHostIPC'', JBool False),
         (''allowHostNetwork'', JBool False), (''allowHostPID'', JBool False), (''allowHostPorts'', JBool False),
         (''allowedCapabilities'', JArr [JStr ''NET_BIND_SERVICE'']),
         (''defaultAddCapabilities'', JNull), (''requiredDropCapabilities'', JArr [JStr ''ALL'']),
         (''readOnlyRootFilesystem'', JBool False),
         (''runAsUser'', JObj [(''type'', JStr ''MustRunAsRange'')]),
         (''seLinuxContext'', JObj [(''type'', JStr ''MustRunAs'')]),
         (''fsGroup'', JObj [(''type'', JStr ''MustRunAs'')]),
         (''supplementalGroups'', JObj [(''type'', JStr ''RunAsAny'')]),
         (''seccompProfiles'', JArr [JStr ''runtime/default'']),
         (''volumes'', JArr (map JStr [''configMap'', ''csi'', ''downwardAPI'', ''emptyDir'', ''ephemeral'',
            ''persistentVolumeClaim'', ''projected'', ''secret'']))]\<rparr>"

definition BuildAPIServerSCCClusterRole :: "apiShard \<Rightarrow> role" where
  "BuildAPIServerSCCClusterRole sh =
     \<lparr>rl_meta = namedMeta (APIServerSCCClusterRoleName sh) [] (sccLabels sh),
      rl_rules =
        [emptyRule\<lparr>pol_apiGroups := [''security.openshift.io''],
                   pol_resources := [''securitycontextconstraints''],
                   pol_resourceNames := [APIServerSCCName sh], pol_verbs := [''use'']\<rparr>]\<rparr>"

definition BuildAPIServerSCCRoleBinding :: "apiShard \<Rightarrow> roleBinding" where
  "BuildAPIServerSCCRoleBinding sh =
     \<lparr>rb_meta = namedMeta (APIServerSCCClusterRoleName sh) (shardNS sh) (sccLabels sh),
      rb_roleRef = \<lparr>rr_apiGroup = ''rbac.authorization.k8s.io'', rr_kind = ''ClusterRole'',
                    rr_name = APIServerSCCClusterRoleName sh\<rparr>,
      rb_subjects = [\<lparr>sj_kind = ''ServiceAccount'', sj_name = SecondaryServiceAccountName sh,
                      sj_namespace = shardNS sh\<rparr>]\<rparr>"

end
