(* ===== verification/Aggregation.thy ===== *)
theory Aggregation
  imports Monitoring Reference
begin

text \<open>
  \<open>operator/internal/aggregation\<close>: registering the API groups of a shard with the aggregation
  layer of the primary (\<open>apiservice.go\<close>), reading back whether they are served, and the check for
  CRDs on the primary that would shadow them (\<open>conflict.go\<close>).
\<close>

section \<open>Registration (apiservice.go)\<close>

definition AutoManagedLabelKey :: string where
  [go_defs]: "AutoManagedLabelKey = ''kube-aggregator.kubernetes.io/automanaged''"

definition apiServiceName :: "string \<Rightarrow> string \<Rightarrow> string" where
  "apiServiceName ver grp = ver @ ''.'' @ grp"

definition groupVersions :: "apiShard \<Rightarrow> (string \<times> string) list" where
  "groupVersions sh =
     concat (map (\<lambda>g. map (\<lambda>v. (ag_group g, v)) (ag_versions g)) (apiGroups (spec sh)))"

definition desiredAPIServiceNames :: "apiShard \<Rightarrow> string list" where
  "desiredAPIServiceNames sh =
     concat (map (\<lambda>g. map (\<lambda>v. apiServiceName v (ag_group g)) (ag_versions g)) (apiGroups (spec sh)))"

definition buildAPIService :: "apiShard \<Rightarrow> bytes \<Rightarrow> string \<times> string \<Rightarrow> apiService" where
  "buildAPIService sh caBundle gv =
     \<lparr>as_meta = namedMeta (apiServiceName (snd gv) (fst gv)) [] [(AutoManagedLabelKey, ''false'')],
      as_group = fst gv, as_version = snd gv,
      as_groupPriorityMinimum = 1000, as_versionPriority = 100,
      as_service = Some (SecondaryServiceName sh, shardNS sh),
      as_caBundle = caBundle, as_insecureSkipTLSVerify = (caBundle = []),
      as_conditions = []\<rparr>"

definition applyAPIService :: "env \<Rightarrow> apiShard \<Rightarrow> bytes \<Rightarrow> string \<times> string \<Rightarrow> ('z base_scheme, unit) op" where
  "applyAPIService E sh caBundle gv =
     (let apiSvc = buildAPIService sh caBundle gv; name = om_name (as_meta apiSvc) in
      case setControllerReference E sh (as_meta apiSvc) of
        Inl e \<Rightarrow> throwE (wrap (''setting owner reference on APIService '' @ name) e)
      | Inr m \<Rightarrow> wrapE (''applying APIService '' @ name)
                  (requestU E (ApplyCall Primary (KAPIService (apiSvc\<lparr>as_meta := m\<rparr>)))))"

definition deleteOrphan :: "env \<Rightarrow> string list \<Rightarrow> string \<Rightarrow> ('z base_scheme, unit) op" where
  "deleteOrphan E desired name =
     (if name \<in> set desired then returnE ()
      else bindE (tryE (getObj E asAPIService Primary APIServiceKind ('''', name))) (\<lambda>got.
        case got of
          Inl e \<Rightarrow> if IsNotFound e then returnE () else throwE (wrap (''getting orphaned APIService '' @ name) e)
        | Inr existing \<Rightarrow> wrapE (''deleting orphaned APIService '' @ name)
                            (requestU E (DeleteCall Primary (KAPIService existing)))))"

definition aggregation_Reconcile ::
  "env \<Rightarrow> apiShard \<Rightarrow> bytes \<Rightarrow> string list \<Rightarrow> ('z base_scheme, string list) op" where
  "aggregation_Reconcile E sh caBundle previouslyRegistered =
     (let desired = desiredAPIServiceNames sh in
      bindE (forE (groupVersions sh) (applyAPIService E sh caBundle)) (\<lambda>_.
      bindE (forE previouslyRegistered (deleteOrphan E desired)) (\<lambda>_.
      returnE desired)))"

section \<open>Availability (apiservice.go)\<close>

definition ownedBy :: "string \<Rightarrow> apiService \<Rightarrow> bool" where
  "ownedBy ownerUID svc = list_ex (\<lambda>r. or_uid r = ownerUID) (om_ownerReferences (as_meta svc))"

text \<open>The first \<open>Available\<close> condition decides; \<open>None\<close> is that there is none yet.\<close>

definition availableCondition :: "apiService \<Rightarrow> condition option" where
  "availableCondition svc = find (\<lambda>c. c_type c = ''Available'') (as_conditions svc)"

fun checkOwned :: "apiService list \<Rightarrow> bool \<times> string" where
  "checkOwned [] = (True, [])"
| "checkOwned (svc # rest) =
     (case availableCondition svc of
        None \<Rightarrow> (False, ''APIService '' @ om_name (as_meta svc) @ '' has no Available condition yet'')
      | Some c \<Rightarrow>
         if c_status c \<noteq> ConditionTrue
         then (False, ''APIService '' @ om_name (as_meta svc) @ '' not yet available: '' @ c_message c)
         else checkOwned rest)"

definition CheckAvailability :: "env \<Rightarrow> string \<Rightarrow> ('z base_scheme, bool \<times> string) op" where
  "CheckAvailability E ownerUID =
     bindE (wrapE ''list APIServices'' (listObjs E asAPIService Primary APIServiceKind None None)) (\<lambda>items.
       let owned = filter (ownedBy ownerUID) items in
       if owned = [] then returnE (False, ''no APIServices owned by shard'')
       else returnE (checkOwned owned))"

section \<open>CRD conflicts (conflict.go)\<close>

record conflictResult =
  cr_hasConflict :: bool
  cr_conflictingCRDs :: "string list"
  cr_message :: string

definition DetectCRDConflicts :: "env \<Rightarrow> apiShard \<Rightarrow> ('z base_scheme, conflictResult) op" where
  "DetectCRDConflicts E sh =
     (let aggregatedGroups = map ag_group (apiGroups (spec sh)) in
      bindE (wrapE ''listing CRDs'' (listObjs E asCRD Primary CRDKind None None)) (\<lambda>items.
        let conflicting = map (\<lambda>c. om_name (crd_meta c)) (filter (\<lambda>c. crd_group c \<in> set aggregatedGroups) items) in
        if conflicting = [] then returnE \<lparr>cr_hasConflict = False, cr_conflictingCRDs = [], cr_message = []\<rparr>
        else returnE \<lparr>cr_hasConflict = True, cr_conflictingCRDs = conflicting,
                      cr_message = ''CRDs on primary conflict with aggregation: '' @ joinWith '', '' conflicting\<rparr>))"

section \<open>Lemmas\<close>

text \<open>The calls of a registration pass.\<close>

fun registrationCall :: "apiShard \<Rightarrow> string list \<Rightarrow> event \<Rightarrow> bool" where
  "registrationCall sh prev (ApplyCall Primary (KAPIService a), r) =
     (\<exists>gv \<in> set (groupVersions sh). as_group a = fst gv \<and> as_version a = snd gv)"
| "registrationCall sh prev (GetCall Primary APIServiceKind (ns, n), r) =
     (ns = [] \<and> n \<in> set prev \<and> n \<notin> set (desiredAPIServiceNames sh))"
| "registrationCall sh prev (DeleteCall Primary (KAPIService a), r) = True"
| "registrationCall sh prev e = False"

fun isApply :: "event \<Rightarrow> bool" where
  "isApply (ApplyCall _ _, _) = True"
| "isApply _ = False"

fun isAPIServiceDelete :: "event \<Rightarrow> bool" where
  "isAPIServiceDelete (DeleteCall Primary (KAPIService _), _) = True"
| "isAPIServiceDelete _ = False"

lemma desiredAPIServiceNames_eq:
  "desiredAPIServiceNames sh = map (\<lambda>gv. apiServiceName (snd gv) (fst gv)) (groupVersions sh)"
  by (simp add: desiredAPIServiceNames_def groupVersions_def map_concat comp_def)

lemma buildAPIService_sel [simp]:
  "as_group (buildAPIService sh ca gv) = fst gv" "as_version (buildAPIService sh ca gv) = snd gv"
  "om_name (as_meta (buildAPIService sh ca gv)) = apiServiceName (snd gv) (fst gv)"
  by (simp_all add: buildAPIService_def)

lemma keeps_applyAPIService:
  assumes "\<And>a r. as_group a = fst gv \<Longrightarrow> as_version a = snd gv \<Longrightarrow> P (ApplyCall Primary (KAPIService a), r)"
  shows "keeps (extends P) (applyAPIService E sh ca gv)"
  unfolding applyAPIService_def Let_def
  by (auto split: sum.splits intro!: ext.keeps_throw ext.keeps_wrap keeps_requestU assms)

lemma keeps_deleteOrphan:
  assumes "\<And>r. n \<notin> set desired \<Longrightarrow> P (GetCall Primary APIServiceKind ('''', n), r)"
    and "\<And>a r. n \<notin> set desired \<Longrightarrow> P (DeleteCall Primary (KAPIService a), r)"
  shows "keeps (extends P) (deleteOrphan E desired n)"
  unfolding deleteOrphan_def
  by (auto split: sum.splits intro!: keeps_intros assms)

lemma grows_applyAPIService: "grows (applyAPIService E sh ca gv)"
  by (rule keeps_applyAPIService) simp

lemma grows_deleteOrphan: "grows (deleteOrphan E desired n)"
  by (rule keeps_deleteOrphan) simp_all

lemma keeps_aggregation_Reconcile:
  assumes P: "\<And>e. registrationCall sh prev e \<Longrightarrow> P e"
  shows "keeps (extends P) (aggregation_Reconcile E sh ca prev)"
proof (rule keeps_mono [OF _ P])
  have "keeps (extends (registrationCall sh prev)) (applyAPIService E sh ca gv)" if "gv \<in> set (groupVersions sh)" for gv
    using that by (intro keeps_applyAPIService) auto
  moreover have "keeps (extends (registrationCall sh prev)) (deleteOrphan E (desiredAPIServiceNames sh) n)" if "n \<in> set prev" for n
    using that by (intro keeps_deleteOrphan) auto
  ultimately show "keeps (extends (registrationCall sh prev)) (aggregation_Reconcile E sh ca prev)"
    unfolding aggregation_Reconcile_def Let_def
    by (intro ext.keeps_bind ext.keeps_for ext.keeps_return)
qed

lemma applyAPIService_run:
  "applyAPIService E sh ca gv s = (Inr u, t) \<longleftrightarrow>
     (\<exists>m. setControllerReference E sh (as_meta (buildAPIService sh ca gv)) = Inr m \<and>
       requestU E (ApplyCall Primary (KAPIService ((buildAPIService sh ca gv)\<lparr>as_meta := m\<rparr>))) s = (Inr u, t))"
  by (auto simp: applyAPIService_def Let_def throwE_def split: sum.splits)

text \<open>An orphan is gone once it was read as absent, or read and deleted.\<close>

definition orphanGone :: "string \<Rightarrow> event list \<Rightarrow> bool" where
  "orphanGone n es =
     ((\<exists>e. IsNotFound e \<and> (GetCall Primary APIServiceKind ('''', n), RErr e) \<in> set es) \<or>
      (\<exists>a. (GetCall Primary APIServiceKind ('''', n), RObj (KAPIService a)) \<in> set es \<and>
           performed (DeleteCall Primary (KAPIService a)) es))"

lemma orphanGone_mono: "set es \<subseteq> set fs \<Longrightarrow> orphanGone n es \<Longrightarrow> orphanGone n fs"
  unfolding orphanGone_def using performed_mono by blast

lemma deleteOrphan_run:
  assumes "deleteOrphan E desired n s = (Inr u, t)" and "n \<notin> set desired"
  shows "orphanGone n (newEvents s t)"
proof -
  let ?get = "GetCall Primary APIServiceKind ('''', n)"
  obtain got v where get: "getObj E asAPIService Primary APIServiceKind ('''', n) s = (got, v)"
    by (cases "getObj E asAPIService Primary APIServiceKind ('''', n) s")
  show ?thesis
  proof (cases got)
    case (Inl e)
    with assms get have nf: "IsNotFound e" and tv: "t = v"
      by (auto simp: deleteOrphan_def bindE_def tryE_def returnE_def throwE_def split: if_splits)
    with get Inl getObj_NotFound [of E asAPIService Primary APIServiceKind "('''', n)" s e v]
    have "newEvents s t = [(?get, RErr e)]" by (simp add: newEvents_def)
    with nf show ?thesis by (auto simp: orphanGone_def)
  next
    case (Inr a)
    with get have v: "v = s\<lparr>tr := tr s @ [(?get, RObj (KAPIService a))]\<rparr>" by (auto simp: runs)
    have rest: "requestU E (DeleteCall Primary (KAPIService a)) v = (Inr u, t)"
      using assms get Inr by (simp add: deleteOrphan_def runs bindE_def tryE_def)
    then have "performed (DeleteCall Primary (KAPIService a)) (newEvents v t)"
      by (auto simp: runs newEvents_def performed_def)
    moreover from rest v have "newEvents s t = (?get, RObj (KAPIService a)) # newEvents v t"
      by (auto simp: runs newEvents_def)
    ultimately show ?thesis by (auto simp: orphanGone_def performed_Cons)
  qed
qed

lemma checkOwned_True:
  "fst (checkOwned svcs) \<longleftrightarrow>
     (\<forall>svc \<in> set svcs. \<exists>c. availableCondition svc = Some c \<and> c_status c = ConditionTrue)"
  by (induction svcs rule: checkOwned.induct) (auto split: option.splits)

lemma checkOwned_message: "snd (checkOwned svcs) = [] \<longleftrightarrow> fst (checkOwned svcs)"
  by (induction svcs rule: checkOwned.induct) (auto split: option.splits)

lemma aggregation_applies:
  fixes s t :: "'z base_scheme"
  assumes "forE (groupVersions sh) (applyAPIService E sh ca) s = (Inr u, t)" and "gv \<in> set (groupVersions sh)"
  shows "\<exists>m. setControllerReference E sh (as_meta (buildAPIService sh ca gv)) = Inr m \<and>
    performed (ApplyCall Primary (KAPIService ((buildAPIService sh ca gv)\<lparr>as_meta := m\<rparr>))) (newEvents s t)"
proof -
  from for_run [OF assms grows_applyAPIService] obtain s1 t1 :: "'z base_scheme"
    where run: "applyAPIService E sh ca gv s1 = (Inr (), t1)"
      and sub: "set (newEvents s1 t1) \<subseteq> set (newEvents s t)"
    using events_between by blast
  from run obtain m where "setControllerReference E sh (as_meta (buildAPIService sh ca gv)) = Inr m"
      "performed (ApplyCall Primary (KAPIService ((buildAPIService sh ca gv)\<lparr>as_meta := m\<rparr>))) (newEvents s1 t1)"
    by (auto simp: applyAPIService_run runs newEvents_def performed_def)
  with sub show ?thesis using performed_mono by blast
qed

lemma deleteOrphan_event:
  assumes "(DeleteCall Primary (KAPIService a), r) \<in> set (newEvents s (snd (deleteOrphan E desired n s)))"
  shows "n \<notin> set desired \<and> answer E (tr s) (GetCall Primary APIServiceKind ('''', n)) = RObj (KAPIService a)"
proof -
  obtain got v where get: "getObj E asAPIService Primary APIServiceKind ('''', n) s = (got, v)"
    by (cases "getObj E asAPIService Primary APIServiceKind ('''', n) s")
  from assms have n: "n \<notin> set desired" by (auto simp: deleteOrphan_def returnE_def split: if_splits)
  show ?thesis
  proof (cases got)
    case (Inl e)
    with assms n get getObj_fail(1) [of E asAPIService Primary APIServiceKind "('''', n)" s e v] show ?thesis
      by (auto simp: deleteOrphan_def bindE_def tryE_def returnE_def throwE_def newEvents_def split: if_splits)
  next
    case (Inr b)
    with get have v: "v = s\<lparr>tr := tr s @ [(GetCall Primary APIServiceKind ('''', n), RObj (KAPIService b))]\<rparr>"
      and ans: "answer E (tr s) (GetCall Primary APIServiceKind ('''', n)) = RObj (KAPIService b)"
      by (auto simp: runs)
    have "snd (deleteOrphan E desired n s) = snd (requestU E (DeleteCall Primary (KAPIService b)) v)"
      using n get Inr by (simp add: deleteOrphan_def bindE_def tryE_def)
    with assms v n ans show ?thesis
      by (auto simp: requestU_def newEvents_def snd_request bindE_def returnE_def request_def Let_def split: resp.splits)
  qed
qed

section \<open>Properties\<close>

text \<open>
  C15: a registration pass that succeeds returns exactly the names of the served group versions,
  has applied for each of them the APIService built for it, owned by the shard, and every
  previously registered name that is no longer served is gone: it was read as absent, or read
  and deleted.
\<close>

theorem aggregation_Reconcile_success:
  fixes s t :: "'z base_scheme"
  assumes "aggregation_Reconcile E sh ca prev s = (Inr reg, t)"
  shows "reg = desiredAPIServiceNames sh \<and>
    (\<forall>gv \<in> set (groupVersions sh). \<exists>m.
       setControllerReference E sh (as_meta (buildAPIService sh ca gv)) = Inr m \<and>
       performed (ApplyCall Primary (KAPIService ((buildAPIService sh ca gv)\<lparr>as_meta := m\<rparr>))) (newEvents s t)) \<and>
    (\<forall>n \<in> set prev. n \<notin> set reg \<longrightarrow> orphanGone n (newEvents s t))"
proof -
  from assms obtain v where reg: "reg = desiredAPIServiceNames sh"
    and a: "forE (groupVersions sh) (applyAPIService E sh ca) s = (Inr (), v)"
    and d: "forE prev (deleteOrphan E reg) v = (Inr (), t)"
    by (auto simp: aggregation_Reconcile_def Let_def runs)
  have sv: "prefix (tr s) (tr v)" using a by (rule grows_run [OF ext.keeps_for, OF grows_applyAPIService])
  have vt: "prefix (tr v) (tr t)" using d by (rule grows_run [OF ext.keeps_for, OF grows_deleteOrphan])
  have sub: "set (newEvents s v) \<subseteq> set (newEvents s t)" "set (newEvents v t) \<subseteq> set (newEvents s t)"
    using newEvents_trans [OF sv vt] by simp_all
  have gone: "orphanGone n (newEvents s t)" if n: "n \<in> set prev" "n \<notin> set reg" for n
  proof -
    from for_run [OF d n(1) grows_deleteOrphan] obtain s1 t1 :: "'z base_scheme"
      where "deleteOrphan E reg n s1 = (Inr (), t1)" "set (newEvents s1 t1) \<subseteq> set (newEvents v t)"
      using events_between by blast
    with deleteOrphan_run [of E reg n s1 "()" t1] n(2) sub(2) show ?thesis
      by (meson orphanGone_mono order_trans)
  qed
  show ?thesis
    using reg gone aggregation_applies [OF a] performed_mono [OF sub(1)] by blast
qed

text \<open>
  C16: whatever the API server answers, and whether or not the pass succeeds, an APIService
  deleted by a registration pass is one that was registered before and is not served any more, and
  it is deleted only after every served group version was applied.
\<close>

theorem aggregation_Reconcile_deletes_orphans_only:
  fixes s :: "'z base_scheme"
  assumes "reads_by_name E"
    and "(DeleteCall Primary (KAPIService a), r) \<in> set (newEvents s (snd (aggregation_Reconcile E sh ca prev s)))"
  shows "om_name (as_meta a) \<in> set prev \<and> om_name (as_meta a) \<notin> set (desiredAPIServiceNames sh) \<and>
    (\<forall>gv \<in> set (groupVersions sh). \<exists>m.
       performed (ApplyCall Primary (KAPIService ((buildAPIService sh ca gv)\<lparr>as_meta := m\<rparr>)))
         (newEvents s (snd (aggregation_Reconcile E sh ca prev s))))"
proof -
  let ?d = "desiredAPIServiceNames sh" and ?e = "(DeleteCall Primary (KAPIService a), r)"
  let ?apply = "forE (groupVersions sh) (applyAPIService E sh ca)" and ?del = "forE prev (deleteOrphan E ?d)"
  let ?rest = "bindE ?del (\<lambda>_. returnE ?d)"
  have ap: "keeps (extends isApply) ?apply" by (intro ext.keeps_for keeps_applyAPIService) simp
  have rest: "grows ?rest" by (intro ext.keeps_bind ext.keeps_for grows_deleteOrphan ext.keeps_return)
  have e: "?e \<in> set (newEvents s (snd (bindE ?apply (\<lambda>_. ?rest) s)))"
    using assms(2) by (simp add: aggregation_Reconcile_def Let_def)
  from bind_event [OF e ap _ rest] obtain u t where run: "?apply s = (Inr u, t)"
    and e2: "?e \<in> set (newEvents t (snd (?rest t)))"
    and all: "newEvents s (snd (aggregation_Reconcile E sh ca prev s)) = newEvents s t @ newEvents t (snd (?rest t))"
    by (auto simp: aggregation_Reconcile_def Let_def)
  have "snd (?rest t) = snd (?del t)" by (simp add: bindE_def returnE_def split: prod.splits sum.splits)
  with e2 for_event [of ?e t prev "deleteOrphan E ?d", OF _ grows_deleteOrphan] obtain n and v :: "'z base_scheme"
    where n: "n \<in> set prev" and ev: "?e \<in> set (newEvents v (snd (deleteOrphan E ?d n v)))" by auto
  from deleteOrphan_event [OF ev] have nd: "n \<notin> set ?d"
    and "answer E (tr v) (GetCall Primary APIServiceKind ('''', n)) = RObj (KAPIService a)" by simp_all
  from reads_by_nameD [OF assms(1) this(2)] have "om_name (as_meta a) = n" by (simp add: keyOf_def)
  with n nd aggregation_applies [OF run] all show ?thesis by (metis performed_append)
qed

definition staleAPIService :: apiService where
  "staleAPIService = buildAPIService sampleShard [] (''old.dev'', ''v1'')"

theorem aggregation_Reconcile_success_witness:
  "orphanGone ''v1.old.dev''
     (newEvents initialBase (snd (aggregation_Reconcile (refEnv (heldServer [KAPIService staleAPIService]))
        sampleShard [] [''v1.old.dev''] initialBase)))"
proof -
  let ?E = "refEnv (heldServer [KAPIService staleAPIService])"
  obtain t where run: "aggregation_Reconcile ?E sampleShard [] [''v1.old.dev''] initialBase = (Inr [''v1.tekton.dev''], t)"
    by (simp add: aggregation_Reconcile_def desiredAPIServiceNames_def groupVersions_def sampleShard_def sampleSpec_def
        applyAPIService_def deleteOrphan_def apiServiceName_def op_defs initialBase_def Let_def
        staleAPIService_def keyOf_def buildAPIService_def)
  from aggregation_Reconcile_success [OF this] show ?thesis by (simp add: run)
qed

theorem aggregation_Reconcile_deletes_orphans_only_witness:
  "\<exists>r. (DeleteCall Primary (KAPIService staleAPIService), r) \<in>
     set (newEvents initialBase (snd (aggregation_Reconcile (refEnv (heldServer [KAPIService staleAPIService]))
        sampleShard [] [''v1.old.dev''] initialBase))) \<and>
   ''v1.old.dev'' \<notin> set (desiredAPIServiceNames sampleShard)"
proof -
  let ?E = "refEnv (heldServer [KAPIService staleAPIService])"
  have "(DeleteCall Primary (KAPIService staleAPIService), ROk) \<in>
     set (newEvents initialBase (snd (aggregation_Reconcile ?E sampleShard [] [''v1.old.dev''] initialBase)))"
    by (simp add: aggregation_Reconcile_def desiredAPIServiceNames_def groupVersions_def sampleShard_def sampleSpec_def
        applyAPIService_def deleteOrphan_def apiServiceName_def op_defs initialBase_def Let_def newEvents_def
        staleAPIService_def keyOf_def buildAPIService_def)
  from this aggregation_Reconcile_deletes_orphans_only [OF heldServer_reads_by_name this] show ?thesis
    by (auto simp: staleAPIService_def apiServiceName_def)
qed

text \<open>
  C29: the availability check reports success exactly when the listed APIServices contain one
  owned by the shard and the first \<open>Available\<close> condition of every owned one is \<open>True\<close>; it
  gives a message exactly when it reports failure.
\<close>

theorem CheckAvailability_iff:
  assumes "CheckAvailability E uid s = (Inr (ok, msg), t)"
  shows "\<exists>items. newEvents s t = [(ListCall Primary APIServiceKind None None, RObjs (map KAPIService items))] \<and>
    (ok \<longleftrightarrow> (\<exists>a \<in> set items. ownedBy uid a) \<and>
       (\<forall>a \<in> set items. ownedBy uid a \<longrightarrow>
          (\<exists>c. availableCondition a = Some c \<and> c_status c = ConditionTrue))) \<and>
    (msg = [] \<longleftrightarrow> ok)"
proof -
  from assms obtain items
    where ev: "newEvents s t = [(ListCall Primary APIServiceKind None None, RObjs (map KAPIService items))]"
      and res: "(ok, msg) = (if filter (ownedBy uid) items = [] then (False, ''no APIServices owned by shard'')
                             else checkOwned (filter (ownedBy uid) items))"
    by (auto simp: CheckAvailability_def runs newEvents_def returnE_def Let_def split: if_splits)
  show ?thesis
  proof (cases "filter (ownedBy uid) items = []")
    case True
    with res ev show ?thesis by (auto simp: filter_empty_conv)
  next
    case False
    with res have "ok = fst (checkOwned (filter (ownedBy uid) items))"
      "msg = snd (checkOwned (filter (ownedBy uid) items))" by (metis fst_conv snd_conv)+
    with ev False show ?thesis by (auto simp: checkOwned_True checkOwned_message filter_empty_conv)
  qed
qed

definition servedAPIService :: apiService where
  "servedAPIService = (buildAPIService sampleShard [] (''tekton.dev'', ''v1''))
     \<lparr>as_meta := ownedMeta sampleShard (namedMeta ''v1.tekton.dev'' [] []),
      as_conditions := [mkCondition ''Available'' ConditionTrue ''Passed'' [] 0]\<rparr>"

theorem CheckAvailability_iff_witness:
  "fst (CheckAvailability (refEnv (heldServer [KAPIService servedAPIService])) ''u1'' initialBase) = Inr (True, [])"
proof -
  let ?r = "CheckAvailability (refEnv (heldServer [KAPIService servedAPIService])) ''u1'' initialBase"
  have own: "ownedBy ''u1'' servedAPIService"
    by (simp add: ownedBy_def servedAPIService_def ownedMeta_def sampleShard_def)
  have av: "availableCondition servedAPIService = Some (mkCondition ''Available'' ConditionTrue ''Passed'' [] 0)"
    by (simp add: availableCondition_def servedAPIService_def mkCondition_def)
  obtain ok msg t where run: "?r = (Inr (ok, msg), t)"
    and ev: "newEvents initialBase t = [(ListCall Primary APIServiceKind None None, RObjs [KAPIService servedAPIService])]"
    by (simp add: CheckAvailability_def op_defs initialBase_def own av newEvents_def Let_def)
  from CheckAvailability_iff [OF run] ev own av have "ok" "msg = []" by (auto simp: mkCondition_def)
  with run show ?thesis by simp
qed



end
