(* ===== verification/StatusFree.thy ===== *)
theory StatusFree
  imports Aggregation
begin

text \<open>
  What the operator builds for a shard depends on its metadata and its specification, not on its
  status, which the steps of a reconcile edit in place.
\<close>

lemma status_free_Scheduling [simp]:
  "isColocateEnabled (sh\<lparr>status := st\<rparr>) = isColocateEnabled sh"
  "BuildSecondaryAffinity (sh\<lparr>status := st\<rparr>) = BuildSecondaryAffinity sh"
  "BuildKineAffinity (sh\<lparr>status := st\<rparr>) = BuildKineAffinity sh"
  by (simp_all add: isColocateEnabled_def hostnameTerm_def BuildSecondaryAffinity_def BuildKineAffinity_def cong:
      if_cong)

lemma status_free_Kine [simp]:
  "KineDeploymentName (sh\<lparr>status := st\<rparr>) = KineDeploymentName sh"
  "KineServiceName (sh\<lparr>status := st\<rparr>) = KineServiceName sh"
  "PostgreSQLSecretName (sh\<lparr>status := st\<rparr>) = PostgreSQLSecretName sh"
  "KineEndpoint (sh\<lparr>status := st\<rparr>) = KineEndpoint sh"
  "kineLabels (sh\<lparr>status := st\<rparr>) = kineLabels sh"
  "kineContainer (sh\<lparr>status := st\<rparr>) = kineContainer sh"
  "kineVolumes (sh\<lparr>status := st\<rparr>) = kineVolumes sh"
  "BuildKineDeployment (sh\<lparr>status := st\<rparr>) = BuildKineDeployment sh"
  "BuildKineService (sh\<lparr>status := st\<rparr>) = BuildKineService sh"
  by (simp_all add: KineDeploymentName_def KineServiceName_def PostgreSQLSecretName_def KineEndpoint_def
      kineLabels_def kineBaseArgs_def kineArgs_def kineEnv_def kineEnvFrom_def kineVolumes_def kineVolumeMounts_def
      kineContainer_def BuildKineDeployment_def BuildKineService_def cong: if_cong)

lemma status_free_SecondaryServer [simp]:
  "SecondaryServiceAccountName (sh\<lparr>status := st\<rparr>) = SecondaryServiceAccountName sh"
  "SecondaryDeploymentName (sh\<lparr>status := st\<rparr>) = SecondaryDeploymentName sh"
  "SecondaryServiceName (sh\<lparr>status := st\<rparr>) = SecondaryServiceName sh"
  "SecondaryEndpoint (sh\<lparr>status := st\<rparr>) = SecondaryEndpoint sh"
  "apiserverLabels (sh\<lparr>status := st\<rparr>) = apiserverLabels sh"
  "BuildSecondaryServiceAccount (sh\<lparr>status := st\<rparr>) = BuildSecondaryServiceAccount sh"
  "secondaryContainer (sh\<lparr>status := st\<rparr>) allowedNames issuers = secondaryContainer sh allowedNames issuers"
  "secondaryVolumes (sh\<lparr>status := st\<rparr>) = secondaryVolumes sh"
  "BuildSecondaryDeployment (sh\<lparr>status := st\<rparr>) requestHeaderAllowedNames primaryIssuers = BuildSecondaryDeployment sh requestHeaderAllowedNames primaryIssuers"
  "BuildSecondaryService (sh\<lparr>status := st\<rparr>) = BuildSecondaryService sh"
  by (simp_all add: SecondaryServiceAccountName_def SecondaryDeploymentName_def SecondaryServiceName_def
      SecondaryEndpoint_def apiserverLabels_def BuildSecondaryServiceAccount_def etcdServers_def secondaryIssuer_def
      secondaryArgs_def secondaryVolumes_def secondaryContainer_def BuildSecondaryDeployment_def
      BuildSecondaryService_def cong: if_cong)

lemma status_free_Postgres [simp]:
  "PostgreSQLStatefulSetName (sh\<lparr>status := st\<rparr>) = PostgreSQLStatefulSetName sh"
  "PostgreSQLServiceName (sh\<lparr>status := st\<rparr>) = PostgreSQLServiceName sh"
  "postgresLabels (sh\<lparr>status := st\<rparr>) = postgresLabels sh"
  "BuildPostgreSQLSecret (sh\<lparr>status := st\<rparr>) password = BuildPostgreSQLSecret sh password"
  "persistenceFromShard (sh\<lparr>status := st\<rparr>) = persistenceFromShard sh"
  "postgresClaims (sh\<lparr>status := st\<rparr>) = postgresClaims sh"
  "postgresVolumes (sh\<lparr>status := st\<rparr>) = postgresVolumes sh"
  "postgresContainer (sh\<lparr>status := st\<rparr>) = postgresContainer sh"
  "BuildPostgreSQLStatefulSet (sh\<lparr>status := st\<rparr>) = BuildPostgreSQLStatefulSet sh"
  "BuildPostgreSQLService (sh\<lparr>status := st\<rparr>) = BuildPostgreSQLService sh"
  "StorageMonitoringEnabled (sh\<lparr>status := st\<rparr>) = StorageMonitoringEnabled sh"
  "BuildPostgreSQLInitConfigMap (sh\<lparr>status := st\<rparr>) = BuildPostgreSQLInitConfigMap sh"
  by (simp_all add: PostgreSQLStatefulSetName_def PostgreSQLServiceName_def PostgreSQLInitConfigMapName_def
      PostgreSQLDSN_def postgresLabels_def BuildPostgreSQLSecret_def persistenceFromShard_def postgresResources_def
      postgresClaims_def postgresVolumes_def postgresContainer_def BuildPostgreSQLStatefulSet_def
      BuildPostgreSQLService_def StorageMonitoringEnabled_def BuildPostgreSQLInitConfigMap_def cong: if_cong)

lemma status_free_Certs [simp]:
  "PKISecretName (sh\<lparr>status := st\<rparr>) = PKISecretName sh"
  "AdminClientSecretName (sh\<lparr>status := st\<rparr>) = AdminClientSecretName sh"
  "PostgreSQLCASecretName (sh\<lparr>status := st\<rparr>) = PostgreSQLCASecretName sh"
  "certLabels (sh\<lparr>status := st\<rparr>) = certLabels sh"
  "certObject k (sh\<lparr>status := st\<rparr>) nm sp = certObject k sh nm sp"
  "buildServingCert (sh\<lparr>status := st\<rparr>) certName secretName svcName issuer = buildServingCert sh certName secretName svcName issuer"
  "buildCertResources (sh\<lparr>status := st\<rparr>) = buildCertResources sh"
  by (simp_all add: IssuerName_def KineCAIssuerName_def KineCACertificateName_def KineCASecretName_def
      CACertificateName_def ServingCertificateName_def PKISecretName_def KineServingCertificateName_def
      KineServingSecretName_def PostgreSQLCAIssuerName_def PostgreSQLCACertificateName_def PostgreSQLCASecretName_def
      PostgreSQLServingCertificateName_def PostgreSQLServingSecretName_def EtcdClientCertificateName_def
      EtcdClientSecretName_def AdminClientCertificateName_def AdminClientSecretName_def certLabels_def certObject_def
      BuildSelfSignedIssuer_def BuildCACertificate_def BuildCAIssuer_def BuildKineSelfSignedIssuer_def
      BuildKineCACertificate_def BuildKineCAIssuer_def buildServingCert_def BuildServingCertificate_def
      BuildKineServingCertificate_def BuildPostgreSQLSelfSignedIssuer_def BuildPostgreSQLCACertificate_def
      BuildPostgreSQLCAIssuer_def BuildPostgreSQLServingCertificate_def BuildEtcdClientCertificate_def
      BuildAdminClientCertificate_def buildCertResources_def cong: if_cong)

lemma status_free_Monitoring [simp]:
  "BuildKineServiceMonitor (sh\<lparr>status := st\<rparr>) = BuildKineServiceMonitor sh"
  "BuildSecondaryServiceMonitor (sh\<lparr>status := st\<rparr>) = BuildSecondaryServiceMonitor sh"
  "BuildMetricsReaderServiceAccount (sh\<lparr>status := st\<rparr>) = BuildMetricsReaderServiceAccount sh"
  "BuildMetricsReaderClusterRoleBinding (sh\<lparr>status := st\<rparr>) = BuildMetricsReaderClusterRoleBinding sh"
  "BuildMetricsReaderTokenSecret (sh\<lparr>status := st\<rparr>) = BuildMetricsReaderTokenSecret sh"
  "BuildPrometheusDiscoveryRole (sh\<lparr>status := st\<rparr>) = BuildPrometheusDiscoveryRole sh"
  "BuildPrometheusDiscoveryRoleBinding (sh\<lparr>status := st\<rparr>) = BuildPrometheusDiscoveryRoleBinding sh"
  "BuildPostgreSQLMetricsServiceMonitor (sh\<lparr>status := st\<rparr>) = BuildPostgreSQLMetricsServiceMonitor sh"
  "OTelCollectorConfigMapBaseName (sh\<lparr>status := st\<rparr>) = OTelCollectorConfigMapBaseName sh"
  "BuildOTelCollectorConfigMap (sh\<lparr>status := st\<rparr>) nm content = BuildOTelCollectorConfigMap sh nm content"
  "BuildOTelCollectorConfig (sh\<lparr>status := st\<rparr>) params = BuildOTelCollectorConfig sh params"
  "BuildOTelCollectorDeployment (sh\<lparr>status := st\<rparr>) credentialSecretName configMapName params = BuildOTelCollectorDeployment sh credentialSecretName configMapName params"
  "BuildOTelCollectorService (sh\<lparr>status := st\<rparr>) = BuildOTelCollectorService sh"
  "InClusterPostgreSQLConnectionParams (sh\<lparr>status := st\<rparr>) = InClusterPostgreSQLConnectionParams sh"
  "BuildAPIServerSCC (sh\<lparr>status := st\<rparr>) = BuildAPIServerSCC sh"
  "BuildAPIServerSCCClusterRole (sh\<lparr>status := st\<rparr>) = BuildAPIServerSCCClusterRole sh"
  "BuildAPIServerSCCRoleBinding (sh\<lparr>status := st\<rparr>) = BuildAPIServerSCCRoleBinding sh"
  by (simp_all add: pkiSecretName_def kineServingSecretName_def MetricsReaderServiceAccountName_def
      MetricsReaderTokenSecretName_def instanceLabels_def BuildKineServiceMonitor_def BuildSecondaryServiceMonitor_def
      BuildMetricsReaderServiceAccount_def BuildMetricsReaderClusterRoleBinding_def BuildMetricsReaderTokenSecret_def
      PrometheusServiceAccount_def prometheusDiscoveryRoleName_def BuildPrometheusDiscoveryRole_def
      BuildPrometheusDiscoveryRoleBinding_def BuildPostgreSQLMetricsServiceMonitor_def OTelCollectorDeploymentName_def
      OTelCollectorServiceName_def OTelCollectorConfigMapBaseName_def BuildOTelCollectorConfigMap_def
      otelIntervals_def BuildOTelCollectorConfig_def otelLabels_def BuildOTelCollectorDeployment_def
      BuildOTelCollectorService_def InClusterPostgreSQLConnectionParams_def APIServerSCCName_def
      APIServerSCCClusterRoleName_def sccLabels_def BuildAPIServerSCC_def BuildAPIServerSCCClusterRole_def
      BuildAPIServerSCCRoleBinding_def cong: if_cong)

lemma status_free_Aggregation [simp]:
  "groupVersions (sh\<lparr>status := st\<rparr>) = groupVersions sh"
  "desiredAPIServiceNames (sh\<lparr>status := st\<rparr>) = desiredAPIServiceNames sh"
  "buildAPIService (sh\<lparr>status := st\<rparr>) caBundle gv = buildAPIService sh caBundle gv"
  by (simp_all add: groupVersions_def desiredAPIServiceNames_def buildAPIService_def applyAPIService_def
      DetectCRDConflicts_def cong: if_cong)

section \<open>Where the objects live\<close>

lemma builder_namespaces [simp]:
  "om_namespace (d_meta (BuildKineDeployment sh)) = shardNS sh"
  "om_namespace (sv_meta (BuildKineService sh)) = shardNS sh"
  "om_namespace (d_meta (BuildSecondaryDeployment sh ns iss)) = shardNS sh"
  "om_namespace (sv_meta (BuildSecondaryService sh)) = shardNS sh"
  "om_namespace (BuildSecondaryServiceAccount sh) = shardNS sh"
  "om_namespace (sec_meta (BuildPostgreSQLSecret sh pw)) = shardNS sh"
  "om_namespace (cm_meta (BuildPostgreSQLInitConfigMap sh)) = shardNS sh"
  "om_namespace (ss_meta (BuildPostgreSQLStatefulSet sh)) = shardNS sh"
  "om_namespace (sv_meta (BuildPostgreSQLService sh)) = shardNS sh"
  "om_namespace (cm_meta (BuildOTelCollectorConfigMap sh nm cfg)) = shardNS sh"
  "om_namespace (d_meta (BuildOTelCollectorDeployment sh cr nm ps)) = shardNS sh"
  "om_namespace (sv_meta (BuildOTelCollectorService sh)) = shardNS sh"
  "om_namespace (sm_meta (BuildPostgreSQLMetricsServiceMonitor sh)) = shardNS sh"
  "om_namespace (sm_meta (BuildKineServiceMonitor sh)) = shardNS sh"
  "om_namespace (sm_meta (BuildSecondaryServiceMonitor sh)) = shardNS sh"
  "om_namespace (BuildMetricsReaderServiceAccount sh) = shardNS sh"
  "om_namespace (sec_meta (BuildMetricsReaderTokenSecret sh)) = shardNS sh"
  "om_namespace (rl_meta (BuildPrometheusDiscoveryRole sh)) = shardNS sh"
  "om_namespace (rb_meta (BuildPrometheusDiscoveryRoleBinding sh)) = shardNS sh"
  "om_namespace (rb_meta (BuildAPIServerSCCRoleBinding sh)) = shardNS sh"
  by (simp_all add: BuildKineDeployment_def BuildKineService_def BuildSecondaryDeployment_def BuildSecondaryService_def
      BuildSecondaryServiceAccount_def BuildPostgreSQLSecret_def BuildPostgreSQLInitConfigMap_def
      BuildPostgreSQLStatefulSet_def BuildPostgreSQLService_def BuildOTelCollectorConfigMap_def
      BuildOTelCollectorDeployment_def BuildOTelCollectorService_def BuildPostgreSQLMetricsServiceMonitor_def
      BuildKineServiceMonitor_def BuildSecondaryServiceMonitor_def BuildMetricsReaderServiceAccount_def
      BuildMetricsReaderTokenSecret_def BuildPrometheusDiscoveryRole_def BuildPrometheusDiscoveryRoleBinding_def
      BuildAPIServerSCCRoleBinding_def namedMeta_def Let_def split: prod.splits)

end
