(* ===== verification/ShardState.thy ===== *)
theory ShardState
  imports Mirror StatusFree
begin

text \<open>
  The state of an \<open>APIShard\<close> reconcile (\<open>operator/internal/controller/apishard/reconciler.go\<close>): the
  trace, the client cache and the local variable \<open>shard\<close>, which the steps read and whose status they
  edit in place; the writes of the shard itself, which store the server's answer back into the
  variable; and the sequences of \<open>tc.ApplyOwned\<close> calls the steps are made of.
\<close>

section \<open>Constants and configuration\<close>

definition finalizerName :: string where
  [go_defs]: "finalizerName = ''kube-shard.konflux-ci.dev/apiservice-cleanup''"
definition ownerLabelKey :: string where
  [go_defs]: "ownerLabelKey = ''kube-shard.konflux-ci.dev/owner''"
definition extensionAPIServerAuthCM :: string where
  [go_defs]: "extensionAPIServerAuthCM = ''extension-apiserver-authentication''"
definition kubeSystemNamespace :: string where
  [go_defs]: "kubeSystemNamespace = ''kube-system''"
definition defaultFrontProxyClient :: string where
  [go_defs]: "defaultFrontProxyClient = ''front-proxy-client''"

definition managedGVKs :: "gvk list" where
  "managedGVKs =
     [GVK ''apps'' ''v1'' ''Deployment'', GVK ''apps'' ''v1'' ''StatefulSet'', GVK '''' ''v1'' ''Service'',
      GVK '''' ''v1'' ''Secret'', GVK '''' ''v1'' ''ConfigMap'', GVK '''' ''v1'' ''ServiceAccount'',
      GVK ''rbac.authorization.k8s.io'' ''v1'' ''ClusterRole'',
      GVK ''rbac.authorization.k8s.io'' ''v1'' ''ClusterRoleBinding'',
      GVK ''rbac.authorization.k8s.io'' ''v1'' ''Role'', GVK ''rbac.authorization.k8s.io'' ''v1'' ''RoleBinding'',
      GVK ''cert-manager.io'' ''v1'' ''Issuer'', GVK ''cert-manager.io'' ''v1'' ''Certificate'',
      GVK ''policy'' ''v1'' ''PodDisruptionBudget'', GVK ''monitoring.coreos.com'' ''v1'' ''ServiceMonitor'',
      GVK ''security.openshift.io'' ''v1'' ''SecurityContextConstraints'']"

text \<open>The fields of the \<open>Reconciler\<close> that decide its behaviour; \<open>ClientProvider\<close> says that it is set.\<close>

record reconciler =
  ClientProvider :: bool
  ServiceMonitorAvailable :: bool
  SCCAvailable :: bool
  PrimaryIssuer :: string

record shardst = base +
  shard :: apiShard

section \<open>Edits of the shard\<close>

definition setStatus :: "(apiShardStatus \<Rightarrow> apiShardStatus) \<Rightarrow> (shardst, unit) op" where
  [op_defs]: "setStatus f = modifyE (\<lambda>s. s\<lparr>shard := (shard s)\<lparr>status := f (status (shard s))\<rparr>\<rparr>)"

definition setCond :: "env \<Rightarrow> string \<Rightarrow> string \<Rightarrow> string \<Rightarrow> string \<Rightarrow> (shardst, unit) op" where
  [op_defs]: "setCond E ty st rsn msg =
     modifyE (\<lambda>s. s\<lparr>shard := (shard s)\<lparr>status := (status (shard s))\<lparr>conditions :=
       setStatusCondition E (tr s) (conditions (status (shard s)))
         (mkCondition ty st rsn msg (om_generation (sh_meta (shard s))))\<rparr>\<rparr>\<rparr>)"

definition removeCond :: "env \<Rightarrow> string \<Rightarrow> (shardst, unit) op" where
  [op_defs]: "removeCond E ty =
     setStatus (\<lambda>st. st\<lparr>conditions := removeStatusCondition E (conditions st) ty\<rparr>)"

text \<open>A write of the shard: the client decodes the answer into the variable.\<close>

definition storeAnswer :: "resp \<Rightarrow> shardst \<Rightarrow> shardst" where
  "storeAnswer r s = (case r of RObj (KAPIShard x) \<Rightarrow> s\<lparr>shard := x\<rparr> | _ \<Rightarrow> s)"

definition writeShard :: "env \<Rightarrow> (apiShard \<Rightarrow> call) \<Rightarrow> (shardst, unit) op" where
  [op_defs]: "writeShard E c =
     bindE (getsE shard) (\<lambda>sh. bindE (request E (c sh)) (\<lambda>r. modifyE (storeAnswer r)))"

definition updateShardStatus :: "env \<Rightarrow> (shardst, unit) op" where
  "updateShardStatus E = writeShard E (\<lambda>sh. StatusUpdateCall (KAPIShard sh))"

section \<open>Sequences of owned applies\<close>

text \<open>\<open>if err := tc.ApplyOwned(ctx, x); err != nil { return fmt.Errorf("p: %w", err) }\<close>, one after the other.\<close>

definition applyAll :: "env \<Rightarrow> (string \<times> kobj) list \<Rightarrow> ('z base_scheme, unit) op" where
  "applyAll E pxs = forE pxs (\<lambda>(p, x). wrapE p (applyOwned E x))"

definition optObj :: "string \<Rightarrow> ('a \<Rightarrow> kobj) \<Rightarrow> 'a option \<Rightarrow> (string \<times> kobj) list" where
  "optObj p K r = (case r of None \<Rightarrow> [] | Some x \<Rightarrow> [(p, K x)])"

abbreviation applied :: "kobj \<Rightarrow> event list \<Rightarrow> bool" where
  "applied x es \<equiv> performed (ApplyOwnedCall x) es"

lemma keeps_applyAll:
  "(\<And>p x r. (p, x) \<in> set pxs \<Longrightarrow> P (ApplyOwnedCall x, r)) \<Longrightarrow> keeps (extends P) (applyAll E pxs)"
  unfolding applyAll_def by (rule ext.keeps_for) (auto intro!: keeps_intros)

lemma applyAll_run:
  fixes s t :: "'z base_scheme"
  assumes run: "applyAll E pxs s = (Inr u, t)" and x: "x \<in> snd ` set pxs"
  shows "applied x (newEvents s t)"
proof -
  let ?f = "\<lambda>(p, x). wrapE p (applyOwned E x) :: ('z base_scheme, unit) op"
  from x obtain p where px: "(p, x) \<in> set pxs" by auto
  have gr: "grows (?f y)" for y by (cases y) (auto intro!: keeps_intros)
  from for_run [OF run [unfolded applyAll_def] px gr] obtain s1 t1 :: "'z base_scheme"
    where "applyOwned E x s1 = (Inr (), t1)" and sub: "set (newEvents s1 t1) \<subseteq> set (newEvents s t)"
    using events_between by (auto; blast)
  then have "applied x (newEvents s1 t1)" by (auto simp: runs newEvents_def performed_def)
  then show ?thesis by (rule performed_mono [OF sub])
qed

text \<open>
  After a sequence of applies only the trace has changed; it grew by applies of the sequence, all
  of them when the sequence succeeded.
\<close>

definition appliesOf :: "(string \<times> kobj) list \<Rightarrow> event list \<Rightarrow> bool" where
  "appliesOf pxs es = list_all (\<lambda>(c, r). \<exists>x \<in> snd ` set pxs. c = ApplyOwnedCall x) es"

lemma applyAll_simps:
  "applyAll E [] = returnE ()" "applyAll E ((p, x) # pxs) = bindE (wrapE p (applyOwned E x)) (\<lambda>_. applyAll E pxs)"
  by (simp_all add: applyAll_def)

lemma wp_applyAll [wps]:
  fixes s :: "'z base_scheme"
  assumes "\<And>h p x r. prefix (tr s) h \<Longrightarrow> (p, x) \<in> set pxs \<Longrightarrow> G h (ApplyOwnedCall x, r)"
    and "\<And>es. appliesOf pxs es \<Longrightarrow> (\<And>x. x \<in> snd ` set pxs \<Longrightarrow> applied x es) \<Longrightarrow> Q () (s\<lparr>tr := tr s @ es\<rparr>)"
    and "\<And>e es. appliesOf pxs es \<Longrightarrow> X e (s\<lparr>tr := tr s @ es\<rparr>)"
  shows "wp G (applyAll E pxs) Q X s"
  using assms
proof (induction pxs arbitrary: s)
  case Nil
  have "Q () (s\<lparr>tr := tr s @ []\<rparr>)" by (rule Nil.prems(2)) (simp_all add: appliesOf_def)
  then show ?case by (simp add: applyAll_simps wp_return)
next
  case (Cons px pxs)
  obtain p x where px: "px = (p, x)" by (cases px)
  let ?c = "ApplyOwnedCall x"
  have more: "appliesOf (px # pxs) ((?c, r) # es)" if "appliesOf pxs es" for r es
    using that by (auto simp: appliesOf_def px list_all_iff)
  have Q1: "Q () (s\<lparr>tr := tr s @ (?c, r) # es\<rparr>)"
    if "okResp r" "appliesOf pxs es" "\<And>y. y \<in> snd ` set pxs \<Longrightarrow> applied y es" for r es
    using that by (intro Cons.prems(2) more) (auto simp: px performed_Cons)
  have X1: "X e (s\<lparr>tr := tr s @ (?c, r) # es\<rparr>)" if "appliesOf pxs es" for e r es
    using that by (intro Cons.prems(3) more)
  have "wp G (applyAll E pxs) Q X (logged ?c r s)" if "okResp r" for r
  proof (rule Cons.IH)
    show "G h (ApplyOwnedCall y, r')" if "prefix (tr (logged ?c r s)) h" "(q, y) \<in> set pxs" for h q y r'
      using that by (intro Cons.prems(1) [of h q y]) (auto dest: append_prefixD)
    show "Q () ((logged ?c r s)\<lparr>tr := tr (logged ?c r s) @ es\<rparr>)"
      if "appliesOf pxs es" "\<And>y. y \<in> snd ` set pxs \<Longrightarrow> applied y es" for es
      using Q1 [OF \<open>okResp r\<close> that] by simp
    show "X e ((logged ?c r s)\<lparr>tr := tr (logged ?c r s) @ es\<rparr>)" if "appliesOf pxs es" for e es
      using X1 [OF that] by simp
  qed
  moreover have "X e (logged ?c r s)" for e r using X1 [of "[]"] by (simp add: appliesOf_def)
  moreover have "G (tr s) (?c, r)" for r using Cons.prems(1) [of "tr s" p x] px by simp
  ultimately show ?case unfolding px applyAll_simps by (intro wp_bind wp_wrap wp_requestU)
qed

section \<open>The frame of a step\<close>

text \<open>
  Between two writes of the shard, the steps edit its status and nothing else: \<open>sameSh SH sh\<close>
  says that \<open>sh\<close> is \<open>SH\<close> up to its status.
\<close>

named_theorems frames "introduction rules for the frame of a step"
named_theorems contracts "introduction rules for the contract of a step"

definition sameSh :: "apiShard \<Rightarrow> apiShard \<Rightarrow> bool" where
  "sameSh SH sh = (sh_meta sh = sh_meta SH \<and> spec sh = spec SH)"

lemma sameSh_status: "sameSh SH sh \<longleftrightarrow> (\<exists>st. sh = SH\<lparr>status := st\<rparr>)"
proof
  assume "sameSh SH sh"
  then have "sh = SH\<lparr>status := status sh\<rparr>" by (simp add: sameSh_def)
  then show "\<exists>st. sh = SH\<lparr>status := st\<rparr>" by blast
qed (auto simp: sameSh_def)

lemma sameSh_refl [simp]: "sameSh SH SH"
  by (simp add: sameSh_def)

lemma sameSh_update [simp]: "sameSh SH (sh\<lparr>status := st\<rparr>) = sameSh SH sh" "sameSh (SH\<lparr>status := st\<rparr>) sh = sameSh SH sh"
  by (simp_all add: sameSh_def)

text \<open>
  The frame relation of the steps: from a state whose shard is \<open>SH\<close> up to the status, the trace
  grows by events that satisfy \<open>P\<close>, and the shard is still \<open>SH\<close> up to the status.
\<close>

definition stepRel :: "(event \<Rightarrow> bool) \<Rightarrow> apiShard \<Rightarrow> shardst \<Rightarrow> shardst \<Rightarrow> bool" where
  "stepRel P SH s t = (sameSh SH (shard s) \<longrightarrow> extends P s t \<and> sameSh SH (shard t))"

interpretation step: frame_rel "stepRel P SH"
  by unfold_locales (auto simp: stepRel_def intro: extends_refl extends_trans)

lemma stepRel_run:
  assumes "keeps (stepRel P SH) m" and "m s = (r, t)" and "sameSh SH (shard s)"
  shows "extends P s t" and "sameSh SH (shard t)"
  using keepsD [OF assms(1), of s] assms(2,3) by (auto simp: stepRel_def)

lemma frame_shard:
  assumes "\<And>st. keeps (stepRel P SH) (f (SH\<lparr>status := st\<rparr>))"
  shows "keeps (stepRel P SH) (bindE (getsE shard) f)"
proof (rule keepsI)
  fix s
  show "stepRel P SH s (snd (bindE (getsE shard) f s))"
  proof (cases "sameSh SH (shard s)")
    case True
    then obtain st where "shard s = SH\<lparr>status := st\<rparr>" by (auto simp: sameSh_status)
    with keepsD [OF assms [of st], of s] show ?thesis by (simp add: bindE_def getsE_def)
  qed (simp add: stepRel_def)
qed

lemma frame_trace:
  assumes "keeps (extends P) m" and "\<And>s. shard (snd (m s)) = shard s"
  shows "keeps (stepRel P SH) m"
  using assms by (simp add: keeps_def stepRel_def)

lemma shard_request: "shard (snd (request E c s)) = shard s"
  by (simp add: request_def Let_def split: resp.splits)

lemma frame_request: "(\<And>r. P (c, r)) \<Longrightarrow> keeps (stepRel P SH) (request E c)"
  by (intro frame_trace keeps_request shard_request)

lemma frame_requestU: "(\<And>r. P (c, r)) \<Longrightarrow> keeps (stepRel P SH) (requestU E c)"
  unfolding requestU_def by (intro step.keeps_bind frame_request step.keeps_return)

lemma frame_getObj: "(\<And>r. P (GetCall cl k key, r)) \<Longrightarrow> keeps (stepRel P SH) (getObj E p cl k key)"
  unfolding getObj_def asOne_def
  by (intro step.keeps_bind frame_request)
    (auto intro: step.keeps_return step.keeps_throw split: resp.splits option.splits)

lemma frame_listObjs: "(\<And>r. P (ListCall cl k ns sel, r)) \<Longrightarrow> keeps (stepRel P SH) (listObjs E p cl k ns sel)"
  unfolding listObjs_def asMany_def
  by (intro step.keeps_bind frame_request)
    (auto intro: step.keeps_return step.keeps_throw split: resp.splits option.splits)

lemma frame_setStatus: "keeps (stepRel P SH) (setStatus f)"
  unfolding setStatus_def by (rule step.keeps_modify) (simp add: stepRel_def extends_same_trace)

lemma frame_setCond: "keeps (stepRel P SH) (setCond E ty st rsn msg)"
  unfolding setCond_def by (rule step.keeps_modify) (simp add: stepRel_def extends_same_trace)

lemma frame_removeCond: "keeps (stepRel P SH) (removeCond E ty)"
  unfolding removeCond_def by (rule frame_setStatus)

lemma frame_applyAll:
  "(\<And>p x r. (p, x) \<in> set pxs \<Longrightarrow> P (ApplyOwnedCall x, r)) \<Longrightarrow> keeps (stepRel P SH) (applyAll E pxs)"
  unfolding applyAll_def by (rule step.keeps_for) (auto intro!: step.keeps_wrap frame_requestU)

lemma frame_lift: "keeps (stepRel P SH) (liftE r)"
  by (auto simp: liftE_def split: sum.splits intro: step.keeps_return step.keeps_throw)

lemma frame_GetOrCreate: "keeps (stepRel P SH) (GetOrCreate E k cfg)"
  by (rule keepsI)
    (simp add: GetOrCreate_locked getOrCreateLocked_cases stepRel_def extends_same_trace split: option.splits)

lemma frame_Invalidate: "keeps (stepRel P SH) (Invalidate k)"
  by (rule keepsI) (simp add: Invalidate_def modifyE_def stepRel_def extends_same_trace)

lemma frame_GeneratePassword: "keeps (stepRel P SH) (GeneratePassword E)"
  by (rule keepsI) (simp add: GeneratePassword_def stepRel_def extends_refl split: sum.splits)

lemma frame_recordE: "keeps (stepRel P SH) m \<Longrightarrow> keeps (stepRel P SH) (recordE p m)"
  unfolding recordE_def by (intro step.keeps_bind step.keeps_try) (auto intro: step.keeps_return split: sum.splits)

lemma frame_case_sum:
  "(\<And>e. keeps R (f e)) \<Longrightarrow> (\<And>x. keeps R (g x)) \<Longrightarrow> keeps R (case r of Inl e \<Rightarrow> f e | Inr x \<Rightarrow> g x)"
  by (cases r) simp_all

lemma frame_case_option:
  "keeps R m \<Longrightarrow> (\<And>x. keeps R (g x)) \<Longrightarrow> keeps R (case r of None \<Rightarrow> m | Some x \<Rightarrow> g x)"
  by (cases r) simp_all

lemma frame_case_prod: "(\<And>a b. keeps R (f a b)) \<Longrightarrow> keeps R (case r of (a, b) \<Rightarrow> f a b)"
  by (cases r) simp

lemma frame_let: "(\<And>x. x = v \<Longrightarrow> keeps R (f x)) \<Longrightarrow> keeps R (Let v f)"
  by simp

lemmas frame_rules [frames] =
  frame_shard step.keeps_return step.keeps_throw step.keeps_wrap step.keeps_try step.keeps_if
  step.keeps_for step.keeps_collect frame_requestU frame_getObj frame_listObjs frame_setStatus frame_setCond
  frame_removeCond frame_applyAll frame_lift frame_GetOrCreate frame_Invalidate frame_GeneratePassword frame_recordE
  frame_case_sum frame_case_option frame_case_prod frame_let step.keeps_bind

text \<open>The same steps as steps over the trace.\<close>

lemma keeps_edits [keeps_intros]:
  "keeps (extends P) (setStatus f)" "keeps (extends P) (setCond E ty st rsn msg)" "keeps (extends P) (removeCond E ty)"
  by (rule keepsI, simp add: setStatus_def setCond_def removeCond_def modifyE_def extends_same_trace)+

lemma wp_setStatus [wps]:
  "Q () (s\<lparr>shard := (shard s)\<lparr>status := f (status (shard s))\<rparr>\<rparr>) \<Longrightarrow> wp G (setStatus f) Q X s"
  unfolding setStatus_def by (rule wp_modify) auto

lemma wp_setCond [wps]:
  "Q () (s\<lparr>shard := (shard s)\<lparr>status := (status (shard s))\<lparr>conditions :=
       setStatusCondition E (tr s) (conditions (status (shard s)))
         (mkCondition ty st rsn msg (om_generation (sh_meta (shard s))))\<rparr>\<rparr>\<rparr>) \<Longrightarrow> wp G (setCond E ty st rsn msg) Q X s"
  unfolding setCond_def by (rule wp_modify) auto

lemma wp_removeCond [wps]:
  "Q () (s\<lparr>shard := (shard s)\<lparr>status := (status (shard s))\<lparr>conditions :=
       removeStatusCondition E (conditions (status (shard s))) ty\<rparr>\<rparr>\<rparr>) \<Longrightarrow> wp G (removeCond E ty) Q X s"
  unfolding removeCond_def by (rule wp_setStatus)

section \<open>The contract of a step\<close>

text \<open>
  The objects a step may apply as owned: their kind is in \<open>managedGVKs\<close>, so that the clean-up of
  orphans finds them again, and they live in the target namespace or are cluster-scoped.
\<close>

definition clusterScoped :: "gvk list" where
  "clusterScoped =
     [GVK ''rbac.authorization.k8s.io'' ''v1'' ''ClusterRole'', GVK ''rbac.authorization.k8s.io'' ''v1'' ''ClusterRoleBinding'',
      GVK ''security.openshift.io'' ''v1'' ''SecurityContextConstraints'']"

definition ownable :: "apiShard \<Rightarrow> kobj \<Rightarrow> bool" where
  "ownable SH x =
     (gvkOf x \<in> set managedGVKs \<and> (gvkOf x \<in> set clusterScoped \<or> om_namespace (metaOf x) = shardNS SH))"

fun stepEvent :: "apiShard \<Rightarrow> event \<Rightarrow> bool" where
  "stepEvent SH (GetCall cl k key, r) = (k \<noteq> APIShardKind)"
| "stepEvent SH (ListCall cl k ns sel, r) = True"
| "stepEvent SH (ApplyOwnedCall x, r) = ownable SH x"
| "stepEvent SH (ApplyCall Primary (KClusterRole x), r) = (x = BuildMetricsReaderClusterRole)"
| "stepEvent SH (ApplyCall Primary (KAPIService a), r) = (as_service a = Some (SecondaryServiceName SH, shardNS SH))"
| "stepEvent SH (DeleteCall Primary (KAPIService a), r) = True"
| "stepEvent SH (ApplyCall (Secondary c) (KCRD x), r) = True"
| "stepEvent SH (CreateOrUpdateCall x, r) = (om_namespace (metaOf x) = shardNS SH)"
| "stepEvent SH e = False"

lemma ownable_simps [simp]:
  "ownable SH (KDeployment y1) = (om_namespace (d_meta y1) = shardNS SH)"
  "ownable SH (KStatefulSet y2) = (om_namespace (ss_meta y2) = shardNS SH)"
  "ownable SH (KService y3) = (om_namespace (sv_meta y3) = shardNS SH)"
  "ownable SH (KSecret y4) = (om_namespace (sec_meta y4) = shardNS SH)"
  "ownable SH (KConfigMap y5) = (om_namespace (cm_meta y5) = shardNS SH)"
  "ownable SH (KServiceAccount y6) = (om_namespace y6 = shardNS SH)"
  "ownable SH (KPDB y7) = (om_namespace (pdb_meta y7) = shardNS SH)"
  "ownable SH (KRole y8) = (om_namespace (rl_meta y8) = shardNS SH)"
  "ownable SH (KRoleBinding y9) = (om_namespace (rb_meta y9) = shardNS SH)"
  "ownable SH (KServiceMonitor y10) = (om_namespace (sm_meta y10) = shardNS SH)"
  "ownable SH (KClusterRole y11)" "ownable SH (KClusterRoleBinding z)"
  by (simp_all add: ownable_def managedGVKs_def clusterScoped_def GVK_def)

text \<open>
  A step keeps the frame with these events, and a run that succeeds leaves evidence in the trace,
  which later events do not take back.
\<close>

locale shard_step =
  fixes SH :: apiShard
    and m :: "(shardst, 'a) op"
    and post :: "'a \<Rightarrow> event list \<Rightarrow> bool"
  assumes frame: "keeps (stepRel (stepEvent SH) SH) m"
    and evidence: "m s = (Inr x, t) \<Longrightarrow> sameSh SH (shard s) \<Longrightarrow> post x (newEvents s t)"
    and evidence_mono: "post x es \<Longrightarrow> set es \<subseteq> set fs \<Longrightarrow> post x fs"
begin

lemma frame_run:
  assumes "m s = (r, t)" and "sameSh SH (shard s)"
  shows "extends (stepEvent SH) s t" and "sameSh SH (shard t)"
  using keepsD [OF frame, of s] assms by (auto simp: stepRel_def)

lemma wp_step:
  assumes sh: "sameSh SH (shard s)"
    and G: "\<And>es e. list_all (stepEvent SH) es \<Longrightarrow> stepEvent SH e \<Longrightarrow> G (tr s @ es) e"
    and Q: "\<And>x t. m s = (Inr x, t) \<Longrightarrow> sameSh SH (shard t) \<Longrightarrow> extends (stepEvent SH) s t \<Longrightarrow> post x (newEvents s t) \<Longrightarrow> Q x t"
    and X: "\<And>e t. sameSh SH (shard t) \<Longrightarrow> extends (stepEvent SH) s t \<Longrightarrow> X e t"
  shows "wp G m Q X s"
proof (rule wpI)
  have "extends (stepEvent SH) s (snd (m s))" using frame_run(1) [of s "fst (m s)" "snd (m s)"] sh by simp
  then show "guards G s (snd (m s))" using G by (rule extends_guards_by)
  show "X e t" if "m s = (Inl e, t)" for e t using X frame_run [OF that sh] by blast
  show "Q x t" if "m s = (Inr x, t)" for x t using Q [OF that] frame_run [OF that sh] evidence [OF that sh] by blast
qed

end

section \<open>Contracts compose\<close>

lemma contract_weaken:
  assumes "shard_step SH m p" and "\<And>x es. p x es \<Longrightarrow> q x es" and "\<And>x es fs. q x es \<Longrightarrow> set es \<subseteq> set fs \<Longrightarrow> q x fs"
  shows "shard_step SH m q"
  using assms unfolding shard_step_def by blast

lemma contract_trivial: "keeps (stepRel (stepEvent SH) SH) m \<Longrightarrow> shard_step SH m (\<lambda>_ _. True)"
  by unfold_locales auto

lemma contract_password: "shard_step SH (GeneratePassword E) (\<lambda>_ _. True)"
  by (rule contract_trivial) (rule frames)

lemma contract_return: "shard_step SH (returnE x) (\<lambda>y _. y = x)"
  by unfold_locales (auto intro: frames simp: returnE_def)

lemma contract_throw: "shard_step SH (throwE e) (\<lambda>_ _. False)"
  by unfold_locales (auto intro: frames simp: throwE_def)

lemma contract_wrap: "shard_step SH m p \<Longrightarrow> shard_step SH (wrapE q m) p"
  unfolding shard_step_def by (auto intro: step.keeps_wrap simp: runs)

lemma contract_try: "shard_step SH m p \<Longrightarrow> shard_step SH (tryE m) (\<lambda>r es. case r of Inl _ \<Rightarrow> True | Inr x \<Rightarrow> p x es)"
  unfolding shard_step_def by (auto intro: step.keeps_try simp: runs split: sum.splits)

lemma contract_shard:
  assumes "\<And>st. shard_step SH (f (SH\<lparr>status := st\<rparr>)) p"
  shows "shard_step SH (bindE (getsE shard) f) p"
proof unfold_locales
  show "keeps (stepRel (stepEvent SH) SH) (bindE (getsE shard) f)"
    by (rule frame_shard) (rule shard_step.frame [OF assms])
  show "p x (newEvents s t)" if "bindE (getsE shard) f s = (Inr x, t)" "sameSh SH (shard s)" for x s t
  proof -
    from that(2) obtain st where st: "shard s = SH\<lparr>status := st\<rparr>" by (auto simp: sameSh_status)
    with that(1) have "f (SH\<lparr>status := st\<rparr>) s = (Inr x, t)" by (simp add: bindE_def getsE_def)
    then show ?thesis using that(2) by (rule shard_step.evidence [OF assms])
  qed
  show "p x fs" if "p x es" "set es \<subseteq> set fs" for x es fs
    using shard_step.evidence_mono [OF assms that] .
qed

lemma contract_spec:
  assumes "shard_step SH (f SH) p" and "\<And>st. f (SH\<lparr>status := st\<rparr>) = f SH"
  shows "shard_step SH (bindE (getsE shard) f) p"
  by (rule contract_shard) (simp only: assms)

lemma contract_bind:
  assumes m: "shard_step SH m p" and f: "\<And>x es. p x es \<Longrightarrow> shard_step SH (f x) (q x)"
  shows "shard_step SH (bindE m f) (\<lambda>y es. \<exists>x. p x es \<and> q x y es)"
proof unfold_locales
  show "keeps (stepRel (stepEvent SH) SH) (bindE m f)"
  proof (rule keepsI)
    fix s
    show "stepRel (stepEvent SH) SH s (snd (bindE m f s))"
    proof (cases "sameSh SH (shard s)")
      case sh: True
      obtain r u where mr: "m s = (r, u)" by (cases "m s")
      note u = shard_step.frame_run [OF m mr sh]
      show ?thesis
      proof (cases r)
        case (Inl e)
        with mr u show ?thesis by (simp add: bindE_def stepRel_def)
      next
        case (Inr x)
        with mr have mx: "m s = (Inr x, u)" by simp
        have "shard_step SH (f x) (q x)" by (rule f [OF shard_step.evidence [OF m mx sh]])
        from shard_step.frame_run [OF this _ u(2), of "fst (f x u)" "snd (f x u)"] extends_trans [OF u(1)] mx
        show ?thesis by (simp add: bindE_def stepRel_def)
      qed
    qed (simp add: stepRel_def)
  qed
  show "\<exists>x. p x (newEvents s t) \<and> q x y (newEvents s t)"
    if run: "bindE m f s = (Inr y, t)" and sh: "sameSh SH (shard s)" for y s t
  proof -
    from run obtain x u where mx: "m s = (Inr x, u)" and fx: "f x u = (Inr y, t)" by (auto simp: runs)
    note u = shard_step.frame_run [OF m mx sh]
    note px = shard_step.evidence [OF m mx sh]
    note fc = f [OF px]
    note t = shard_step.frame_run [OF fc fx u(2)]
    from extends_prefix [OF u(1)] extends_prefix [OF t(1)]
    have "newEvents s t = newEvents s u @ newEvents u t" by (rule newEvents_trans)
    then have "set (newEvents s u) \<subseteq> set (newEvents s t)" "set (newEvents u t) \<subseteq> set (newEvents s t)" by auto
    then show ?thesis
      using shard_step.evidence_mono [OF m px] shard_step.evidence_mono [OF fc shard_step.evidence [OF fc fx u(2)]] by blast
  qed
  show "\<exists>x. p x fs \<and> q x y fs" if "\<exists>x. p x es \<and> q x y es" "set es \<subseteq> set fs" for y es fs
    using that shard_step.evidence_mono [OF m] shard_step.evidence_mono [OF f] by blast
qed

lemma contract_try_case:
  assumes "shard_step SH m p" and "\<And>e. shard_step SH (f e) (q e)" and "\<And>x. shard_step SH (g x) (w x)"
  shows "shard_step SH (bindE (tryE m) (\<lambda>r. case r of Inl e \<Rightarrow> f e | Inr x \<Rightarrow> g x))
    (\<lambda>y es. (\<exists>e. q e y es) \<or> (\<exists>x. p x es \<and> w x y es))"
proof -
  have "shard_step SH (case r of Inl e \<Rightarrow> f e | Inr x \<Rightarrow> g x) (case r of Inl e \<Rightarrow> q e | Inr x \<Rightarrow> w x)" for r
    using assms(2,3) by (cases r) simp_all
  note run = contract_bind [OF contract_try [OF assms(1)] this]
  show ?thesis
  proof (rule contract_weaken [OF run])
    show "(\<exists>e. q e y fs) \<or> (\<exists>x. p x fs \<and> w x y fs)"
      if "(\<exists>e. q e y es) \<or> (\<exists>x. p x es \<and> w x y es)" "set es \<subseteq> set fs" for y es fs
      using that shard_step.evidence_mono [OF assms(1)] shard_step.evidence_mono [OF assms(2)]
        shard_step.evidence_mono [OF assms(3)] by blast
    show "(\<exists>e. q e y es) \<or> (\<exists>x. p x es \<and> w x y es)"
      if "\<exists>r. (case r of Inl _ \<Rightarrow> True | Inr x \<Rightarrow> p x es) \<and> (case r of Inl e \<Rightarrow> q e | Inr x \<Rightarrow> w x) y es" for y es
    proof -
      from that obtain r where "case r of Inl _ \<Rightarrow> True | Inr x \<Rightarrow> p x es" "(case r of Inl e \<Rightarrow> q e | Inr x \<Rightarrow> w x) y es"
        by blast
      then show ?thesis by (cases r) auto
    qed
  qed
qed

lemma contract_for:
  assumes "\<And>x. x \<in> set xs \<Longrightarrow> shard_step SH (f x) (p x)"
  shows "shard_step SH (forE xs f) (\<lambda>_ es. \<forall>x \<in> set xs. p x () es)"
  using assms
proof (induction xs)
  case Nil
  then show ?case by (simp add: contract_weaken [OF contract_return])
next
  case (Cons x xs)
  have rest: "shard_step SH (forE xs f) (\<lambda>_ es. \<forall>x \<in> set xs. p x () es)" using Cons by simp
  have "shard_step SH (forE (x # xs) f) (\<lambda>y es. \<exists>u. p x u es \<and> (\<forall>x \<in> set xs. p x () es))"
    unfolding forE.simps using Cons.prems by (intro contract_bind rest) simp
  then show ?case
    by (rule contract_weaken) (use shard_step.evidence_mono [OF Cons.prems] in \<open>force+\<close>)
qed

lemma contract_if:
  assumes "b \<Longrightarrow> shard_step SH m p" and "\<not> b \<Longrightarrow> shard_step SH n q"
  shows "shard_step SH (if b then m else n) (if b then p else q)"
  using assms by simp

lemma contract_case_sum:
  assumes "\<And>e. shard_step SH (f e) (p e)" and "\<And>x. shard_step SH (g x) (q x)"
  shows "shard_step SH (case r of Inl e \<Rightarrow> f e | Inr x \<Rightarrow> g x) (case r of Inl e \<Rightarrow> p e | Inr x \<Rightarrow> q x)"
  using assms by (cases r) simp_all

lemma contract_case_option:
  assumes "r = None \<Longrightarrow> shard_step SH m p" and "\<And>x. r = Some x \<Longrightarrow> shard_step SH (g x) (q x)"
  shows "shard_step SH (case r of None \<Rightarrow> m | Some x \<Rightarrow> g x) (case r of None \<Rightarrow> p | Some x \<Rightarrow> q x)"
  using assms by (cases r) simp_all

lemma contract_let: "shard_step SH (f v) p \<Longrightarrow> shard_step SH (Let v f) p"
  by simp

lemma contract_edits:
  "shard_step SH (setStatus f) (\<lambda>_ _. True)" "shard_step SH (setCond E ty st rsn msg) (\<lambda>_ _. True)"
  "shard_step SH (removeCond E ty) (\<lambda>_ _. True)" "shard_step SH (liftE r) (\<lambda>x _. r = Inr x)"
  by (rule contract_trivial, intro frames)+ (unfold_locales, auto intro: frames simp: runs)

lemma contract_requestU:
  assumes "\<And>r. stepEvent SH (c, r)"
  shows "shard_step SH (requestU E c) (\<lambda>_ es. performed c es)"
  using assms by unfold_locales (auto intro: frames simp: runs newEvents_def performed_def)

lemma contract_getObj:
  assumes "k \<noteq> APIShardKind"
  shows "shard_step SH (getObj E p cl k key) (\<lambda>x es. \<exists>y. p y = Some x \<and> (GetCall cl k key, RObj y) \<in> set es)"
  using assms by unfold_locales (auto intro: frames simp: runs newEvents_def)

lemma contract_applyAll:
  assumes "\<And>q x. (q, x) \<in> set pxs \<Longrightarrow> ownable SH x"
  shows "shard_step SH (applyAll E pxs) (\<lambda>_ es. \<forall>x \<in> snd ` set pxs. applied x es)"
proof unfold_locales
  show "keeps (stepRel (stepEvent SH) SH) (applyAll E pxs)" using assms by (intro frames) simp
  show "\<forall>x \<in> snd ` set pxs. applied x (newEvents s t)" if "applyAll E pxs s = (Inr u, t)" for u and s t :: shardst
    using applyAll_run [OF that] by blast
qed (auto intro: performed_mono)

lemmas contract_congs = if_cong option.case_cong sum.case_cong

lemmas contract_splits = sum.split_asm option.split_asm if_split_asm

lemmas contract_rules [contracts] =
  contract_spec contract_return contract_throw contract_wrap contract_try_case contract_try contract_bind contract_if
  contract_case_sum contract_case_option contract_let contract_edits contract_password contract_requestU contract_getObj contract_applyAll contract_for

end
