(* ===== verification/ShardStorage.thy ===== *)
theory ShardStorage
  imports ShardState
begin

text \<open>
  The storage steps of the \<open>APIShard\<close> reconciler (\<open>apishard/reconciler.go\<close>): the in-cluster
  PostgreSQL with its password and its immutable volume claim templates, the validation of an
  external connection Secret, Kine with its fallback for old clusters, and the metrics collector,
  whose failures only degrade a condition. The order of the calls is the order of the source.
\<close>

section \<open>Kine and the secondary API server\<close>

definition setPodSecurity :: "(podSecurityContext \<Rightarrow> podSecurityContext) \<Rightarrow> podSpec \<Rightarrow> podSpec" where
  "setPodSecurity f p = p\<lparr>ps_securityContext := map_option f (ps_securityContext p)\<rparr>"

definition isTrafficDistributionUnsupported :: "goerror \<Rightarrow> bool" where
  "isTrafficDistributionUnsupported err =
     (contains (err_msg err) ''trafficDistribution'' \<and>
      (IsInvalid err \<or> IsNotFound err \<or> contains (err_msg err) ''unknown field''))"

definition kineDeployment :: "reconciler \<Rightarrow> apiShard \<Rightarrow> deployment" where
  "kineDeployment R sh =
     (let d = BuildKineDeployment sh in
      if \<not> SCCAvailable R then d\<lparr>d_podSpec := setPodSecurity (\<lambda>c. c\<lparr>psc_runAsUser := Some 65534\<rparr>) (d_podSpec d)\<rparr>
      else d)"

definition kineObjects :: "reconciler \<Rightarrow> apiShard \<Rightarrow> (string \<times> kobj) list" where
  "kineObjects R sh =
     [(''kine deployment'', KDeployment (kineDeployment R sh))] @
     optObj ''kine pdb'' KPDB
       (BuildPDB (KineDeploymentName sh) (shardNS sh) (ki_replicas (kineSp (spec sh))) (d_selector (kineDeployment R sh)))"

definition applyKineService :: "env \<Rightarrow> service \<Rightarrow> (shardst, unit) op" where
  "applyKineService E svc =
     bindE (tryE (applyOwned E (KService svc))) (\<lambda>r.
       case r of
         Inl err \<Rightarrow>
           if sv_trafficDistribution svc \<noteq> None \<and> isTrafficDistributionUnsupported err
           then wrapE ''kine service (fallback without trafficDistribution)''
                  (applyOwned E (KService (svc\<lparr>sv_trafficDistribution := None\<rparr>)))
           else throwE (wrap ''kine service'' err)
       | Inr _ \<Rightarrow> returnE ())"

definition reconcileKine :: "env \<Rightarrow> reconciler \<Rightarrow> (shardst, unit) op" where
  "reconcileKine E R =
     bindE (getsE shard) (\<lambda>sh.
     bindE (applyAll E (kineObjects R sh)) (\<lambda>_.
     applyKineService E (BuildKineService sh)))"

definition secondaryObjects :: "reconciler \<Rightarrow> apiShard \<Rightarrow> string list \<Rightarrow> (string \<times> kobj) list" where
  "secondaryObjects R sh requestHeaderAllowedNames =
     (let d = BuildSecondaryDeployment sh requestHeaderAllowedNames [PrimaryIssuer R] in
      [(''secondary deployment'', KDeployment d)] @
      optObj ''secondary pdb'' KPDB
        (BuildPDB (SecondaryDeploymentName sh) (shardNS sh) (se_replicas (secondarySp (spec sh))) (d_selector d)) @
      [(''secondary service'', KService (BuildSecondaryService sh))])"

definition reconcileSecondary :: "env \<Rightarrow> reconciler \<Rightarrow> string list \<Rightarrow> (shardst, unit) op" where
  "reconcileSecondary E R requestHeaderAllowedNames =
     bindE (getsE shard) (\<lambda>sh. applyAll E (secondaryObjects R sh requestHeaderAllowedNames))"

section \<open>In-cluster PostgreSQL\<close>

definition getOrGeneratePostgresPassword :: "env \<Rightarrow> (shardst, string) op" where
  "getOrGeneratePostgresPassword E =
     bindE (getsE shard) (\<lambda>sh.
     bindE (tryE (getSecret E (shardNS sh, PostgreSQLSecretName sh))) (\<lambda>got.
       case got of
         Inl _ \<Rightarrow> GeneratePassword E
       | Inr existing \<Rightarrow>
           (case map_of (sec_data existing) ''POSTGRES_PASSWORD'' of
              None \<Rightarrow> GeneratePassword E
            | Some pw \<Rightarrow> if length pw > 0 then returnE pw else GeneratePassword E)))"

definition postgresStatefulSet :: "reconciler \<Rightarrow> apiShard \<Rightarrow> statefulSet" where
  "postgresStatefulSet R sh =
     (let sts = BuildPostgreSQLStatefulSet sh in
      if \<not> SCCAvailable R
      then sts\<lparr>ss_podSpec := setPodSecurity (\<lambda>c. c\<lparr>psc_runAsUser := Some 999, psc_fsGroup := Some 999\<rparr>) (ss_podSpec sts)\<rparr>
      else sts)"

definition preservePostgreSQLVolumeClaimTemplates :: "env \<Rightarrow> statefulSet \<Rightarrow> (shardst, statefulSet) op" where
  "preservePostgreSQLVolumeClaimTemplates E desired =
     bindE (tryE (getObj E asStatefulSet Primary StatefulSetKind (keyOf (KStatefulSet desired)))) (\<lambda>got.
       case got of
         Inl err \<Rightarrow>
           if IsNotFound err
           then bindE (setCond E ConditionStorageReady ConditionTrue ''VolumeClaimTemplateUnchanged''
                  ''no existing PostgreSQL StatefulSet; applying requested volume claim templates'') (\<lambda>_. returnE desired)
           else throwE (wrap ''fetching existing statefulset'' err)
       | Inr existing \<Rightarrow>
           let requestedVCTs = ss_volumeClaimTemplates desired;
               liveVCTs = ss_volumeClaimTemplates existing;
               aligned = AlignPostgreSQLVolumeClaims desired existing in
           if VolumeClaimTemplatesMatch E requestedVCTs liveVCTs
           then bindE (setCond E ConditionStorageReady ConditionTrue ''VolumeClaimTemplateUnchanged''
                  ''PostgreSQL volume claim templates match the live StatefulSet'') (\<lambda>_. returnE aligned)
           else bindE (setCond E ConditionStorageReady ConditionFalse ''VolumeClaimTemplateImmutable''
                  (''volumeClaimTemplates are immutable; live '' @ DescribeVolumeClaimTemplates liveVCTs @
                   '', spec requested '' @ DescribeVolumeClaimTemplates requestedVCTs @
                   ''. Update the APIShard to match the live volume or recreate the shard.'')) (\<lambda>_. returnE aligned))"

definition reconcileInClusterPostgreSQL :: "env \<Rightarrow> reconciler \<Rightarrow> (shardst, unit) op" where
  "reconcileInClusterPostgreSQL E R =
     bindE (getsE shard) (\<lambda>sh.
     bindE (wrapE ''postgres password'' (getOrGeneratePostgresPassword E)) (\<lambda>password.
     bindE (applyAll E [(''postgresql secret'', KSecret (BuildPostgreSQLSecret sh password)),
                        (''postgresql init configmap'', KConfigMap (BuildPostgreSQLInitConfigMap sh))]) (\<lambda>_.
     bindE (wrapE ''preserving postgresql volume claim templates''
              (preservePostgreSQLVolumeClaimTemplates E (postgresStatefulSet R sh))) (\<lambda>sts.
     applyAll E [(''postgresql statefulset'', KStatefulSet sts),
                 (''postgresql service'', KService (BuildPostgreSQLService sh))]))))"

section \<open>External PostgreSQL\<close>

definition failStorage :: "env \<Rightarrow> string \<Rightarrow> string \<Rightarrow> goerror \<Rightarrow> (shardst, 'a) op" where
  "failStorage E rsn msg err =
     bindE (setCond E ConditionStorageReady ConditionFalse rsn msg) (\<lambda>_. throwE err)"

definition validateExternalPostgreSQLSecret :: "env \<Rightarrow> (shardst, unit) op" where
  "validateExternalPostgreSQLSecret E =
     bindE (getsE shard) (\<lambda>sh.
       case st_connectionSecretRef (storage (spec sh)) of
         None \<Rightarrow> failStorage E ''MissingConnectionSecretRef'' ''storage.type is PostgreSQL but connectionSecretRef is not set''
                   (errorf ''storage.type is PostgreSQL but connectionSecretRef is not set'')
       | Some ref \<Rightarrow>
           bindE (tryE (getSecret E (shardNS sh, skr_name ref))) (\<lambda>got.
             case got of
               Inl err \<Rightarrow>
                 if IsNotFound err
                 then failStorage E ''SecretNotFound''
                        (''Secret '' @ quote (skr_name ref) @ '' not found in namespace '' @ quote (shardNS sh))
                        (errorf (''connection secret '' @ quote (skr_name ref) @ '' not found in namespace '' @ quote (shardNS sh)))
                 else failStorage E ''SecretReadError''
                        (''Failed to read Secret '' @ quote (skr_name ref) @ '': '' @ err_msg err)
                        (wrap (''reading connection secret '' @ quote (skr_name ref)) err)
             | Inr sec \<Rightarrow>
                 if map_of (sec_data sec) (skr_key ref) = None
                 then failStorage E ''KeyNotFound''
                        (''Key '' @ quote (skr_key ref) @ '' not found in Secret '' @ quote (skr_name ref))
                        (errorf (''key '' @ quote (skr_key ref) @ '' not found in secret '' @ quote (skr_name ref)))
                 else setCond E ConditionStorageReady ConditionTrue ''SecretValid''
                        (''Connection secret '' @ quote (skr_name ref) @ '' validated'')))"

section \<open>Metrics collector\<close>

definition otelObjects :: "env \<Rightarrow> reconciler \<Rightarrow> apiShard \<Rightarrow> oTelConnectionParams \<Rightarrow> string \<Rightarrow> (string \<times> kobj) list" where
  "otelObjects E R sh params credentialSecretName =
     (let configContent = BuildOTelCollectorConfig sh params;
          cmName = buildConfigMapName E (OTelCollectorConfigMapBaseName sh) configContent in
      [(''otel collector configmap'', KConfigMap (BuildOTelCollectorConfigMap sh cmName configContent)),
       (''otel collector deployment'', KDeployment (BuildOTelCollectorDeployment sh credentialSecretName cmName params)),
       (''otel collector service'', KService (BuildOTelCollectorService sh))] @
      (if ServiceMonitorAvailable R
       then [(''postgresql metrics service monitor'', KServiceMonitor (BuildPostgreSQLMetricsServiceMonitor sh))] else []))"

definition applyOTelCollector :: "env \<Rightarrow> reconciler \<Rightarrow> oTelConnectionParams \<Rightarrow> string \<Rightarrow> (shardst, unit) op" where
  "applyOTelCollector E R params credentialSecretName =
     bindE (getsE shard) (\<lambda>sh. applyAll E (otelObjects E R sh params credentialSecretName))"

definition otelCredentialName :: "apiShard \<Rightarrow> string" where
  "otelCredentialName sh = shardName sh @ ''-postgresql-metrics-credentials''"

definition otelCredentialSecret :: "apiShard \<Rightarrow> oTelConnectionParams \<Rightarrow> secret" where
  "otelCredentialSecret sh params =
     \<lparr>sec_meta = emptyMeta\<lparr>om_name := otelCredentialName sh, om_namespace := shardNS sh\<rparr>, sec_type = [], sec_data = [],
      sec_stringData = [(''POSTGRES_USER'', op_User params), (''POSTGRES_PASSWORD'', op_Password params)]\<rparr>"

definition ensureOTelCredentialSecret :: "env \<Rightarrow> oTelConnectionParams \<Rightarrow> (shardst, string) op" where
  "ensureOTelCredentialSecret E params =
     bindE (getsE shard) (\<lambda>sh.
     bindE (wrapE ''otel credential secret'' (applyOwned E (KSecret (otelCredentialSecret sh params)))) (\<lambda>_.
     returnE (otelCredentialName sh)))"

definition externalCollector :: "env \<Rightarrow> reconciler \<Rightarrow> (shardst, unit) op" where
  "externalCollector E R =
     bindE (getsE shard) (\<lambda>sh.
       case st_connectionSecretRef (storage (spec sh)) of
         None \<Rightarrow> throwE (errorf ''storage.monitoring enabled but connectionSecretRef is not set'')
       | Some ref \<Rightarrow>
           bindE (wrapE ''reading connection secret for metrics'' (getSecret E (shardNS sh, skr_name ref))) (\<lambda>sec.
           bindE (wrapE ''parsing DSN for metrics collector''
                    (liftE (ParsePostgreSQLDSN E (mapGet (sec_data sec) (skr_key ref))))) (\<lambda>params.
             case Option.bind (st_monitoring (storage (spec sh))) mo_caCertSecret of
               None \<Rightarrow> throwE (errorf ''caCertSecret must be set in spec.storage.monitoring for external PostgreSQL'')
             | Some ca \<Rightarrow>
                 let p = params\<lparr>op_CACertSecretName := skr_name ca, op_CACertSecretKey := skr_key ca\<rparr> in
                 bindE (ensureOTelCredentialSecret E p) (\<lambda>credentialSecret.
                 applyOTelCollector E R p credentialSecret))))"

definition metricsCollector :: "env \<Rightarrow> reconciler \<Rightarrow> (shardst, unit) op" where
  "metricsCollector E R =
     bindE (getsE shard) (\<lambda>sh.
       if storageType sh = StorageTypeInClusterPostgreSQL
       then applyOTelCollector E R
              ((InClusterPostgreSQLConnectionParams sh)\<lparr>op_CACertSecretName := PostgreSQLCASecretName sh,
                 op_CACertSecretKey := CACertKey\<rparr>) (PostgreSQLSecretName sh)
       else if storageType sh = StorageTypePostgreSQL then externalCollector E R
       else returnE ())"

definition reconcilePostgreSQLMetrics :: "env \<Rightarrow> reconciler \<Rightarrow> (shardst, unit) op" where
  "reconcilePostgreSQLMetrics E R =
     bindE (getsE shard) (\<lambda>sh.
       if \<not> StorageMonitoringEnabled sh then removeCond E ConditionMonitoringDegraded
       else if storageType sh = StorageTypeSQLite
       then setCond E ConditionMonitoringDegraded ConditionTrue ''UnsupportedStorageType''
              ''Storage monitoring is not supported for SQLite; disable monitoring.enabled or switch to PostgreSQL''
       else bindE (tryE (metricsCollector E R)) (\<lambda>r.
         case r of
           Inl err \<Rightarrow> setCond E ConditionMonitoringDegraded ConditionTrue ''MetricsCollectorFailed''
                        (''Failed to deploy metrics collector: '' @ err_msg err)
         | Inr _ \<Rightarrow> setCond E ConditionMonitoringDegraded ConditionFalse ''MetricsCollectorHealthy''
                      ''PostgreSQL metrics collector is deployed''))"

definition reconcileStorage :: "env \<Rightarrow> reconciler \<Rightarrow> (shardst, unit) op" where
  "reconcileStorage E R =
     bindE (getsE shard) (\<lambda>sh.
     bindE (if storageType sh = StorageTypeInClusterPostgreSQL
            then wrapE ''in-cluster PostgreSQL'' (reconcileInClusterPostgreSQL E R)
            else if storageType sh = StorageTypePostgreSQL
            then wrapE ''external PostgreSQL'' (validateExternalPostgreSQLSecret E)
            else returnE ()) (\<lambda>_.
     bindE (wrapE ''kine'' (reconcileKine E R)) (\<lambda>_.
     reconcilePostgreSQLMetrics E R)))"

section \<open>Contracts\<close>

lemma storage_status_free [simp]:
  "kineObjects R (sh\<lparr>status := st\<rparr>) = kineObjects R sh"
  "secondaryObjects R (sh\<lparr>status := st\<rparr>) ns = secondaryObjects R sh ns"
  "postgresStatefulSet R (sh\<lparr>status := st\<rparr>) = postgresStatefulSet R sh"
  "otelObjects E R (sh\<lparr>status := st\<rparr>) ps cr = otelObjects E R sh ps cr"
  "otelCredentialName (sh\<lparr>status := st\<rparr>) = otelCredentialName sh"
  "otelCredentialSecret (sh\<lparr>status := st\<rparr>) ps = otelCredentialSecret sh ps"
  by (simp_all add: kineObjects_def kineDeployment_def secondaryObjects_def postgresStatefulSet_def otelObjects_def
      otelCredentialName_def otelCredentialSecret_def Let_def)

lemma kineDeployment_namespace [simp]: "om_namespace (d_meta (kineDeployment R sh)) = shardNS sh"
  by (simp add: kineDeployment_def Let_def)

lemma postgresStatefulSet_meta [simp]: "ss_meta (postgresStatefulSet R sh) = ss_meta (BuildPostgreSQLStatefulSet sh)"
  by (simp add: postgresStatefulSet_def Let_def)

lemma storage_ownable:
  "(q, x) \<in> set (kineObjects R sh) \<Longrightarrow> ownable sh x"
  "(q, x) \<in> set (secondaryObjects R sh ns) \<Longrightarrow> ownable sh x"
  "(q, x) \<in> set (otelObjects E R sh ps cr) \<Longrightarrow> ownable sh x"
  by (auto simp: kineObjects_def secondaryObjects_def otelObjects_def optObj_def Let_def split: option.splits if_splits
      dest!: BuildPDB_Some [OF sym])

lemma otelCredential_namespace [simp]: "om_namespace (sec_meta (otelCredentialSecret sh ps)) = shardNS sh"
  by (simp add: otelCredentialSecret_def)

definition kinePost :: "reconciler \<Rightarrow> apiShard \<Rightarrow> unit \<Rightarrow> event list \<Rightarrow> bool" where
  "kinePost R SH u es =
     ((\<forall>x \<in> snd ` set (kineObjects R SH). applied x es) \<and>
      (applied (KService (BuildKineService SH)) es \<or>
       applied (KService ((BuildKineService SH)\<lparr>sv_trafficDistribution := None\<rparr>)) es))"

lemma kinePost_mono: "kinePost R SH u es \<Longrightarrow> set es \<subseteq> set fs \<Longrightarrow> kinePost R SH u fs"
  by (auto simp: kinePost_def intro: performed_mono)

interpretation kine_step: shard_step SH "reconcileKine E R" "kinePost R SH"
  unfolding reconcileKine_def applyKineService_def
  by (rule contract_weaken, (rule contracts storage_ownable | assumption | (simp cong: contract_congs; fail))+)
    (auto simp: kinePost_def intro: kinePost_mono performed_mono split: contract_splits)

text \<open>The claim templates of the StatefulSet that is applied are those of the live one, if there is one.\<close>

lemma preserve_run_meta:
  "shard_step SH (preservePostgreSQLVolumeClaimTemplates E desired) (\<lambda>sts es. ss_meta sts = ss_meta desired)"
  unfolding preservePostgreSQLVolumeClaimTemplates_def
  by (rule contract_weaken, (rule contracts | (simp cong: contract_congs; fail))+)
    (auto simp: AlignPostgreSQLVolumeClaims_def Let_def split: contract_splits)

definition inClusterPost :: "apiShard \<Rightarrow> unit \<Rightarrow> event list \<Rightarrow> bool" where
  "inClusterPost SH u es =
     ((\<exists>pw. applied (KSecret (BuildPostgreSQLSecret SH pw)) es) \<and>
      applied (KConfigMap (BuildPostgreSQLInitConfigMap SH)) es \<and>
      (\<exists>sts. ss_meta sts = ss_meta (BuildPostgreSQLStatefulSet SH) \<and> applied (KStatefulSet sts) es) \<and>
      applied (KService (BuildPostgreSQLService SH)) es)"

lemma inClusterPost_mono: "inClusterPost SH u es \<Longrightarrow> set es \<subseteq> set fs \<Longrightarrow> inClusterPost SH u fs"
  unfolding inClusterPost_def by (blast intro: performed_mono)

interpretation incluster_step: shard_step SH "reconcileInClusterPostgreSQL E R" "inClusterPost SH"
  unfolding reconcileInClusterPostgreSQL_def getOrGeneratePostgresPassword_def
  by (rule contract_weaken, (rule contracts preserve_run_meta | (auto cong: contract_congs; fail))+)
    (auto simp: inClusterPost_def intro: inClusterPost_mono performed_mono split: contract_splits)

definition externalPost :: "apiShard \<Rightarrow> unit \<Rightarrow> event list \<Rightarrow> bool" where
  "externalPost SH u es =
     (\<exists>ref sec. st_connectionSecretRef (storage (spec SH)) = Some ref \<and> map_of (sec_data sec) (skr_key ref) \<noteq> None \<and>
        (GetCall Primary SecretKind (shardNS SH, skr_name ref), RObj (KSecret sec)) \<in> set es)"

interpretation external_step: shard_step SH "validateExternalPostgreSQLSecret E" "externalPost SH"
  unfolding validateExternalPostgreSQLSecret_def failStorage_def
  by (rule contract_weaken, (rule contracts | (simp cong: contract_congs; fail))+)
    (auto simp: externalPost_def decoders split: contract_splits)

lemma frame_metricsCollector: "keeps (stepRel (stepEvent SH) SH) (metricsCollector E R)"
  unfolding metricsCollector_def externalCollector_def applyOTelCollector_def ensureOTelCredentialSecret_def
  by (rule frames | (auto intro: storage_ownable; fail))+

lemma frame_reconcilePostgreSQLMetrics: "keeps (stepRel (stepEvent SH) SH) (reconcilePostgreSQLMetrics E R)"
  unfolding reconcilePostgreSQLMetrics_def by (rule frames frame_metricsCollector)+

definition storagePost :: "reconciler \<Rightarrow> apiShard \<Rightarrow> unit \<Rightarrow> event list \<Rightarrow> bool" where
  "storagePost R SH u es =
     ((storageType SH = StorageTypeInClusterPostgreSQL \<longrightarrow> inClusterPost SH u es) \<and>
      (storageType SH = StorageTypePostgreSQL \<longrightarrow> externalPost SH u es) \<and> kinePost R SH u es)"

lemma externalPost_mono: "externalPost SH u es \<Longrightarrow> set es \<subseteq> set fs \<Longrightarrow> externalPost SH u fs"
  unfolding externalPost_def by blast

lemma storagePost_mono: "storagePost R SH u es \<Longrightarrow> set es \<subseteq> set fs \<Longrightarrow> storagePost R SH u fs"
  unfolding storagePost_def by (auto intro: inClusterPost_mono externalPost_mono kinePost_mono)

interpretation storage_step: shard_step SH "reconcileStorage E R" "storagePost R SH"
  unfolding reconcileStorage_def
  by (rule contract_weaken, (rule contracts incluster_step.shard_step_axioms external_step.shard_step_axioms
        kine_step.shard_step_axioms contract_trivial [OF frame_reconcilePostgreSQLMetrics]
      | (simp cong: contract_congs; fail))+)
    (auto simp: storagePost_def storage_names intro: inClusterPost_mono externalPost_mono kinePost_mono split: if_split_asm)

definition secondaryPost :: "reconciler \<Rightarrow> apiShard \<Rightarrow> string list \<Rightarrow> unit \<Rightarrow> event list \<Rightarrow> bool" where
  "secondaryPost R SH ns u es = (\<forall>x \<in> snd ` set (secondaryObjects R SH ns). applied x es)"

interpretation secondary_step: shard_step SH "reconcileSecondary E R ns" "secondaryPost R SH ns"
  unfolding reconcileSecondary_def
  by (rule contract_weaken, (rule contracts storage_ownable | assumption | (simp; fail))+)
    (auto simp: secondaryPost_def intro: performed_mono)

end
