(* ===== verification/Base64.thy ===== *)
theory Base64
  imports Prelude
begin

text \<open>
  \<open>base64.StdEncoding\<close> as the operator uses it for the admin kubeconfig: the padded encoder, the
  decoder a reader of the kubeconfig applies, and that the second inverts the first.
\<close>

definition b64Alphabet :: string where
  "b64Alphabet = ''ABCDEFGHIJKLMNOPQRSTUVWXYZabcdefghijklmnopqrstuvwxyz0123456789+/''"

definition b64Char :: "nat \<Rightarrow> char" where
  "b64Char n = b64Alphabet ! n"

definition b64Index :: "char \<Rightarrow> nat" where
  "b64Index c = length (takeWhile (\<lambda>d. d \<noteq> c) b64Alphabet)"

fun base64 :: "string \<Rightarrow> string" where
  "base64 [] = []"
| "base64 [x] =
     (let a = of_char x :: nat in [b64Char (a div 4), b64Char (a mod 4 * 16), CHR ''='', CHR ''=''])"
| "base64 [x, y] =
     (let a = of_char x :: nat; b = of_char y :: nat in
      [b64Char (a div 4), b64Char (a mod 4 * 16 + b div 16), b64Char (b mod 16 * 4), CHR ''=''])"
| "base64 (x # y # z # rest) =
     (let a = of_char x :: nat; b = of_char y :: nat; c = of_char z :: nat in
      [b64Char (a div 4), b64Char (a mod 4 * 16 + b div 16), b64Char (b mod 16 * 4 + c div 64), b64Char (c mod 64)] @
      base64 rest)"

fun base64Decode :: "string \<Rightarrow> string" where
  "base64Decode (p # q # r # t # rest) =
     (let i = b64Index p; j = b64Index q; k = b64Index r; l = b64Index t in
      if r = CHR ''='' then [char_of (i * 4 + j div 16)]
      else if t = CHR ''='' then [char_of (i * 4 + j div 16), char_of (j mod 16 * 16 + k div 4)]
      else [char_of (i * 4 + j div 16), char_of (j mod 16 * 16 + k div 4), char_of (k mod 4 * 64 + l)] @ base64Decode rest)"
| "base64Decode _ = []"

lemma b64_all: "list_all (\<lambda>n. b64Index (b64Char n) = n \<and> b64Char n \<noteq> CHR ''='' \<and> b64Char n \<noteq> CHR 0x0A) [0..<64]"
  by code_simp

lemma b64_Index_Char [simp]: "n < 64 \<Longrightarrow> b64Index (b64Char n) = n"
  and b64_not_pad [simp]: "n < 64 \<Longrightarrow> b64Char n \<noteq> CHR ''=''"
  and b64_not_newline [simp]: "n < 64 \<Longrightarrow> b64Char n \<noteq> CHR 0x0A"
  using b64_all by (simp_all add: list_all_iff)

lemma b64_newline: "n < 64 \<Longrightarrow> CHR 0x0A \<noteq> b64Char n"
  by (rule not_sym) (rule b64_not_newline)

lemma byte_bound [simp]: "(of_char c :: nat) < 256"
proof -
  have "(of_char c :: nat) mod 256 < 256" by simp
  then show ?thesis by simp
qed

lemma byte_high [simp]: "(of_char c :: nat) div 4 < 64" "(of_char c :: nat) div 16 < 16" "(of_char c :: nat) div 64 < 4"
  using byte_bound [of c] by (simp_all add: less_mult_imp_div_less)

lemma join_bound: "(a :: nat) mod m * n + b < m * n" if "b < n" "0 < m"
proof -
  have "a mod m < m" using that(2) by simp
  then have "Suc (a mod m) * n \<le> m * n" by (intro mult_le_mono1) simp
  with that(1) show ?thesis by simp
qed

lemma byte_join [simp]:
  "(of_char c :: nat) mod 4 * 16 < 64" "(of_char c :: nat) mod 16 * 4 < 64"
  "(of_char c :: nat) mod 4 * 16 + (of_char d :: nat) div 16 < 64" "(of_char c :: nat) mod 16 * 4 + (of_char d :: nat) div 64 < 64"
  using join_bound [of 0 16 4 "of_char c"] join_bound [of 0 4 16 "of_char c"]
    join_bound [of "of_char d div 16" 16 4 "of_char c"] join_bound [of "of_char d div 64" 4 16 "of_char c"] by simp_all

lemma byte_parts [simp]:
  "(of_char d :: nat) div 16 div 16 = 0" "(of_char e :: nat) div 64 div 4 = 0"
  "(of_char d :: nat) div 16 mod 16 * 16 + (of_char d :: nat) mod 16 = of_char d"
  "(of_char e :: nat) div 64 mod 4 * 64 + (of_char e :: nat) mod 64 = of_char e"
  by simp_all

text \<open>Decoding inverts encoding, and the text has no line break, so that it is one YAML scalar.\<close>

lemma base64_roundtrip: "base64Decode (base64 bs) = bs"
  by (induction bs rule: base64.induct) (simp_all add: Let_def)

lemma base64_one_line: "CHR 0x0A \<notin> set (base64 bs)"
  by (induction bs rule: base64.induct) (auto simp: Let_def b64_newline)

lemma base64_length: "length (base64 bs) = 4 * ((length bs + 2) div 3)"
proof (induction bs rule: base64.induct)
  case (4 x y z rest)
  have "(length (x # y # z # rest) + 2) div 3 = Suc ((length rest + 2) div 3)" by simp
  with 4 show ?case by (simp add: Let_def del: length_Cons)
qed (simp_all add: Let_def)

end
