(* ===== verification/ShardAccess.thy ===== *)
theory ShardAccess
  imports ShardState Base64
begin

text \<open>
  The steps of the \<open>APIShard\<close> reconciler that give the secondary API server its certificates, its
  identity and its access (\<open>apishard/reconciler.go\<close>): cert-manager resources, the webhook
  configuration for authentication and authorization, the ServiceAccount and its binding, the
  OpenShift SCC, the front-proxy CA, the admin kubeconfig, the metrics access, and the registration
  of the APIServices.
\<close>

section \<open>Certificates, authorization and identity\<close>

definition certObjects :: "apiShard \<Rightarrow> (string \<times> kobj) list" where
  "certObjects sh =
     map (\<lambda>x. (''applying '' @ gvk_kind (un_gvk x) @ '' '' @ om_name (un_meta x), KUnstructured x)) (buildCertResources sh)"

definition reconcileCertManager :: "env \<Rightarrow> (shardst, unit) op" where
  "reconcileCertManager E = bindE (getsE shard) (\<lambda>sh. applyAll E (certObjects sh))"

definition webhookKubeconfig :: "string \<Rightarrow> string" where
  "webhookKubeconfig path = unlines
     [''apiVersion: v1'',
      ''kind: Config'',
      ''clusters:'',
      ''- name: primary'',
      ''  cluster:'',
      ''    server: https://kubernetes.default.svc/apis/'' @ path,
      ''    certificate-authority: /var/run/secrets/kubernetes.io/serviceaccount/ca.crt'',
      ''users:'',
      ''- name: webhook'',
      ''  user:'',
      ''    tokenFile: /var/run/secrets/kubernetes.io/serviceaccount/token'',
      ''current-context: webhook'',
      ''contexts:'',
      ''- context:'',
      ''    cluster: primary'',
      ''    user: webhook'',
      ''  name: webhook'']"

definition authConfigMap :: "apiShard \<Rightarrow> configMap" where
  "authConfigMap sh =
     \<lparr>cm_meta = emptyMeta\<lparr>om_name := shardName sh @ ''-authz-config'', om_namespace := shardNS sh\<rparr>,
      cm_data = [(''webhook-config.yaml'', webhookKubeconfig ''authorization.k8s.io/v1/subjectaccessreviews''),
                 (''authn-webhook-config.yaml'', webhookKubeconfig ''authentication.k8s.io/v1/tokenreviews'')]\<rparr>"

definition reconcileAuthConfig :: "env \<Rightarrow> (shardst, unit) op" where
  "reconcileAuthConfig E =
     bindE (getsE shard) (\<lambda>sh. applyAll E [(''auth config configmap'', KConfigMap (authConfigMap sh))])"

definition reconcileSecondaryServiceAccount :: "env \<Rightarrow> (shardst, unit) op" where
  "reconcileSecondaryServiceAccount E =
     bindE (getsE shard) (\<lambda>sh.
       applyAll E [(''secondary service account'', KServiceAccount (BuildSecondaryServiceAccount sh))])"

definition authDelegator :: "apiShard \<Rightarrow> roleBinding" where
  "authDelegator sh =
     \<lparr>rb_meta = emptyMeta\<lparr>om_name := shardName sh @ ''-auth-delegator''\<rparr>,
      rb_roleRef = \<lparr>rr_apiGroup = ''rbac.authorization.k8s.io'', rr_kind = ''ClusterRole'', rr_name = ''system:auth-delegator''\<rparr>,
      rb_subjects = [\<lparr>sj_kind = ''ServiceAccount'', sj_name = SecondaryServiceAccountName sh, sj_namespace = shardNS sh\<rparr>]\<rparr>"

definition reconcileAuthDelegator :: "env \<Rightarrow> (shardst, unit) op" where
  "reconcileAuthDelegator E =
     bindE (getsE shard) (\<lambda>sh.
     bindE (wrapE ''setting owner reference on auth-delegator CRB''
              (liftE (setControllerReference E sh (rb_meta (authDelegator sh))))) (\<lambda>m.
     applyAll E [(''auth-delegator ClusterRoleBinding'', KClusterRoleBinding ((authDelegator sh)\<lparr>rb_meta := m\<rparr>))]))"

definition sccObjects :: "reconciler \<Rightarrow> apiShard \<Rightarrow> (string \<times> kobj) list" where
  "sccObjects R sh =
     (if \<not> SCCAvailable R then []
      else [(''apiserver SCC'', KUnstructured (BuildAPIServerSCC sh)),
            (''apiserver SCC cluster role'', KClusterRole (BuildAPIServerSCCClusterRole sh)),
            (''apiserver SCC role binding'', KRoleBinding (BuildAPIServerSCCRoleBinding sh))])"

definition reconcileAPIServerSCC :: "env \<Rightarrow> reconciler \<Rightarrow> (shardst, unit) op" where
  "reconcileAPIServerSCC E R = bindE (getsE shard) (\<lambda>sh. applyAll E (sccObjects R sh))"

section \<open>Metrics access\<close>

definition readerObjects :: "apiShard \<Rightarrow> (string \<times> kobj) list" where
  "readerObjects sh =
     [(''metrics-reader service account'', KServiceAccount (BuildMetricsReaderServiceAccount sh)),
      (''metrics-reader token secret'', KSecret (BuildMetricsReaderTokenSecret sh))]"

definition scrapeObjects :: "apiShard \<Rightarrow> (string \<times> kobj) list" where
  "scrapeObjects sh =
     [(''apiserver service monitor'', KServiceMonitor (BuildSecondaryServiceMonitor sh)),
      (''prometheus discovery role'', KRole (BuildPrometheusDiscoveryRole sh)),
      (''prometheus discovery role binding'', KRoleBinding (BuildPrometheusDiscoveryRoleBinding sh))]"

definition reconcileMetrics :: "env \<Rightarrow> reconciler \<Rightarrow> (shardst, unit) op" where
  "reconcileMetrics E R =
     bindE (getsE shard) (\<lambda>sh.
       if \<not> ServiceMonitorAvailable R then returnE ()
       else
         bindE (applyAll E (readerObjects sh)) (\<lambda>_.
         bindE (wrapE ''metrics-reader cluster role'' (requestU E (ApplyCall Primary (KClusterRole BuildMetricsReaderClusterRole)))) (\<lambda>_.
         bindE (applyAll E [(''metrics-reader cluster role binding'', KClusterRoleBinding (BuildMetricsReaderClusterRoleBinding sh))]) (\<lambda>_.
         bindE (tryE (applyOwned E (KServiceMonitor (BuildKineServiceMonitor sh)))) (\<lambda>r.
           case r of
             Inl err \<Rightarrow> if IsNoMatchError err \<or> IsNotFound err then returnE () else throwE (wrap ''kine service monitor'' err)
           | Inr _ \<Rightarrow> applyAll E (scrapeObjects sh))))))"

section \<open>Front-proxy CA\<close>

definition allowedNames :: "env \<Rightarrow> configMap \<Rightarrow> goerror + string list" where
  "allowedNames E sourceCM =
     (let raw = mapGet (cm_data sourceCM) ''requestheader-allowed-names'';
          orDefault = (\<lambda>ns. if ns = [] then [defaultFrontProxyClient] else ns) in
      if raw = [] then Inr (orDefault [])
      else case unmarshalStrings E raw of
             Inl e \<Rightarrow> Inl (wrap ''parsing requestheader-allowed-names'' e)
           | Inr ns \<Rightarrow> Inr (orDefault ns))"

definition requestHeaderCM :: "apiShard \<Rightarrow> string \<Rightarrow> configMap" where
  "requestHeaderCM sh caData =
     \<lparr>cm_meta = emptyMeta\<lparr>om_name := shardName sh @ ''-requestheader-ca'', om_namespace := shardNS sh\<rparr>,
      cm_data = [(''requestheader-client-ca-file'', caData)]\<rparr>"

definition reconcileRequestHeaderCA :: "env \<Rightarrow> (shardst, string list) op" where
  "reconcileRequestHeaderCA E =
     bindE (getsE shard) (\<lambda>sh.
     bindE (wrapE (''reading '' @ extensionAPIServerAuthCM @ '' from '' @ kubeSystemNamespace)
              (getObj E asConfigMap Primary ConfigMapKind (kubeSystemNamespace, extensionAPIServerAuthCM))) (\<lambda>sourceCM.
     let caData = mapGet (cm_data sourceCM) ''requestheader-client-ca-file'' in
     if caData = []
     then throwE (errorf (''requestheader-client-ca-file not found in '' @ extensionAPIServerAuthCM @ '' ConfigMap''))
     else
       bindE (liftE (allowedNames E sourceCM)) (\<lambda>ns.
       bindE (applyAll E [(''requestheader CA configmap'', KConfigMap (requestHeaderCM sh caData))]) (\<lambda>_.
       returnE ns))))"

section \<open>Admin kubeconfig\<close>

definition adminKubeconfig :: "apiShard \<Rightarrow> bytes \<Rightarrow> bytes \<Rightarrow> bytes \<Rightarrow> string" where
  "adminKubeconfig sh caData clientCert clientKey = unlines
     [''apiVersion: v1'',
      ''kind: Config'',
      ''clusters:'',
      ''- name: secondary'',
      ''  cluster:'',
      ''    server: https://'' @ shardName sh @ ''-apiserver.'' @ shardNS sh @ ''.svc'',
      ''    certificate-authority-data: '' @ base64 caData,
      ''users:'',
      ''- name: admin'',
      ''  user:'',
      ''    client-certificate-data: '' @ base64 clientCert,
      ''    client-key-data: '' @ base64 clientKey,
      ''contexts:'',
      ''- name: default'',
      ''  context:'',
      ''    cluster: secondary'',
      ''    user: admin'',
      ''current-context: default'']"

definition adminSecretName :: "apiShard \<Rightarrow> string" where
  "adminSecretName sh = shardName sh @ ''-admin-kubeconfig''"

definition adminKubeconfigSecret :: "apiShard \<Rightarrow> bytes \<Rightarrow> bytes \<Rightarrow> bytes \<Rightarrow> secret" where
  "adminKubeconfigSecret sh caData clientCert clientKey =
     \<lparr>sec_meta = emptyMeta\<lparr>om_name := adminSecretName sh, om_namespace := shardNS sh\<rparr>, sec_type = [],
      sec_data = [(''kubeconfig'', adminKubeconfig sh caData clientCert clientKey), (''tls.crt'', clientCert), (''tls.key'', clientKey)],
      sec_stringData = []\<rparr>"

text \<open>A Secret that is not there yet ends the step without an error.\<close>

definition getIfPresent :: "env \<Rightarrow> string \<Rightarrow> nsname \<Rightarrow> (shardst, secret option) op" where
  "getIfPresent E p key =
     bindE (tryE (getSecret E key)) (\<lambda>got.
       case got of
         Inl err \<Rightarrow> if IsNotFound err then returnE None else throwE (wrap p err)
       | Inr sec \<Rightarrow> returnE (Some sec))"

definition writeAdminKubeconfig :: "env \<Rightarrow> bytes \<Rightarrow> bytes \<Rightarrow> bytes \<Rightarrow> (shardst, unit) op" where
  "writeAdminKubeconfig E caData clientCert clientKey =
     bindE (getsE shard) (\<lambda>sh.
     bindE (applyAll E [(''admin kubeconfig secret'', KSecret (adminKubeconfigSecret sh caData clientCert clientKey))]) (\<lambda>_.
     setStatus (\<lambda>st. st\<lparr>connectionSecret := Some (shardNS sh, adminSecretName sh)\<rparr>)))"

definition reconcileAdminKubeconfig :: "env \<Rightarrow> (shardst, unit) op" where
  "reconcileAdminKubeconfig E =
     bindE (getsE shard) (\<lambda>sh.
     bindE (getIfPresent E ''reading PKI secret'' (shardNS sh, PKISecretName sh)) (\<lambda>pki.
       case pki of
         None \<Rightarrow> returnE ()
       | Some pkiSecret \<Rightarrow>
           let caData = mapGet (sec_data pkiSecret) CACertKey in
           if caData = [] then returnE ()
           else bindE (getIfPresent E ''reading admin client cert secret'' (shardNS sh, AdminClientSecretName sh)) (\<lambda>admin.
             case admin of
               None \<Rightarrow> returnE ()
             | Some adminSecret \<Rightarrow>
                 let clientCert = mapGet (sec_data adminSecret) ''tls.crt''; clientKey = mapGet (sec_data adminSecret) ''tls.key'' in
                 if clientCert = [] \<or> clientKey = [] then returnE ()
                 else writeAdminKubeconfig E caData clientCert clientKey)))"

section \<open>Registration\<close>

definition reconcileAPIServices :: "env \<Rightarrow> (shardst, unit) op" where
  "reconcileAPIServices E =
     bindE (getsE shard) (\<lambda>sh.
     bindE (tryE (getSecret E (shardNS sh, PKISecretName sh))) (\<lambda>got.
       case got of
         Inl err \<Rightarrow>
           if IsNotFound err
           then throwE (errorf (''TLS secret '' @ PKISecretName sh @ '' not yet available (cert-manager pending)''))
           else throwE (wrap (''reading TLS secret '' @ PKISecretName sh) err)
       | Inr sec \<Rightarrow>
           bindE (aggregation_Reconcile E sh (mapGet (sec_data sec) CACertKey) (registeredAPIServices (status sh))) (\<lambda>registered.
           setStatus (\<lambda>st. st\<lparr>registeredAPIServices := registered\<rparr>))))"

section \<open>Contracts\<close>

lemma access_status_free [simp]:
  "certObjects (sh\<lparr>status := st\<rparr>) = certObjects sh" "authConfigMap (sh\<lparr>status := st\<rparr>) = authConfigMap sh"
  "authDelegator (sh\<lparr>status := st\<rparr>) = authDelegator sh" "sccObjects R (sh\<lparr>status := st\<rparr>) = sccObjects R sh"
  "readerObjects (sh\<lparr>status := st\<rparr>) = readerObjects sh" "scrapeObjects (sh\<lparr>status := st\<rparr>) = scrapeObjects sh"
  "requestHeaderCM (sh\<lparr>status := st\<rparr>) ca = requestHeaderCM sh ca" "adminSecretName (sh\<lparr>status := st\<rparr>) = adminSecretName sh"
  "adminKubeconfigSecret (sh\<lparr>status := st\<rparr>) ca crt key = adminKubeconfigSecret sh ca crt key"
  by (simp_all add: certObjects_def authConfigMap_def authDelegator_def sccObjects_def readerObjects_def scrapeObjects_def
      requestHeaderCM_def adminSecretName_def adminKubeconfigSecret_def adminKubeconfig_def)

lemma access_namespaces [simp]:
  "om_namespace (cm_meta (authConfigMap sh)) = shardNS sh" "om_namespace (cm_meta (requestHeaderCM sh ca)) = shardNS sh"
  "om_namespace (sec_meta (adminKubeconfigSecret sh ca crt key)) = shardNS sh"
  by (simp_all add: authConfigMap_def requestHeaderCM_def adminKubeconfigSecret_def)

lemma cert_kinds:
  "ownable sh (KUnstructured (certObject ''Issuer'' sh nm sp))" "ownable sh (KUnstructured (certObject ''Certificate'' sh nm sp))"
  by (simp_all add: ownable_def certObject_def managedGVKs_def GVK_def)

lemma cert_ownable: "x \<in> set (buildCertResources sh) \<Longrightarrow> ownable sh (KUnstructured x)"
  by (auto simp: buildCertResources_def BuildSelfSignedIssuer_def BuildCACertificate_def BuildCAIssuer_def
      BuildServingCertificate_def BuildAdminClientCertificate_def BuildKineSelfSignedIssuer_def BuildKineCACertificate_def
      BuildKineCAIssuer_def BuildKineServingCertificate_def BuildEtcdClientCertificate_def
      BuildPostgreSQLSelfSignedIssuer_def BuildPostgreSQLCACertificate_def BuildPostgreSQLCAIssuer_def
      BuildPostgreSQLServingCertificate_def buildServingCert_def cert_kinds split: if_splits)

lemma scc_ownable: "ownable sh (KUnstructured (BuildAPIServerSCC sh))"
  by (simp add: ownable_def BuildAPIServerSCC_def managedGVKs_def clusterScoped_def GVK_def)

lemma access_ownable:
  "(q, x) \<in> set (certObjects sh) \<Longrightarrow> ownable sh x" "(q, x) \<in> set (sccObjects R sh) \<Longrightarrow> ownable sh x"
  "(q, x) \<in> set (readerObjects sh) \<Longrightarrow> ownable sh x" "(q, x) \<in> set (scrapeObjects sh) \<Longrightarrow> ownable sh x"
  by (auto simp: certObjects_def sccObjects_def readerObjects_def scrapeObjects_def scc_ownable intro: cert_ownable
      split: if_splits)

definition certPost :: "apiShard \<Rightarrow> unit \<Rightarrow> event list \<Rightarrow> bool" where
  "certPost SH u es = (\<forall>x \<in> set (buildCertResources SH). applied (KUnstructured x) es)"

interpretation cert_step: shard_step SH "reconcileCertManager E" "certPost SH"
  unfolding reconcileCertManager_def
  by (rule contract_weaken, (rule contracts access_ownable | assumption | (simp; fail))+)
    (auto simp: certPost_def certObjects_def image_image intro: performed_mono)

definition identityPost :: "reconciler \<Rightarrow> apiShard \<Rightarrow> event list \<Rightarrow> bool" where
  "identityPost R SH es =
     (applied (KConfigMap (authConfigMap SH)) es \<and> applied (KServiceAccount (BuildSecondaryServiceAccount SH)) es \<and>
      (\<exists>m. applied (KClusterRoleBinding ((authDelegator SH)\<lparr>rb_meta := m\<rparr>)) es) \<and>
      (\<forall>x \<in> snd ` set (sccObjects R SH). applied x es))"

interpretation authConfig_step: shard_step SH "reconcileAuthConfig E" "\<lambda>_ es. applied (KConfigMap (authConfigMap SH)) es"
  unfolding reconcileAuthConfig_def
  by (rule contract_weaken, (rule contracts | (auto; fail))+) (auto intro: performed_mono)

interpretation account_step: shard_step SH "reconcileSecondaryServiceAccount E"
  "\<lambda>_ es. applied (KServiceAccount (BuildSecondaryServiceAccount SH)) es"
  unfolding reconcileSecondaryServiceAccount_def
  by (rule contract_weaken, (rule contracts | (auto; fail))+) (auto intro: performed_mono)

interpretation delegator_step: shard_step SH "reconcileAuthDelegator E"
  "\<lambda>_ es. \<exists>m. applied (KClusterRoleBinding ((authDelegator SH)\<lparr>rb_meta := m\<rparr>)) es"
  unfolding reconcileAuthDelegator_def
  by (rule contract_shard, rule contract_weaken, (rule contracts | (auto; fail))+) (auto intro: performed_mono)

interpretation scc_step: shard_step SH "reconcileAPIServerSCC E R" "\<lambda>_ es. \<forall>x \<in> snd ` set (sccObjects R SH). applied x es"
  unfolding reconcileAPIServerSCC_def
  by (rule contract_weaken, (rule contracts access_ownable | assumption | (simp; fail))+) (auto intro: performed_mono)

definition headerPost :: "env \<Rightarrow> apiShard \<Rightarrow> string list \<Rightarrow> event list \<Rightarrow> bool" where
  "headerPost E SH ns es =
     (\<exists>cm. (GetCall Primary ConfigMapKind (kubeSystemNamespace, extensionAPIServerAuthCM), RObj (KConfigMap cm)) \<in> set es \<and>
        allowedNames E cm = Inr ns \<and> mapGet (cm_data cm) ''requestheader-client-ca-file'' \<noteq> [] \<and>
        applied (KConfigMap (requestHeaderCM SH (mapGet (cm_data cm) ''requestheader-client-ca-file''))) es)"

interpretation header_step: shard_step SH "reconcileRequestHeaderCA E" "headerPost E SH"
  unfolding reconcileRequestHeaderCA_def
  by (rule contract_weaken, (rule contracts | (auto cong: contract_congs; fail))+)
    (auto simp: headerPost_def Let_def intro: performed_mono split: if_split_asm)

interpretation kubeconfig_step: shard_step SH "reconcileAdminKubeconfig E" "\<lambda>_ _. True"
  by (rule contract_trivial)
    (unfold reconcileAdminKubeconfig_def getIfPresent_def writeAdminKubeconfig_def, (rule frames | (auto; fail))+)

definition metricsPost :: "reconciler \<Rightarrow> apiShard \<Rightarrow> unit \<Rightarrow> event list \<Rightarrow> bool" where
  "metricsPost R SH u es = (ServiceMonitorAvailable R \<longrightarrow> (\<forall>x \<in> snd ` set (readerObjects SH). applied x es))"

interpretation metrics_step: shard_step SH "reconcileMetrics E R" "metricsPost R SH"
  unfolding reconcileMetrics_def
  by (rule contract_weaken, (rule contracts | (auto intro: access_ownable cong: contract_congs; fail))+)
    (auto simp: metricsPost_def intro: performed_mono split: if_split_asm)

definition registeredPost :: "apiShard \<Rightarrow> unit \<Rightarrow> event list \<Rightarrow> bool" where
  "registeredPost SH u es =
     (\<exists>sec. (GetCall Primary SecretKind (shardNS SH, PKISecretName SH), RObj (KSecret sec)) \<in> set es \<and>
        (\<forall>gv \<in> set (groupVersions SH). \<exists>m.
           performed (ApplyCall Primary (KAPIService ((buildAPIService SH (mapGet (sec_data sec) CACertKey) gv)\<lparr>as_meta := m\<rparr>))) es))"

lemma registeredPost_mono: "registeredPost SH u es \<Longrightarrow> set es \<subseteq> set fs \<Longrightarrow> registeredPost SH u fs"
  unfolding registeredPost_def by (meson performed_mono subsetD)

lemma contract_applyAPIService:
  "shard_step SH (applyAPIService E (SH\<lparr>status := st\<rparr>) ca gv)
     (\<lambda>_ es. \<exists>m. performed (ApplyCall Primary (KAPIService ((buildAPIService SH ca gv)\<lparr>as_meta := m\<rparr>))) es)"
  unfolding applyAPIService_def Let_def
  by (rule contract_weaken, (rule contracts | (simp add: buildAPIService_def; fail))+)
    (auto intro: performed_mono split: sum.split_asm)

lemma contract_deleteOrphan: "shard_step SH (deleteOrphan E desired name) (\<lambda>_ _. True)"
  by (rule contract_trivial) (unfold deleteOrphan_def, (rule frames | (auto; fail))+)

interpretation registration_step: shard_step SH "reconcileAPIServices E" "registeredPost SH"
  unfolding reconcileAPIServices_def aggregation_Reconcile_def Let_def
  by (rule contract_shard, rule contract_weaken,
      (rule contract_applyAPIService contract_deleteOrphan contracts | (auto cong: contract_congs; fail))+,
      (auto simp: registeredPost_def split: if_split_asm)[1])
    (erule registeredPost_mono, assumption)

end
