(* ===== verification/ShardHealth.thy ===== *)
theory ShardHealth
  imports ShardState
begin

text \<open>
  The part of the \<open>APIShard\<close> reconciler that deals with the running secondary
  (\<open>apishard/reconciler.go\<close>): copying conflicting CRDs to it, checking the health of the
  deployments, verifying its authentication, the sub-resources \<open>NamespaceSync\<close> and \<open>WebhookSync\<close>,
  and the gate on the availability of the APIServices that decides the phase. A requeue delay
  (\<open>ctrl.Result\<close>) is a number of seconds, zero for none.
\<close>

section \<open>Copying CRDs to the secondary\<close>

definition transformCRDConversion :: "crd \<Rightarrow> crd" where
  "transformCRDConversion c =
     (case crd_conversion c of None \<Rightarrow> c
      | Some cv \<Rightarrow>
        if cv_strategy cv \<noteq> ''Webhook'' then c
        else case cv_webhook cv of None \<Rightarrow> c
        | Some w \<Rightarrow>
          (case cw_clientConfig w of None \<Rightarrow> c
           | Some cc \<Rightarrow>
             (case cc_service cc of None \<Rightarrow> c
              | Some svcRef \<Rightarrow>
                let port = (case sr_port svcRef of Some p \<Rightarrow> p | None \<Rightarrow> 443);
                    path = (case sr_path svcRef of Some p \<Rightarrow> p | None \<Rightarrow> []);
                    url = ''https://'' @ sr_name svcRef @ ''.'' @ sr_namespace svcRef @ ''.svc:'' @ itoa port @ path
                in c\<lparr>crd_conversion := Some (cv\<lparr>cv_webhook := Some (w\<lparr>cw_clientConfig :=
                     Some (cc\<lparr>cc_url := Some url, cc_service := None\<rparr>)\<rparr>)\<rparr>)\<rparr>)))"

definition secondaryCRD :: "crd \<Rightarrow> crd" where
  "secondaryCRD c =
     transformCRDConversion (c\<lparr>crd_meta := emptyMeta\<lparr>om_name := om_name (crd_meta c), om_labels := om_labels (crd_meta c),
       om_annotations := om_annotations (crd_meta c)\<rparr>\<rparr>)"

text \<open>One CRD: an error is recorded and the loop goes on with the next name.\<close>

definition syncCRD :: "env \<Rightarrow> restConfig \<Rightarrow> string \<Rightarrow> (shardst, goerror list) op" where
  "syncCRD E c name =
     bindE (tryE (getObj E asCRD Primary CRDKind ('''', name))) (\<lambda>got.
       case got of
         Inl err \<Rightarrow> returnE [wrap (''get CRD '' @ name @ '' from primary'') err]
       | Inr crd \<Rightarrow>
           recordE (''apply CRD '' @ name @ '' on secondary'') (requestU E (ApplyCall (Secondary c) (KCRD (secondaryCRD crd)))))"

definition clientConfigOf :: "apiShard \<Rightarrow> secret \<Rightarrow> secret \<Rightarrow> clientConfiguration" where
  "clientConfigOf sh pkiSecret adminSecret =
     \<lparr>cfg_Host = SecondaryEndpoint sh, cfg_CACert = mapGet (sec_data pkiSecret) CACertKey, cfg_Token = [],
      cfg_ClientCert = mapGet (sec_data adminSecret) ''tls.crt'', cfg_ClientKey = mapGet (sec_data adminSecret) ''tls.key''\<rparr>"

definition syncCRDsToSecondary :: "env \<Rightarrow> reconciler \<Rightarrow> string list \<Rightarrow> (shardst, unit) op" where
  "syncCRDsToSecondary E R crdNames =
     bindE (getsE shard) (\<lambda>sh.
       if \<not> ClientProvider R then throwE (errorf ''ClientProvider not configured'')
       else if SecondaryEndpoint sh = [] then throwE (errorf ''secondary endpoint not available yet'')
       else
         bindE (wrapE ''reading PKI secret for CRD sync'' (getSecret E (shardNS sh, PKISecretName sh))) (\<lambda>pkiSecret.
         bindE (wrapE ''reading admin client cert for CRD sync'' (getSecret E (shardNS sh, AdminClientSecretName sh))) (\<lambda>adminSecret.
         bindE (wrapE ''creating secondary client'' (GetOrCreate E (shardName sh) (clientConfigOf sh pkiSecret adminSecret))) (\<lambda>c.
         bindE (collectE crdNames (syncCRD E c)) (\<lambda>errs.
           case joinErrors errs of None \<Rightarrow> returnE () | Some e \<Rightarrow> throwE e)))))"

definition reconcileCRDConflicts :: "env \<Rightarrow> reconciler \<Rightarrow> (shardst, unit) op" where
  "reconcileCRDConflicts E R =
     bindE (getsE shard) (\<lambda>sh.
     bindE (tryE (DetectCRDConflicts E sh)) (\<lambda>detected.
       case detected of
         Inl err \<Rightarrow> returnE ()
       | Inr res \<Rightarrow>
           if cr_hasConflict res
           then bindE (tryE (syncCRDsToSecondary E R (cr_conflictingCRDs res))) (\<lambda>r.
             case r of
               Inl syncErr \<Rightarrow> setCond E ConditionCRDConflictDetected ConditionTrue ''CRDSyncFailed''
                               (cr_message res @ ''; sync failed: '' @ err_msg syncErr)
             | Inr _ \<Rightarrow> setCond E ConditionCRDConflictDetected ConditionTrue ''CRDsSyncedToSecondary''
                          (cr_message res @ ''; CRDs synced to secondary''))
           else setCond E ConditionCRDConflictDetected ConditionFalse ''NoConflicts'' ''No conflicting CRDs detected on primary''))"

section \<open>Sub-resources\<close>

definition subMeta :: "apiShard \<Rightarrow> string \<Rightarrow> objectMeta" where
  "subMeta sh sfx =
     namedMeta (shardName sh @ sfx) (shardNS sh) [(LabelInstance, shardName sh), (LabelManagedBy, ManagedByValue)]"

definition subConnection :: "apiShard \<Rightarrow> secondaryConnectionSpec" where
  "subConnection sh =
     \<lparr>sn_serviceRef = \<lparr>cs_name = shardName sh @ ''-apiserver'', cs_namespace = shardNS sh, cs_port = 443\<rparr>,
      sn_authSecretRef = AdminClientSecretName sh, sn_caSecretRef = PKISecretName sh\<rparr>"

definition shardNamespaceSync :: "apiShard \<Rightarrow> namespaceSync" where
  "shardNamespaceSync sh =
     \<lparr>nsy_meta = subMeta sh ''-ns-sync'',
      nsy_spec = \<lparr>nss_secondaryConnection = subConnection sh, nss_labelSelector = nsSelector (spec sh), nss_excludeNamespaces = []\<rparr>,
      nsy_status = \<lparr>nst_conditions = [], nst_syncedNamespaces = 0, nst_lastSyncTime = None, nst_observedGeneration = 0\<rparr>\<rparr>"

definition shardWebhookSync :: "apiShard \<Rightarrow> webhookSync" where
  "shardWebhookSync sh =
     \<lparr>wsy_meta = subMeta sh ''-webhook-sync'',
      wsy_spec = \<lparr>wss_secondaryConnection = subConnection sh, wss_apiGroups = map ag_group (apiGroups (spec sh))\<rparr>,
      wsy_status = \<lparr>wst_conditions = [], wst_syncedWebhooks = \<lparr>swc_validating = 0, swc_mutating = 0\<rparr>,
        wst_lastSyncTime = None, wst_observedGeneration = 0\<rparr>\<rparr>"

definition reconcileNamespaceSync :: "env \<Rightarrow> (shardst, unit) op" where
  "reconcileNamespaceSync E =
     bindE (getsE shard) (\<lambda>sh. requestU E (CreateOrUpdateCall (KNamespaceSync (shardNamespaceSync sh))))"

definition reconcileWebhookSync :: "env \<Rightarrow> (shardst, unit) op" where
  "reconcileWebhookSync E =
     bindE (getsE shard) (\<lambda>sh. requestU E (CreateOrUpdateCall (KWebhookSync (shardWebhookSync sh))))"

definition propagateReady :: "env \<Rightarrow> string \<Rightarrow> condition list \<Rightarrow> (shardst, unit) op" where
  "propagateReady E ty cs =
     (case findStatusCondition E cs ''Ready'' of
        None \<Rightarrow> returnE ()
      | Some readyCond \<Rightarrow> setCond E ty (c_status readyCond) (c_reason readyCond) (c_message readyCond))"

definition aggregateSubCRStatus :: "env \<Rightarrow> (shardst, unit) op" where
  "aggregateSubCRStatus E =
     bindE (getsE shard) (\<lambda>sh.
     bindE (tryE (getObj E asNamespaceSync Primary NamespaceSyncKind (shardNS sh, shardName sh @ ''-ns-sync''))) (\<lambda>got.
       case got of
         Inl _ \<Rightarrow> returnE ()
       | Inr nsSync \<Rightarrow>
           bindE (propagateReady E ConditionNamespaceSyncReady (nst_conditions (nsy_status nsSync))) (\<lambda>_.
           bindE (tryE (getObj E asWebhookSync Primary WebhookSyncKind (shardNS sh, shardName sh @ ''-webhook-sync''))) (\<lambda>got2.
             case got2 of
               Inl _ \<Rightarrow> returnE ()
             | Inr whSync \<Rightarrow> propagateReady E ConditionWebhookSyncReady (wst_conditions (wsy_status whSync))))))"

section \<open>Verifying the secondary\<close>

text \<open>A method call on a nil \<open>ClientProvider\<close> panics, and the controller runtime recovers it as an error.\<close>

definition nilClientProvider :: goerror where
  "nilClientProvider = errorf ''panic: nil ClientProvider''"

definition verifyKey :: "apiShard \<Rightarrow> string" where
  "verifyKey sh = shardName sh @ ''-verify''"

definition listSecondary :: "env \<Rightarrow> apiShard \<Rightarrow> restConfig \<Rightarrow> (shardst, bool) op" where
  "listSecondary E sh c =
     bindE (tryE (listObjs E asNamespace (Secondary c) NamespaceKind None None)) (\<lambda>listed.
       case listed of
         Inl _ \<Rightarrow> bindE (Invalidate (verifyKey sh)) (\<lambda>_. returnE False)
       | Inr _ \<Rightarrow> returnE True)"

definition verifySecondaryAuth :: "env \<Rightarrow> reconciler \<Rightarrow> (shardst, bool) op" where
  "verifySecondaryAuth E R =
     bindE (getsE shard) (\<lambda>sh.
     bindE (tryE (getSecret E (shardNS sh, PKISecretName sh))) (\<lambda>pki.
       case pki of Inl _ \<Rightarrow> returnE False
       | Inr pkiSecret \<Rightarrow>
           bindE (tryE (getSecret E (shardNS sh, AdminClientSecretName sh))) (\<lambda>admin.
             case admin of Inl _ \<Rightarrow> returnE False
             | Inr adminSecret \<Rightarrow>
                 let cfg = clientConfigOf sh pkiSecret adminSecret in
                 if cfg_CACert cfg = [] \<or> cfg_ClientCert cfg = [] \<or> cfg_ClientKey cfg = [] then returnE False
                 else if \<not> ClientProvider R then throwE nilClientProvider
                 else bindE (tryE (GetOrCreate E (verifyKey sh) cfg)) (\<lambda>r.
                   case r of Inl _ \<Rightarrow> returnE False | Inr c \<Rightarrow> listSecondary E sh c))))"

section \<open>Health, availability and the phase\<close>

definition allReady :: "replicaStatus \<Rightarrow> bool" where
  "allReady st = (rs_readyReplicas st > 0 \<and> rs_readyReplicas st = rs_replicas st)"

definition checkDeploymentHealth :: "env \<Rightarrow> (shardst, bool) op" where
  "checkDeploymentHealth E =
     bindE (getsE shard) (\<lambda>sh.
     bindE (getObj E asDeployment Primary DeploymentKind (shardNS sh, KineDeploymentName sh)) (\<lambda>kineDeploy.
     bindE (getObj E asDeployment Primary DeploymentKind (shardNS sh, SecondaryDeploymentName sh)) (\<lambda>secondaryDeploy.
       let kineReady = allReady (d_status kineDeploy); secondaryReady = allReady (d_status secondaryDeploy) in
       if storageType sh = StorageTypeInClusterPostgreSQL
       then bindE (getObj E asStatefulSet Primary StatefulSetKind (shardNS sh, PostgreSQLStatefulSetName sh)) (\<lambda>pgSts.
              returnE (kineReady \<and> secondaryReady \<and> allReady (ss_status pgSts)))
       else returnE (kineReady \<and> secondaryReady))))"

definition setPhase :: "string \<Rightarrow> (shardst, unit) op" where
  [op_defs]: "setPhase p = setStatus (\<lambda>st. st\<lparr>phase := p\<rparr>)"

definition conflictIs :: "env \<Rightarrow> apiShard \<Rightarrow> string \<Rightarrow> bool" where
  "conflictIs E sh rsn =
     (case findStatusCondition E (conditions (status sh)) ConditionCRDConflictDetected of
        None \<Rightarrow> False
      | Some crdConflict \<Rightarrow> c_status crdConflict = ConditionTrue \<and> c_reason crdConflict = rsn)"

definition checkAPIServiceAvailability :: "env \<Rightarrow> (shardst, nat) op" where
  "checkAPIServiceAvailability E =
     bindE (getsE shard) (\<lambda>sh.
       if conflictIs E sh ''CRDSyncFailed''
       then bindE (setPhase PhaseProvisioning) (\<lambda>_. returnE 10)
       else if \<not> conflictIs E sh ''CRDsSyncedToSecondary''
       then bindE (removeCond E ConditionAPIServicesRegistered) (\<lambda>_. returnE 0)
       else
         bindE (wrapE ''check APIService availability'' (CheckAvailability E (om_uid (sh_meta sh)))) (\<lambda>(available, unavailMsg).
           if \<not> available
           then bindE (setPhase PhaseProvisioning) (\<lambda>_.
                bindE (setCond E ConditionAPIServicesRegistered ConditionFalse ''APIServicesNotAvailable'' unavailMsg) (\<lambda>_.
                returnE 10))
           else bindE (setCond E ConditionAPIServicesRegistered ConditionTrue ''AllAvailable''
                  ''All APIServices are available via aggregation'') (\<lambda>_. returnE 0)))"

definition reportUnhealthy :: "env \<Rightarrow> (shardst, nat) op" where
  "reportUnhealthy E =
     bindE (setPhase PhaseProvisioning) (\<lambda>_.
     bindE (setCond E ConditionSecondaryHealthy ConditionFalse ''DeploymentNotReady'' ''Secondary API server is not yet ready'') (\<lambda>_.
     bindE (getsE shard) (\<lambda>sh.
     bindE (if conflictIs E sh ''CRDsSyncedToSecondary''
            then setCond E ConditionAPIServicesRegistered ConditionFalse ''SecondaryUnhealthy''
                   ''Cannot verify APIService availability while secondary is unhealthy''
            else returnE ()) (\<lambda>_.
     returnE 10))))"

definition reconcileSubCRs :: "env \<Rightarrow> (shardst, unit) op" where
  "reconcileSubCRs E =
     bindE (tryE (reconcileNamespaceSync E)) (\<lambda>_.
     bindE (tryE (reconcileWebhookSync E)) (\<lambda>_.
     aggregateSubCRStatus E))"

definition reportHealthy :: "env \<Rightarrow> reconciler \<Rightarrow> (shardst, nat) op" where
  "reportHealthy E R =
     bindE (setCond E ConditionSecondaryHealthy ConditionTrue ''DeploymentAvailable'' ''Secondary API server is healthy'') (\<lambda>_.
     bindE (getsE shard) (\<lambda>sh.
     bindE (setStatus (\<lambda>st. st\<lparr>secondaryEndpointStatus := SecondaryEndpoint sh\<rparr>)) (\<lambda>_.
     bindE (verifySecondaryAuth E R) (\<lambda>verified.
     bindE (if verified then reconcileSubCRs E else returnE ()) (\<lambda>_.
     bindE (checkAPIServiceAvailability E) (\<lambda>requeue.
       if requeue > 0 then returnE requeue
       else bindE (setPhase PhaseReady) (\<lambda>_. returnE 0)))))))"

definition updateHealthStatus :: "env \<Rightarrow> reconciler \<Rightarrow> (shardst, nat) op" where
  "updateHealthStatus E R =
     bindE (checkDeploymentHealth E) (\<lambda>healthy. if \<not> healthy then reportUnhealthy E else reportHealthy E R)"

section \<open>Contracts\<close>

lemma health_status_free [simp]:
  "subMeta (sh\<lparr>status := st\<rparr>) sfx = subMeta sh sfx" "subConnection (sh\<lparr>status := st\<rparr>) = subConnection sh"
  "shardNamespaceSync (sh\<lparr>status := st\<rparr>) = shardNamespaceSync sh" "shardWebhookSync (sh\<lparr>status := st\<rparr>) = shardWebhookSync sh"
  "verifyKey (sh\<lparr>status := st\<rparr>) = verifyKey sh" "clientConfigOf (sh\<lparr>status := st\<rparr>) p a = clientConfigOf sh p a"
  by (simp_all add: subMeta_def subConnection_def shardNamespaceSync_def shardWebhookSync_def verifyKey_def clientConfigOf_def)

lemma sub_namespaces [simp]:
  "om_namespace (nsy_meta (shardNamespaceSync sh)) = shardNS sh" "om_namespace (wsy_meta (shardWebhookSync sh)) = shardNS sh"
  by (simp_all add: shardNamespaceSync_def shardWebhookSync_def subMeta_def)

interpretation conflicts_step: shard_step SH "reconcileCRDConflicts E R" "\<lambda>_ _. True"
  by (rule contract_trivial)
    (unfold reconcileCRDConflicts_def DetectCRDConflicts_def syncCRDsToSecondary_def syncCRD_def Let_def,
      (rule frames | (auto; fail))+)

text \<open>The workloads were read ready.\<close>

definition readReady :: "apiShard \<Rightarrow> event list \<Rightarrow> bool" where
  "readReady SH es =
     ((\<exists>d. (GetCall Primary DeploymentKind (shardNS SH, KineDeploymentName SH), RObj (KDeployment d)) \<in> set es \<and> allReady (d_status d)) \<and>
      (\<exists>d. (GetCall Primary DeploymentKind (shardNS SH, SecondaryDeploymentName SH), RObj (KDeployment d)) \<in> set es \<and> allReady (d_status d)) \<and>
      (storageType SH = StorageTypeInClusterPostgreSQL \<longrightarrow>
        (\<exists>x. (GetCall Primary StatefulSetKind (shardNS SH, PostgreSQLStatefulSetName SH), RObj (KStatefulSet x)) \<in> set es \<and>
          allReady (ss_status x))))"

lemma readReady_mono: "readReady SH es \<Longrightarrow> set es \<subseteq> set fs \<Longrightarrow> readReady SH fs"
  unfolding readReady_def by blast

interpretation deployment_step: shard_step SH "checkDeploymentHealth E" "\<lambda>healthy es. healthy \<longrightarrow> readReady SH es"
  unfolding checkDeploymentHealth_def Let_def
  by (rule contract_weaken, (rule contracts | (auto cong: contract_congs; fail))+,
      (auto simp: readReady_def split: if_split_asm)[1])
    (auto intro: readReady_mono)

lemma frame_reportUnhealthy: "keeps (stepRel (stepEvent SH) SH) (reportUnhealthy E)"
  unfolding reportUnhealthy_def setPhase_def by (rule frames)+

lemma frame_verifySecondaryAuth: "keeps (stepRel (stepEvent SH) SH) (verifySecondaryAuth E R)"
  unfolding verifySecondaryAuth_def listSecondary_def Let_def by (rule frames | (auto; fail))+

lemma frame_propagateReady: "keeps (stepRel P SH) (propagateReady E ty cs)"
  unfolding propagateReady_def by (rule frames)+

lemma frame_reconcileSubCRs: "keeps (stepRel (stepEvent SH) SH) (reconcileSubCRs E)"
  unfolding reconcileSubCRs_def reconcileNamespaceSync_def reconcileWebhookSync_def aggregateSubCRStatus_def
  by (rule frames frame_propagateReady | (auto; fail))+

lemma frame_checkAPIServiceAvailability: "keeps (stepRel (stepEvent SH) SH) (checkAPIServiceAvailability E)"
  unfolding checkAPIServiceAvailability_def CheckAvailability_def setPhase_def Let_def by (rule frames | (auto; fail))+

lemma contract_reportUnhealthy: "shard_step SH (reportUnhealthy E) (\<lambda>requeue _. requeue = 10)"
  by unfold_locales (auto simp: frame_reportUnhealthy, auto simp: reportUnhealthy_def runs)

lemma frame_reportHealthy: "keeps (stepRel (stepEvent SH) SH) (reportHealthy E R)"
  unfolding reportHealthy_def setPhase_def
  by (rule frames frame_verifySecondaryAuth frame_reconcileSubCRs frame_checkAPIServiceAvailability)+

interpretation health_step: shard_step SH "updateHealthStatus E R" "\<lambda>requeue es. requeue = 0 \<longrightarrow> readReady SH es"
  unfolding updateHealthStatus_def
  by (rule contract_weaken, (rule contracts contract_reportUnhealthy deployment_step.shard_step_axioms
        contract_trivial [OF frame_reportHealthy] | (simp; fail))+)
    (auto intro: readReady_mono split: if_split_asm)

section \<open>What the steps report\<close>

text \<open>The steps that set conditions leave the conditions of the other types, and the phase, alone.\<close>

abbreviation condOf :: "env \<Rightarrow> string \<Rightarrow> shardst \<Rightarrow> condition option" where
  "condOf E ty s \<equiv> findStatusCondition E (conditions (status (shard s))) ty"

definition condFrame :: "env \<Rightarrow> string set \<Rightarrow> shardst \<Rightarrow> shardst \<Rightarrow> bool" where
  "condFrame E C s t =
     (phase (status (shard t)) = phase (status (shard s)) \<and> (\<forall>ty. ty \<notin> C \<longrightarrow> condOf E ty t = condOf E ty s))"

interpretation cond: frame_rel "condFrame E C"
  by unfold_locales (auto simp: condFrame_def)

lemma condFrame_request: "keeps (condFrame E C) (request E c)"
  by (rule keepsI) (simp add: condFrame_def shard_request)

lemma condFrame_requestU: "keeps (condFrame E C) (requestU E c)"
  unfolding requestU_def by (intro cond.keeps_bind condFrame_request cond.keeps_return)

lemma condFrame_getObj: "keeps (condFrame E C) (getObj E p cl k key)"
  unfolding getObj_def asOne_def
  by (intro cond.keeps_bind condFrame_request)
    (auto intro: cond.keeps_return cond.keeps_throw split: resp.splits option.splits)

lemma condFrame_listObjs: "keeps (condFrame E C) (listObjs E p cl k ns sel)"
  unfolding listObjs_def asMany_def
  by (intro cond.keeps_bind condFrame_request)
    (auto intro: cond.keeps_return cond.keeps_throw split: resp.splits option.splits)

lemma condFrame_setCond:
  assumes "condition_laws E" and "ty \<in> C"
  shows "keeps (condFrame E C) (setCond E ty st rsn msg)"
  using assms(2)
  by (auto simp: keeps_def condFrame_def setCond_def modifyE_def intro!: condition_store.find_set_other [OF assms(1)])

lemma condFrame_removeCond:
  assumes "condition_laws E" and "ty \<in> C"
  shows "keeps (condFrame E C) (removeCond E ty)"
  using assms(2)
  by (auto simp: keeps_def condFrame_def removeCond_def setStatus_def modifyE_def
      intro!: condition_store.find_remove_other [OF assms(1)])

lemma condFrame_GetOrCreate: "keeps (condFrame E C) (GetOrCreate E' k cfg)"
  by (rule keepsI) (simp add: GetOrCreate_locked getOrCreateLocked_cases condFrame_def split: option.splits)

lemma condFrame_Invalidate: "keeps (condFrame E C) (Invalidate k)"
  by (rule keepsI) (simp add: Invalidate_def modifyE_def condFrame_def)

lemmas cond_frames =
  cond.keeps_return cond.keeps_throw cond.keeps_gets cond.keeps_wrap cond.keeps_try cond.keeps_bind cond.keeps_if
  condFrame_requestU condFrame_getObj condFrame_listObjs condFrame_setCond condFrame_removeCond condFrame_GetOrCreate
  condFrame_Invalidate frame_case_sum frame_case_option frame_case_prod frame_let

lemma condFrame_checkDeploymentHealth: "keeps (condFrame E C) (checkDeploymentHealth E)"
  unfolding checkDeploymentHealth_def by (rule cond_frames)+

lemma condFrame_verifySecondaryAuth: "keeps (condFrame E C) (verifySecondaryAuth E R)"
  unfolding verifySecondaryAuth_def listSecondary_def by (rule cond_frames)+

lemma condFrame_reconcileSubCRs:
  assumes "condition_laws E"
  shows "keeps (condFrame E {ConditionNamespaceSyncReady, ConditionWebhookSyncReady}) (reconcileSubCRs E)"
  unfolding reconcileSubCRs_def reconcileNamespaceSync_def reconcileWebhookSync_def aggregateSubCRStatus_def propagateReady_def
  by (rule cond_frames assms | (simp; fail))+

definition condIs :: "env \<Rightarrow> apiShardStatus \<Rightarrow> string \<Rightarrow> string \<Rightarrow> bool" where
  "condIs E st ty v = (\<exists>c. findStatusCondition E (conditions st) ty = Some c \<and> c_status c = v)"

text \<open>The APIServices of the shard were listed, there are some, and all are available.\<close>

definition listedAvailable :: "apiShard \<Rightarrow> event list \<Rightarrow> bool" where
  "listedAvailable SH es =
     (\<exists>items. (ListCall Primary APIServiceKind None None, RObjs (map KAPIService items)) \<in> set es \<and>
        (\<exists>a \<in> set items. ownedBy (om_uid (sh_meta SH)) a) \<and>
        (\<forall>a \<in> set items. ownedBy (om_uid (sh_meta SH)) a \<longrightarrow>
           (\<exists>c. availableCondition a = Some c \<and> c_status c = ConditionTrue)))"

lemma CheckAvailability_True:
  assumes "CheckAvailability E uid s = (Inr (True, msg), t)" and "uid = om_uid (sh_meta SH)"
  shows "listedAvailable SH (newEvents s t)"
proof -
  from assms(1) obtain items
    where ev: "newEvents s t = [(ListCall Primary APIServiceKind None None, RObjs (map KAPIService items))]"
      and res: "(True, msg) = (if filter (ownedBy uid) items = [] then (False, ''no APIServices owned by shard'')
                             else checkOwned (filter (ownedBy uid) items))"
    by (auto simp: CheckAvailability_def runs newEvents_def returnE_def Let_def split: if_splits)
  from res have "filter (ownedBy uid) items \<noteq> []" by (auto split: if_splits)
  moreover from res this have "fst (checkOwned (filter (ownedBy uid) items))" by (metis fst_conv)
  ultimately show ?thesis
    using ev assms(2) by (auto simp: listedAvailable_def checkOwned_True filter_empty_conv)
qed

lemma listedAvailable_mono: "listedAvailable SH es \<Longrightarrow> set es \<subseteq> set fs \<Longrightarrow> listedAvailable SH fs"
  unfolding listedAvailable_def by blast

lemma listedAvailable_same [simp]: "sameSh SH sh \<Longrightarrow> listedAvailable sh es = listedAvailable SH es"
  by (simp add: listedAvailable_def sameSh_def)

lemma setCond_condIs:
  assumes "condition_laws E" and "setCond E ty v rsn msg s = (Inr u, t)"
  shows "condIs E (status (shard t)) ty v" and "newEvents s t = []"
  using assms(2) condition_store.find_set_fields [OF assms(1)]
  by (auto simp: setCond_def runs condIs_def newEvents_def) (metis mkCondition_sel(1,2))

lemma condFrame_run: "keeps (condFrame E C) m \<Longrightarrow> m s = (r, t) \<Longrightarrow> condFrame E C s t"
  using keepsD [of "condFrame E C" m s] by simp

lemma checkAPIServiceAvailability_run:
  assumes laws: "condition_laws E" and run: "checkAPIServiceAvailability E s = (Inr n, t)"
  shows "(n = 10 \<and> phase (status (shard t)) = PhaseProvisioning) \<or>
    (n = 0 \<and> condFrame E {ConditionAPIServicesRegistered} s t \<and> \<not> conflictIs E (shard s) ''CRDSyncFailed'' \<and>
     (conflictIs E (shard s) ''CRDsSyncedToSecondary'' \<longrightarrow>
        condIs E (status (shard t)) ConditionAPIServicesRegistered ConditionTrue \<and> listedAvailable (shard s) (newEvents s t)))"
proof (cases "conflictIs E (shard s) ''CRDSyncFailed''")
  case True
  with run show ?thesis by (auto simp: checkAPIServiceAvailability_def runs setPhase_def setStatus_def)
next
  case ok: False
  show ?thesis
  proof (cases "conflictIs E (shard s) ''CRDsSyncedToSecondary''")
    case False
    with ok run have "removeCond E ConditionAPIServicesRegistered s = (Inr (), t)" "n = 0"
      by (auto simp: checkAPIServiceAvailability_def runs)
    with condFrame_run [OF condFrame_removeCond [OF laws] this(1)] ok False show ?thesis by simp
  next
    case True
    with ok run obtain av msg u where ca: "CheckAvailability E (om_uid (sh_meta (shard s))) s = (Inr (av, msg), u)"
      and rest: "(if \<not> av then bindE (setPhase PhaseProvisioning) (\<lambda>_.
             bindE (setCond E ConditionAPIServicesRegistered ConditionFalse ''APIServicesNotAvailable'' msg) (\<lambda>_. returnE 10))
           else bindE (setCond E ConditionAPIServicesRegistered ConditionTrue ''AllAvailable''
                  ''All APIServices are available via aggregation'') (\<lambda>_. returnE 0)) u = (Inr n, t)"
      by (auto simp: checkAPIServiceAvailability_def runs)
    show ?thesis
    proof (cases av)
      case False
      with rest show ?thesis by (auto simp: runs setPhase_def setStatus_def setCond_def)
    next
      case av: True
      from av rest have sc: "setCond E ConditionAPIServicesRegistered ConditionTrue ''AllAvailable''
          ''All APIServices are available via aggregation'' u = (Inr (), t)" and n: "n = 0" by (auto simp: runs)
      have "keeps (condFrame E {ConditionAPIServicesRegistered}) (CheckAvailability E (om_uid (sh_meta (shard s))))"
        unfolding CheckAvailability_def by (rule cond_frames)+
      from condFrame_run [OF this ca] condFrame_run [OF condFrame_setCond [OF laws] sc]
      have "condFrame E {ConditionAPIServicesRegistered} s t" by (auto intro: cond.R_trans)
      moreover have "listedAvailable (shard s) (newEvents s u)" using CheckAvailability_True [of E _ s msg u] ca av by simp
      moreover have "newEvents s u = newEvents s t" using sc by (auto simp: setCond_def runs newEvents_def)
      ultimately show ?thesis using setCond_condIs(1) [OF laws sc] n ok by simp
    qed
  qed
qed

lemma conflictIs_frame:
  assumes "condFrame E C s t" and "ConditionCRDConflictDetected \<notin> C"
  shows "conflictIs E (shard t) rsn = conflictIs E (shard s) rsn"
  using assms by (auto simp: condFrame_def conflictIs_def)

lemma condIs_frame:
  assumes "condFrame E C s t" and "ty \<notin> C"
  shows "condIs E (status (shard t)) ty v = condIs E (status (shard s)) ty v"
  using assms by (auto simp: condFrame_def condIs_def)

text \<open>The report of a health check: what the phase and the conditions say of it.\<close>

definition healthReport :: "env \<Rightarrow> nat \<Rightarrow> apiShard \<Rightarrow> event list \<Rightarrow> bool" where
  "healthReport E n sh es =
     (if n = 0
      then phase (status sh) = PhaseReady \<and> condIs E (status sh) ConditionSecondaryHealthy ConditionTrue \<and>
        \<not> conflictIs E sh ''CRDSyncFailed'' \<and>
        (conflictIs E sh ''CRDsSyncedToSecondary'' \<longrightarrow>
           condIs E (status sh) ConditionAPIServicesRegistered ConditionTrue \<and> listedAvailable sh es)
      else n = 10 \<and> phase (status sh) = PhaseProvisioning)"

lemma reportUnhealthy_run: "reportUnhealthy E s = (Inr n, t) \<Longrightarrow> n = 10 \<and> phase (status (shard t)) = PhaseProvisioning"
  by (auto simp: reportUnhealthy_def runs setPhase_def setStatus_def setCond_def split: if_splits)

lemma setPhase_frame: "conflictIs E (sh\<lparr>status := (status sh)\<lparr>phase := p\<rparr>\<rparr>) rsn = conflictIs E sh rsn"
  "condIs E (st\<lparr>phase := p\<rparr>) ty v = condIs E st ty v"
  by (simp_all add: conflictIs_def condIs_def)

lemma reportHealthy_run:
  assumes laws: "condition_laws E" and run: "reportHealthy E R s = (Inr n, t)"
  shows "healthReport E n (shard t) (newEvents s t)"
proof -
  let ?C = "{ConditionNamespaceSyncReady, ConditionWebhookSyncReady}"
  let ?SH = "shard s"
  let ?sub = "\<lambda>v. if v then reconcileSubCRs E else returnE ()"
  from run obtain s2 s3 verified s4 s5 requeue s6
    where c: "setCond E ConditionSecondaryHealthy ConditionTrue ''DeploymentAvailable'' ''Secondary API server is healthy'' s = (Inr (), s2)"
      and st: "setStatus (\<lambda>st. st\<lparr>secondaryEndpointStatus := SecondaryEndpoint (shard s2)\<rparr>) s2 = (Inr (), s3)"
      and v: "verifySecondaryAuth E R s3 = (Inr verified, s4)" and sub: "?sub verified s4 = (Inr (), s5)"
      and av: "checkAPIServiceAvailability E s5 = (Inr requeue, s6)"
      and fin: "(if requeue > 0 then returnE requeue else bindE (setPhase PhaseReady) (\<lambda>_. returnE 0)) s6 = (Inr n, t)"
    unfolding reportHealthy_def by (auto simp: bindE_run getsE_run)
  note a = checkAPIServiceAvailability_run [OF laws av]
  show ?thesis
  proof (cases "requeue > 0")
    case True
    with fin a show ?thesis by (auto simp: runs healthReport_def)
  next
    case False
    with fin have t: "t = s6\<lparr>shard := (shard s6)\<lparr>status := (status (shard s6))\<lparr>phase := PhaseReady\<rparr>\<rparr>\<rparr>" and n: "n = 0"
      by (auto simp: runs setPhase_def setStatus_def)
    have f3: "tr s3 = tr s" "sameSh ?SH (shard s3)" "condIs E (status (shard s3)) ConditionSecondaryHealthy ConditionTrue"
      using c st setCond_condIs(1) [OF laws c] by (auto simp: setCond_def setStatus_def runs condIs_def)
    note f4 = stepRel_run [OF frame_verifySecondaryAuth v f3(2)]
    have "keeps (stepRel (stepEvent ?SH) ?SH) (?sub verified)" using frame_reconcileSubCRs by (auto intro: step.keeps_return)
    note f5 = stepRel_run [OF this sub f4(2)]
    note f6 = stepRel_run [OF frame_checkAPIServiceAvailability av f5(2)]
    have "keeps (condFrame E ?C) (?sub verified)"
      using condFrame_reconcileSubCRs [OF laws] by (auto intro: cond.keeps_return)
    from condFrame_run [OF condFrame_verifySecondaryAuth v] condFrame_run [OF this sub]
    have s35: "condFrame E ?C s3 s5" by (rule cond.R_trans)
    from False a have s56: "condFrame E {ConditionAPIServicesRegistered} s5 s6" by simp
    have "prefix (tr s) (tr s5)" "prefix (tr s5) (tr s6)" "tr t = tr s6"
      using extends_prefix [OF f4(1)] extends_prefix [OF f5(1)] extends_prefix [OF f6(1)] f3(1) t
      by (auto intro: prefix_order.trans)
    then have "set (newEvents s5 s6) \<subseteq> set (newEvents s t)" by (auto simp: newEvents_def prefix_def)
    with False a f5(2) f6(2) t have "conflictIs E (shard s5) ''CRDsSyncedToSecondary'' \<longrightarrow>
        condIs E (status (shard s6)) ConditionAPIServicesRegistered ConditionTrue \<and> listedAvailable (shard t) (newEvents s t)"
      by (auto intro: listedAvailable_mono)
    moreover have "condIs E (status (shard s6)) ConditionSecondaryHealthy ConditionTrue"
      using f3(3) condIs_frame [OF s35] condIs_frame [OF s56] by (simp add: condition_names)
    ultimately show ?thesis
      using False a conflictIs_frame [OF s56] t n by (simp add: healthReport_def setPhase_frame condition_names)
  qed
qed

lemma healthReport_mono: "healthReport E n sh es \<Longrightarrow> set es \<subseteq> set fs \<Longrightarrow> healthReport E n sh fs"
  by (auto simp: healthReport_def intro: listedAvailable_mono split: if_splits)

lemma updateHealthStatus_run:
  assumes laws: "condition_laws E" and run: "updateHealthStatus E R s = (Inr n, t)"
  shows "healthReport E n (shard t) (newEvents s t)"
proof -
  from run obtain healthy s1 where h: "checkDeploymentHealth E s = (Inr healthy, s1)"
    and rest: "(if \<not> healthy then reportUnhealthy E else reportHealthy E R) s1 = (Inr n, t)"
    unfolding updateHealthStatus_def by (auto simp: bindE_run)
  show ?thesis
  proof (cases healthy)
    case False
    with rest have "reportUnhealthy E s1 = (Inr n, t)" by simp
    from reportUnhealthy_run [OF this] show ?thesis by (simp add: healthReport_def)
  next
    case True
    with rest have r: "reportHealthy E R s1 = (Inr n, t)" by simp
    note f1 = stepRel_run [OF deployment_step.frame h sameSh_refl]
    have "prefix (tr s) (tr s1)" "prefix (tr s1) (tr t)"
      using extends_prefix [OF f1(1)] extends_prefix [OF stepRel_run(1) [OF frame_reportHealthy r f1(2)]] .
    then have "set (newEvents s1 t) \<subseteq> set (newEvents s t)" by (auto simp: newEvents_def prefix_def)
    with reportHealthy_run [OF laws r] show ?thesis by (rule healthReport_mono)
  qed
qed

end
