(* ===== verification/ShardReconcile.thy ===== *)
theory ShardReconcile
  imports ShardStorage ShardAccess ShardHealth
begin

text \<open>
  The \<open>APIShard\<close> reconciler as a whole (\<open>apishard/reconciler.go\<close>, \<open>Reconcile\<close>): deletion with the
  finalizer, the finalizer before the first resource, the provisioning steps with their common
  error path, and the health, clean-up and status report at the end.
\<close>

section \<open>Deletion\<close>

text \<open>\<open>controllerutil.RemoveFinalizer\<close> and \<open>AddFinalizer\<close>.\<close>

definition removeFinalizer :: "apiShard \<Rightarrow> apiShard" where
  "removeFinalizer sh = sh\<lparr>sh_meta := (sh_meta sh)\<lparr>om_finalizers := filter (\<lambda>f. f \<noteq> finalizerName) (om_finalizers (sh_meta sh))\<rparr>\<rparr>"

definition addFinalizer :: "apiShard \<Rightarrow> apiShard" where
  "addFinalizer sh = sh\<lparr>sh_meta := (sh_meta sh)\<lparr>om_finalizers := om_finalizers (sh_meta sh) @ [finalizerName]\<rparr>\<rparr>"

definition containsFinalizer :: "apiShard \<Rightarrow> bool" where
  "containsFinalizer sh = (finalizerName \<in> set (om_finalizers (sh_meta sh)))"

definition deregister :: "env \<Rightarrow> string \<Rightarrow> (shardst, unit) op" where
  "deregister E name =
     bindE (tryE (getObj E asAPIService Primary APIServiceKind ('''', name))) (\<lambda>got.
       case got of
         Inl err \<Rightarrow> if IsNotFound err then returnE () else throwE err
       | Inr apiSvc \<Rightarrow>
           bindE (tryE (requestU E (DeleteCall Primary (KAPIService apiSvc)))) (\<lambda>r.
             case r of
               Inl err \<Rightarrow> if \<not> IsNotFound err then throwE err else returnE ()
             | Inr _ \<Rightarrow> returnE ()))"

definition finalizeShard :: "env \<Rightarrow> (shardst, unit) op" where
  "finalizeShard E =
     bindE (getsE shard) (\<lambda>sh.
       if containsFinalizer sh
       then
         bindE (forE (registeredAPIServices (status sh)) (deregister E)) (\<lambda>_.
         bindE (modifyE (\<lambda>s. s\<lparr>shard := removeFinalizer (shard s)\<rparr>)) (\<lambda>_.
         writeShard E (\<lambda>x. UpdateCall Primary (KAPIShard x))))
       else returnE ())"

section \<open>Preparation\<close>

definition ensureFinalizer :: "env \<Rightarrow> (shardst, unit) op" where
  "ensureFinalizer E =
     bindE (getsE shard) (\<lambda>sh.
       if \<not> containsFinalizer sh
       then bindE (modifyE (\<lambda>s. s\<lparr>shard := addFinalizer (shard s)\<rparr>)) (\<lambda>_.
            writeShard E (\<lambda>x. MergePatchCall (KAPIShard sh) (KAPIShard x)))
       else returnE ())"

definition targetNamespaceObj :: "apiShard \<Rightarrow> namespaceObj" where
  "targetNamespaceObj sh =
     \<lparr>ns_meta = emptyMeta\<lparr>om_name := shardNS sh,
        om_labels := [(LabelManagedBy, ManagedByValue), (LabelInstance, shardName sh), (''openshift.io/cluster-monitoring'', ''true'')]\<rparr>\<rparr>"

definition ensureNamespace :: "env \<Rightarrow> (shardst, unit) op" where
  "ensureNamespace E =
     bindE (getsE shard) (\<lambda>sh. requestU E (ApplyCall Primary (KNamespace (targetNamespaceObj sh))))"

definition initPhase :: "env \<Rightarrow> (shardst, unit) op" where
  "initPhase E =
     bindE (getsE shard) (\<lambda>sh.
       if phase (status sh) = []
       then bindE (setPhase PhaseProvisioning) (\<lambda>_. updateShardStatus E)
       else returnE ())"

definition setErrorAndRequeue :: "env \<Rightarrow> goerror \<Rightarrow> (shardst, 'a) op" where
  "setErrorAndRequeue E reconcileErr =
     bindE (getsE shard) (\<lambda>sh.
     bindE (setStatus (\<lambda>st. st\<lparr>phase := PhaseError, message := err_msg reconcileErr,
              observedGeneration := om_generation (sh_meta sh)\<rparr>)) (\<lambda>_.
     bindE (setCond E ConditionReconciled ConditionFalse ''ReconcileError'' (err_msg reconcileErr)) (\<lambda>_.
     bindE (tryE (updateShardStatus E)) (\<lambda>_.
     throwE reconcileErr))))"

text \<open>A step whose error is reported in the status before it is returned.\<close>

definition orError :: "env \<Rightarrow> (shardst, 'a) op \<Rightarrow> (shardst, 'a) op" where
  "orError E m = bindE (tryE m) (\<lambda>r. case r of Inl err \<Rightarrow> setErrorAndRequeue E err | Inr x \<Rightarrow> returnE x)"

section \<open>Reconcile\<close>

definition provisionShard :: "env \<Rightarrow> reconciler \<Rightarrow> (shardst, unit) op" where
  "provisionShard E R =
     bindE (reconcileStorage E R) (\<lambda>_.
     bindE (reconcileCertManager E) (\<lambda>_.
     bindE (reconcileAuthConfig E) (\<lambda>_.
     bindE (reconcileSecondaryServiceAccount E) (\<lambda>_.
     bindE (reconcileAuthDelegator E) (\<lambda>_.
     bindE (reconcileAPIServerSCC E R) (\<lambda>_.
     bindE (reconcileRequestHeaderCA E) (\<lambda>requestHeaderAllowedNames.
     bindE (reconcileAdminKubeconfig E) (\<lambda>_.
     bindE (reconcileSecondary E R requestHeaderAllowedNames) (\<lambda>_.
     bindE (reconcileMetrics E R) (\<lambda>_.
     reconcileAPIServices E))))))))))"

definition cleanupOrphans :: "env \<Rightarrow> (shardst, unit) op" where
  "cleanupOrphans E =
     bindE (getsE shard) (\<lambda>sh.
     bindE (tryE (requestU E (CleanupCall ownerLabelKey (shardName sh) managedGVKs))) (\<lambda>_.
     returnE ()))"

definition reportReconciled :: "env \<Rightarrow> (shardst, unit) op" where
  "reportReconciled E =
     bindE (getsE shard) (\<lambda>sh.
     bindE (setStatus (\<lambda>st. st\<lparr>message := [], observedGeneration := om_generation (sh_meta sh)\<rparr>)) (\<lambda>_.
     bindE (setCond E ConditionReconciled ConditionTrue ''ReconcileSucceeded'' ''All resources reconciled successfully'') (\<lambda>_.
     updateShardStatus E)))"

definition completeShard :: "env \<Rightarrow> reconciler \<Rightarrow> (shardst, nat) op" where
  "completeShard E R =
     bindE (reconcileCRDConflicts E R) (\<lambda>_.
     bindE (updateHealthStatus E R) (\<lambda>healthResult.
     bindE (cleanupOrphans E) (\<lambda>_.
     bindE (reportReconciled E) (\<lambda>_.
     returnE healthResult))))"

definition reconcileShard :: "env \<Rightarrow> reconciler \<Rightarrow> (shardst, nat) op" where
  "reconcileShard E R =
     bindE (ensureFinalizer E) (\<lambda>_.
     bindE (orError E (ensureNamespace E)) (\<lambda>_.
     bindE (initPhase E) (\<lambda>_.
     bindE (orError E (provisionShard E R)) (\<lambda>_.
     completeShard E R))))"

definition apiShard_Reconcile :: "env \<Rightarrow> reconciler \<Rightarrow> nsname \<Rightarrow> (shardst, nat) op" where
  "apiShard_Reconcile E R req =
     bindE (tryE (getObj E asAPIShard Primary APIShardKind req)) (\<lambda>got.
       case got of
         Inl err \<Rightarrow> if IsNotFound err then returnE 0 else throwE err
       | Inr sh \<Rightarrow>
           bindE (modifyE (\<lambda>s. s\<lparr>shard := sh\<rparr>)) (\<lambda>_.
             if om_deletionTimestamp (sh_meta sh) \<noteq> None
             then bindE (finalizeShard E) (\<lambda>_. returnE 0)
             else reconcileShard E R))"

section \<open>Watches\<close>

definition requestHeaderCAMapper :: "env \<Rightarrow> objectMeta \<Rightarrow> ('z base_scheme, nsname list) op" where
  "requestHeaderCAMapper E obj =
     (if om_name obj \<noteq> extensionAPIServerAuthCM \<or> om_namespace obj \<noteq> kubeSystemNamespace then returnE []
      else bindE (listOrNone (listObjs E asAPIShard Primary APIShardKind None None)) (\<lambda>shards.
        returnE (map (\<lambda>sh. ([], shardName sh)) shards)))"

definition usesConnectionSecret :: "objectMeta \<Rightarrow> apiShard \<Rightarrow> bool" where
  "usesConnectionSecret obj sh =
     (storageType sh = StorageTypePostgreSQL \<and>
      (case st_connectionSecretRef (storage (spec sh)) of
         None \<Rightarrow> False
       | Some ref \<Rightarrow> shardNS sh = om_namespace obj \<and> skr_name ref = om_name obj))"

definition connectionSecretMapper :: "env \<Rightarrow> objectMeta \<Rightarrow> ('z base_scheme, nsname list) op" where
  "connectionSecretMapper E obj =
     bindE (listOrNone (listObjs E asAPIShard Primary APIShardKind None None)) (\<lambda>shards.
       returnE (map (\<lambda>sh. ([], shardName sh)) (filter (usesConnectionSecret obj) shards)))"

text \<open>The queue adds of a CRD event; an object of another kind adds nothing.\<close>

definition enqueueForCRD :: "env \<Rightarrow> kobj \<Rightarrow> ('z base_scheme, nsname list) op" where
  "enqueueForCRD E obj =
     (case asCRD obj of
        None \<Rightarrow> returnE []
      | Some crd \<Rightarrow>
          bindE (listOrNone (listObjs E asAPIShard Primary APIShardKind None None)) (\<lambda>shards.
            returnE (map (\<lambda>sh. ([], shardName sh))
              (filter (\<lambda>sh. list_ex (\<lambda>ag. ag_group ag = crd_group crd) (apiGroups (spec sh))) shards))))"

section \<open>Provisioning as one step\<close>

text \<open>What a successful provisioning has applied for the shard.\<close>

definition provisioned :: "env \<Rightarrow> reconciler \<Rightarrow> apiShard \<Rightarrow> event list \<Rightarrow> bool" where
  "provisioned E R SH es =
     (storagePost R SH () es \<and> certPost SH () es \<and> identityPost R SH es \<and>
      (\<exists>ns. headerPost E SH ns es \<and> secondaryPost R SH ns () es) \<and> metricsPost R SH () es \<and> registeredPost SH () es)"

lemma provisioned_mono:
  assumes "provisioned E R SH es" and sub: "set es \<subseteq> set fs"
  shows "provisioned E R SH fs"
proof -
  have "identityPost R SH fs" if "identityPost R SH es"
    using that sub unfolding identityPost_def by (meson performed_mono)
  with assms show ?thesis
    unfolding provisioned_def
    using storagePost_mono [OF _ sub] cert_step.evidence_mono [OF _ sub] header_step.evidence_mono [OF _ sub]
      secondary_step.evidence_mono [OF _ sub] metrics_step.evidence_mono [OF _ sub] registeredPost_mono [OF _ sub]
    by blast
qed

lemmas provision_contracts =
  storage_step.shard_step_axioms cert_step.shard_step_axioms authConfig_step.shard_step_axioms
  account_step.shard_step_axioms delegator_step.shard_step_axioms scc_step.shard_step_axioms
  header_step.shard_step_axioms kubeconfig_step.shard_step_axioms secondary_step.shard_step_axioms
  metrics_step.shard_step_axioms registration_step.shard_step_axioms

interpretation provision_step: shard_step SH "provisionShard E R" "\<lambda>_. provisioned E R SH"
  unfolding provisionShard_def
  by (rule contract_weaken, (rule contract_bind provision_contracts)+,
      (auto simp: provisioned_def identityPost_def)[1])
    (erule provisioned_mono, assumption)

end
