(* ===== verification/ShardSafety.thy ===== *)
theory ShardSafety
  imports ShardReconcile
begin

text \<open>
  What every reconcile of an \<open>APIShard\<close> does and never does, against an arbitrary API server. The
  guard \<open>reconcileGuard\<close> says for each kind of call when a reconcile may make it; that every run
  keeps to it is proved once, along the steps of \<open>Reconcile\<close>, and the properties are its clauses.
\<close>

section \<open>Reading the trace\<close>

text \<open>The shard the operator works on, as its variable was last filled by the server.\<close>

definition accepted :: "apiShard \<Rightarrow> resp \<Rightarrow> apiShard option" where
  "accepted x r = (case r of RErr _ \<Rightarrow> None | RObj (KAPIShard y) \<Rightarrow> Some y | _ \<Rightarrow> Some x)"

fun observed :: "event \<Rightarrow> apiShard option" where
  "observed (GetCall cl kd key, r) = (if kd = APIShardKind then (case r of RObj y \<Rightarrow> asAPIShard y | _ \<Rightarrow> None) else None)"
| "observed (MergePatchCall b y, r) = (case asAPIShard y of None \<Rightarrow> None | Some n \<Rightarrow> accepted n r)"
| "observed (StatusUpdateCall y, r) = (case asAPIShard y of None \<Rightarrow> None | Some n \<Rightarrow> accepted n r)"
| "observed e = None"

definition latestShard :: "event list \<Rightarrow> apiShard option" where
  "latestShard es = fold (\<lambda>e acc. case observed e of None \<Rightarrow> acc | Some x \<Rightarrow> Some x) es None"

definition finalizerSet :: "event list \<Rightarrow> bool" where
  "finalizerSet es =
     ((\<exists>key x. (GetCall Primary APIShardKind key, RObj (KAPIShard x)) \<in> set es \<and> containsFinalizer x) \<or>
      (\<exists>b x. performed (MergePatchCall b (KAPIShard x)) es \<and> containsFinalizer x))"

text \<open>An APIService is deregistered once it was read as absent, or its deletion was accepted or found it absent.\<close>

definition deregistered :: "string \<Rightarrow> event list \<Rightarrow> bool" where
  "deregistered n es =
     ((\<exists>e. IsNotFound e \<and> (GetCall Primary APIServiceKind ('''', n), RErr e) \<in> set es) \<or>
      (\<exists>a r. (GetCall Primary APIServiceKind ('''', n), RObj (KAPIService a)) \<in> set es \<and>
         (DeleteCall Primary (KAPIService a), r) \<in> set es \<and> (okResp r \<or> (\<exists>e. r = RErr e \<and> IsNotFound e))))"

definition readyReport :: "env \<Rightarrow> reconciler \<Rightarrow> apiShard \<Rightarrow> event list \<Rightarrow> apiShard \<Rightarrow> bool" where
  "readyReport E R SH es x =
     (provisioned E R SH es \<and> readReady SH es \<and> healthReport E 0 x es \<and>
      condIs E (status x) ConditionReconciled ConditionTrue \<and> message (status x) = [] \<and>
      observedGeneration (status x) = om_generation (sh_meta x))"

text \<open>When a reconcile may make a call; \<open>h\<close> is the history before it, and the run started after \<open>k\<close> events.\<close>

fun reconcileGuard :: "env \<Rightarrow> reconciler \<Rightarrow> nat \<Rightarrow> history \<Rightarrow> event \<Rightarrow> bool" where
  "reconcileGuard E R k h (GetCall cl kd key, r) = True"
| "reconcileGuard E R k h (ListCall cl kd ns sel, r) = True"
| "reconcileGuard E R k h (ApplyOwnedCall x, r) =
     (finalizerSet (drop k h) \<and> (\<exists>SH. latestShard (drop k h) = Some SH \<and> ownable SH x))"
| "reconcileGuard E R k h (ApplyCall cl x, r) = finalizerSet (drop k h)"
| "reconcileGuard E R k h (CreateOrUpdateCall x, r) = finalizerSet (drop k h)"
| "reconcileGuard E R k h (DeleteCall cl x, r) = finalizerSet (drop k h)"
| "reconcileGuard E R k h (CleanupCall lk nm gvks, r) =
     (finalizerSet (drop k h) \<and> (\<exists>SH. latestShard (drop k h) = Some SH \<and> provisioned E R SH (drop k h) \<and>
        lk = ownerLabelKey \<and> nm = shardName SH \<and> gvks = managedGVKs))"
| "reconcileGuard E R k h (StatusUpdateCall y, r) =
     (\<exists>x SH. y = KAPIShard x \<and> latestShard (drop k h) = Some SH \<and> sameSh SH x \<and>
        (condition_laws E \<longrightarrow> phase (status x) = PhaseReady \<longrightarrow> readyReport E R SH (drop k h) x))"
| "reconcileGuard E R k h (MergePatchCall b y, r) =
     (\<exists>SH. latestShard (drop k h) = Some SH \<and> \<not> containsFinalizer SH \<and> b = KAPIShard SH \<and> y = KAPIShard (addFinalizer SH))"
| "reconcileGuard E R k h (UpdateCall cl y, r) =
     (\<exists>SH. cl = Primary \<and> latestShard (drop k h) = Some SH \<and> om_deletionTimestamp (sh_meta SH) \<noteq> None \<and>
        y = KAPIShard (removeFinalizer SH) \<and> (\<forall>n \<in> set (registeredAPIServices (status SH)). deregistered n (drop k h)))"
| "reconcileGuard E R k h (CreateCall cl y, r) = False"

section \<open>Lemmas on the trace\<close>

lemma latestShard_append:
  "latestShard (es @ [e]) = (case observed e of None \<Rightarrow> latestShard es | Some x \<Rightarrow> Some x)"
  by (simp add: latestShard_def split: option.splits)

lemma observed_step: "stepEvent SH e \<Longrightarrow> observed e = None"
  by (cases "(SH, e)" rule: stepEvent.cases) auto

lemma latestShard_steps: "list_all (stepEvent SH) fs \<Longrightarrow> latestShard (es @ fs) = latestShard es"
proof (induction fs rule: rev_induct)
  case (snoc f fs)
  then show ?case using latestShard_append [of "es @ fs" f] by (simp add: observed_step [of SH f])
qed simp

lemma finalizerSet_mono: "finalizerSet es \<Longrightarrow> set es \<subseteq> set fs \<Longrightarrow> finalizerSet fs"
  unfolding finalizerSet_def by (meson performed_mono subsetD)

lemma finalizerSet_append [simp]: "finalizerSet es \<Longrightarrow> finalizerSet (es @ fs)"
  by (erule finalizerSet_mono) simp

lemma deregistered_mono: "deregistered n es \<Longrightarrow> set es \<subseteq> set fs \<Longrightarrow> deregistered n fs"
  unfolding deregistered_def by blast

text \<open>The invariant of the steps after the finalizer is set.\<close>

definition working :: "nat \<Rightarrow> apiShard \<Rightarrow> shardst \<Rightarrow> bool" where
  "working k SH s =
     (k \<le> length (tr s) \<and> latestShard (drop k (tr s)) = Some SH \<and> sameSh SH (shard s) \<and> finalizerSet (drop k (tr s)))"

lemma working_guard:
  assumes "working k SH s" and "list_all (stepEvent SH) es" and "stepEvent SH e"
  shows "reconcileGuard E R k (tr s @ es) e"
proof -
  from assms(1) have k: "drop k (tr s @ es) = drop k (tr s) @ es" by (simp add: working_def)
  have "latestShard (drop k (tr s) @ es) = Some SH" "finalizerSet (drop k (tr s) @ es)"
    using assms(1,2) by (simp_all add: working_def latestShard_steps)
  then show ?thesis
    using assms(3) k by (cases "(SH, e)" rule: stepEvent.cases) auto
qed

lemma working_extends:
  assumes "working k SH s" and "extends (stepEvent SH) s t" and "sameSh SH (shard t)"
  shows "working k SH t"
  using assms by (auto simp: working_def extends_def latestShard_steps)

lemma working_edit: "working k SH s \<Longrightarrow> sameSh SH x \<Longrightarrow> working k SH (s\<lparr>shard := x\<rparr>)"
  by (simp add: working_def)

section \<open>Every run keeps to the guard\<close>

text \<open>A step under its contract keeps to the guard, and to the invariant, whatever the server answers.\<close>

context shard_step
begin

lemma wp_working:
  assumes w: "working k SH s"
    and Q: "\<And>x t. m s = (Inr x, t) \<Longrightarrow> working k SH t \<Longrightarrow> set (drop k (tr s)) \<subseteq> set (drop k (tr t)) \<Longrightarrow>
      set (newEvents s t) \<subseteq> set (drop k (tr t)) \<Longrightarrow> post x (newEvents s t) \<Longrightarrow> Q x t"
    and X: "\<And>e t. working k SH t \<Longrightarrow> X e t"
  shows "wp (reconcileGuard E R k) m Q X s"
proof (rule wp_step)
  show "sameSh SH (shard s)" using w by (simp add: working_def)
  show "reconcileGuard E R k (tr s @ es) e" if "list_all (stepEvent SH) es" "stepEvent SH e" for es e
    using w that by (rule working_guard)
  show "Q x t" if "m s = (Inr x, t)" "sameSh SH (shard t)" "extends (stepEvent SH) s t" "post x (newEvents s t)" for x t
    using that(1) working_extends [OF w that(3,2)] _ _ that(4)
    by (rule Q) (use w that(3) in \<open>auto simp: working_def extends_def newEvents_def\<close>)
  show "X e t" if "sameSh SH (shard t)" "extends (stepEvent SH) s t" for e t
    using X working_extends [OF w that(2,1)] .
qed

end

abbreviation holds :: "'a \<Rightarrow> 'b \<Rightarrow> bool" where
  "holds \<equiv> \<lambda>_ _. True"

lemma storeAnswer_accepted:
  "okResp r \<Longrightarrow> shard s = x \<Longrightarrow> accepted x r = Some (shard (storeAnswer r s))" "tr (storeAnswer r s) = tr s"
  by (simp_all add: accepted_def storeAnswer_def okResp_def split: resp.splits kobj.splits)

lemma wp_updateShardStatus:
  assumes w: "working k SH s"
    and ready: "condition_laws E \<Longrightarrow> phase (status (shard s)) = PhaseReady \<Longrightarrow> readyReport E R SH (drop k (tr s)) (shard s)"
    and Q: "\<And>SH' t. working k SH' t \<Longrightarrow> Q () t" and X: "\<And>e t. X e t"
  shows "wp (reconcileGuard E R k) (updateShardStatus E) Q X s"
  unfolding updateShardStatus_def writeShard_def
proof (intro wps)
  let ?c = "StatusUpdateCall (KAPIShard (shard s))"
  show "reconcileGuard E R k (tr s) (?c, r)" for r using w ready by (simp add: working_def)
  show "tr (storeAnswer r (logged ?c r s)) = tr (logged ?c r s)" for r by (simp add: storeAnswer_accepted(2))
  show "Q () (storeAnswer r (logged ?c r s))" if "okResp r" for r
  proof (rule Q)
    have acc: "accepted (shard s) r = Some (shard (storeAnswer r (logged ?c r s)))"
      using that by (rule storeAnswer_accepted(1)) simp
    show "working k (shard (storeAnswer r (logged ?c r s))) (storeAnswer r (logged ?c r s))"
      using w acc by (simp add: working_def storeAnswer_accepted(2) latestShard_append)
  qed
qed (rule X)

lemma wp_setErrorAndRequeue:
  assumes "working k SH s"
  shows "wp (reconcileGuard E R k) (setErrorAndRequeue E err) Q holds s"
  unfolding setErrorAndRequeue_def
  by (intro wps wp_updateShardStatus) (use assms in \<open>auto simp: working_def phase_names\<close>)

lemma wp_orError:
  assumes "wp (reconcileGuard E R k) m Q (\<lambda>_ t. \<exists>SH. working k SH t) s"
  shows "wp (reconcileGuard E R k) (orError E m) Q holds s"
  unfolding orError_def
  by (intro wp_bind wp_try wp_case_sum wp_weaken [OF assms]) (auto intro: wps wp_setErrorAndRequeue)

text \<open>The start of a reconcile: the shard was read.\<close>

definition loaded :: "nat \<Rightarrow> apiShard \<Rightarrow> shardst \<Rightarrow> bool" where
  "loaded k SH s =
     (k \<le> length (tr s) \<and> latestShard (drop k (tr s)) = Some SH \<and> shard s = SH \<and>
      (\<exists>key. (GetCall Primary APIShardKind key, RObj (KAPIShard SH)) \<in> set (drop k (tr s))))"

lemma loaded_working: "loaded k SH s \<Longrightarrow> containsFinalizer SH \<Longrightarrow> working k SH s"
  unfolding loaded_def working_def finalizerSet_def by auto

lemma wp_ensureFinalizer:
  assumes "loaded k SH s" and Q: "\<And>SH' t. working k SH' t \<Longrightarrow> Q () t"
  shows "wp (reconcileGuard E R k) (ensureFinalizer E) Q holds s"
proof (cases "containsFinalizer SH")
  case True
  have "wp (reconcileGuard E R k) (returnE ()) Q holds s" using Q loaded_working [OF assms(1) True] by (intro wps)
  with True assms(1) show ?thesis
    unfolding ensureFinalizer_def by (intro wp_bind wp_gets wp_if) (auto simp: loaded_def)
next
  case False
  let ?c = "MergePatchCall (KAPIShard SH) (KAPIShard (addFinalizer SH))"
  let ?s = "s\<lparr>shard := addFinalizer SH\<rparr>"
  have l: "shard s = SH" "k \<le> length (tr s)" "latestShard (drop k (tr s)) = Some SH" using assms(1) by (auto simp: loaded_def)
  have "Q () (storeAnswer r (logged ?c r ?s))" if r: "okResp r" for r
  proof (rule Q)
    have acc: "accepted (addFinalizer SH) r = Some (shard (storeAnswer r (logged ?c r ?s)))"
      using r by (rule storeAnswer_accepted(1)) simp
    have "performed ?c (drop k (tr s) @ [(?c, r)])" "containsFinalizer (addFinalizer SH)"
      using r by (auto simp: performed_Cons addFinalizer_def containsFinalizer_def)
    then have "finalizerSet (drop k (tr s) @ [(?c, r)])" unfolding finalizerSet_def by blast
    with l acc show "working k (shard (storeAnswer r (logged ?c r ?s))) (storeAnswer r (logged ?c r ?s))"
      by (simp add: working_def storeAnswer_accepted(2) latestShard_append)
  qed
  moreover have "reconcileGuard E R k (tr s) (?c, r)" for r using l False by simp
  ultimately show ?thesis
    unfolding ensureFinalizer_def writeShard_def using l False
    by (intro wps) (auto simp: storeAnswer_accepted(2))
qed

lemma working_logged:
  assumes "working k SH s" and "stepEvent SH (c, r)"
  shows "working k SH (logged c r s)"
  by (rule working_extends [OF assms(1)]) (use assms in \<open>auto simp: extends_def working_def\<close>)

lemma wp_deregister:
  assumes w: "working k SH s" "shard s = SH"
    and Q: "\<And>t. working k SH t \<Longrightarrow> shard t = SH \<Longrightarrow> set (drop k (tr s)) \<subseteq> set (drop k (tr t)) \<Longrightarrow>
      deregistered n (drop k (tr t)) \<Longrightarrow> Q () t"
  shows "wp (reconcileGuard E R k) (deregister E n) Q holds s"
proof -
  let ?g = "GetCall Primary APIServiceKind ('''', n)"
  let ?d = "\<lambda>a. DeleteCall Primary (KAPIService a)"
  have k: "k \<le> length (tr s)" using w by (simp add: working_def)
  have g: "working k SH (logged ?g r s)" for r using w(1) by (rule working_logged) simp
  have gd: "working k SH (logged (?d a) r' (logged ?g r s))" for a r r' using g by (rule working_logged) simp
  have absent: "Q () (logged ?g (RErr e) s)" if "IsNotFound e" for e
    using that k w(2) by (intro Q g) (auto simp: deregistered_def)
  have gone: "Q () (logged (?d a) r (logged ?g (RObj (KAPIService a)) s))"
    if "okResp r \<or> (\<exists>e. r = RErr e \<and> IsNotFound e)" for a r
    using that k w(2) by (intro Q gd) (auto simp: deregistered_def)
  have fin: "finalizerSet (drop k (tr s) @ es)" for es using w(1) by (simp add: working_def)
  show ?thesis
    unfolding deregister_def
    by (intro wps) (use absent gone fin k in \<open>auto simp: decodeError_def\<close>)
qed

lemma wp_finalizeShard:
  assumes l: "loaded k SH s" and del: "om_deletionTimestamp (sh_meta SH) \<noteq> None" and Q: "\<And>t. Q () t"
  shows "wp (reconcileGuard E R k) (finalizeShard E) Q holds s"
proof (cases "containsFinalizer SH")
  case False
  have sh: "shard s = SH" using l by (simp add: loaded_def)
  show ?thesis unfolding finalizeShard_def by (intro wp_bind wp_gets wp_if) (use False sh Q in \<open>auto intro: wps\<close>)
next
  case True
  let ?regs = "registeredAPIServices (status SH)"
  let ?I = "\<lambda>rest t. working k SH t \<and> shard t = SH \<and> (\<forall>n \<in> set ?regs - set rest. deregistered n (drop k (tr t)))"
  let ?rest = "bindE (modifyE (\<lambda>s. s\<lparr>shard := removeFinalizer (shard s)\<rparr>)) (\<lambda>_. writeShard E (\<lambda>x. UpdateCall Primary (KAPIShard x)))"
  have sh: "shard s = SH" using l by (simp add: loaded_def)
  have update: "wp (reconcileGuard E R k) ?rest Q holds t" if "?I [] t" for t
    unfolding writeShard_def
    by (intro wps) (use that del Q in \<open>auto simp: storeAnswer_accepted(2) working_def\<close>)
  have "wp (reconcileGuard E R k) (forE ?regs (deregister E)) (\<lambda>_. wp (reconcileGuard E R k) ?rest Q holds) holds s"
  proof (rule wp_for [where I = ?I])
    show "?I ?regs s" using loaded_working [OF l True] sh by simp
    show "wp (reconcileGuard E R k) (deregister E y) (\<lambda>_. ?I ys) holds t" if "?I (y # ys) t" for y ys t
      by (rule wp_deregister) (use that in \<open>auto intro: deregistered_mono\<close>)
  qed (rule update)
  then show ?thesis unfolding finalizeShard_def by (intro wp_bind wp_gets wp_if) (use True sh in auto)
qed

lemma wp_ensureNamespace:
  assumes "working k SH s" and Q: "\<And>t. working k SH t \<Longrightarrow> Q () t"
  shows "wp (reconcileGuard E R k) (ensureNamespace E) Q (\<lambda>_ t. \<exists>SH. working k SH t) s"
proof -
  let ?c = "ApplyCall Primary (KNamespace (targetNamespaceObj (shard s)))"
  have "working k SH (logged ?c r s)" for r
    using assms(1) by (simp add: working_def latestShard_append)
  with Q assms(1) show ?thesis unfolding ensureNamespace_def by (intro wps) (auto simp: working_def)
qed

lemma wp_initPhase:
  assumes w: "working k SH s" and Q: "\<And>SH' t. working k SH' t \<Longrightarrow> Q () t"
  shows "wp (reconcileGuard E R k) (initPhase E) Q holds s"
proof -
  have "wp (reconcileGuard E R k) (updateShardStatus E) Q holds (s\<lparr>shard := (shard s)\<lparr>status := (status (shard s))\<lparr>phase := PhaseProvisioning\<rparr>\<rparr>\<rparr>)"
    by (rule wp_updateShardStatus) (use w Q in \<open>auto simp: working_def phase_names\<close>)
  with w Q show ?thesis unfolding initPhase_def setPhase_def by (intro wps) auto
qed

lemma healthReport_reconciled:
  assumes laws: "condition_laws E" and hr: "healthReport E n sh es"
  shows "healthReport E n (sh\<lparr>status := (status sh)\<lparr>message := m, observedGeneration := g', conditions :=
      setStatusCondition E h (conditions (status sh)) (mkCondition ConditionReconciled v rsn msg g)\<rparr>\<rparr>) es"
proof -
  have "findStatusCondition E (setStatusCondition E h cs (mkCondition ConditionReconciled v rsn msg g)) ty =
      findStatusCondition E cs ty" if "ty \<noteq> ConditionReconciled" for cs ty
    using that by (intro condition_store.find_set_other [OF laws]) simp
  then show ?thesis
    using hr by (auto simp: healthReport_def condIs_def conflictIs_def condition_names listedAvailable_def split: if_splits)
qed

lemma wp_reportReconciled:
  assumes w: "working k SH s" and Q: "\<And>t. Q () t"
    and ready: "condition_laws E \<Longrightarrow> phase (status (shard s)) = PhaseReady \<Longrightarrow>
      provisioned E R SH (drop k (tr s)) \<and> readReady SH (drop k (tr s)) \<and> healthReport E 0 (shard s) (drop k (tr s))"
  shows "wp (reconcileGuard E R k) (reportReconciled E) Q holds s"
proof -
  let ?c = "mkCondition ConditionReconciled ConditionTrue ''ReconcileSucceeded'' ''All resources reconciled successfully''
    (om_generation (sh_meta (shard s)))"
  let ?x = "(shard s)\<lparr>status := (status (shard s))\<lparr>message := [],
    observedGeneration := om_generation (sh_meta (shard s)),
    conditions := setStatusCondition E (tr s) (conditions (status (shard s))) ?c\<rparr>\<rparr>"
  have "readyReport E R SH (drop k (tr s)) ?x" if laws: "condition_laws E" and "phase (status (shard s)) = PhaseReady"
    using ready [OF that] healthReport_reconciled [OF laws]
      condition_store.find_set_fields [OF laws, of "tr s" "conditions (status (shard s))" ?c]
    by (auto simp: readyReport_def condIs_def)
  with w Q have "wp (reconcileGuard E R k) (updateShardStatus E) Q holds (s\<lparr>shard := ?x\<rparr>)"
    by (intro wp_updateShardStatus [where SH = SH]) (auto simp: working_def)
  then show ?thesis unfolding reportReconciled_def by (intro wps) simp
qed

lemma wp_cleanup_report:
  assumes t: "working k SH t" and p: "provisioned E R SH (drop k (tr t))" and Q: "\<And>n t. Q n t"
    and ready: "condition_laws E \<Longrightarrow> phase (status (shard t)) = PhaseReady \<Longrightarrow>
      readReady SH (drop k (tr t)) \<and> healthReport E 0 (shard t) (drop k (tr t))"
  shows "wp (reconcileGuard E R k) (bindE (cleanupOrphans E) (\<lambda>_. bindE (reportReconciled E) (\<lambda>_. returnE n))) Q holds t"
proof -
  let ?c = "CleanupCall ownerLabelKey (shardName SH) managedGVKs"
  have l: "wp (reconcileGuard E R k) (reportReconciled E) (\<lambda>_. wp (reconcileGuard E R k) (returnE n) Q holds) holds (logged ?c r t)" for r
  proof (rule wp_reportReconciled)
    show "working k SH (logged ?c r t)" using t by (simp add: working_def latestShard_append)
    have "drop k (tr (logged ?c r t)) = drop k (tr t) @ [(?c, r)]" using t by (simp add: working_def)
    then show "provisioned E R SH (drop k (tr (logged ?c r t))) \<and> readReady SH (drop k (tr (logged ?c r t))) \<and>
        healthReport E 0 (shard (logged ?c r t)) (drop k (tr (logged ?c r t)))"
      if "condition_laws E" "phase (status (shard (logged ?c r t))) = PhaseReady"
      using ready that p by (auto intro: provisioned_mono readReady_mono healthReport_mono)
  qed (intro wp_return Q)
  have "shardName (shard t) = shardName SH" using t by (auto simp: working_def sameSh_def)
  with t p l show ?thesis unfolding cleanupOrphans_def by (intro wp_bind wp_gets wp_try wp_requestU wp_return) (auto simp: working_def)
qed

lemma wp_health:
  assumes t: "working k SH t" and p: "provisioned E R SH (drop k (tr t))" and Q: "\<And>n t. Q n t"
  shows "wp (reconcileGuard E R k) (updateHealthStatus E R)
    (\<lambda>n. wp (reconcileGuard E R k) (bindE (cleanupOrphans E) (\<lambda>_. bindE (reportReconciled E) (\<lambda>_. returnE n))) Q holds) holds t"
proof (rule health_step.wp_working [OF t])
  show "wp (reconcileGuard E R k) (bindE (cleanupOrphans E) (\<lambda>_. bindE (reportReconciled E) (\<lambda>_. returnE n))) Q holds u"
    if run: "updateHealthStatus E R t = (Inr n, u)" and u: "working k SH u" "set (drop k (tr t)) \<subseteq> set (drop k (tr u))"
      "set (newEvents t u) \<subseteq> set (drop k (tr u))" and post: "n = 0 \<longrightarrow> readReady SH (newEvents t u)" for n u
  proof (rule wp_cleanup_report [OF u(1) provisioned_mono [OF p u(2)] Q])
    assume laws: "condition_laws E" and ph: "phase (status (shard u)) = PhaseReady"
    note hr = updateHealthStatus_run [OF laws run]
    have "n = 0" using hr ph by (auto simp: healthReport_def phase_names split: if_splits)
    with hr post u(3) show "readReady SH (drop k (tr u)) \<and> healthReport E 0 (shard u) (drop k (tr u))"
      by (auto intro: readReady_mono healthReport_mono)
  qed
qed simp

lemma wp_completeShard:
  assumes w: "working k SH s" and p: "provisioned E R SH (drop k (tr s))" and Q: "\<And>n t. Q n t"
  shows "wp (reconcileGuard E R k) (completeShard E R) Q holds s"
  unfolding completeShard_def
  by (rule wp_bind, rule conflicts_step.wp_working [OF w], rule wp_bind, rule wp_health)
    (auto intro: Q provisioned_mono [OF p])

lemma wp_reconcileShard:
  assumes l: "loaded k SH s" and Q: "\<And>n t. Q n t"
  shows "wp (reconcileGuard E R k) (reconcileShard E R) Q holds s"
proof -
  have main: "wp (reconcileGuard E R k) (orError E (provisionShard E R)) (\<lambda>_. wp (reconcileGuard E R k) (completeShard E R) Q holds) holds t"
    if "working k SH' t" for SH' t
    by (rule wp_orError, rule provision_step.wp_working [OF that])
      (auto intro: wp_completeShard [OF _ _ Q] provisioned_mono)
  show ?thesis
    unfolding reconcileShard_def
    by (rule wp_bind, rule wp_ensureFinalizer [OF l], rule wp_bind, rule wp_orError, erule wp_ensureNamespace,
        rule wp_bind, erule wp_initPhase, rule wp_bind, erule main)
qed

lemma wp_apiShard_Reconcile:
  assumes Q: "\<And>n t. Q n t"
  shows "wp (reconcileGuard E R (length (tr s))) (apiShard_Reconcile E R req) Q holds s"
proof -
  let ?k = "length (tr s)" and ?c = "GetCall Primary APIShardKind req"
  have l: "loaded ?k x ((logged ?c (RObj (KAPIShard x)) s)\<lparr>shard := x\<rparr>)" for x
    by (auto simp: loaded_def latestShard_def)
  have a: "y = KAPIShard x" if "asAPIShard y = Some x" for x y using that by (cases y) auto
  show ?thesis
    unfolding apiShard_Reconcile_def
    by (intro wps) (auto dest!: a intro!: Q wp_reconcileShard [OF l] wp_finalizeShard [OF l] wps)
qed

end
