(* ===== verification/ShardProgress.thy ===== *)
theory ShardProgress
  imports ShardSafety
begin

text \<open>
  Progress of the \<open>APIShard\<close> reconciler: against a server that accepts writes and on which the
  things the operator waits for are there, a single reconcile returns without error and its last
  call reports the shard \<open>Ready\<close>. \<open>succeeds SH m P\<close> is total correctness of a step from any state
  whose shard is \<open>SH\<close> up to its status; the rules compose it along the program.
\<close>

section \<open>Total correctness of steps\<close>

definition succeeds :: "apiShard \<Rightarrow> (shardst, 'a) op \<Rightarrow> ('a \<Rightarrow> bool) \<Rightarrow> bool" where
  "succeeds SH m P = (\<forall>s. sameSh SH (shard s) \<longrightarrow> (\<exists>x t. m s = (Inr x, t) \<and> sameSh SH (shard t) \<and> P x))"

lemma succeedsI:
  assumes "\<And>s. sameSh SH (shard s) \<Longrightarrow> \<exists>x t. m s = (Inr x, t) \<and> sameSh SH (shard t) \<and> P x"
  shows "succeeds SH m P"
  using assms by (simp add: succeeds_def)

lemma succeedsE:
  fixes s :: shardst
  assumes "succeeds SH m P" and "sameSh SH (shard s)"
  obtains x t where "m s = (Inr x, t)" and "sameSh SH (shard t)" and "P x"
  using assms by (auto simp: succeeds_def)

lemma succeeds_weaken: "succeeds SH m P \<Longrightarrow> (\<And>x. P x \<Longrightarrow> Q x) \<Longrightarrow> succeeds SH m Q"
  unfolding succeeds_def by blast

lemma succeeds_return: "P x \<Longrightarrow> succeeds SH (returnE x) P"
  by (simp add: succeeds_def returnE_def)

lemma succeeds_bind:
  assumes "succeeds SH m P" and "\<And>x. P x \<Longrightarrow> succeeds SH (f x) Q"
  shows "succeeds SH (bindE m f) Q"
proof (rule succeedsI)
  fix s :: shardst assume "sameSh SH (shard s)"
  from succeedsE [OF assms(1) this] obtain x t where m: "m s = (Inr x, t)" "sameSh SH (shard t)" and "P x" .
  from succeedsE [OF assms(2) [OF \<open>P x\<close>] m(2)] obtain y u where "f x t = (Inr y, u)" "sameSh SH (shard u)" "Q y" .
  with m(1) show "\<exists>y u. bindE m f s = (Inr y, u) \<and> sameSh SH (shard u) \<and> Q y" by (simp add: bindE_def)
qed

lemma succeeds_shard:
  assumes "\<And>st. succeeds SH (f (SH\<lparr>status := st\<rparr>)) Q"
  shows "succeeds SH (bindE (getsE shard) f) Q"
proof (rule succeedsI)
  fix s :: shardst assume sh: "sameSh SH (shard s)"
  then obtain st where st: "shard s = SH\<lparr>status := st\<rparr>" by (auto simp: sameSh_status)
  from succeedsE [OF assms [of st] sh] obtain y u where "f (SH\<lparr>status := st\<rparr>) s = (Inr y, u)" "sameSh SH (shard u)" "Q y" .
  with st show "\<exists>y u. bindE (getsE shard) f s = (Inr y, u) \<and> sameSh SH (shard u) \<and> Q y"
    by (simp add: bindE_def getsE_def)
qed

lemma succeeds_wrap: "succeeds SH m P \<Longrightarrow> succeeds SH (wrapE p m) P"
  by (fastforce simp: succeeds_def wrapE_def)

lemma succeeds_if:
  "(b \<Longrightarrow> succeeds SH m P) \<Longrightarrow> (\<not> b \<Longrightarrow> succeeds SH n P) \<Longrightarrow> succeeds SH (if b then m else n) P"
  by simp

lemma succeeds_try:
  assumes "keeps (stepRel Q SH) m"
  shows "succeeds SH (tryE m) (\<lambda>_. True)"
  by (rule succeedsI) (use stepRel_run(2) [OF assms] in \<open>auto simp: tryE_def split: prod.splits\<close>)

lemma succeeds_try_ok: "succeeds SH m P \<Longrightarrow> succeeds SH (tryE m) (\<lambda>r. \<exists>x. r = Inr x \<and> P x)"
  by (fastforce simp: succeeds_def tryE_def)

lemma succeeds_for: "(\<And>x. x \<in> set xs \<Longrightarrow> succeeds SH (f x) (\<lambda>_. True)) \<Longrightarrow> succeeds SH (forE xs f) (\<lambda>_. True)"
  by (induction xs) (auto intro: succeeds_return succeeds_bind)

lemma succeeds_edits:
  "succeeds SH (setStatus f) (\<lambda>_. True)" "succeeds SH (setCond E ty st rsn msg) (\<lambda>_. True)"
  "succeeds SH (removeCond E ty) (\<lambda>_. True)"
  by (rule succeedsI, simp add: setStatus_def setCond_def removeCond_def modifyE_def)+

section \<open>A cooperative server\<close>

text \<open>The calls that change the cluster are all accepted.\<close>

fun isWrite :: "call \<Rightarrow> bool" where
  "isWrite (GetCall cl k key) = False"
| "isWrite (ListCall cl k ns sel) = False"
| "isWrite c = True"

definition acceptsWrites :: "env \<Rightarrow> bool" where
  "acceptsWrites E = (\<forall>h c. isWrite c \<longrightarrow> answer E h c = ROk)"

lemma succeeds_requestU: "acceptsWrites E \<Longrightarrow> isWrite c \<Longrightarrow> succeeds SH (requestU E c) (\<lambda>_. True)"
  by (rule succeedsI) (auto simp: acceptsWrites_def runs)

lemma succeeds_applyAll: "acceptsWrites E \<Longrightarrow> succeeds SH (applyAll E pxs) (\<lambda>_. True)"
  unfolding applyAll_def by (rule succeeds_for) (auto intro!: succeeds_wrap succeeds_requestU)

lemma succeeds_updateShardStatus: "acceptsWrites E \<Longrightarrow> succeeds SH (updateShardStatus E) (\<lambda>_. True)"
  by (rule succeedsI) (auto simp: acceptsWrites_def updateShardStatus_def writeShard_def runs storeAnswer_def)

lemma succeeds_getObj:
  assumes "\<And>h. \<exists>y x. answer E h (GetCall cl k key) = RObj y \<and> p y = Some x \<and> P x"
  shows "succeeds SH (getObj E p cl k key) P"
proof (rule succeedsI)
  fix s :: shardst assume "sameSh SH (shard s)"
  with assms [of "tr s"] show "\<exists>x t. getObj E p cl k key s = (Inr x, t) \<and> sameSh SH (shard t) \<and> P x"
    by (fastforce simp: runs)
qed

definition readable :: "env \<Rightarrow> (kobj \<Rightarrow> 'a option) \<Rightarrow> call \<Rightarrow> bool" where
  "readable E p c =
     (\<forall>h. (\<exists>y x. answer E h c = RObj y \<and> p y = Some x) \<or> (\<exists>e. answer E h c = RErr e \<and> IsNotFound e))"

lemma succeeds_try_get:
  assumes "readable E p (GetCall cl k key)"
  shows "succeeds SH (tryE (getObj E p cl k key)) (\<lambda>r. \<forall>e. r = Inl e \<longrightarrow> IsNotFound e)"
proof (rule succeedsI)
  fix s :: shardst assume sh: "sameSh SH (shard s)"
  let ?c = "GetCall cl k key"
  consider y x where "answer E (tr s) ?c = RObj y" "p y = Some x" | e where "answer E (tr s) ?c = RErr e" "IsNotFound e"
    using assms unfolding readable_def by blast
  then show "\<exists>x t. tryE (getObj E p cl k key) s = (Inr x, t) \<and> sameSh SH (shard t) \<and> (\<forall>e. x = Inl e \<longrightarrow> IsNotFound e)"
    by cases (simp_all add: tryE_run getObj_def bindE_def request_def asOne_def returnE_def Let_def sh)
qed

text \<open>What a shard waits for is there, and what it reads is readable.\<close>

definition storageServed :: "env \<Rightarrow> apiShard \<Rightarrow> bool" where
  "storageServed E SH =
     ((storageType SH = StorageTypeInClusterPostgreSQL \<longrightarrow>
        (\<forall>h. \<exists>x. answer E h (GetCall Primary StatefulSetKind (shardNS SH, PostgreSQLStatefulSetName SH)) = RObj (KStatefulSet x) \<and>
           allReady (ss_status x)) \<and> (\<forall>h. \<exists>b. randomBytes E h 16 = Inr b)) \<and>
      (storageType SH = StorageTypePostgreSQL \<longrightarrow>
        (\<exists>ref. st_connectionSecretRef (storage (spec SH)) = Some ref \<and>
          (\<forall>h. \<exists>sec. answer E h (GetCall Primary SecretKind (shardNS SH, skr_name ref)) = RObj (KSecret sec) \<and>
             map_of (sec_data sec) (skr_key ref) \<noteq> None))))"

definition deploymentsReady :: "env \<Rightarrow> apiShard \<Rightarrow> bool" where
  "deploymentsReady E SH =
     (\<forall>nm \<in> {KineDeploymentName SH, SecondaryDeploymentName SH}. \<forall>h. \<exists>d.
        answer E h (GetCall Primary DeploymentKind (shardNS SH, nm)) = RObj (KDeployment d) \<and> allReady (d_status d))"

definition frontProxyServed :: "env \<Rightarrow> bool" where
  "frontProxyServed E =
     (\<forall>h. \<exists>cm ns. answer E h (GetCall Primary ConfigMapKind (kubeSystemNamespace, extensionAPIServerAuthCM)) = RObj (KConfigMap cm) \<and>
        mapGet (cm_data cm) ''requestheader-client-ca-file'' \<noteq> [] \<and> allowedNames E cm = Inr ns)"

definition secretsServed :: "env \<Rightarrow> apiShard \<Rightarrow> bool" where
  "secretsServed E SH =
     ((\<forall>h. \<exists>sec. answer E h (GetCall Primary SecretKind (shardNS SH, PKISecretName SH)) = RObj (KSecret sec)) \<and>
      readable E asSecret (GetCall Primary SecretKind (shardNS SH, AdminClientSecretName SH)))"

definition noConflicts :: "env \<Rightarrow> apiShard \<Rightarrow> bool" where
  "noConflicts E SH =
     (\<forall>h. \<exists>cs. answer E h (ListCall Primary CRDKind None None) = RObjs (map KCRD cs) \<and>
        (\<forall>c \<in> set cs. crd_group c \<notin> ag_group ` set (apiGroups (spec SH))))"

definition cooperative :: "env \<Rightarrow> reconciler \<Rightarrow> apiShard \<Rightarrow> bool" where
  "cooperative E R SH =
     (acceptsWrites E \<and> ClientProvider R \<and> (\<forall>sh m. \<exists>m'. setControllerReference E sh m = Inr m') \<and>
      (\<forall>n. readable E asAPIService (GetCall Primary APIServiceKind ([], n))) \<and>
      storageServed E SH \<and> deploymentsReady E SH \<and> frontProxyServed E \<and> secretsServed E SH \<and> noConflicts E SH)"

section \<open>The steps succeed\<close>

lemma succeeds_GeneratePassword:
  assumes "\<forall>h. \<exists>b. randomBytes E h 16 = Inr b"
  shows "succeeds SH (GeneratePassword E) (\<lambda>_. True)"
proof (rule succeedsI)
  fix s :: shardst assume "sameSh SH (shard s)"
  moreover obtain b where "randomBytes E (tr s) 16 = Inr b" using assms by blast
  ultimately show "\<exists>x t. GeneratePassword E s = (Inr x, t) \<and> sameSh SH (shard t) \<and> True" by (simp add: GeneratePassword_def)
qed

lemma succeeds_then: "succeeds SH m (\<lambda>_. True) \<Longrightarrow> (\<And>x. succeeds SH (f x) Q) \<Longrightarrow> succeeds SH (bindE m f) Q"
  by (rule succeeds_bind)

lemma succeeds_password:
  assumes "\<forall>h. \<exists>b. randomBytes E h 16 = Inr b"
  shows "succeeds SH (getOrGeneratePostgresPassword E) (\<lambda>_. True)"
  unfolding getOrGeneratePostgresPassword_def
  by (rule succeeds_shard, rule succeeds_then, rule succeeds_try [where Q = "\<lambda>_. True"], rule frames)
    (auto intro: succeeds_GeneratePassword [OF assms] succeeds_return split: sum.splits option.splits)

lemma succeeds_preserve:
  assumes st: "storageServed E SH" and ty: "storageType SH = StorageTypeInClusterPostgreSQL"
  shows "succeeds SH (preservePostgreSQLVolumeClaimTemplates E (postgresStatefulSet R SH)) (\<lambda>_. True)"
proof -
  have key: "keyOf (KStatefulSet (postgresStatefulSet R SH)) = (shardNS SH, PostgreSQLStatefulSetName SH)"
    by (simp add: keyOf_def BuildPostgreSQLStatefulSet_def)
  have "succeeds SH (getObj E asStatefulSet Primary StatefulSetKind (shardNS SH, PostgreSQLStatefulSetName SH)) (\<lambda>_. True)"
    by (rule succeeds_getObj) (use st ty in \<open>fastforce simp: storageServed_def\<close>)
  from succeeds_try_ok [OF this] show ?thesis
    unfolding preservePostgreSQLVolumeClaimTemplates_def key
    by (rule succeeds_bind) (auto simp: Let_def intro!: succeeds_bind [OF succeeds_edits(2)] succeeds_return)
qed

lemma succeeds_storage:
  assumes "cooperative E R SH"
  shows "succeeds SH (reconcileStorage E R) (\<lambda>_. True)"
proof -
  have w: "acceptsWrites E" and st: "storageServed E SH" using assms by (simp_all add: cooperative_def)
  have pg: "succeeds SH (reconcileInClusterPostgreSQL E R) (\<lambda>_. True)" if "storageType SH = StorageTypeInClusterPostgreSQL"
    unfolding reconcileInClusterPostgreSQL_def using st that
    by - (rule succeeds_shard, rule succeeds_then, rule succeeds_wrap, rule succeeds_password,
        (simp add: storageServed_def), rule succeeds_then, rule succeeds_applyAll [OF w], rule succeeds_then, rule succeeds_wrap,
        simp, erule (1) succeeds_preserve, rule succeeds_applyAll [OF w])
  have ext: "succeeds SH (validateExternalPostgreSQLSecret E) (\<lambda>_. True)" if ty: "storageType SH = StorageTypePostgreSQL"
  proof -
    from st ty obtain ref where ref: "st_connectionSecretRef (storage (spec SH)) = Some ref"
      and sec: "\<And>h. \<exists>sec. answer E h (GetCall Primary SecretKind (shardNS SH, skr_name ref)) = RObj (KSecret sec) \<and>
         map_of (sec_data sec) (skr_key ref) \<noteq> None" by (auto simp: storageServed_def)
    have "succeeds SH (getSecret E (shardNS SH, skr_name ref)) (\<lambda>sec. map_of (sec_data sec) (skr_key ref) \<noteq> None)"
      by (rule succeeds_getObj) (use sec in fastforce)
    from succeeds_try_ok [OF this] show ?thesis
      unfolding validateExternalPostgreSQLSecret_def
      by - (rule succeeds_shard, simp add: ref, erule succeeds_bind, auto intro: succeeds_edits)
  qed
  have kine: "succeeds SH (reconcileKine E R) (\<lambda>_. True)"
    unfolding reconcileKine_def applyKineService_def
    by (rule succeeds_shard, rule succeeds_then, rule succeeds_applyAll [OF w], rule succeeds_bind,
        rule succeeds_try_ok, rule succeeds_requestU [OF w]) (auto intro: succeeds_return)
  have "succeeds SH (tryE (metricsCollector E R)) (\<lambda>_. True)"
    by (rule succeeds_try [OF frame_metricsCollector])
  then have metrics: "succeeds SH (reconcilePostgreSQLMetrics E R) (\<lambda>_. True)"
    unfolding reconcilePostgreSQLMetrics_def
    by (intro succeeds_shard succeeds_if succeeds_edits succeeds_then) (auto intro: succeeds_edits split: sum.splits)
  show ?thesis
    unfolding reconcileStorage_def
    by (rule succeeds_shard, rule succeeds_then)
      (auto intro!: succeeds_then [OF succeeds_wrap] succeeds_wrap succeeds_return pg ext kine metrics)
qed

lemma succeeds_metrics:
  assumes w: "acceptsWrites E"
  shows "succeeds SH (reconcileMetrics E R) (\<lambda>_. True)"
  unfolding reconcileMetrics_def
  by (rule succeeds_shard, rule succeeds_if, rule succeeds_return, rule TrueI,
      rule succeeds_then, rule succeeds_applyAll [OF w], rule succeeds_then, rule succeeds_wrap, rule succeeds_requestU [OF w], simp,
      rule succeeds_then, rule succeeds_applyAll [OF w], rule succeeds_bind, rule succeeds_try_ok, rule succeeds_requestU [OF w])
    (auto intro: succeeds_applyAll [OF w])

lemma succeeds_header:
  assumes "cooperative E R SH"
  shows "succeeds SH (reconcileRequestHeaderCA E) (\<lambda>_. True)"
proof -
  have w: "acceptsWrites E" and f: "frontProxyServed E" using assms by (simp_all add: cooperative_def)
  let ?P = "\<lambda>cm. mapGet (cm_data cm) ''requestheader-client-ca-file'' \<noteq> [] \<and> (\<exists>ns. allowedNames E cm = Inr ns)"
  have "succeeds SH (getObj E asConfigMap Primary ConfigMapKind (kubeSystemNamespace, extensionAPIServerAuthCM)) ?P"
    by (rule succeeds_getObj) (use f in \<open>fastforce simp: frontProxyServed_def\<close>)
  then have "succeeds SH (wrapE p (getObj E asConfigMap Primary ConfigMapKind (kubeSystemNamespace, extensionAPIServerAuthCM))) ?P" for p
    by (rule succeeds_wrap)
  then show ?thesis
    unfolding reconcileRequestHeaderCA_def
    by (rule succeeds_shard [OF succeeds_bind])
      (auto simp: Let_def liftE_def intro!: succeeds_then [OF succeeds_return] succeeds_then [OF succeeds_applyAll [OF w]] succeeds_return)
qed

lemma succeeds_kubeconfig:
  assumes "cooperative E R SH"
  shows "succeeds SH (reconcileAdminKubeconfig E) (\<lambda>_. True)"
proof -
  have w: "acceptsWrites E" using assms by (simp add: cooperative_def)
  have r: "readable E asSecret (GetCall Primary SecretKind (shardNS SH, PKISecretName SH))"
    "readable E asSecret (GetCall Primary SecretKind (shardNS SH, AdminClientSecretName SH))"
    using assms by (fastforce simp: cooperative_def secretsServed_def readable_def)+
  have g: "succeeds SH (getIfPresent E p key) (\<lambda>_. True)" if "readable E asSecret (GetCall Primary SecretKind key)" for p key
    unfolding getIfPresent_def
    by (rule succeeds_bind [OF succeeds_try_get [OF that]]) (auto intro: succeeds_return split: sum.splits)
  have "succeeds SH (writeAdminKubeconfig E ca crt key) (\<lambda>_. True)" for ca crt key
    unfolding writeAdminKubeconfig_def by (intro succeeds_shard succeeds_then succeeds_applyAll [OF w] succeeds_edits)
  then show ?thesis
    unfolding reconcileAdminKubeconfig_def
    by (intro succeeds_shard)
      (auto simp: Let_def intro!: succeeds_then [OF g] r succeeds_return split: option.splits)
qed

lemma succeeds_registration:
  assumes "cooperative E R SH"
  shows "succeeds SH (reconcileAPIServices E) (\<lambda>_. True)"
proof -
  have w: "acceptsWrites E" and o: "\<And>sh m. \<exists>m'. setControllerReference E sh m = Inr m'"
    and a: "\<And>n. readable E asAPIService (GetCall Primary APIServiceKind ([], n))"
    and sec: "\<And>h. \<exists>sec. answer E h (GetCall Primary SecretKind (shardNS SH, PKISecretName SH)) = RObj (KSecret sec)"
    using assms by (simp_all add: cooperative_def secretsServed_def)
  have "succeeds SH (applyAPIService E sh ca gv) (\<lambda>_. True)" for sh ca gv
  proof -
    obtain m where "setControllerReference E sh (as_meta (buildAPIService sh ca gv)) = Inr m" using o by blast
    then show ?thesis by (simp add: applyAPIService_def succeeds_wrap succeeds_requestU [OF w])
  qed
  moreover have "succeeds SH (deleteOrphan E desired n) (\<lambda>_. True)" for desired n
    unfolding deleteOrphan_def
    by (intro succeeds_if succeeds_return TrueI succeeds_bind [OF succeeds_try_get [OF a]])
      (auto intro!: succeeds_return succeeds_wrap succeeds_requestU [OF w] split: sum.splits)
  ultimately have agg: "succeeds SH (aggregation_Reconcile E sh ca prev) (\<lambda>_. True)" for sh ca prev
    unfolding aggregation_Reconcile_def Let_def by (intro succeeds_then succeeds_for succeeds_return TrueI)
  have "succeeds SH (getSecret E (shardNS SH, PKISecretName SH)) (\<lambda>_. True)"
    by (rule succeeds_getObj) (use sec in fastforce)
  from succeeds_try_ok [OF this] show ?thesis
    unfolding reconcileAPIServices_def
    by - (rule succeeds_shard, simp, erule succeeds_bind, auto intro!: succeeds_then [OF agg] succeeds_edits)
qed

lemma succeeds_provision:
  assumes "cooperative E R SH"
  shows "succeeds SH (provisionShard E R) (\<lambda>_. True)"
proof -
  have w: "acceptsWrites E" and o: "\<And>sh m. \<exists>m'. setControllerReference E sh m = Inr m'"
    using assms by (simp_all add: cooperative_def)
  have "succeeds SH (reconcileAuthDelegator E) (\<lambda>_. True)"
    unfolding reconcileAuthDelegator_def
  proof (rule succeeds_shard)
    fix st
    obtain m where "setControllerReference E (SH\<lparr>status := st\<rparr>) (rb_meta (authDelegator SH)) = Inr m" using o by blast
    then show "succeeds SH (bindE (wrapE ''setting owner reference on auth-delegator CRB''
        (liftE (setControllerReference E (SH\<lparr>status := st\<rparr>) (rb_meta (authDelegator (SH\<lparr>status := st\<rparr>)))))) (\<lambda>m.
        applyAll E [(''auth-delegator ClusterRoleBinding'', KClusterRoleBinding ((authDelegator (SH\<lparr>status := st\<rparr>))\<lparr>rb_meta := m\<rparr>))])) (\<lambda>_. True)"
      by (auto simp: liftE_def intro!: succeeds_then [OF succeeds_wrap [OF succeeds_return]] succeeds_applyAll [OF w])
  qed
  then show ?thesis
    unfolding provisionShard_def
    by (intro succeeds_then succeeds_storage [OF assms] succeeds_header [OF assms] succeeds_kubeconfig [OF assms]
        succeeds_metrics [OF w] succeeds_registration [OF assms])
      (auto simp: reconcileCertManager_def reconcileAuthConfig_def reconcileSecondaryServiceAccount_def reconcileAPIServerSCC_def
        reconcileSecondary_def intro!: succeeds_shard succeeds_applyAll [OF w])
qed

section \<open>The health report\<close>

lemma succeeds_checkDeploymentHealth:
  assumes "cooperative E R SH"
  shows "succeeds SH (checkDeploymentHealth E) (\<lambda>healthy. healthy)"
proof -
  have d: "succeeds SH (getObj E asDeployment Primary DeploymentKind (shardNS SH, nm)) (\<lambda>d. allReady (d_status d))"
    if "nm \<in> {KineDeploymentName SH, SecondaryDeploymentName SH}" for nm
    by (rule succeeds_getObj) (use assms that in \<open>fastforce simp: cooperative_def deploymentsReady_def\<close>)
  have pg: "succeeds SH (getObj E asStatefulSet Primary StatefulSetKind (shardNS SH, PostgreSQLStatefulSetName SH)) (\<lambda>x. allReady (ss_status x))"
    if "storageType SH = StorageTypeInClusterPostgreSQL"
    by (rule succeeds_getObj) (use assms that in \<open>fastforce simp: cooperative_def storageServed_def\<close>)
  show ?thesis
    unfolding checkDeploymentHealth_def
    by (intro succeeds_shard) (auto simp: Let_def intro!: succeeds_bind [OF d] succeeds_bind [OF pg] succeeds_return)
qed

lemma succeeds_tries:
  "k \<noteq> APIShardKind \<Longrightarrow> succeeds SH (tryE (getObj E p cl k key)) (\<lambda>_. True)"
  "succeeds SH (tryE (listObjs E p cl k ns sel)) (\<lambda>_. True)"
  "succeeds SH (tryE (GetOrCreate E nm cfg)) (\<lambda>_. True)" "succeeds SH (Invalidate nm) (\<lambda>_. True)"
  by ((rule succeeds_try [where Q = "\<lambda>_. True"], (rule frame_getObj | rule frame_listObjs | rule frame_GetOrCreate), simp?)+,
      rule succeedsI, simp add: Invalidate_def modifyE_def)

lemma succeeds_verifySecondaryAuth:
  assumes "ClientProvider R"
  shows "succeeds SH (verifySecondaryAuth E R) (\<lambda>_. True)"
proof -
  have "succeeds SH (listSecondary E sh c) (\<lambda>_. True)" for sh c
    unfolding listSecondary_def
    by (rule succeeds_then, rule succeeds_tries)
      (auto intro!: succeeds_then [OF succeeds_tries(4)] succeeds_return split: sum.splits)
  with assms show ?thesis
    unfolding verifySecondaryAuth_def
    by (intro succeeds_shard)
      (auto simp: Let_def intro!: succeeds_then [OF succeeds_tries(1)] succeeds_then [OF succeeds_tries(3)] succeeds_return split: sum.splits)
qed

lemma succeeds_reconcileSubCRs: "succeeds SH (reconcileSubCRs E) (\<lambda>_. True)"
proof -
  have p: "succeeds SH (propagateReady E ty cs) (\<lambda>_. True)" for ty cs
    by (auto simp: propagateReady_def intro: succeeds_return succeeds_edits split: option.splits)
  have "succeeds SH (aggregateSubCRStatus E) (\<lambda>_. True)"
    unfolding aggregateSubCRStatus_def
    by (intro succeeds_shard)
      (auto intro!: succeeds_then [OF succeeds_tries(1)] succeeds_then [OF p] p succeeds_return split: sum.splits)
  moreover have "keeps (stepRel (\<lambda>_. True) SH) (reconcileNamespaceSync E)" "keeps (stepRel (\<lambda>_. True) SH) (reconcileWebhookSync E)"
    unfolding reconcileNamespaceSync_def reconcileWebhookSync_def by (rule frames | simp)+
  ultimately show ?thesis unfolding reconcileSubCRs_def by (intro succeeds_then [OF succeeds_try])
qed

lemma reportHealthy_ready:
  assumes laws: "condition_laws E" and R: "ClientProvider R" and sh: "sameSh SH (shard s)"
    and ok: "\<And>rsn. \<not> conflictIs E (shard s) rsn"
  shows "\<exists>t. reportHealthy E R s = (Inr 0, t) \<and> sameSh SH (shard t)"
proof -
  let ?C = "{ConditionNamespaceSyncReady, ConditionWebhookSyncReady}"
  let ?set = "setCond E ConditionSecondaryHealthy ConditionTrue ''DeploymentAvailable'' ''Secondary API server is healthy''"
  from succeedsE [OF succeeds_edits(2) sh] obtain u s2 where "?set s = (Inr u, s2)" and s2: "sameSh SH (shard s2)" .
  then have c: "?set s = (Inr (), s2)" by simp
  have f2: "condFrame E {ConditionSecondaryHealthy} s s2" by (rule condFrame_run [OF condFrame_setCond [OF laws] c]) simp
  define s3 where "s3 = s2\<lparr>shard := (shard s2)\<lparr>status := (status (shard s2))\<lparr>secondaryEndpointStatus := SecondaryEndpoint (shard s2)\<rparr>\<rparr>\<rparr>"
  have s3: "sameSh SH (shard s3)" using s2 by (simp add: s3_def)
  obtain v s4 where v: "verifySecondaryAuth E R s3 = (Inr v, s4)" and s4: "sameSh SH (shard s4)"
    using succeedsE [OF succeeds_verifySecondaryAuth [OF R] s3] .
  let ?sub = "if v then reconcileSubCRs E else returnE ()"
  have "succeeds SH ?sub (\<lambda>_. True)" by (simp add: succeeds_reconcileSubCRs succeeds_return)
  from succeedsE [OF this s4] obtain u s5 where "?sub s4 = (Inr u, s5)" and s5: "sameSh SH (shard s5)" .
  then have sub: "?sub s4 = (Inr (), s5)" by simp
  have "keeps (condFrame E ?C) ?sub" using condFrame_reconcileSubCRs [OF laws] by (auto intro: cond.keeps_return)
  from condFrame_run [OF condFrame_verifySecondaryAuth v] condFrame_run [OF this sub]
  have f: "condFrame E ?C s3 s5" by (rule cond.R_trans)
  have "conflictIs E (shard s3) rsn = conflictIs E (shard s2) rsn" for rsn by (simp add: s3_def conflictIs_def)
  with ok conflictIs_frame [OF f] conflictIs_frame [OF f2] have "\<not> conflictIs E (shard s5) rsn" for rsn
    by (simp add: condition_names)
  then have "\<exists>t. (bindE (checkAPIServiceAvailability E) (\<lambda>requeue. if requeue > 0 then returnE requeue
       else bindE (setPhase PhaseReady) (\<lambda>_. returnE 0))) s5 = (Inr 0, t) \<and> sameSh SH (shard t)"
    using s5 by (simp add: checkAPIServiceAvailability_def bindE_def getsE_def removeCond_def setStatus_def setPhase_def modifyE_def returnE_def)
  with c v sub show ?thesis
    by (simp add: reportHealthy_def bindE_def getsE_def setStatus_def modifyE_def s3_def)
qed

lemma conflicts_none:
  assumes laws: "condition_laws E" and no: "noConflicts E SH" and sh: "sameSh SH (shard s)"
  shows "\<exists>t. reconcileCRDConflicts E R s = (Inr (), t) \<and> sameSh SH (shard t) \<and> (\<forall>rsn. \<not> conflictIs E (shard t) rsn)"
proof -
  let ?c = "ListCall Primary CRDKind None None"
  obtain cs where cs: "answer E (tr s) ?c = RObjs (map KCRD cs)"
    and out: "\<forall>c \<in> set cs. crd_group c \<notin> ag_group ` set (apiGroups (spec SH))"
    using no unfolding noConflicts_def by blast
  have "those (map asCRD (map KCRD cs)) = Some cs" by (induction cs) auto
  with cs have "listObjs E asCRD Primary CRDKind None None s = (Inr cs, logged ?c (RObjs (map KCRD cs)) s)" by (simp add: runs)
  moreover have "filter (\<lambda>c. crd_group c \<in> ag_group ` set (apiGroups (spec (shard s)))) cs = []"
    using out sh by (auto simp: filter_empty_conv sameSh_def)
  ultimately have "DetectCRDConflicts E (shard s) s =
      (Inr \<lparr>cr_hasConflict = False, cr_conflictingCRDs = [], cr_message = []\<rparr>, logged ?c (RObjs (map KCRD cs)) s)"
    by (simp add: DetectCRDConflicts_def bindE_def wrapE_def returnE_def)
  then have run: "reconcileCRDConflicts E R s =
      setCond E ConditionCRDConflictDetected ConditionFalse ''NoConflicts'' ''No conflicting CRDs detected on primary''
        (logged ?c (RObjs (map KCRD cs)) s)"
    by (simp add: reconcileCRDConflicts_def bindE_def getsE_def tryE_def)
  moreover obtain t where t: "setCond E ConditionCRDConflictDetected ConditionFalse ''NoConflicts'' ''No conflicting CRDs detected on primary''
      (logged ?c (RObjs (map KCRD cs)) s) = (Inr (), t)" by (simp add: setCond_def modifyE_def)
  moreover have "sameSh SH (shard t)" using t sh by (auto simp: setCond_def modifyE_def)
  moreover have "\<not> conflictIs E (shard t) rsn" for rsn
    using setCond_condIs(1) [OF laws t] by (auto simp: condIs_def conflictIs_def condition_names)
  ultimately show ?thesis by simp
qed

lemma report_last:
  assumes "acceptsWrites E"
  shows "\<exists>t x h. bindE (cleanupOrphans E) (\<lambda>_. bindE (reportReconciled E) (\<lambda>_. returnE n)) s = (Inr n, t) \<and>
     tr t = h @ [(CleanupCall ownerLabelKey (shardName (shard s)) managedGVKs, ROk), (StatusUpdateCall (KAPIShard x), ROk)] \<and>
     phase (status x) = phase (status (shard s)) \<and> sh_meta x = sh_meta (shard s) \<and> spec x = spec (shard s)"
  using assms
  by (simp add: acceptsWrites_def cleanupOrphans_def reportReconciled_def updateShardStatus_def writeShard_def bindE_def getsE_def
      tryE_def requestU_def request_def setStatus_def setCond_def modifyE_def returnE_def storeAnswer_def)

lemma completeShard_ready:
  assumes laws: "condition_laws E" and c: "cooperative E R SH" and sh: "sameSh SH (shard s)"
  shows "\<exists>t x h. completeShard E R s = (Inr 0, t) \<and>
    tr t = h @ [(CleanupCall ownerLabelKey (shardName SH) managedGVKs, ROk), (StatusUpdateCall (KAPIShard x), ROk)] \<and>
    sameSh SH x \<and> phase (status x) = PhaseReady"
proof -
  have w: "acceptsWrites E" "ClientProvider R" "noConflicts E SH" using c by (simp_all add: cooperative_def)
  from conflicts_none [OF laws w(3) sh] obtain s1
    where c1: "reconcileCRDConflicts E R s = (Inr (), s1)" "sameSh SH (shard s1)" and no: "\<And>rsn. \<not> conflictIs E (shard s1) rsn" by blast
  from succeedsE [OF succeeds_checkDeploymentHealth [OF c] c1(2)] obtain healthy s2
    where h: "checkDeploymentHealth E s1 = (Inr healthy, s2)" "sameSh SH (shard s2)" "healthy" .
  have "\<not> conflictIs E (shard s2) rsn" for rsn
    using no conflictIs_frame [OF condFrame_run [OF condFrame_checkDeploymentHealth [of E "{}"] h(1)]] by simp
  from reportHealthy_ready [OF laws w(2) h(2) this] obtain s3
    where "reportHealthy E R s2 = (Inr 0, s3)" and s3: "sameSh SH (shard s3)" by blast
  with h have u: "updateHealthStatus E R s1 = (Inr 0, s3)" by (simp add: updateHealthStatus_def bindE_def)
  from updateHealthStatus_run [OF laws u] have "phase (status (shard s3)) = PhaseReady" by (simp add: healthReport_def)
  moreover obtain t x h where "bindE (cleanupOrphans E) (\<lambda>_. bindE (reportReconciled E) (\<lambda>_. returnE (0 :: nat))) s3 = (Inr 0, t)"
    "tr t = h @ [(CleanupCall ownerLabelKey (shardName (shard s3)) managedGVKs, ROk), (StatusUpdateCall (KAPIShard x), ROk)]" "phase (status x) = phase (status (shard s3))"
    "sh_meta x = sh_meta (shard s3)" "spec x = spec (shard s3)" using report_last [OF w(1), of 0 s3] by blast
  moreover from c1(1) u have "completeShard E R s = bindE (cleanupOrphans E) (\<lambda>_. bindE (reportReconciled E) (\<lambda>_. returnE 0)) s3"
    by (simp add: completeShard_def bindE_def)
  ultimately show ?thesis using s3 by (intro exI [of _ t] exI [of _ x] exI [of _ h]) (simp add: sameSh_def)
qed

text \<open>The shard after the finalizer was ensured.\<close>

definition withFinalizer :: "apiShard \<Rightarrow> apiShard" where
  "withFinalizer SH = (if containsFinalizer SH then SH else addFinalizer SH)"

lemma withFinalizer_name [simp]: "shardName (withFinalizer SH) = shardName SH"
  by (simp add: withFinalizer_def addFinalizer_def)

lemma ensureFinalizer_ok:
  assumes "acceptsWrites E"
  shows "\<exists>t. ensureFinalizer E s = (Inr (), t) \<and> shard t = withFinalizer (shard s)"
  using assms
  by (simp add: ensureFinalizer_def withFinalizer_def acceptsWrites_def writeShard_def bindE_def getsE_def modifyE_def
      request_def returnE_def storeAnswer_def)

lemma reconcileShard_ready:
  assumes laws: "condition_laws E" and c: "cooperative E R (withFinalizer (shard s))"
  shows "\<exists>t x h. reconcileShard E R s = (Inr 0, t) \<and>
    tr t = h @ [(CleanupCall ownerLabelKey (shardName (shard s)) managedGVKs, ROk), (StatusUpdateCall (KAPIShard x), ROk)] \<and>
    sameSh (withFinalizer (shard s)) x \<and> phase (status x) = PhaseReady"
proof -
  let ?SH = "withFinalizer (shard s)"
  have w: "acceptsWrites E" using c by (simp add: cooperative_def)
  from ensureFinalizer_ok [OF w, of s] obtain s1 where s1: "ensureFinalizer E s = (Inr (), s1)" "shard s1 = ?SH" by blast
  have orE: "succeeds ?SH (orError E m) (\<lambda>_. True)" if "succeeds ?SH m (\<lambda>_. True)" for m :: "(shardst, unit) op"
    unfolding orError_def by (rule succeeds_bind [OF succeeds_try_ok [OF that]]) (auto intro: succeeds_return)
  have "succeeds ?SH (bindE (orError E (ensureNamespace E)) (\<lambda>_. bindE (initPhase E) (\<lambda>_. orError E (provisionShard E R)))) (\<lambda>_. True)"
    unfolding ensureNamespace_def initPhase_def setPhase_def
    by (intro succeeds_then orE succeeds_shard succeeds_if succeeds_requestU [OF w] succeeds_edits succeeds_return
        succeeds_updateShardStatus [OF w] succeeds_provision [OF c]) simp_all
  moreover have "sameSh ?SH (shard s1)" using s1(2) by simp
  ultimately obtain u s2 where "bindE (orError E (ensureNamespace E)) (\<lambda>_. bindE (initPhase E) (\<lambda>_. orError E (provisionShard E R))) s1 = (Inr u, s2)"
    and s2: "sameSh ?SH (shard s2)" by (rule succeedsE)
  with s1 have "reconcileShard E R s = completeShard E R s2" by (auto simp: reconcileShard_def bindE_def split: sum.splits prod.splits)
  with completeShard_ready [OF laws c s2] show ?thesis by simp
qed

lemma apiShard_Reconcile_ready:
  assumes laws: "condition_laws E" and get: "answer E (tr s) (GetCall Primary APIShardKind req) = RObj (KAPIShard SH)"
    and live: "om_deletionTimestamp (sh_meta SH) = None" and c: "cooperative E R (withFinalizer SH)"
  shows "\<exists>t x h. apiShard_Reconcile E R req s = (Inr 0, t) \<and>
    tr t = h @ [(CleanupCall ownerLabelKey (shardName SH) managedGVKs, ROk), (StatusUpdateCall (KAPIShard x), ROk)] \<and>
    sameSh (withFinalizer SH) x \<and> phase (status x) = PhaseReady"
proof -
  let ?s = "(logged (GetCall Primary APIShardKind req) (RObj (KAPIShard SH)) s)\<lparr>shard := SH\<rparr>"
  have "getObj E asAPIShard Primary APIShardKind req s = (Inr SH, logged (GetCall Primary APIShardKind req) (RObj (KAPIShard SH)) s)"
    using get by (simp add: runs)
  with live have "apiShard_Reconcile E R req s = reconcileShard E R ?s"
    by (simp add: apiShard_Reconcile_def bindE_def tryE_def modifyE_def)
  with reconcileShard_ready [OF laws, of R ?s] c show ?thesis by simp
qed

end
