(* ===== verification/ShardProperties.thy ===== *)
theory ShardProperties
  imports ShardProgress
begin

text \<open>
  The properties of \<open>Reconcile\<close> of the \<open>APIShard\<close> controller, with their applications to concrete
  servers. \<open>run E R req s\<close> is the list of calls, with their answers, that a reconcile makes.
\<close>

abbreviation run :: "env \<Rightarrow> reconciler \<Rightarrow> nsname \<Rightarrow> shardst \<Rightarrow> event list" where
  "run E R req s \<equiv> newEvents s (snd (apiShard_Reconcile E R req s))"

fun writesShard :: "call \<Rightarrow> bool" where
  "writesShard (MergePatchCall b y) = True"
| "writesShard (StatusUpdateCall y) = True"
| "writesShard (UpdateCall cl y) = True"
| "writesShard c = False"

lemma run_event:
  assumes "run E R req s = es @ e # fs"
  shows "reconcileGuard E R (length (tr s)) (tr s @ es) e"
  by (rule wp_event [OF wp_apiShard_Reconcile assms]) simp

section \<open>A server on which the shard becomes ready\<close>

definition liveShard :: apiShard where
  "liveShard = sampleShard\<lparr>sh_meta := (sh_meta sampleShard)\<lparr>om_finalizers := [finalizerName]\<rparr>\<rparr>"

definition readyReplicas :: replicaStatus where
  "readyReplicas = emptyStatus\<lparr>rs_replicas := 1, rs_readyReplicas := 1\<rparr>"

definition certSample :: secret where
  "certSample = \<lparr>sec_meta = emptyMeta, sec_type = [],
     sec_data = [(''ca.crt'', ''C''), (''tls.crt'', ''T''), (''tls.key'', ''K'')], sec_stringData = []\<rparr>"

fun readyServer :: "history \<Rightarrow> call \<Rightarrow> resp" where
  "readyServer h (GetCall cl k key) =
     (case k of
        APIShardKind \<Rightarrow> RObj (KAPIShard liveShard)
      | SecretKind \<Rightarrow> RObj (KSecret certSample)
      | ConfigMapKind \<Rightarrow> RObj (KConfigMap \<lparr>cm_meta = emptyMeta, cm_data = [(''requestheader-client-ca-file'', ''F'')]\<rparr>)
      | DeploymentKind \<Rightarrow> RObj (KDeployment ((BuildKineDeployment liveShard)\<lparr>d_status := readyReplicas\<rparr>))
      | _ \<Rightarrow> RErr notFoundError)"
| "readyServer h (ListCall cl k ns sel) = RObjs []"
| "readyServer h c = ROk"

definition plainOperator :: reconciler where
  "plainOperator = \<lparr>ClientProvider = True, ServiceMonitorAvailable = True, SCCAvailable = False, PrimaryIssuer = ''issuer''\<rparr>"

definition freshState :: shardst where
  "freshState = \<lparr>tr = [], clients = [], shard = sampleShard\<rparr>"

lemma readyServer_cooperative: "cooperative (refEnv readyServer) plainOperator liveShard"
proof -
  have "acceptsWrites (refEnv readyServer)"
    unfolding acceptsWrites_def
  proof (intro allI impI)
    show "answer (refEnv readyServer) h c = ROk" if "isWrite c" for h c using that by (cases c) auto
  qed
  moreover have "storageServed (refEnv readyServer) liveShard"
    by (simp add: storageServed_def liveShard_def sampleShard_def sampleSpec_def storage_names)
  moreover have "frontProxyServed (refEnv readyServer)"
    by (auto simp: frontProxyServed_def allowedNames_def mapGet_def)
  ultimately show ?thesis
    by (auto simp: cooperative_def readable_def deploymentsReady_def secretsServed_def noConflicts_def plainOperator_def
        readyReplicas_def allReady_def emptyStatus_def notFoundError_def IsNotFound_def)
qed

lemma readyServer_run:
  obtains h x where "run (refEnv readyServer) plainOperator ([], ''a'') freshState =
      h @ [(CleanupCall ownerLabelKey ''a'' managedGVKs, ROk), (StatusUpdateCall (KAPIShard x), ROk)]"
    and "phase (status x) = PhaseReady"
proof -
  have w: "withFinalizer liveShard = liveShard" by (simp add: withFinalizer_def containsFinalizer_def liveShard_def)
  have n: "shardName liveShard = ''a''" by (simp add: liveShard_def sampleShard_def)
  have "om_deletionTimestamp (sh_meta liveShard) = None" by (simp add: liveShard_def sampleShard_def emptyMeta_def)
  from apiShard_Reconcile_ready [OF refEnv_condition_laws [of readyServer], of freshState "([], ''a'')" liveShard, OF _ this]
    readyServer_cooperative w n
  obtain t x h where "apiShard_Reconcile (refEnv readyServer) plainOperator ([], ''a'') freshState = (Inr 0, t)"
    and "tr t = h @ [(CleanupCall ownerLabelKey ''a'' managedGVKs, ROk), (StatusUpdateCall (KAPIShard x), ROk)]"
    and "phase (status x) = PhaseReady" by fastforce
  then show ?thesis by (intro that [of h x]) (simp_all add: newEvents_def freshState_def)
qed

abbreviation readyRun :: "event list" where
  "readyRun \<equiv> run (refEnv readyServer) plainOperator ([], ''a'') freshState"

section \<open>Properties\<close>

text \<open>
  C6: whatever the API server answers, a reconcile changes nothing in the cluster but the shard
  itself (no apply, create, update or delete of any other object, on either cluster) before the
  finalizer is on the shard: it was read with it, or the patch that adds it was accepted.
\<close>

theorem shard_finalizer_first:
  assumes "run E R req s = es @ (c, r) # fs" and "isWrite c" and "\<not> writesShard c"
  shows "finalizerSet es"
  using run_event [OF assms(1)] assms(2,3) by (cases c) auto

theorem shard_finalizer_first_witness:
  "\<exists>es fs. readyRun = es @ (CleanupCall ownerLabelKey ''a'' managedGVKs, ROk) # fs \<and> finalizerSet es"
proof -
  obtain h x where "readyRun =
      h @ (CleanupCall ownerLabelKey ''a'' managedGVKs, ROk) # [(StatusUpdateCall (KAPIShard x), ROk)]"
    by (rule readyServer_run) simp
  with shard_finalizer_first [OF this] show ?thesis by auto
qed

text \<open>
  C1: the finalizer is taken off only from a shard that is being deleted, and only after every
  APIService recorded in its status was read as absent, or deleted, or found absent by the delete;
  the update changes nothing else of the shard.
\<close>

theorem shard_finalizer_removed_last:
  assumes "run E R req s = es @ (UpdateCall cl y, r) # fs"
  shows "\<exists>SH. latestShard es = Some SH \<and> om_deletionTimestamp (sh_meta SH) \<noteq> None \<and>
    cl = Primary \<and> y = KAPIShard (removeFinalizer SH) \<and> (\<forall>n \<in> set (registeredAPIServices (status SH)). deregistered n es)"
  using run_event [OF assms] by simp

definition dyingShard :: apiShard where
  "dyingShard = liveShard\<lparr>sh_meta := (sh_meta liveShard)\<lparr>om_deletionTimestamp := Some 1\<rparr>,
     status := sampleStatus\<lparr>registeredAPIServices := [''v1.tekton.dev'']\<rparr>\<rparr>"

fun dyingServer :: "history \<Rightarrow> call \<Rightarrow> resp" where
  "dyingServer h (GetCall cl k key) =
     (case k of APIShardKind \<Rightarrow> RObj (KAPIShard dyingShard)
      | APIServiceKind \<Rightarrow> RObj (KAPIService (buildAPIService dyingShard [] (''tekton.dev'', ''v1'')))
      | _ \<Rightarrow> RErr notFoundError)"
| "dyingServer h c = ROk"

theorem shard_finalizer_removed_last_witness:
  "deregistered ''v1.tekton.dev''
     [(GetCall Primary APIShardKind ([], ''a''), RObj (KAPIShard dyingShard)),
      (GetCall Primary APIServiceKind ([], ''v1.tekton.dev''), RObj (KAPIService (buildAPIService dyingShard [] (''tekton.dev'', ''v1'')))),
      (DeleteCall Primary (KAPIService (buildAPIService dyingShard [] (''tekton.dev'', ''v1''))), ROk)]" (is "deregistered _ ?es")
proof -
  have "om_deletionTimestamp (sh_meta dyingShard) \<noteq> None" "containsFinalizer dyingShard"
    "registeredAPIServices (status dyingShard) = [''v1.tekton.dev'']"
    by (simp_all add: dyingShard_def liveShard_def containsFinalizer_def)
  then have "run (refEnv dyingServer) plainOperator ([], ''a'') freshState =
      ?es @ (UpdateCall Primary (KAPIShard (removeFinalizer dyingShard)), ROk) # []"
    by (simp add: newEvents_def freshState_def apiShard_Reconcile_def finalizeShard_def deregister_def writeShard_def bindE_def
        tryE_def getObj_def request_def requestU_def asOne_def returnE_def modifyE_def getsE_def storeAnswer_def Let_def)
  from shard_finalizer_removed_last [OF this] show ?thesis by (auto simp: latestShard_def dyingShard_def)
qed











end
