(* ===== verification/Wiring.thy ===== *)
theory Wiring
  imports ShardProperties
begin

text \<open>
  The objects of a shard fit together. The builders of \<open>operator/internal/resources\<close> and
  \<open>operator/internal/certs\<close> name Secrets, ConfigMaps and endpoints independently of each other; here
  the names are matched up across them: what a pod mounts or reads is what a provisioning has
  applied, had issued or has read, and the names under which the servers are addressed are in
  their certificates.
\<close>

section \<open>What a pod refers to\<close>

definition volumeSecret :: "volume \<Rightarrow> string list" where
  "volumeSecret v = (case vol_source v of SecretVolume n ks \<Rightarrow> [n] | _ \<Rightarrow> [])"

definition volumeConfigMap :: "volume \<Rightarrow> string list" where
  "volumeConfigMap v = (case vol_source v of ConfigMapVolume n opt \<Rightarrow> [n] | _ \<Rightarrow> [])"

definition envSecret :: "envVar \<Rightarrow> string list" where
  "envSecret e = (case ev_secretKeyRef e of Some s \<Rightarrow> [sks_name s] | None \<Rightarrow> [])"

definition podSecrets :: "podSpec \<Rightarrow> string list" where
  "podSecrets p = concat (map volumeSecret (ps_volumes p)) @
     concat (map (\<lambda>c. concat (map envSecret (ct_env c)) @ ct_envFrom c) (ps_containers p))"

definition podConfigMaps :: "podSpec \<Rightarrow> string list" where
  "podConfigMaps p = concat (map volumeConfigMap (ps_volumes p))"

text \<open>
  What has provided a Secret: it was applied, a Certificate that names it was applied, or it was
  there and was read.
\<close>

definition secretProvided :: "apiShard \<Rightarrow> event list \<Rightarrow> string \<Rightarrow> bool" where
  "secretProvided SH es n =
     ((\<exists>x. applied (KSecret x) es \<and> keyOf (KSecret x) = (shardNS SH, n)) \<or>
      (\<exists>u. applied (KUnstructured u) es \<and> isKind ''Certificate'' u \<and> om_namespace (un_meta u) = shardNS SH \<and> certSecret u = Some n) \<or>
      (\<exists>x. (GetCall Primary SecretKind (shardNS SH, n), RObj (KSecret x)) \<in> set es))"

definition configMapProvided :: "apiShard \<Rightarrow> event list \<Rightarrow> string \<Rightarrow> bool" where
  "configMapProvided SH es n = (\<exists>x. applied (KConfigMap x) es \<and> keyOf (KConfigMap x) = (shardNS SH, n))"

definition podServed :: "apiShard \<Rightarrow> event list \<Rightarrow> string list \<Rightarrow> podSpec \<Rightarrow> bool" where
  "podServed SH es claims p =
     (podWired claims p \<and> list_all (secretProvided SH es) (podSecrets p) \<and> list_all (configMapProvided SH es) (podConfigMaps p) \<and>
      (ps_serviceAccountName p = [] \<or>
        (\<exists>m. applied (KServiceAccount m) es \<and> om_name m = ps_serviceAccountName p \<and> om_namespace m = shardNS SH)))"

lemmas pod_refs = podSecrets_def podConfigMaps_def volumeSecret_def volumeConfigMap_def envSecret_def

lemma kine_refs:
  "set (podSecrets (d_podSpec (kineDeployment R sh))) \<subseteq> {KineServingSecretName sh} \<union>
     (if storageType sh = StorageTypeInClusterPostgreSQL then {PostgreSQLCASecretName sh, PostgreSQLSecretName sh} else {}) \<union>
     (if storageType sh = StorageTypePostgreSQL then skr_name ` set_option (st_connectionSecretRef (storage (spec sh))) else {})"
  "podConfigMaps (d_podSpec (kineDeployment R sh)) = []"
  by (auto simp: pod_refs kineDeployment_def BuildKineDeployment_def kineContainer_def kineVolumes_def kineEnv_def kineEnvFrom_def
      emptyPodSpec_def cert_names setPodSecurity_def Let_def storage_names split: if_splits option.splits)

lemma secondary_refs:
  "set (podSecrets (d_podSpec (BuildSecondaryDeployment sh ns is))) = {PKISecretName sh, EtcdClientSecretName sh}"
  "set (podConfigMaps (d_podSpec (BuildSecondaryDeployment sh ns is))) = {shardName sh @ ''-authz-config'', shardName sh @ ''-requestheader-ca''}"
  by (auto simp: pod_refs BuildSecondaryDeployment_def secondaryContainer_def secondaryVolumes_def cert_names)

lemma postgres_refs:
  "set (podSecrets (ss_podSpec (postgresStatefulSet R sh))) = {PostgreSQLServingSecretName sh, PostgreSQLSecretName sh}"
  "set (podConfigMaps (ss_podSpec (postgresStatefulSet R sh))) = {PostgreSQLInitConfigMapName sh}"
  by (auto simp: pod_refs postgresStatefulSet_def BuildPostgreSQLStatefulSet_def postgresContainer_def postgresVolumes_def emptyPodSpec_def
      cert_names setPodSecurity_def Let_def split: option.splits)

lemma issued:
  "\<exists>u \<in> set (buildCertResources sh). isKind ''Certificate'' u \<and> om_namespace (un_meta u) = shardNS sh \<and> certSecret u = Some n"
  if "n \<in> {PKISecretName sh, EtcdClientSecretName sh, KineServingSecretName sh} \<or>
    storageType sh = StorageTypeInClusterPostgreSQL \<and> n \<in> {PostgreSQLCASecretName sh, PostgreSQLServingSecretName sh}"
proof -
  have "list_ex (\<lambda>u. isKind ''Certificate'' u \<and> om_namespace (un_meta u) = shardNS sh \<and> certSecret u = Some n) (buildCertResources sh)"
    using that by (auto simp: buildCertResources_def cert_builders cert_readers cert_names serviceDNSNames_def)
  then show ?thesis by (simp add: list_ex_iff)
qed

lemma issued_provided:
  assumes "certPost SH u es" and "n \<in> {PKISecretName SH, EtcdClientSecretName SH, KineServingSecretName SH} \<or>
    storageType SH = StorageTypeInClusterPostgreSQL \<and> n \<in> {PostgreSQLCASecretName SH, PostgreSQLServingSecretName SH}"
  shows "secretProvided SH es n"
  using issued [OF assms(2)] assms(1) unfolding secretProvided_def certPost_def by blast

lemma kine_wired: "podWired [] (d_podSpec (kineDeployment R sh))"
  using kine_pod_wired [of sh] by (simp add: kineDeployment_def podWired_def setPodSecurity_def Let_def)

lemma postgres_wired: "podWired (map pvc_name (postgresClaims sh)) (ss_podSpec (postgresStatefulSet R sh))"
  using postgres_pod_wired [of sh] by (simp add: postgresStatefulSet_def podWired_def setPodSecurity_def Let_def)

lemma pod_accounts:
  "ps_serviceAccountName (d_podSpec (kineDeployment R sh)) = []" "ps_serviceAccountName (ss_podSpec (postgresStatefulSet R sh)) = []"
  "ps_serviceAccountName (d_podSpec (BuildSecondaryDeployment sh ns is)) = om_name (BuildSecondaryServiceAccount sh)"
  "om_namespace (BuildSecondaryServiceAccount sh) = shardNS sh"
  by (simp_all add: kineDeployment_def BuildKineDeployment_def postgresStatefulSet_def BuildPostgreSQLStatefulSet_def BuildSecondaryDeployment_def
      BuildSecondaryServiceAccount_def emptyPodSpec_def setPodSecurity_def Let_def)

lemma kine_served:
  assumes "storagePost R SH u es" and "certPost SH v es"
  shows "podServed SH es [] (d_podSpec (kineDeployment R SH))"
proof -
  have "secretProvided SH es n" if mem: "n \<in> set (podSecrets (d_podSpec (kineDeployment R SH)))" for n
  proof -
    consider "n = KineServingSecretName SH" | "storageType SH = StorageTypeInClusterPostgreSQL" "n = PostgreSQLCASecretName SH"
      | "storageType SH = StorageTypeInClusterPostgreSQL" "n = PostgreSQLSecretName SH"
      | ref where "storageType SH = StorageTypePostgreSQL" "st_connectionSecretRef (storage (spec SH)) = Some ref" "n = skr_name ref"
      using subsetD [OF kine_refs(1) mem] by (auto split: if_splits)
    then show ?thesis
    proof cases
      case 3
      with assms(1) obtain pw where "applied (KSecret (BuildPostgreSQLSecret SH pw)) es" by (auto simp: storagePost_def inClusterPost_def)
      moreover have "keyOf (KSecret (BuildPostgreSQLSecret SH pw)) = (shardNS SH, n)" using 3(2) by (simp add: keyOf_def BuildPostgreSQLSecret_def)
      ultimately show ?thesis unfolding secretProvided_def by blast
    next
      case (4 ref)
      with assms(1) show ?thesis by (auto simp: storagePost_def externalPost_def secretProvided_def)
    qed (simp_all add: issued_provided [OF assms(2)])
  qed
  then show ?thesis by (simp add: podServed_def kine_wired kine_refs(2) pod_accounts list_all_iff)
qed

lemma secondary_served:
  assumes "certPost SH v es" and "identityPost R SH es" and "headerPost E SH ns es"
  shows "podServed SH es [] (d_podSpec (BuildSecondaryDeployment SH ns is))"
proof -
  have "configMapProvided SH es (shardName SH @ ''-authz-config'')"
    using assms(2) unfolding configMapProvided_def identityPost_def by (auto simp: keyOf_def authConfigMap_def)
  moreover have "configMapProvided SH es (shardName SH @ ''-requestheader-ca'')"
    using assms(3) unfolding configMapProvided_def headerPost_def by (auto simp: keyOf_def requestHeaderCM_def)
  moreover have "applied (KServiceAccount (BuildSecondaryServiceAccount SH)) es" using assms(2) by (simp add: identityPost_def)
  ultimately show ?thesis
    using pod_accounts(4) [of SH] secondary_refs [of SH ns "is"]
    by (auto simp: podServed_def secondary_pod_wired pod_accounts(3) list_all_iff issued_provided [OF assms(1)])
qed

lemma postgres_served:
  assumes "storageType SH = StorageTypeInClusterPostgreSQL" and "storagePost R SH u es" and "certPost SH v es"
  shows "podServed SH es (map pvc_name (postgresClaims SH)) (ss_podSpec (postgresStatefulSet R SH))"
proof -
  from assms(1,2) obtain pw where "applied (KSecret (BuildPostgreSQLSecret SH pw)) es" and cm: "applied (KConfigMap (BuildPostgreSQLInitConfigMap SH)) es"
    by (auto simp: storagePost_def inClusterPost_def)
  moreover have "keyOf (KSecret (BuildPostgreSQLSecret SH pw)) = (shardNS SH, PostgreSQLSecretName SH)" by (simp add: keyOf_def BuildPostgreSQLSecret_def)
  ultimately have "secretProvided SH es (PostgreSQLSecretName SH)" unfolding secretProvided_def by blast
  moreover have "secretProvided SH es (PostgreSQLServingSecretName SH)" using assms(1) by (simp add: issued_provided [OF assms(3)])
  moreover have "keyOf (KConfigMap (BuildPostgreSQLInitConfigMap SH)) = (shardNS SH, PostgreSQLInitConfigMapName SH)"
    by (simp add: keyOf_def BuildPostgreSQLInitConfigMap_def)
  then have "configMapProvided SH es (PostgreSQLInitConfigMapName SH)" using cm unfolding configMapProvided_def by blast
  ultimately show ?thesis by (simp add: podServed_def postgres_wired postgres_refs list_all_iff pod_accounts(2))
qed

text \<open>The names under which the servers are addressed.\<close>

definition addressed :: "string \<Rightarrow> unstructured \<Rightarrow> string \<Rightarrow> bool" where
  "addressed url cert rest = (\<exists>host \<in> set (certDNS cert). url = ''https://'' @ host @ rest)"

lemma servers_addressed:
  "addressed (SecondaryEndpoint sh) (BuildServingCertificate sh) []"
  "addressed (etcdServers sh) (BuildKineServingCertificate sh) ('':'' @ itoa KinePort)"
  by (simp_all add: addressed_def SecondaryEndpoint_def etcdServers_def BuildServingCertificate_def BuildKineServingCertificate_def serviceDNSNames_def
      SecondaryServiceName_def KineServiceName_def)

section \<open>Properties\<close>



text \<open>
  Names are unique within a shard and not across shards of one namespace: the CA issuer and the CA
  Secret of a shard called \<open>a-kine\<close> have the names of the storage CA of the shard \<open>a\<close>.
\<close>

lemma shard_names_collide:
  "shardName sh' = shardName sh @ ''-kine'' \<Longrightarrow>
   IssuerName sh' = KineCAIssuerName sh \<and> shardName sh' @ ''-ca-keypair'' = KineCASecretName sh"
  by (simp add: cert_names)

end
