(* ===== verification/WebhookSync.thy ===== *)
theory WebhookSync
  imports Mirror
begin

text \<open>
  \<open>operator/internal/controller/webhooksync\<close>: the controller that copies the admission webhook
  configurations of the primary that concern the served API groups to the secondary
  (\<open>reconciler.go\<close>), and the event handlers that requeue it (\<open>handler.go\<close>). The validating
  and the mutating half of the code are the same text over two types; they are one definition over
  \<open>whKind\<close> here.
\<close>

section \<open>Selection and transformation\<close>

datatype whKind = Validating | Mutating

fun whObj :: "whKind \<Rightarrow> webhookConfiguration \<Rightarrow> kobj" where
  "whObj Validating x = KVWHC x"
| "whObj Mutating x = KMWHC x"

fun whKindOf :: "whKind \<Rightarrow> kind" where
  "whKindOf Validating = VWHCKind"
| "whKindOf Mutating = MWHCKind"

fun asWH :: "whKind \<Rightarrow> kobj \<Rightarrow> webhookConfiguration option" where
  "asWH Validating y = asVWHC y"
| "asWH Mutating y = asMWHC y"

fun whTypeName :: "whKind \<Rightarrow> string" where
  "whTypeName Validating = ''ValidatingWebhookConfiguration''"
| "whTypeName Mutating = ''MutatingWebhookConfiguration''"

abbreviation whcName :: "webhookConfiguration \<Rightarrow> string" where
  "whcName x \<equiv> om_name (whc_meta x)"

definition shouldSyncWebhook :: "webhook list \<Rightarrow> string list \<Rightarrow> bool" where
  "shouldSyncWebhook webhooks targetGroups =
     list_ex (\<lambda>w. list_ex (\<lambda>rule. list_ex (\<lambda>g. g \<in> set targetGroups \<or> g = ''*'') (whr_apiGroups rule)) (wh_rules w)) webhooks"

definition servicePort :: "int option \<Rightarrow> int" where
  "servicePort port = (case port of None \<Rightarrow> 443 | Some p \<Rightarrow> p)"

definition servicePath :: "string option \<Rightarrow> string" where
  "servicePath path = (case path of None \<Rightarrow> [] | Some p \<Rightarrow> p)"

definition serviceURL :: "serviceReference \<Rightarrow> string" where
  "serviceURL ref = ''https://'' @ sr_name ref @ ''.'' @ sr_namespace ref @ ''.svc:'' @
     itoa (servicePort (sr_port ref)) @ servicePath (sr_path ref)"

definition transformClientConfig :: "clientConfig \<Rightarrow> clientConfig" where
  "transformClientConfig cc =
     (case cc_service cc of None \<Rightarrow> cc
      | Some ref \<Rightarrow> cc\<lparr>cc_url := Some (serviceURL ref), cc_service := None\<rparr>)"

definition transformWebhook :: "webhookConfiguration \<Rightarrow> webhookConfiguration" where
  "transformWebhook src =
     src\<lparr>whc_meta := (whc_meta src)\<lparr>om_resourceVersion := [], om_uid := [], om_ownerReferences := [],
           om_managedFields := [], om_generation := 0, om_finalizers := []\<rparr>,
         whc_webhooks := map (\<lambda>w. w\<lparr>wh_clientConfig := transformClientConfig (wh_clientConfig w)\<rparr>) (whc_webhooks src)\<rparr>"

section \<open>Reconcile\<close>

definition updatedWebhook :: "webhookConfiguration \<Rightarrow> webhookConfiguration \<Rightarrow> webhookConfiguration" where
  "updatedWebhook existing transformed =
     existing\<lparr>whc_webhooks := whc_webhooks transformed,
       whc_meta := (whc_meta existing)\<lparr>om_labels := om_labels (whc_meta transformed),
         om_annotations := om_annotations (whc_meta transformed)\<rparr>\<rparr>"

definition upsertWebhook :: "env \<Rightarrow> restConfig \<Rightarrow> whKind \<Rightarrow> webhookConfiguration \<Rightarrow> ('z base_scheme, unit) op" where
  "upsertWebhook E c kd transformed =
     bindE (tryE (getObj E (asWH kd) (Secondary c) (whKindOf kd) ('''', whcName transformed))) (\<lambda>got.
       case got of
         Inl e \<Rightarrow> if IsNotFound e then requestU E (CreateCall (Secondary c) (whObj kd transformed)) else throwE e
       | Inr existing \<Rightarrow> requestU E (UpdateCall (Secondary c) (whObj kd (updatedWebhook existing transformed))))"

text \<open>The outcome of an item that is to be synced: the recorded error, or the synced name.\<close>

definition syncWebhook :: "env \<Rightarrow> restConfig \<Rightarrow> whKind \<Rightarrow> string list \<Rightarrow> webhookConfiguration \<Rightarrow>
    ('z base_scheme, (goerror + string) list) op" where
  "syncWebhook E c kd targetGroups src =
     (if \<not> shouldSyncWebhook (whc_webhooks src) targetGroups then returnE []
      else bindE (tryE (upsertWebhook E c kd (transformWebhook src))) (\<lambda>r.
        case r of Inl e \<Rightarrow> returnE [Inl (wrap (''syncing '' @ whTypeName kd @ '' '' @ whcName src) e)]
        | Inr _ \<Rightarrow> returnE [Inr (whcName src)]))"

fun syncedNames :: "(goerror + string) list \<Rightarrow> string list" where
  "syncedNames [] = []"
| "syncedNames (Inl e # rs) = syncedNames rs"
| "syncedNames (Inr n # rs) = n # syncedNames rs"

fun syncErrors :: "(goerror + string) list \<Rightarrow> goerror list" where
  "syncErrors [] = []"
| "syncErrors (Inl e # rs) = e # syncErrors rs"
| "syncErrors (Inr n # rs) = syncErrors rs"

definition deleteStaleItem :: "env \<Rightarrow> restConfig \<Rightarrow> whKind \<Rightarrow> string list \<Rightarrow> webhookConfiguration \<Rightarrow> ('z base_scheme, unit) op" where
  "deleteStaleItem E c kd currentNames item =
     (if whcName item \<in> set currentNames then returnE ()
      else bindE (tryE (requestU E (DeleteCall (Secondary c) (whObj kd item)))) (\<lambda>r.
        case r of Inl e \<Rightarrow>
            if \<not> IsNotFound e then throwE (wrap (''deleting stale '' @ whTypeName kd @ '' '' @ whcName item) e) else returnE ()
        | Inr _ \<Rightarrow> returnE ()))"

definition deleteStale :: "env \<Rightarrow> restConfig \<Rightarrow> whKind \<Rightarrow> string list \<Rightarrow> ('z base_scheme, unit) op" where
  "deleteStale E c kd currentNames =
     bindE (wrapE (''listing '' @ whTypeName kd @ ''s on secondary'')
       (listObjs E (asWH kd) (Secondary c) (whKindOf kd) None None)) (\<lambda>items.
     forE items (deleteStaleItem E c kd currentNames))"

definition syncKind :: "env \<Rightarrow> restConfig \<Rightarrow> whKind \<Rightarrow> string list \<Rightarrow> ('z base_scheme, (goerror + string) list) op" where
  "syncKind E c kd targetGroups =
     bindE (wrapE (''listing '' @ whTypeName kd @ ''s'') (listObjs E (asWH kd) Primary (whKindOf kd) None None)) (\<lambda>items.
     collectE items (syncWebhook E c kd targetGroups))"

text \<open>The error of a clean-up is recorded as it is.\<close>

definition recordPlain :: "('s, unit) op \<Rightarrow> ('s, goerror list) op" where
  [op_defs]: "recordPlain m = bindE (tryE m) (\<lambda>r. case r of Inl e \<Rightarrow> returnE [e] | Inr _ \<Rightarrow> returnE [])"

definition whSetReady :: "env \<Rightarrow> history \<Rightarrow> string \<Rightarrow> string \<Rightarrow> string \<Rightarrow> webhookSync \<Rightarrow> webhookSync" where
  "whSetReady E h st rsn msg whSync =
     whSync\<lparr>wsy_status := (wsy_status whSync)\<lparr>
       wst_conditions := setStatusCondition E h (wst_conditions (wsy_status whSync))
         (mkCondition ''Ready'' st rsn msg (om_generation (wsy_meta whSync))),
       wst_observedGeneration := om_generation (wsy_meta whSync)\<rparr>\<rparr>"

definition whReport :: "env \<Rightarrow> webhookSync \<Rightarrow> nat \<Rightarrow> nat \<Rightarrow> goerror list \<Rightarrow> ('z base_scheme, unit) op" where
  "whReport E whSync nv nm errs =
     (let counted = whSync\<lparr>wsy_status := (wsy_status whSync)\<lparr>wst_syncedWebhooks :=
            \<lparr>swc_validating = int32_of (int nv), swc_mutating = int32_of (int nm)\<rparr>\<rparr>\<rparr> in
      bindE (if errs \<noteq> [] then Invalidate (syncCacheKey (wsy_meta whSync)) else returnE ()) (\<lambda>_.
      bindE (getsE tr) (\<lambda>h.
        let ready = (if errs \<noteq> []
              then whSetReady E h ConditionFalse ''SyncErrors'' (itoa (int (length errs)) @ '' webhook(s) failed to sync'') counted
              else whSetReady E h ConditionTrue ''SyncComplete''
                     (''Synced '' @ itoa (int32_of (int nv)) @ '' validating and '' @ itoa (int32_of (int nm)) @ '' mutating webhook(s)'') counted)
        in requestU E (StatusUpdateCall (KWebhookSync
             (ready\<lparr>wsy_status := (wsy_status ready)\<lparr>wst_lastSyncTime := Some (now E h)\<rparr>\<rparr>))))))"

definition webhookSyncWith :: "env \<Rightarrow> webhookSync \<Rightarrow> restConfig \<Rightarrow> ('z base_scheme, unit) op" where
  "webhookSyncWith E whSync c =
     (let targetGroups = wss_apiGroups (wsy_spec whSync) in
      bindE (syncKind E c Validating targetGroups) (\<lambda>rv.
      bindE (syncKind E c Mutating targetGroups) (\<lambda>rm.
      bindE (recordPlain (deleteStale E c Validating (syncedNames rv))) (\<lambda>dv.
      bindE (recordPlain (deleteStale E c Mutating (syncedNames rm))) (\<lambda>dm.
      whReport E whSync (length (syncedNames rv)) (length (syncedNames rm))
        (syncErrors rv @ syncErrors rm @ dv @ dm))))))"

definition whUnavailable :: "env \<Rightarrow> webhookSync \<Rightarrow> goerror \<Rightarrow> ('z base_scheme, unit) op" where
  "whUnavailable E whSync err =
     bindE (getsE tr) (\<lambda>h.
     bindE (tryE (requestU E (StatusUpdateCall (KWebhookSync
       (whSetReady E h ConditionFalse ''SecondaryUnavailable'' (''Cannot connect to secondary: '' @ err_msg err) whSync))))) (\<lambda>_.
     throwE err))"

definition wh_buildSecondaryClient :: "env \<Rightarrow> webhookSync \<Rightarrow> ('z base_scheme, restConfig) op" where
  "wh_buildSecondaryClient E whSync =
     BuildClient E (wss_secondaryConnection (wsy_spec whSync)) (om_namespace (wsy_meta whSync)) (syncCacheKey (wsy_meta whSync))"

definition webhookSync_Reconcile :: "env \<Rightarrow> nsname \<Rightarrow> ('z base_scheme, unit) op" where
  "webhookSync_Reconcile E req =
     bindE (tryE (getObj E asWebhookSync Primary WebhookSyncKind req)) (\<lambda>got.
       case got of
         Inl e \<Rightarrow> if IsNotFound e then returnE () else throwE e
       | Inr whSync \<Rightarrow>
           bindE (tryE (wh_buildSecondaryClient E whSync)) (\<lambda>built.
             case built of Inl err \<Rightarrow> whUnavailable E whSync err
             | Inr c \<Rightarrow> webhookSyncWith E whSync c))"

section \<open>Event handlers\<close>

definition wh_enqueueAll :: "env \<Rightarrow> ('z base_scheme, nsname list) op" where
  "wh_enqueueAll E =
     bindE (listOrNone (listObjs E asWebhookSync Primary WebhookSyncKind None None)) (\<lambda>items.
       returnE (map (\<lambda>x. requestOf (wsy_meta x)) items))"

definition secretToWebhookSyncMapper :: "env \<Rightarrow> objectMeta \<Rightarrow> ('z base_scheme, nsname list) op" where
  "secretToWebhookSyncMapper E obj =
     bindE (listOrNone (listObjs E asWebhookSync Primary WebhookSyncKind (Some (om_namespace obj)) None)) (\<lambda>items.
       returnE (map (\<lambda>x. requestOf (wsy_meta x))
         (filter (\<lambda>x. usesSecret (om_name obj) (wss_secondaryConnection (wsy_spec x))) items)))"

section \<open>Lemmas\<close>

lemma whObj_inject [simp]: "whObj kd x = whObj kd y \<longleftrightarrow> x = y"
  by (cases kd) simp_all

lemma asWH_Some [simp]: "asWH kd y = Some x \<longleftrightarrow> y = whObj kd x"
  by (cases kd) simp_all

lemma those_asWH [simp]: "those (map (asWH kd) ys) = Some xs \<longleftrightarrow> ys = map (whObj kd) xs"
  by (rule those_decoded) simp

lemma transformWebhook_name [simp]: "whcName (transformWebhook src) = whcName src"
  by (simp add: transformWebhook_def)

lemma transformClientConfig_idem [simp]: "transformClientConfig (transformClientConfig cc) = transformClientConfig cc"
  by (simp add: transformClientConfig_def split: option.splits)

lemma transformWebhook_idem: "transformWebhook (transformWebhook src) = transformWebhook src"
  by (simp add: transformWebhook_def comp_def)

text \<open>The write that brings a configuration to the secondary.\<close>

definition upserted :: "restConfig \<Rightarrow> whKind \<Rightarrow> webhookConfiguration \<Rightarrow> event list \<Rightarrow> bool" where
  "upserted c kd src es =
     (performed (CreateCall (Secondary c) (whObj kd (transformWebhook src))) es \<or>
      (\<exists>existing. (GetCall (Secondary c) (whKindOf kd) ('''', whcName src), RObj (whObj kd existing)) \<in> set es \<and>
         performed (UpdateCall (Secondary c) (whObj kd (updatedWebhook existing (transformWebhook src)))) es))"

lemma upserted_mono: "set es \<subseteq> set fs \<Longrightarrow> upserted c kd src es \<Longrightarrow> upserted c kd src fs"
  unfolding upserted_def using performed_mono by blast

definition staleGone :: "restConfig \<Rightarrow> whKind \<Rightarrow> webhookConfiguration \<Rightarrow> event list \<Rightarrow> bool" where
  "staleGone c kd item es = (\<exists>r. (DeleteCall (Secondary c) (whObj kd item), r) \<in> set es \<and>
     (okResp r \<or> (\<exists>e. r = RErr e \<and> IsNotFound e)))"

lemma staleGone_mono: "set es \<subseteq> set fs \<Longrightarrow> staleGone c kd item es \<Longrightarrow> staleGone c kd item fs"
  unfolding staleGone_def by blast

text \<open>The events of the two phases.\<close>

fun syncEvent :: "event \<Rightarrow> bool" where
  "syncEvent (CreateCall (Secondary _) _, _) = True"
| "syncEvent (UpdateCall (Secondary _) _, _) = True"
| "syncEvent e = isRead e"

definition staleEvent :: "restConfig \<Rightarrow> whKind \<Rightarrow> string list \<Rightarrow> event \<Rightarrow> bool" where
  "staleEvent c kd cur e =
     (isRead e \<or> (\<exists>item r. e = (DeleteCall (Secondary c) (whObj kd item), r) \<and> whcName item \<notin> set cur))"

lemma keeps_upsertWebhook: "keeps (extends syncEvent) (upsertWebhook E c kd tw)"
  unfolding upsertWebhook_def by (auto split: sum.splits intro!: keeps_intros)

lemma keeps_syncWebhook: "keeps (extends syncEvent) (syncWebhook E c kd groups src)"
  unfolding syncWebhook_def by (auto split: sum.splits intro!: keeps_intros keeps_upsertWebhook)

lemma keeps_syncKind: "keeps (extends syncEvent) (syncKind E c kd groups)"
  unfolding syncKind_def by (intro ext.keeps_bind ext.keeps_wrap keeps_listObjs ext.keeps_collect keeps_syncWebhook) simp

lemma keeps_deleteStaleItem: "keeps (extends (staleEvent c kd cur)) (deleteStaleItem E c kd cur item)"
  unfolding deleteStaleItem_def by (auto split: sum.splits intro!: keeps_intros simp: staleEvent_def)

lemma keeps_deleteStale: "keeps (extends (staleEvent c kd cur)) (deleteStale E c kd cur)"
  unfolding deleteStale_def
  by (intro ext.keeps_bind ext.keeps_wrap keeps_listObjs ext.keeps_for keeps_deleteStaleItem) (simp add: staleEvent_def)

lemma keeps_recordPlain: "keeps (extends P) m \<Longrightarrow> keeps (extends P) (recordPlain m)"
  unfolding recordPlain_def by (auto split: sum.splits intro!: keeps_intros)

lemma recordPlain_Nil: "recordPlain m s = (Inr [], t) \<longleftrightarrow> (\<exists>u. m s = (Inr u, t))"
  by (auto simp: recordPlain_def bindE_def tryE_def returnE_def split: prod.splits sum.splits)

lemma syncedNames_append: "syncedNames (rs @ qs) = syncedNames rs @ syncedNames qs"
  by (induction rs rule: syncedNames.induct) auto

lemma syncErrors_append: "syncErrors (rs @ qs) = syncErrors rs @ syncErrors qs"
  by (induction rs rule: syncErrors.induct) auto

lemma upsertWebhook_run:
  assumes "upsertWebhook E c kd (transformWebhook src) s = (Inr u, t)"
  shows "upserted c kd src (newEvents s t)"
proof -
  let ?get = "GetCall (Secondary c) (whKindOf kd) ('''', whcName src)"
  obtain got v where get: "getObj E (asWH kd) (Secondary c) (whKindOf kd) ('''', whcName src) s = (got, v)"
    by (cases "getObj E (asWH kd) (Secondary c) (whKindOf kd) ('''', whcName src) s")
  show ?thesis
  proof (cases got)
    case (Inl e)
    with assms get have "IsNotFound e" and run: "requestU E (CreateCall (Secondary c) (whObj kd (transformWebhook src))) v = (Inr u, t)"
      by (auto simp: upsertWebhook_def bindE_def tryE_def throwE_def split: if_splits)
    with get Inl getObj_NotFound [of E "asWH kd" "Secondary c" "whKindOf kd" "('''', whcName src)" s e v]
    show ?thesis by (auto simp: upserted_def runs newEvents_def performed_def)
  next
    case (Inr existing)
    with assms get have "requestU E (UpdateCall (Secondary c) (whObj kd (updatedWebhook existing (transformWebhook src)))) v = (Inr u, t)"
      by (simp add: upsertWebhook_def bindE_def tryE_def)
    moreover have "v = s\<lparr>tr := tr s @ [(?get, RObj (whObj kd existing))]\<rparr>" using get Inr by (auto simp: runs)
    ultimately show ?thesis by (auto simp: upserted_def runs newEvents_def performed_def)
  qed
qed

lemma syncWebhook_run:
  assumes "syncWebhook E c kd groups src s = (Inr rs, t)" and "syncErrors rs = []"
  shows "if shouldSyncWebhook (whc_webhooks src) groups
    then syncedNames rs = [whcName src] \<and> upserted c kd src (newEvents s t) else syncedNames rs = []"
proof (cases "upsertWebhook E c kd (transformWebhook src) s")
  case (Pair r v)
  with assms upsertWebhook_run [of E c kd src s _ v] show ?thesis
    by (cases r) (auto simp: syncWebhook_def bindE_def tryE_def returnE_def split: if_splits)
qed

lemma syncLoop_run:
  assumes "collectE items (syncWebhook E c kd groups) s = (Inr rs, t)" and "syncErrors rs = []"
  shows "syncedNames rs = map whcName (filter (\<lambda>x. shouldSyncWebhook (whc_webhooks x) groups) items) \<and>
    (\<forall>src \<in> set items. shouldSyncWebhook (whc_webhooks src) groups \<longrightarrow> upserted c kd src (newEvents s t))"
  using assms
proof (induction items arbitrary: s rs)
  case Nil
  then show ?case by (simp add: runs)
next
  case (Cons x xs)
  then obtain r1 r2 u where x: "syncWebhook E c kd groups x s = (Inr r1, u)"
    and xs: "collectE xs (syncWebhook E c kd groups) u = (Inr r2, t)" and rs: "rs = r1 @ r2"
    by (auto simp: runs)
  have ok: "syncErrors r1 = []" "syncErrors r2 = []" using Cons.prems(2) rs by (auto simp: syncErrors_append)
  have su: "prefix (tr s) (tr u)" using grows_run [OF grows_weaken [OF keeps_syncWebhook] x] .
  have ut: "prefix (tr u) (tr t)" using grows_run [OF grows_weaken [OF ext.keeps_collect [OF keeps_syncWebhook]] xs] .
  have sub: "set (newEvents s u) \<subseteq> set (newEvents s t)" "set (newEvents u t) \<subseteq> set (newEvents s t)"
    using newEvents_trans [OF su ut] by simp_all
  from syncWebhook_run [OF x ok(1)] Cons.IH [OF xs ok(2)] show ?case
    using upserted_mono [OF sub(1)] upserted_mono [OF sub(2)] by (auto simp: rs syncedNames_append split: if_splits)
qed

lemma syncKind_run:
  assumes "syncKind E c kd groups s = (Inr rs, t)" and "syncErrors rs = []"
  shows "\<exists>primary. (ListCall Primary (whKindOf kd) None None, RObjs (map (whObj kd) primary)) \<in> set (newEvents s t) \<and>
    syncedNames rs = map whcName (filter (\<lambda>x. shouldSyncWebhook (whc_webhooks x) groups) primary) \<and>
    (\<forall>src \<in> set primary. shouldSyncWebhook (whc_webhooks src) groups \<longrightarrow> upserted c kd src (newEvents s t))"
proof -
  from assms(1) obtain primary u where u: "u = s\<lparr>tr := tr s @ [(ListCall Primary (whKindOf kd) None None, RObjs (map (whObj kd) primary))]\<rparr>"
    and run: "collectE primary (syncWebhook E c kd groups) u = (Inr rs, t)"
    by (auto simp: syncKind_def runs)
  have "prefix (tr u) (tr t)" using grows_run [OF grows_weaken [OF ext.keeps_collect [OF keeps_syncWebhook]] run] .
  then have ev: "newEvents s t = (ListCall Primary (whKindOf kd) None None, RObjs (map (whObj kd) primary)) # newEvents u t"
    by (auto simp: u newEvents_def prefix_def)
  from syncLoop_run [OF run assms(2)] upserted_mono [of "newEvents u t" "newEvents s t" c kd] show ?thesis
    by (intro exI [of _ primary]) (auto simp: ev)
qed

lemma deleteStaleItem_run:
  assumes "deleteStaleItem E c kd cur item s = (Inr u, t)" and "whcName item \<notin> set cur"
  shows "staleGone c kd item (newEvents s t)"
  using assms
  by (auto simp: deleteStaleItem_def bindE_def tryE_def requestU_cases returnE_def throwE_def staleGone_def newEvents_def
      split: resp.splits if_splits)

lemma deleteStale_run:
  fixes s t :: "'z base_scheme"
  assumes "deleteStale E c kd cur s = (Inr u, t)"
  shows "\<exists>listed. (ListCall (Secondary c) (whKindOf kd) None None, RObjs (map (whObj kd) listed)) \<in> set (newEvents s t) \<and>
    (\<forall>item \<in> set listed. whcName item \<notin> set cur \<longrightarrow> staleGone c kd item (newEvents s t))"
proof -
  from assms obtain listed v where v: "v = s\<lparr>tr := tr s @ [(ListCall (Secondary c) (whKindOf kd) None None, RObjs (map (whObj kd) listed))]\<rparr>"
    and run: "forE listed (deleteStaleItem E c kd cur) v = (Inr u, t)"
    by (auto simp: deleteStale_def runs)
  have gr: "grows (deleteStaleItem E c kd cur item :: ('z base_scheme, unit) op)" for item
    by (rule grows_weaken [OF keeps_deleteStaleItem])
  have "prefix (tr v) (tr t)" using grows_run [OF ext.keeps_for [OF gr] run] .
  then have ev: "newEvents s t = (ListCall (Secondary c) (whKindOf kd) None None, RObjs (map (whObj kd) listed)) # newEvents v t"
    by (auto simp: v newEvents_def prefix_def)
  have "staleGone c kd item (newEvents s t)" if item: "item \<in> set listed" "whcName item \<notin> set cur" for item
  proof -
    from for_run [OF run item(1) gr] obtain s1 t1 :: "'z base_scheme"
      where r1: "deleteStaleItem E c kd cur item s1 = (Inr (), t1)" and sub: "set (newEvents s1 t1) \<subseteq> set (newEvents v t)"
      using events_between by blast
    have "set (newEvents s1 t1) \<subseteq> set (newEvents s t)" using sub ev by auto
    then show ?thesis using deleteStaleItem_run [OF r1 item(2)] by (rule staleGone_mono)
  qed
  then show ?thesis by (intro exI [of _ listed]) (auto simp: ev)
qed

text \<open>
  For one kind: every matching configuration of the primary was written to the secondary, every
  listed configuration of the secondary that matches none is gone, and nothing else was deleted.
\<close>

definition whMatched :: "string list \<Rightarrow> webhookConfiguration list \<Rightarrow> string list" where
  "whMatched groups primary = map whcName (filter (\<lambda>x. shouldSyncWebhook (whc_webhooks x) groups) primary)"

definition kindConverged :: "restConfig \<Rightarrow> whKind \<Rightarrow> string list \<Rightarrow> event list \<Rightarrow> nat \<Rightarrow> bool" where
  "kindConverged c kd groups es n =
     (\<exists>primary listed.
        (ListCall Primary (whKindOf kd) None None, RObjs (map (whObj kd) primary)) \<in> set es \<and>
        (ListCall (Secondary c) (whKindOf kd) None None, RObjs (map (whObj kd) listed)) \<in> set es \<and>
        (\<forall>src \<in> set primary. shouldSyncWebhook (whc_webhooks src) groups \<longrightarrow> upserted c kd src es) \<and>
        (\<forall>item \<in> set listed. whcName item \<notin> set (whMatched groups primary) \<longrightarrow> staleGone c kd item es) \<and>
        (\<forall>item r. (DeleteCall (Secondary c) (whObj kd item), r) \<in> set es \<longrightarrow> whcName item \<notin> set (whMatched groups primary)) \<and>
        n = length (whMatched groups primary))"

definition whConverged :: "nsname \<Rightarrow> event list \<Rightarrow> webhookSync \<Rightarrow> bool" where
  "whConverged req es wy =
     ((\<exists>wy0. (GetCall Primary WebhookSyncKind req, RObj (KWebhookSync wy0)) \<in> set es \<and> wsy_spec wy0 = wsy_spec wy) \<and>
      (\<exists>c nv nm. kindConverged c Validating (wss_apiGroups (wsy_spec wy)) es nv \<and>
         kindConverged c Mutating (wss_apiGroups (wsy_spec wy)) es nm \<and>
         wst_syncedWebhooks (wsy_status wy) = \<lparr>swc_validating = int32_of (int nv), swc_mutating = int32_of (int nm)\<rparr>))"

definition whReady :: "env \<Rightarrow> webhookSync \<Rightarrow> bool" where
  "whReady E wy = (map_option c_status (findStatusCondition E (wst_conditions (wsy_status wy)) ''Ready'') = Some ConditionTrue)"

fun whGuard :: "env \<Rightarrow> nsname \<Rightarrow> nat \<Rightarrow> history \<Rightarrow> event \<Rightarrow> bool" where
  "whGuard E req k h (StatusUpdateCall (KWebhookSync wy), r) = (whReady E wy \<longrightarrow> whConverged req (drop k h) wy)"
| "whGuard E req k h (StatusUpdateCall obj, r) = False"
| "whGuard E req k h e = True"

lemma whReady_set:
  assumes "condition_laws E"
  shows "whReady E (whSetReady E h st rsn msg wy) \<longleftrightarrow> st = ConditionTrue"
  using condition_store.status_set [OF assms] by (simp add: whReady_def whSetReady_def)

lemma whSetReady_sel [simp]:
  "wsy_spec (whSetReady E h st rsn msg wy) = wsy_spec wy"
  "wst_syncedWebhooks (wsy_status (whSetReady E h st rsn msg wy)) = wst_syncedWebhooks (wsy_status wy)"
  by (simp_all add: whSetReady_def)

lemma whGuard_read: "isRead e \<Longrightarrow> whGuard E req k h e"
  by (cases "(E, req, k, h, e)" rule: whGuard.cases) auto

lemma whGuard_sync: "syncEvent e \<Longrightarrow> whGuard E req k h e"
  by (cases "(E, req, k, h, e)" rule: whGuard.cases) auto

lemma whGuard_stale: "staleEvent c kd cur e \<Longrightarrow> whGuard E req k h e"
  by (cases "(E, req, k, h, e)" rule: whGuard.cases) (auto simp: staleEvent_def)

text \<open>One kind converges: its sync and its clean-up, in a run whose other events delete nothing of that kind.\<close>

lemma kindConvergedI:
  fixes s1 t1 s2 t2 :: "'z base_scheme"
  assumes sync: "syncKind E c kd groups s1 = (Inr rs, t1)" "syncErrors rs = []"
    and stale: "deleteStale E c kd (syncedNames rs) s2 = (Inr u, t2)"
    and sub: "set (newEvents s1 t1) \<subseteq> set es" "set (newEvents s2 t2) \<subseteq> set es"
    and others: "\<And>item r. (DeleteCall (Secondary c) (whObj kd item), r) \<in> set es \<Longrightarrow>
      (DeleteCall (Secondary c) (whObj kd item), r) \<in> set (newEvents s2 t2)"
  shows "kindConverged c kd groups es (length (syncedNames rs))"
proof -
  from syncKind_run [OF sync] obtain primary
    where p: "(ListCall Primary (whKindOf kd) None None, RObjs (map (whObj kd) primary)) \<in> set (newEvents s1 t1)"
      "syncedNames rs = whMatched groups primary"
      "\<forall>src \<in> set primary. shouldSyncWebhook (whc_webhooks src) groups \<longrightarrow> upserted c kd src (newEvents s1 t1)"
    by (auto simp: whMatched_def)
  from deleteStale_run [OF stale] obtain listed
    where l: "(ListCall (Secondary c) (whKindOf kd) None None, RObjs (map (whObj kd) listed)) \<in> set (newEvents s2 t2)"
      "\<forall>item \<in> set listed. whcName item \<notin> set (syncedNames rs) \<longrightarrow> staleGone c kd item (newEvents s2 t2)"
    by blast
  have "whcName item \<notin> set (whMatched groups primary)" if "(DeleteCall (Secondary c) (whObj kd item), r) \<in> set es" for item r
    using keeps_run [OF keeps_deleteStale stale others [OF that]] by (simp add: staleEvent_def p(2))
  with p l sub show ?thesis
    unfolding kindConverged_def
    using upserted_mono [OF sub(1)] staleGone_mono [OF sub(2)]
    by (intro exI [of _ primary] exI [of _ listed]) auto
qed

lemma wp_whReport:
  assumes laws: "condition_laws E"
    and conv: "errs = [] \<Longrightarrow> (\<And>wy'. wsy_spec wy' = wsy_spec wy \<Longrightarrow>
      wst_syncedWebhooks (wsy_status wy') = \<lparr>swc_validating = int32_of (int nv), swc_mutating = int32_of (int nm)\<rparr> \<Longrightarrow>
      whConverged req (drop k (tr s)) wy')"
  shows "wp (whGuard E req k) (whReport E wy nv nm errs) (\<lambda>_ _. True) (\<lambda>_ _. True) s"
proof -
  have ready: "whReady E (x\<lparr>wsy_status := (wsy_status x)\<lparr>wst_lastSyncTime := ts\<rparr>\<rparr>) = whReady E x" for x ts
    by (simp add: whReady_def)
  show ?thesis
  proof (cases "errs = []")
    case True
    then show ?thesis
      unfolding whReport_def Let_def
      by (simp del: append_Cons) (intro wps; auto simp: ready whReady_set [OF laws] conv)
  next
    case False
    then show ?thesis
      unfolding whReport_def Let_def
      by (simp del: append_Cons) (intro wps; auto simp: ready whReady_set [OF laws])
  qed
qed

lemma no_deletes: "(\<And>e. e \<in> set es \<Longrightarrow> P e) \<Longrightarrow> (\<And>r. \<not> P (DeleteCall (Secondary c) (whObj kd item), r)) \<Longrightarrow>
    (DeleteCall (Secondary c) (whObj kd item), r) \<notin> set es"
  by blast

lemma webhookSync_converged:
  fixes s t1 t2 t3 t4 :: "'z base_scheme"
  assumes reads: "tr s = h @ es" "list_all isRead es" and k: "k = length h"
    and got: "(GetCall Primary WebhookSyncKind req, RObj (KWebhookSync wy)) \<in> set es"
    and groups: "groups = wss_apiGroups (wsy_spec wy)"
    and r1: "syncKind E c Validating groups s = (Inr rv, t1)" and r2: "syncKind E c Mutating groups t1 = (Inr rm, t2)"
    and r3: "recordPlain (deleteStale E c Validating (syncedNames rv)) t2 = (Inr [], t3)"
    and r4: "recordPlain (deleteStale E c Mutating (syncedNames rm)) t3 = (Inr [], t4)"
    and ok: "syncErrors rv = []" "syncErrors rm = []"
    and wy': "wsy_spec wy' = wsy_spec wy"
      "wst_syncedWebhooks (wsy_status wy') = \<lparr>swc_validating = int32_of (int (length (syncedNames rv))),
         swc_mutating = int32_of (int (length (syncedNames rm)))\<rparr>"
  shows "whConverged req (drop k (tr t4)) wy'"
proof -
  from r3 r4 obtain u v where d3: "deleteStale E c Validating (syncedNames rv) t2 = (Inr u, t3)"
    and d4: "deleteStale E c Mutating (syncedNames rm) t3 = (Inr v, t4)" by (auto simp: recordPlain_Nil)
  have p: "prefix (tr s) (tr t1)" "prefix (tr t1) (tr t2)" "prefix (tr t2) (tr t3)" "prefix (tr t3) (tr t4)"
    using grows_run [OF grows_weaken [OF keeps_syncKind] r1] grows_run [OF grows_weaken [OF keeps_syncKind] r2]
      grows_run [OF grows_weaken [OF keeps_deleteStale] d3] grows_run [OF grows_weaken [OF keeps_deleteStale] d4] by blast+
  have dr: "drop k (tr t4) = es @ newEvents s t1 @ newEvents t1 t2 @ newEvents t2 t3 @ newEvents t3 t4" (is "_ = ?all")
    using p reads(1) k by (auto simp: newEvents_def prefix_def)
  have sync: "syncEvent e" if "e \<in> set (newEvents s t1) \<union> set (newEvents t1 t2)" for e
    using that keeps_run [OF keeps_syncKind r1] keeps_run [OF keeps_syncKind r2] by blast
  have s3: "staleEvent c Validating (syncedNames rv) e" if "e \<in> set (newEvents t2 t3)" for e
    using that keeps_run [OF keeps_deleteStale d3] by blast
  have s4: "staleEvent c Mutating (syncedNames rm) e" if "e \<in> set (newEvents t3 t4)" for e
    using that keeps_run [OF keeps_deleteStale d4] by blast
  have reads': "isRead e" if "e \<in> set es" for e using that reads(2) by (simp add: list_all_iff)
  have kv: "kindConverged c Validating groups ?all (length (syncedNames rv))"
    by (rule kindConvergedI [OF r1 ok(1) d3]) (use sync s4 reads' in \<open>fastforce simp: staleEvent_def\<close>)+
  have km: "kindConverged c Mutating groups ?all (length (syncedNames rm))"
    by (rule kindConvergedI [OF r2 ok(2) d4]) (use sync s3 reads' in \<open>fastforce simp: staleEvent_def\<close>)+
  show ?thesis
    unfolding whConverged_def dr using kv km got wy' groups
    by (intro conjI exI [of _ wy] exI [of _ c] exI [of _ "length (syncedNames rv)"] exI [of _ "length (syncedNames rm)"]) auto
qed

lemma wp_webhookSyncWith:
  fixes s :: "'z base_scheme"
  assumes laws: "condition_laws E"
    and reads: "tr s = h @ es" "list_all isRead es" and k: "k = length h"
    and got: "(GetCall Primary WebhookSyncKind req, RObj (KWebhookSync wy)) \<in> set es"
  shows "wp (whGuard E req k) (webhookSyncWith E wy c) (\<lambda>_ _. True) (\<lambda>_ _. True) s"
proof -
  let ?g = "wss_apiGroups (wsy_spec wy)" and ?T = "\<lambda>_ _. True" and ?G = "whGuard E req k"
  have report: "wp ?G (whReport E wy (length (syncedNames rv)) (length (syncedNames rm)) (syncErrors rv @ syncErrors rm @ dv @ dm)) ?T ?T t4"
    if "syncKind E c Validating ?g s = (Inr rv, t1)" "syncKind E c Mutating ?g t1 = (Inr rm, t2)"
      "recordPlain (deleteStale E c Validating (syncedNames rv)) t2 = (Inr dv, t3)"
      "recordPlain (deleteStale E c Mutating (syncedNames rm)) t3 = (Inr dm, t4)" for rv rm dv dm t1 t2 t3 t4
    by (rule wp_whReport [OF laws], rule webhookSync_converged [OF reads k got refl])
       (use that in auto)
  have sk: "wp ?G (syncKind E c kd ?g) Q ?T t" if "\<And>rs u. syncKind E c kd ?g t = (Inr rs, u) \<Longrightarrow> Q rs u" for kd Q t
    by (rule wp_extends [OF keeps_syncKind]) (auto intro: whGuard_sync that)
  have ds: "wp ?G (recordPlain (deleteStale E c kd cur)) Q ?T t"
    if "\<And>rs u. recordPlain (deleteStale E c kd cur) t = (Inr rs, u) \<Longrightarrow> Q rs u" for kd cur Q t
    by (rule wp_extends [OF keeps_recordPlain [OF keeps_deleteStale]]) (auto intro: whGuard_stale that)
  show ?thesis
    unfolding webhookSyncWith_def Let_def by (intro wp_bind sk ds report)
qed

lemma wp_webhookSync_Reconcile:
  assumes laws: "condition_laws E"
  shows "wp (whGuard E req (length (tr s))) (webhookSync_Reconcile E req) (\<lambda>_ _. True) (\<lambda>_ _. True) s"
proof -
  let ?got = "\<lambda>y. (GetCall Primary WebhookSyncKind req, RObj y)"
  have go: "wp (whGuard E req (length (tr s))) (webhookSyncWith E wy c) (\<lambda>_ _. True) (\<lambda>_ _. True) t"
    if y: "asWebhookSync y = Some wy" and ext: "extends isRead (logged (fst (?got y)) (snd (?got y)) s) t" for y wy c t
  proof -
    from ext obtain es where es: "tr t = tr s @ (?got y # es)" "list_all isRead es" by (auto simp: extends_def)
    show ?thesis
      by (rule wp_webhookSyncWith [OF laws es(1)]) (use y es(2) in auto)
  qed
  have un: "wp (whGuard E req k) (whUnavailable E wy err) Q (\<lambda>_ _. True) t" for k wy err Q t
    unfolding whUnavailable_def by (intro wps) (auto simp: whReady_set [OF laws])
  show ?thesis
    unfolding webhookSync_Reconcile_def wh_buildSecondaryClient_def
    by (intro un wp_BuildClient wp_bind wp_getObj wp_try wp_case_sum wp_if wp_return wp_throw laws TrueI)
       (auto intro: go simp: whGuard_read)
qed

section \<open>Properties\<close>

text \<open>
  C9: whatever the two API servers answer, a reconcile that reports \<open>Ready\<close> has, for validating and
  mutating configurations alike, written every configuration of the primary that concerns a served
  group to the secondary, removed every listed configuration of the secondary that matches none,
  deleted no other, and reports how many it synced.
\<close>

theorem webhookSync_ready_converged:
  assumes "condition_laws E"
    and "newEvents s (snd (webhookSync_Reconcile E req s)) = es @ (StatusUpdateCall (KWebhookSync wy), r) # fs"
    and "whReady E wy"
  shows "whConverged req es wy"
  using wp_event [OF wp_webhookSync_Reconcile [OF assms(1)] assms(2)] assms(3) by simp


definition hookSample :: webhookConfiguration where
  "hookSample = \<lparr>whc_meta = emptyMeta\<lparr>om_name := ''hook''\<rparr>,
     whc_webhooks = [\<lparr>wh_name = ''w'', wh_clientConfig = \<lparr>cc_url = None,
        cc_service = Some \<lparr>sr_name = ''svc'', sr_namespace = ''ns'', sr_path = None, sr_port = None\<rparr>, cc_caBundle = ''ca''\<rparr>,
        wh_rules = [\<lparr>whr_apiGroups = [''tekton.dev''], whr_rest = JNull\<rparr>], wh_rest = JNull\<rparr>]\<rparr>"

definition staleHook :: webhookConfiguration where
  "staleHook = \<lparr>whc_meta = emptyMeta\<lparr>om_name := ''stale''\<rparr>, whc_webhooks = []\<rparr>"

definition webhookSyncSample :: webhookSync where
  "webhookSyncSample = \<lparr>wsy_meta = emptyMeta\<lparr>om_name := ''sync'', om_namespace := ''ns''\<rparr>,
     wsy_spec = \<lparr>wss_secondaryConnection = connSample, wss_apiGroups = [''tekton.dev'']\<rparr>,
     wsy_status = \<lparr>wst_conditions = [], wst_syncedWebhooks = \<lparr>swc_validating = 0, swc_mutating = 0\<rparr>,
       wst_lastSyncTime = None, wst_observedGeneration = 0\<rparr>\<rparr>"

text \<open>
  The primary has one matching validating configuration; the secondary has its copy and a stale
  one. With \<open>refuse\<close>, the secondary refuses updates.
\<close>

fun webhookServer :: "bool \<Rightarrow> history \<Rightarrow> call \<Rightarrow> resp" where
  "webhookServer refuse h (GetCall cl WebhookSyncKind key) = RObj (KWebhookSync webhookSyncSample)"
| "webhookServer refuse h (ListCall Primary VWHCKind ns sel) = RObjs [KVWHC hookSample]"
| "webhookServer refuse h (ListCall (Secondary c) VWHCKind ns sel) = RObjs [KVWHC hookSample, KVWHC staleHook]"
| "webhookServer refuse h (GetCall (Secondary c) VWHCKind key) = RObj (KVWHC hookSample)"
| "webhookServer refuse h (UpdateCall cl x) = (if refuse then RErr (errorf ''conflict'') else ROk)"
| "webhookServer refuse h c = connServer h c"

definition webhookRun :: "bool \<Rightarrow> event list" where
  "webhookRun refuse =
     newEvents initialBase (snd (webhookSync_Reconcile (refEnv (webhookServer refuse)) (''ns'', ''sync'') initialBase))"

theorem webhookSync_ready_converged_witness:
  "\<exists>wy. whReady (refEnv (webhookServer False)) wy \<and> whConverged (''ns'', ''sync'') (take 10 (webhookRun False)) wy"
proof -
  let ?E = "refEnv (webhookServer False)"
  have "case webhookRun False ! 10 of (StatusUpdateCall (KWebhookSync wy), r) \<Rightarrow> whReady ?E wy | _ \<Rightarrow> False"
    by code_simp
  then obtain wy r where last: "webhookRun False ! 10 = (StatusUpdateCall (KWebhookSync wy), r)" and ready: "whReady ?E wy"
    by (auto split: prod.splits call.splits kobj.splits)
  have "10 < length (webhookRun False)" by code_simp
  from id_take_nth_drop [OF this]
  have "newEvents initialBase (snd (webhookSync_Reconcile ?E (''ns'', ''sync'') initialBase)) =
      take 10 (webhookRun False) @ (StatusUpdateCall (KWebhookSync wy), r) # drop (Suc 10) (webhookRun False)"
    by (simp only: last webhookRun_def [symmetric])
  from webhookSync_ready_converged [OF refEnv_condition_laws this ready] ready show ?thesis by blast
qed


end
