(* ===== verification/SubResources.thy ===== *)
theory SubResources
  imports ShardProperties WebhookSync
begin

text \<open>
  What the shard controller hands to the secondary and to the sync controllers: the CRDs it copies
  (\<open>syncCRDsToSecondary\<close>, \<open>transformCRDConversion\<close>) and the NamespaceSync and WebhookSync it creates
  once the secondary answers authenticated requests (\<open>updateHealthStatus\<close>,
  \<open>verifySecondaryAuth\<close>, \<open>reconcileNamespaceSync\<close>, \<open>reconcileWebhookSync\<close>), all in
  \<open>operator/internal/controller/apishard/reconciler.go\<close>.
\<close>

section \<open>Before a sub-resource is written\<close>

definition notSub :: "event \<Rightarrow> bool" where
  "notSub e = (\<forall>x. fst e \<noteq> CreateOrUpdateCall x)"

text \<open>The evidence that the secondary accepts the credentials of the administrator.\<close>

definition verifiedBy :: "apiShard \<Rightarrow> event list \<Rightarrow> bool" where
  "verifiedBy SH es =
     (\<exists>pki admin c xs. (GetCall Primary SecretKind (shardNS SH, PKISecretName SH), RObj (KSecret pki)) \<in> set es \<and>
        (GetCall Primary SecretKind (shardNS SH, AdminClientSecretName SH), RObj (KSecret admin)) \<in> set es \<and>
        cfg_CACert (clientConfigOf SH pki admin) \<noteq> [] \<and> cfg_ClientCert (clientConfigOf SH pki admin) \<noteq> [] \<and>
        cfg_ClientKey (clientConfigOf SH pki admin) \<noteq> [] \<and>
        (ListCall (Secondary c) NamespaceKind None None, RObjs xs) \<in> set es)"

definition subGuard :: "apiShard \<Rightarrow> nat \<Rightarrow> history \<Rightarrow> event \<Rightarrow> bool" where
  "subGuard SH k h e = (\<forall>x. fst e = CreateOrUpdateCall x \<longrightarrow>
     (x = KNamespaceSync (shardNamespaceSync SH) \<or> x = KWebhookSync (shardWebhookSync SH)) \<and>
     readReady SH (drop k h) \<and> verifiedBy SH (drop k h))"

text \<open>The state between two steps: the shard is the same but for its status, and the events in \<open>A\<close> have happened.\<close>

definition since :: "apiShard \<Rightarrow> nat \<Rightarrow> event set \<Rightarrow> shardst \<Rightarrow> bool" where
  "since SH k A s = (sameSh SH (shard s) \<and> k \<le> length (tr s) \<and> A \<subseteq> set (drop k (tr s)))"

lemma verifiedBy_mono: "verifiedBy SH es \<Longrightarrow> set es \<subseteq> set fs \<Longrightarrow> verifiedBy SH fs"
  unfolding verifiedBy_def by blast

lemma since_extends:
  assumes "since SH k A s" and "extends P s t" and "sameSh SH (shard t)"
  shows "since SH k (A \<union> set (newEvents s t)) t"
  using assms by (auto simp: since_def extends_def newEvents_def)

lemma wp_quiet:
  assumes m: "keeps (stepRel notSub SH) m" and s: "since SH k A s"
    and Q: "\<And>x t. m s = (Inr x, t) \<Longrightarrow> since SH k (A \<union> set (newEvents s t)) t \<Longrightarrow> Q x t"
  shows "wp (subGuard SH k) m Q (\<lambda>_ _. True) s"
proof (rule wpI)
  have sh: "sameSh SH (shard s)" using s by (simp add: since_def)
  have "extends notSub s (snd (m s))" using keepsD [OF m, of s] sh by (simp add: stepRel_def)
  then show "guards (subGuard SH k) s (snd (m s))"
    by (rule extends_guards) (auto simp: notSub_def subGuard_def)
  show "Q x t" if "m s = (Inr x, t)" for x t
    using Q [OF that] since_extends [OF s, of notSub t] keepsD [OF m, of s] sh that by (simp add: stepRel_def)
qed simp

lemma quiet_steps:
  "keeps (stepRel notSub SH) (checkDeploymentHealth E)" "keeps (stepRel notSub SH) (verifySecondaryAuth E R)"
  "keeps (stepRel notSub SH) (checkAPIServiceAvailability E)" "keeps (stepRel notSub SH) (reportUnhealthy E)"
  unfolding checkDeploymentHealth_def verifySecondaryAuth_def listSecondary_def checkAPIServiceAvailability_def CheckAvailability_def
    reportUnhealthy_def setPhase_def Let_def
  by (rule frames | (auto simp: notSub_def; fail))+

text \<open>Successful runs of the branches.\<close>

lemma branch_run:
  "(case r of Inl e \<Rightarrow> f e | Inr x \<Rightarrow> g x) s = (Inr y, t) \<longleftrightarrow>
     (\<exists>e. r = Inl e \<and> f e s = (Inr y, t)) \<or> (\<exists>x. r = Inr x \<and> g x s = (Inr y, t))"
  "(if b then m else n) s = (Inr y, t) \<longleftrightarrow> b \<and> m s = (Inr y, t) \<or> \<not> b \<and> n s = (Inr y, t)"
  by (cases r; simp)+

lemma GetOrCreate_tr: "GetOrCreate E k cfg s = (r, t) \<Longrightarrow> tr t = tr s"
  using tr_GetOrCreate [of E k cfg s] by simp

lemma verify_evidence:
  assumes "verifySecondaryAuth E R s = (Inr True, t)" and "sameSh SH (shard s)"
  shows "verifiedBy SH (newEvents s t)"
proof -
  from assms(2) obtain st where "shard s = SH\<lparr>status := st\<rparr>" by (auto simp: sameSh_status)
  with assms(1) obtain pki admin c xs where ev: "newEvents s t =
      [(GetCall Primary SecretKind (shardNS SH, PKISecretName SH), RObj (KSecret pki)),
       (GetCall Primary SecretKind (shardNS SH, AdminClientSecretName SH), RObj (KSecret admin)),
       (ListCall (Secondary c) NamespaceKind None None, RObjs xs)]"
    and cfg: "cfg_CACert (clientConfigOf SH pki admin) \<noteq> []" "cfg_ClientCert (clientConfigOf SH pki admin) \<noteq> []"
      "cfg_ClientKey (clientConfigOf SH pki admin) \<noteq> []"
    by (auto simp: verifySecondaryAuth_def listSecondary_def runs Let_def branch_run newEvents_def dest!: GetOrCreate_tr)
  show ?thesis unfolding verifiedBy_def ev
    by (intro exI [of _ pki] exI [of _ admin] exI [of _ c] exI [of _ xs]) (simp add: cfg)
qed

lemma wp_reconcileSubCRs:
  assumes s: "since SH k A s" and ready: "\<And>es. A \<subseteq> set es \<Longrightarrow> readReady SH es \<and> verifiedBy SH es"
    and Q: "\<And>t. since SH k A t \<Longrightarrow> Q () t"
  shows "wp (subGuard SH k) (reconcileSubCRs E) Q (\<lambda>_ _. True) s"
proof -
  have wr: "wp (subGuard SH k) (tryE (bindE (getsE shard) (\<lambda>sh. requestU E (CreateOrUpdateCall (f sh))))) (\<lambda>_. since SH k A) (\<lambda>_ _. True) t"
    if t: "since SH k A t" and f: "f (shard t) = KNamespaceSync (shardNamespaceSync SH) \<or> f (shard t) = KWebhookSync (shardWebhookSync SH)" for t f
  proof -
    have "subGuard SH k (tr t) (CreateOrUpdateCall (f (shard t)), r)" for r
      using f ready [of "drop k (tr t)"] t by (auto simp: since_def subGuard_def)
    moreover have "since SH k A (logged c r t)" for c r using t by (auto simp: since_def)
    ultimately show ?thesis by (intro wps)
  qed
  have sub: "KNamespaceSync (shardNamespaceSync (shard t)) = KNamespaceSync (shardNamespaceSync SH)"
    "KWebhookSync (shardWebhookSync (shard t)) = KWebhookSync (shardWebhookSync SH)" if "since SH k A t" for t
    using that by (auto simp: since_def sameSh_status)
  have agg: "keeps (stepRel notSub SH) (aggregateSubCRStatus E)"
    unfolding aggregateSubCRStatus_def by (rule frames frame_propagateReady | (auto simp: notSub_def; fail))+
  have last: "wp (subGuard SH k) (aggregateSubCRStatus E) Q (\<lambda>_ _. True) t" if "since SH k A t" for t
    by (rule wp_quiet [OF agg that]) (auto intro: Q simp: since_def)
  have two: "wp (subGuard SH k) (bindE (tryE (reconcileWebhookSync E)) (\<lambda>_. aggregateSubCRStatus E)) Q (\<lambda>_ _. True) t" if "since SH k A t" for t
    unfolding reconcileWebhookSync_def
    by (rule wp_bind, rule wp_weaken [OF wr [OF that, where f = "\<lambda>sh. KWebhookSync (shardWebhookSync sh)"]]) (use sub(2) [OF that] last in auto)
  show ?thesis
    unfolding reconcileSubCRs_def reconcileNamespaceSync_def
    by (rule wp_bind, rule wp_weaken [OF wr [OF s, where f = "\<lambda>sh. KNamespaceSync (shardNamespaceSync sh)"]]) (use sub(1) [OF s] two in auto)
qed

lemma wp_reportHealthy:
  assumes s: "since SH k A s" and ready: "\<And>es. A \<subseteq> set es \<Longrightarrow> readReady SH es"
  shows "wp (subGuard SH k) (reportHealthy E R) (\<lambda>_ _. True) (\<lambda>_ _. True) s"
proof -
  let ?ok = "\<lambda>_ _. True"
  have last: "wp (subGuard SH k) (bindE (checkAPIServiceAvailability E) (\<lambda>requeue.
       if requeue > 0 then returnE requeue else bindE (setPhase PhaseReady) (\<lambda>_. returnE 0))) ?ok ?ok t" if "since SH k B t" for B t
    unfolding setPhase_def by (rule wp_bind, rule wp_quiet [OF quiet_steps(3) that]) (intro wps TrueI)
  have rest: "wp (subGuard SH k) (bindE (verifySecondaryAuth E R) (\<lambda>verified.
     bindE (if verified then reconcileSubCRs E else returnE ()) (\<lambda>_.
     bindE (checkAPIServiceAvailability E) (\<lambda>requeue.
       if requeue > 0 then returnE requeue else bindE (setPhase PhaseReady) (\<lambda>_. returnE 0))))) ?ok ?ok t" if t: "since SH k A t" for t
  proof (rule wp_bind, rule wp_quiet [OF quiet_steps(2) t])
    fix verified u
    assume run: "verifySecondaryAuth E R t = (Inr verified, u)" and u: "since SH k (A \<union> set (newEvents t u)) u"
    have ev: "readReady SH es \<and> verifiedBy SH es" if "A \<union> set (newEvents t u) \<subseteq> set es" "verified" for es
      using verify_evidence [of E R t u SH] run t that ready [of es] by (auto simp: since_def intro: verifiedBy_mono)
    show "wp (subGuard SH k) (bindE (if verified then reconcileSubCRs E else returnE ()) (\<lambda>_.
        bindE (checkAPIServiceAvailability E) (\<lambda>requeue.
          if requeue > 0 then returnE requeue else bindE (setPhase PhaseReady) (\<lambda>_. returnE 0)))) ?ok ?ok u"
    proof (cases verified)
      case True
      show ?thesis unfolding if_P [OF True] by (rule wp_bind, rule wp_reconcileSubCRs [OF u ev]) (use True last in auto)
    next
      case False
      show ?thesis by (rule wp_bind) (simp add: False wp_return last [OF u])
    qed
  qed
  have edit: "since SH k A (t\<lparr>shard := (shard t)\<lparr>status := st\<rparr>\<rparr>) = since SH k A t" for t st by (simp add: since_def)
  show ?thesis unfolding reportHealthy_def by (intro wp_bind wp_setCond wp_gets wp_setStatus rest) (simp_all add: edit s)
qed

lemma wp_updateHealthStatus:
  "wp (subGuard (shard s) (length (tr s))) (updateHealthStatus E R) (\<lambda>_ _. True) (\<lambda>_ _. True) s"
proof -
  let ?SH = "shard s" and ?k = "length (tr s)"
  have s: "since ?SH ?k {} s" by (simp add: since_def)
  show ?thesis unfolding updateHealthStatus_def
  proof (rule wp_bind, rule wp_quiet [OF quiet_steps(1) s])
    fix healthy t
    assume run: "checkDeploymentHealth E s = (Inr healthy, t)" and t: "since ?SH ?k ({} \<union> set (newEvents s t)) t"
    have "readReady ?SH es" if "{} \<union> set (newEvents s t) \<subseteq> set es" healthy for es
      using deployment_step.evidence [OF run, of ?SH] that by (auto intro: readReady_mono)
    then show "wp (subGuard ?SH ?k) (if \<not> healthy then reportUnhealthy E else reportHealthy E R) (\<lambda>_ _. True) (\<lambda>_ _. True) t"
      using t by (intro wp_if wp_quiet [OF quiet_steps(4) t] TrueI wp_reportHealthy) auto
  qed
qed

section \<open>Copies of CRDs\<close>

text \<open>The copy of a CRD: its name, labels, annotations and spec, with the conversion webhook reached by URL.\<close>

definition conversionByURL :: "conversion \<Rightarrow> conversion" where
  "conversionByURL cv =
     (if cv_strategy cv = ''Webhook''
      then cv\<lparr>cv_webhook := map_option (\<lambda>w. w\<lparr>cw_clientConfig := map_option transformClientConfig (cw_clientConfig w)\<rparr>) (cv_webhook cv)\<rparr>
      else cv)"

definition crdCopy :: "crd \<Rightarrow> crd" where
  "crdCopy c = \<lparr>crd_meta = emptyMeta\<lparr>om_name := om_name (crd_meta c), om_labels := om_labels (crd_meta c), om_annotations := om_annotations (crd_meta c)\<rparr>,
     crd_group = crd_group c, crd_conversion = map_option conversionByURL (crd_conversion c), crd_specRest = crd_specRest c\<rparr>"

lemma transformCRDConversion_conversion:
  "transformCRDConversion c = c\<lparr>crd_conversion := map_option conversionByURL (crd_conversion c)\<rparr>"
proof (cases "crd_conversion c")
  case (Some cv)
  then show ?thesis
    by (cases c; cases cv) (auto simp: transformCRDConversion_def conversionByURL_def transformClientConfig_def serviceURL_def servicePort_def
        servicePath_def Let_def split: option.splits)
qed (simp add: transformCRDConversion_def)

lemma secondaryCRD_copy: "secondaryCRD c = crdCopy c"
  by (simp add: secondaryCRD_def transformCRDConversion_conversion crdCopy_def)

lemma crdCopy_idem: "crdCopy (crdCopy c) = crdCopy c"
  by (auto simp: crdCopy_def conversionByURL_def option.map_comp comp_def intro!: option.map_cong)

definition crdRead :: "string \<Rightarrow> event list \<Rightarrow> bool" where
  "crdRead n es = (\<exists>r. (GetCall Primary CRDKind ([], n), r) \<in> set es)"

definition crdCopied :: "restConfig \<Rightarrow> string \<Rightarrow> event list \<Rightarrow> bool" where
  "crdCopied c n es = (\<exists>crd. (GetCall Primary CRDKind ([], n), RObj (KCRD crd)) \<in> set es \<and>
     performed (ApplyCall (Secondary c) (KCRD (crdCopy crd))) es)"

lemma crd_evidence_append:
  "crdRead n (es @ fs) \<longleftrightarrow> crdRead n es \<or> crdRead n fs"
  "crdCopied c n es \<or> crdCopied c n fs \<Longrightarrow> crdCopied c n (es @ fs)"
  by (auto simp: crdRead_def crdCopied_def)

lemma syncCRD_cases:
  "\<exists>errs t. syncCRD E c n s = (Inr errs, t) \<and> crdRead n (newEvents s t) \<and> (errs = [] \<longrightarrow> crdCopied c n (newEvents s t))"
proof (cases "getObj E asCRD Primary CRDKind ([], n) s")
  case (Pair r u)
  then have u: "tr u = tr s @ [(GetCall Primary CRDKind ([], n), answer E (tr s) (GetCall Primary CRDKind ([], n)))]"
    by (auto simp: getObj_def op_defs Let_def split: resp.splits option.splits)
  show ?thesis
  proof (cases r)
    case (Inl e)
    with Pair u show ?thesis by (auto simp: syncCRD_def bindE_def tryE_def returnE_def newEvents_def crdRead_def)
  next
    case (Inr crd)
    with Pair have "answer E (tr s) (GetCall Primary CRDKind ([], n)) = RObj (KCRD crd)" by (auto simp: runs)
    with Pair Inr u show ?thesis
      by (cases "answer E (tr u) (ApplyCall (Secondary c) (KCRD (crdCopy crd)))")
        (auto simp: syncCRD_def bindE_def tryE_def returnE_def recordE_def requestU_cases newEvents_def secondaryCRD_copy performed_def
          okResp_def crdRead_def crdCopied_def)
  qed
qed

lemma grows_syncCRD: "grows (syncCRD E c n)"
  unfolding syncCRD_def by (auto intro!: keeps_intros split: sum.splits)

lemma syncCRDs_loop:
  "\<exists>errs t. collectE ns (syncCRD E c) s = (Inr errs, t) \<and> list_all (\<lambda>n. crdRead n (newEvents s t)) ns \<and>
     (errs = [] \<longrightarrow> list_all (\<lambda>n. crdCopied c n (newEvents s t)) ns)"
proof (induction ns arbitrary: s)
  case Nil
  show ?case by (simp add: returnE_def)
next
  case (Cons n ns)
  obtain e1 u where u: "syncCRD E c n s = (Inr e1, u)" "crdRead n (newEvents s u)" "e1 = [] \<longrightarrow> crdCopied c n (newEvents s u)"
    using syncCRD_cases [of E c n s] by blast
  obtain e2 t where t: "collectE ns (syncCRD E c) u = (Inr e2, t)" "list_all (\<lambda>n. crdRead n (newEvents u t)) ns"
    "e2 = [] \<longrightarrow> list_all (\<lambda>n. crdCopied c n (newEvents u t)) ns"
    using Cons.IH [of u] by blast
  have g: "grows (collectE ns (syncCRD E c))" by (intro ext.keeps_collect grows_syncCRD)
  have "newEvents s t = newEvents s u @ newEvents u t"
    by (rule newEvents_trans [OF grows_run [OF grows_syncCRD u(1)] grows_run [OF g t(1)]])
  with u t show ?case by (auto simp: bindE_def returnE_def list_all_iff crd_evidence_append)
qed

section \<open>Properties\<close>


definition healthyState :: shardst where
  "healthyState = \<lparr>tr = [], clients = [], shard = liveShard\<rparr>"

lemma healthy_run:
  "(CreateOrUpdateCall (KNamespaceSync (shardNamespaceSync liveShard)), ROk)
     \<in> set (newEvents healthyState (snd (updateHealthStatus (refEnv readyServer) plainOperator healthyState)))"
proof -
  have "storageType liveShard \<noteq> StorageTypeInClusterPostgreSQL"
    by (simp add: liveShard_def sampleShard_def sampleSpec_def storage_names)
  then show ?thesis
    by (simp add: updateHealthStatus_def checkDeploymentHealth_def reportHealthy_def verifySecondaryAuth_def listSecondary_def
        reconcileSubCRs_def reconcileNamespaceSync_def reconcileWebhookSync_def aggregateSubCRStatus_def checkAPIServiceAvailability_def
        op_defs Let_def healthyState_def newEvents_def allReady_def readyReplicas_def clientConfigOf_def plainOperator_def
        GetOrCreate_locked getOrCreateLocked_cases cachedClient_def certSample_def mapGet_def CACertKey_def
        CheckAvailability_def)
qed


text \<open>
  C17: a successful copy of the CRDs has read each of the given CRDs from the primary and applied its
  copy to one client of the secondary: the same spec under the same name, labels and annotations,
  with a conversion webhook reached by the URL that webhook configurations get. Copying a copy
  changes nothing. And a failure does not stop the others: once one of the CRDs is read, all are.
\<close>

theorem crd_copies:
  assumes "syncCRDsToSecondary E R ns s = (r, t)"
  shows "(r = Inr () \<longrightarrow> (\<exists>c. list_all (\<lambda>n. crdCopied c n (newEvents s t)) ns)) \<and>
    (list_ex (\<lambda>n. crdRead n (newEvents s t)) ns \<longrightarrow> list_all (\<lambda>n. crdRead n (newEvents s t)) ns) \<and>
    secondaryCRD x = crdCopy x \<and> crdCopy (crdCopy x) = crdCopy x"
proof -
  define pre :: "(shardst, restConfig) op" where "pre = bindE (getsE shard) (\<lambda>sh.
       if \<not> ClientProvider R then throwE (errorf ''ClientProvider not configured'')
       else if SecondaryEndpoint sh = [] then throwE (errorf ''secondary endpoint not available yet'')
       else
         bindE (wrapE ''reading PKI secret for CRD sync'' (getSecret E (shardNS sh, PKISecretName sh))) (\<lambda>pkiSecret.
         bindE (wrapE ''reading admin client cert for CRD sync'' (getSecret E (shardNS sh, AdminClientSecretName sh))) (\<lambda>adminSecret.
         wrapE ''creating secondary client'' (GetOrCreate E (shardName sh) (clientConfigOf sh pkiSecret adminSecret)))))"
  have eq: "syncCRDsToSecondary E R ns = bindE pre (\<lambda>c. bindE (collectE ns (syncCRD E c)) (\<lambda>errs.
      case joinErrors errs of None \<Rightarrow> returnE () | Some e \<Rightarrow> throwE e))"
    unfolding syncCRDsToSecondary_def pre_def by (rule ext) (simp add: bindE_assoc throwE_def bindE_def split: prod.splits sum.splits)
  have quiet: "keeps (extends (\<lambda>e. \<forall>n. fst e \<noteq> GetCall Primary CRDKind ([], n))) pre"
    unfolding pre_def by (auto intro!: keeps_intros)
  obtain q u where u: "pre s = (q, u)" by (cases "pre s")
  have none: "\<not> crdRead n (newEvents s u)" for n
    unfolding crdRead_def using keeps_run [OF quiet u] by fastforce
  have "(r = Inr () \<longrightarrow> (\<exists>c. list_all (\<lambda>n. crdCopied c n (newEvents s t)) ns)) \<and>
    (list_ex (\<lambda>n. crdRead n (newEvents s t)) ns \<longrightarrow> list_all (\<lambda>n. crdRead n (newEvents s t)) ns)"
  proof (cases q)
    case (Inl e)
    with assms u eq have "t = u" "r = Inl e" by (simp_all add: bindE_def)
    with none show ?thesis by (simp add: list_ex_iff)
  next
    case (Inr c)
    obtain errs v where v: "collectE ns (syncCRD E c) u = (Inr errs, v)" "list_all (\<lambda>n. crdRead n (newEvents u v)) ns"
      "errs = [] \<longrightarrow> list_all (\<lambda>n. crdCopied c n (newEvents u v)) ns" using syncCRDs_loop [of ns E c u] by blast
    have g: "grows (collectE ns (syncCRD E c))" by (intro ext.keeps_collect grows_syncCRD)
    have ev: "newEvents s v = newEvents s u @ newEvents u v"
      by (rule newEvents_trans [OF grows_run [OF grows_weaken [OF quiet] u] grows_run [OF g v(1)]])
    from assms u eq Inr v(1) have "t = v" "r = Inr () \<longrightarrow> errs = []"
      by (auto simp: bindE_def returnE_def throwE_def split: option.splits)
    with v(2,3) show ?thesis by (auto simp: ev list_all_iff crd_evidence_append intro!: exI [of _ c])
  qed
  then show ?thesis by (simp add: secondaryCRD_copy crdCopy_idem)
qed

definition crdSample :: crd where
  "crdSample = \<lparr>crd_meta = emptyMeta\<lparr>om_name := ''tasks.tekton.dev''\<rparr>, crd_group = ''tekton.dev'', crd_conversion = None, crd_specRest = JNull\<rparr>"

definition crdServer :: "history \<Rightarrow> call \<Rightarrow> resp" where
  "crdServer h c = (if c = GetCall Primary CRDKind ([], ''tasks.tekton.dev'') then RObj (KCRD crdSample) else readyServer h c)"

theorem crd_copies_witness:
  "\<exists>c t. syncCRDsToSecondary (refEnv crdServer) plainOperator [''tasks.tekton.dev''] healthyState = (Inr (), t) \<and>
     crdCopied c ''tasks.tekton.dev'' (newEvents healthyState t)"
proof -
  have "\<exists>t. syncCRDsToSecondary (refEnv crdServer) plainOperator [''tasks.tekton.dev''] healthyState = (Inr (), t)"
    by (simp add: syncCRDsToSecondary_def syncCRD_def recordE_def op_defs Let_def crdServer_def healthyState_def plainOperator_def
        SecondaryEndpoint_def GetOrCreate_locked getOrCreateLocked_cases cachedClient_def joinErrors_def)
  then obtain t where t: "syncCRDsToSecondary (refEnv crdServer) plainOperator [''tasks.tekton.dev''] healthyState = (Inr (), t)" ..
  from crd_copies [OF this] t show ?thesis by auto
qed

end
