(* ===== verification/Lines.thy ===== *)
theory Lines
  imports Prelude
begin

text \<open>
  Texts as lists of lines: \<open>strings.Split\<close> on the newline, its inverse \<open>strings.Join\<close>, and the lines
  of a text written line by line. Readers of generated scripts and kubeconfigs are stated over them.
\<close>

fun splitLines :: "string \<Rightarrow> string list" where
  "splitLines [] = [[]]"
| "splitLines (c # cs) =
     (if c = CHR 0x0A then [] # splitLines cs
      else case splitLines cs of l # ls \<Rightarrow> (c # l) # ls | [] \<Rightarrow> [[c]])"

lemma splitLines_line: "CHR 0x0A \<notin> set l \<Longrightarrow> splitLines (l @ CHR 0x0A # cs) = l # splitLines cs"
  by (induction l) auto

lemma splitLines_one: "CHR 0x0A \<notin> set l \<Longrightarrow> splitLines l = [l]"
  by (induction l) auto

lemma splitLines_nonempty [simp]: "splitLines s \<noteq> []"
  by (induction s) (auto split: list.splits)

lemma splitLines_join:
  "ls \<noteq> [] \<Longrightarrow> list_all (\<lambda>l. CHR 0x0A \<notin> set l) ls \<Longrightarrow> splitLines (joinWith [CHR 0x0A] ls) = ls"
  by (induction "[CHR 0x0A]" ls rule: joinWith.induct) (simp_all add: splitLines_line splitLines_one)

lemma join_splitLines: "joinWith [CHR 0x0A] (splitLines s) = s"
proof (induction s)
  case (Cons c cs)
  obtain l ls where sp: "splitLines cs = l # ls" by (cases "splitLines cs") auto
  with Cons show ?case by (cases ls) auto
qed simp

lemma splitLines_clean: "list_all (\<lambda>l. CHR 0x0A \<notin> set l) (splitLines s)"
  by (induction s) (auto split: list.splits)

lemma itoa_no_newline: "CHR 0x0A \<notin> set (itoa i)"
proof -
  have "CHR 0x0A \<notin> set (nat_dec n)" for n using nat_dec_digits [of n] by auto
  then show ?thesis by (auto simp: itoa_def)
qed

lemma splitLines_unlines:
  "list_all (\<lambda>l. CHR 0x0A \<notin> set l) ls \<Longrightarrow> splitLines (unlines ls) = ls @ [[]]"
  by (induction ls) (simp_all add: unlines_def splitLines_line)

end
