(* ===== verification/Kubeconfig.thy ===== *)
theory Kubeconfig
  imports SubResources Base64 Lines
begin

text \<open>
  The admin kubeconfig that a shard publishes (\<open>reconcileAdminKubeconfig\<close> of
  \<open>operator/internal/controller/apishard/reconciler.go\<close>), read back: a reader of the fields of the
  document recovers the endpoint and the credentials it was written from, which are those the
  operator itself connects with.
\<close>

section \<open>Reading the document\<close>

text \<open>The scalar after \<open>key\<close>, at the indentation that is part of the key, in the first line that has it.\<close>

definition readScalar :: "string \<Rightarrow> string list \<Rightarrow> string option" where
  "readScalar key ls = map_option (drop (length key)) (find (prefix key) ls)"

definition readKubeconfig :: "string \<Rightarrow> clientConfiguration option" where
  "readKubeconfig doc =
     (let ls = splitLines doc in
      case (readScalar ''    server: '' ls, readScalar ''    certificate-authority-data: '' ls,
            readScalar ''    client-certificate-data: '' ls, readScalar ''    client-key-data: '' ls) of
        (Some server, Some ca, Some cert, Some key) \<Rightarrow>
          Some \<lparr>cfg_Host = server, cfg_CACert = base64Decode ca, cfg_Token = [],
            cfg_ClientCert = base64Decode cert, cfg_ClientKey = base64Decode key\<rparr>
      | _ \<Rightarrow> None)"

lemma readScalar_Cons: "readScalar key (l # ls) = (if prefix key l then Some (drop (length key) l) else readScalar key ls)"
  by (simp add: readScalar_def)

lemma readKubeconfig_admin:
  assumes "CHR 0x0A \<notin> set (shardName sh)" and "CHR 0x0A \<notin> set (shardNS sh)"
  shows "readKubeconfig (adminKubeconfig sh ca cert key) =
    Some \<lparr>cfg_Host = SecondaryEndpoint sh, cfg_CACert = ca, cfg_Token = [], cfg_ClientCert = cert, cfg_ClientKey = key\<rparr>"
proof -
  let ?ls = "[''apiVersion: v1'', ''kind: Config'', ''clusters:'', ''- name: secondary'', ''  cluster:'',
      ''    server: https://'' @ shardName sh @ ''-apiserver.'' @ shardNS sh @ ''.svc'',
      ''    certificate-authority-data: '' @ base64 ca, ''users:'', ''- name: admin'', ''  user:'',
      ''    client-certificate-data: '' @ base64 cert, ''    client-key-data: '' @ base64 key, ''contexts:'', ''- name: default'',
      ''  context:'', ''    cluster: secondary'', ''    user: admin'', ''current-context: default'']"
  have "splitLines (adminKubeconfig sh ca cert key) = ?ls @ [[]]"
    unfolding adminKubeconfig_def by (rule splitLines_unlines) (simp add: assms base64_one_line)
  then show ?thesis
    by (simp add: readKubeconfig_def Let_def readScalar_Cons base64_roundtrip SecondaryEndpoint_def SecondaryServiceName_def)
qed

section \<open>Writing it\<close>

definition kubeconfigGuard :: "apiShard \<Rightarrow> nat \<Rightarrow> history \<Rightarrow> event \<Rightarrow> bool" where
  "kubeconfigGuard SH k h e = (\<forall>x. fst e = ApplyOwnedCall (KSecret x) \<longrightarrow>
     (\<exists>pki admin cfg. (GetCall Primary SecretKind (shardNS SH, PKISecretName SH), RObj (KSecret pki)) \<in> set (drop k h) \<and>
        (GetCall Primary SecretKind (shardNS SH, AdminClientSecretName SH), RObj (KSecret admin)) \<in> set (drop k h) \<and>
        cfg = clientConfigOf SH pki admin \<and>
        x = adminKubeconfigSecret SH (cfg_CACert cfg) (cfg_ClientCert cfg) (cfg_ClientKey cfg)))"

lemma kubeconfigGuard_write:
  assumes "(GetCall Primary SecretKind (shardNS SH, PKISecretName SH), RObj (KSecret pki)) \<in> set (drop k h)"
    and "(GetCall Primary SecretKind (shardNS SH, AdminClientSecretName SH), RObj (KSecret admin)) \<in> set (drop k h)"
    and "ca = mapGet (sec_data pki) CACertKey" "cert = mapGet (sec_data admin) ''tls.crt''" "key = mapGet (sec_data admin) ''tls.key''"
  shows "kubeconfigGuard SH k h (ApplyOwnedCall (KSecret (adminKubeconfigSecret SH ca cert key)), r)"
  unfolding kubeconfigGuard_def
  by (intro allI impI exI [of _ pki] exI [of _ admin] exI [of _ "clientConfigOf SH pki admin"]) (use assms in \<open>simp add: clientConfigOf_def\<close>)

lemma wp_kubeconfig:
  "wp (kubeconfigGuard (shard s) (length (tr s))) (reconcileAdminKubeconfig E) (\<lambda>_ _. True) (\<lambda>_ _. True) s"
  unfolding reconcileAdminKubeconfig_def getIfPresent_def writeAdminKubeconfig_def applyAll_simps
  by (intro wps TrueI; (simp add: kubeconfigGuard_def; fail)?) (simp, rule kubeconfigGuard_write, auto)

section \<open>Properties\<close>

text \<open>
  C11: reading back the kubeconfig that a pass publishes gives the client configuration of the operator
  itself: the endpoint of the secondary, the CA of the PKI Secret and the client certificate and
  key of the administrator, as read from the cluster in the same pass and byte for byte, whatever
  bytes they hold. Names of shards and namespaces hold no line break, which the API server ensures.
\<close>

theorem admin_kubeconfig_roundtrip:
  assumes "newEvents s (snd (reconcileAdminKubeconfig E s)) = es @ (ApplyOwnedCall (KSecret x), r) # fs"
    and "CHR 0x0A \<notin> set (shardName (shard s))" and "CHR 0x0A \<notin> set (shardNS (shard s))"
  shows "\<exists>pki admin. (GetCall Primary SecretKind (shardNS (shard s), PKISecretName (shard s)), RObj (KSecret pki)) \<in> set es \<and>
    (GetCall Primary SecretKind (shardNS (shard s), AdminClientSecretName (shard s)), RObj (KSecret admin)) \<in> set es \<and>
    readKubeconfig (mapGet (sec_data x) ''kubeconfig'') = Some (clientConfigOf (shard s) pki admin)"
proof -
  from wp_event [OF wp_kubeconfig assms(1)] obtain pki admin where
    ev: "(GetCall Primary SecretKind (shardNS (shard s), PKISecretName (shard s)), RObj (KSecret pki)) \<in> set es"
      "(GetCall Primary SecretKind (shardNS (shard s), AdminClientSecretName (shard s)), RObj (KSecret admin)) \<in> set es"
    and x: "x = adminKubeconfigSecret (shard s) (cfg_CACert (clientConfigOf (shard s) pki admin))
        (cfg_ClientCert (clientConfigOf (shard s) pki admin)) (cfg_ClientKey (clientConfigOf (shard s) pki admin))"
    by (auto simp: kubeconfigGuard_def)
  have "readKubeconfig (mapGet (sec_data x) ''kubeconfig'') = Some (clientConfigOf (shard s) pki admin)"
    using readKubeconfig_admin [OF assms(2,3)] by (simp add: x adminKubeconfigSecret_def mapGet_def clientConfigOf_def)
  with ev show ?thesis by blast
qed

lemma published:
  "\<exists>x. (ApplyOwnedCall (KSecret x), ROk) \<in> set (newEvents healthyState (snd (reconcileAdminKubeconfig (refEnv readyServer) healthyState)))"
  by (simp add: reconcileAdminKubeconfig_def getIfPresent_def writeAdminKubeconfig_def applyAll_simps op_defs Let_def healthyState_def newEvents_def
      certSample_def mapGet_def CACertKey_def)

theorem admin_kubeconfig_roundtrip_witness:
  "\<exists>x pki admin. (ApplyOwnedCall (KSecret x), ROk) \<in> set (newEvents healthyState (snd (reconcileAdminKubeconfig (refEnv readyServer) healthyState))) \<and>
     readKubeconfig (mapGet (sec_data x) ''kubeconfig'') = Some (clientConfigOf liveShard pki admin)"
proof -
  obtain x where x: "(ApplyOwnedCall (KSecret x), ROk) \<in> set (newEvents healthyState (snd (reconcileAdminKubeconfig (refEnv readyServer) healthyState)))"
    using published by blast
  obtain es fs where ev: "newEvents healthyState (snd (reconcileAdminKubeconfig (refEnv readyServer) healthyState)) = es @ (ApplyOwnedCall (KSecret x), ROk) # fs"
    using split_list [OF x] by blast
  have "CHR 0x0A \<notin> set (shardName (shard healthyState))" "CHR 0x0A \<notin> set (shardNS (shard healthyState))"
    by (simp_all add: healthyState_def liveShard_def sampleShard_def sampleSpec_def)
  from admin_kubeconfig_roundtrip [OF ev this] x show ?thesis by (auto simp: healthyState_def)
qed

end
