(* ===== verification/EventFilters.thy ===== *)
theory EventFilters
  imports ShardHealth
begin

text \<open>
  The filters on watch events (\<open>operator/internal/predicate/predicate.go\<close>): which updates of the
  watched objects start a reconcile. The lemmas relate them to what a reconcile decides from those
  objects: an update that is filtered out cannot change that decision.
\<close>

section \<open>Model\<close>

datatype watchEvent =
    CreateEvent kobj
  | UpdateEvent "kobj option" "kobj option"
  | DeleteEvent kobj
  | GenericEvent kobj

definition generationOrMetadataChanged :: "kobj \<Rightarrow> kobj \<Rightarrow> bool" where
  "generationOrMetadataChanged oldObj newObj =
     (if om_generation (metaOf oldObj) \<noteq> om_generation (metaOf newObj) then True
      else if om_ownerReferences (metaOf oldObj) \<noteq> om_ownerReferences (metaOf newObj) then True
      else if \<not> mapsEqual (om_labels (metaOf oldObj)) (om_labels (metaOf newObj)) then True
      else \<not> mapsEqual (om_annotations (metaOf oldObj)) (om_annotations (metaOf newObj)))"

text \<open>\<open>predicate.Funcs\<close> with an \<open>UpdateFunc\<close>; the other three functions of each filter return true.\<close>

definition onUpdate :: "(kobj \<Rightarrow> kobj \<Rightarrow> bool) \<Rightarrow> watchEvent \<Rightarrow> bool" where
  "onUpdate f e =
     (case e of
        UpdateEvent (Some oldObj) (Some newObj) \<Rightarrow> f oldObj newObj
      | _ \<Rightarrow> True)"

definition IgnoreStatusUpdatesPredicate :: "watchEvent \<Rightarrow> bool" where
  "IgnoreStatusUpdatesPredicate = onUpdate generationOrMetadataChanged"

record replicaCounts =
  rp_Replicas :: int
  rp_Ready :: int
  rp_Available :: int
  rp_Updated :: int

definition countsOf :: "replicaStatus \<Rightarrow> replicaCounts" where
  "countsOf st = \<lparr>rp_Replicas = rs_replicas st, rp_Ready = rs_readyReplicas st,
     rp_Available = rs_availableReplicas st, rp_Updated = rs_updatedReplicas st\<rparr>"

definition extractReplicaCounts :: "kobj \<Rightarrow> replicaCounts \<times> bool" where
  "extractReplicaCounts obj =
     (case obj of
        KDeployment d \<Rightarrow> (countsOf (d_status d), True)
      | KStatefulSet x \<Rightarrow> (countsOf (ss_status x), True)
      | _ \<Rightarrow> (\<lparr>rp_Replicas = 0, rp_Ready = 0, rp_Available = 0, rp_Updated = 0\<rparr>, False))"

definition DeploymentReadinessPredicate :: "watchEvent \<Rightarrow> bool" where
  "DeploymentReadinessPredicate =
     onUpdate (\<lambda>oldObj newObj.
       if generationOrMetadataChanged oldObj newObj then True
       else let (oldCounts, ok) = extractReplicaCounts oldObj in
         if \<not> ok then True
         else let (newCounts, _) = extractReplicaCounts newObj in oldCounts \<noteq> newCounts)"

definition StatefulSetReadinessPredicate :: "watchEvent \<Rightarrow> bool" where
  "StatefulSetReadinessPredicate =
     onUpdate (\<lambda>oldObj newObj.
       if generationOrMetadataChanged oldObj newObj then True
       else let (oldCounts, ok) = extractReplicaCounts oldObj in
         if \<not> ok then True
         else let (newCounts, _) = extractReplicaCounts newObj in oldCounts \<noteq> newCounts)"

definition apiServiceAvailableStatus :: "kobj \<Rightarrow> string" where
  "apiServiceAvailableStatus obj =
     (case asAPIService obj of
        None \<Rightarrow> []
      | Some apiSvc \<Rightarrow> (case availableCondition apiSvc of None \<Rightarrow> [] | Some c \<Rightarrow> c_status c))"

definition APIServiceAvailabilityPredicate :: "watchEvent \<Rightarrow> bool" where
  "APIServiceAvailabilityPredicate =
     onUpdate (\<lambda>oldObj newObj.
       if generationOrMetadataChanged oldObj newObj then True
       else apiServiceAvailableStatus oldObj \<noteq> apiServiceAvailableStatus newObj)"

lemmas filter_defs =
  IgnoreStatusUpdatesPredicate_def DeploymentReadinessPredicate_def StatefulSetReadinessPredicate_def
  APIServiceAvailabilityPredicate_def onUpdate_def

section \<open>Lemmas\<close>

lemma countsOf_eq: "countsOf a = countsOf b \<longleftrightarrow> a = b"
  by (cases a; cases b) (simp add: countsOf_def)

lemma unchanged_metadata:
  assumes "\<not> generationOrMetadataChanged a b"
  shows "om_generation (metaOf a) = om_generation (metaOf b)" and "om_ownerReferences (metaOf a) = om_ownerReferences (metaOf b)"
  using assms by (auto simp: generationOrMetadataChanged_def split: if_splits)

lemma unchanged_labels:
  assumes "\<not> generationOrMetadataChanged a b"
    and "wf_gomap (om_labels (metaOf a))" and "wf_gomap (om_labels (metaOf b))"
  shows "map_of (om_labels (metaOf a)) = map_of (om_labels (metaOf b))"
  using assms by (auto simp: generationOrMetadataChanged_def mapsEqual_iff split: if_splits)

lemma availableCondition_status: "availableCondition a = Some c \<Longrightarrow> apiServiceAvailableStatus (KAPIService a) = c_status c"
  by (simp add: apiServiceAvailableStatus_def)

text \<open>What the availability check reads of one APIService.\<close>

definition servedFor :: "string \<Rightarrow> apiService \<Rightarrow> bool \<times> bool" where
  "servedFor uid a = (ownedBy uid a, \<exists>c. availableCondition a = Some c \<and> c_status c = ConditionTrue)"

lemma served_status: "(\<exists>c. availableCondition a = Some c \<and> c_status c = ConditionTrue) \<longleftrightarrow>
    apiServiceAvailableStatus (KAPIService a) = ConditionTrue"
  by (auto simp: apiServiceAvailableStatus_def condition_names split: option.splits)

text \<open>What each filter lets through: a dropped update keeps the readiness, or the ownership and availability.\<close>

lemma dropped_deployment:
  "\<not> DeploymentReadinessPredicate (UpdateEvent (Some (KDeployment d)) (Some (KDeployment d'))) \<Longrightarrow>
   allReady (d_status d) = allReady (d_status d')"
  by (auto simp: filter_defs extractReplicaCounts_def countsOf_eq split: if_splits)

lemma dropped_statefulSet:
  "\<not> StatefulSetReadinessPredicate (UpdateEvent (Some (KStatefulSet x)) (Some (KStatefulSet x'))) \<Longrightarrow>
   allReady (ss_status x) = allReady (ss_status x')"
  by (auto simp: filter_defs extractReplicaCounts_def countsOf_eq split: if_splits)

lemma dropped_apiService:
  assumes "\<not> APIServiceAvailabilityPredicate (UpdateEvent (Some (KAPIService a)) (Some (KAPIService a')))"
  shows "servedFor uid a = servedFor uid a'"
proof -
  have "ownedBy uid a = ownedBy uid a'" if "\<not> generationOrMetadataChanged (KAPIService a) (KAPIService a')"
    using unchanged_metadata(2) [OF that] by (simp add: ownedBy_def)
  with assms show ?thesis by (auto simp: filter_defs servedFor_def served_status split: if_splits)
qed

end
