(* ===== verification/NamespaceSync.thy ===== *)
theory NamespaceSync
  imports Mirror
begin

text \<open>
  \<open>operator/internal/controller/namespacesync\<close>: the controller that keeps the namespaces of a
  secondary API server equal to the selected namespaces of the primary (\<open>reconciler.go\<close>), and
  the event handlers that requeue it (\<open>handler.go\<close>).
\<close>

section \<open>Operations\<close>

definition systemNamespaces :: "string list" where
  "systemNamespaces = [''kube-system'', ''kube-public'', ''kube-node-lease'', ''default'']"

definition filterLabels :: "string gomap \<Rightarrow> string gomap" where
  "filterLabels src = filter (\<lambda>(k, v). k \<noteq> ''kubernetes.io/metadata.name'') src"

abbreviation nsName :: "namespaceObj \<Rightarrow> string" where
  "nsName n \<equiv> om_name (ns_meta n)"

definition ns_buildSecondaryClient :: "env \<Rightarrow> namespaceSync \<Rightarrow> ('z base_scheme, restConfig) op" where
  "ns_buildSecondaryClient E nsSync =
     BuildClient E (nss_secondaryConnection (nsy_spec nsSync)) (om_namespace (nsy_meta nsSync)) (syncCacheKey (nsy_meta nsSync))"

definition newNamespace :: "namespaceObj \<Rightarrow> namespaceObj" where
  "newNamespace ns = \<lparr>ns_meta = emptyMeta\<lparr>om_name := nsName ns, om_labels := filterLabels (om_labels (ns_meta ns))\<rparr>\<rparr>"

definition ensureNamespaceOnSecondary :: "env \<Rightarrow> restConfig \<Rightarrow> namespaceObj \<Rightarrow> ('z base_scheme, unit) op" where
  "ensureNamespaceOnSecondary E c ns =
     bindE (tryE (requestU E (CreateCall (Secondary c) (KNamespace (newNamespace ns))))) (\<lambda>r.
       case r of Inl e \<Rightarrow> if \<not> IsAlreadyExists e then throwE e else returnE ()
       | Inr _ \<Rightarrow> returnE ())"

definition deleteNamespaceOnSecondary :: "env \<Rightarrow> restConfig \<Rightarrow> string \<Rightarrow> ('z base_scheme, unit) op" where
  "deleteNamespaceOnSecondary E c name =
     (if name \<in> set systemNamespaces then returnE ()
      else bindE (tryE (requestU E (DeleteCall (Secondary c) (KNamespace \<lparr>ns_meta = emptyMeta\<lparr>om_name := name\<rparr>\<rparr>)))) (\<lambda>r.
        case r of Inl e \<Rightarrow> if \<not> IsNotFound e then throwE e else returnE ()
        | Inr _ \<Rightarrow> returnE ()))"

definition createMissing :: "env \<Rightarrow> restConfig \<Rightarrow> string list \<Rightarrow> string list \<Rightarrow> namespaceObj \<Rightarrow> ('z base_scheme, goerror list) op" where
  "createMissing E c excluded existing ns =
     (if nsName ns \<in> set excluded \<or> nsName ns \<in> set existing then returnE []
      else recordE (''namespace '' @ nsName ns) (ensureNamespaceOnSecondary E c ns))"

definition deleteOrphaned :: "env \<Rightarrow> restConfig \<Rightarrow> string list \<Rightarrow> namespaceObj \<Rightarrow> ('z base_scheme, goerror list) op" where
  "deleteOrphaned E c desired ns =
     (if nsName ns \<in> set desired \<or> nsName ns \<in> set systemNamespaces then returnE []
      else recordE (''deleting namespace '' @ nsName ns) (deleteNamespaceOnSecondary E c (nsName ns)))"

definition desiredNamespaces :: "string list \<Rightarrow> namespaceObj list \<Rightarrow> string list" where
  "desiredNamespaces excluded primary = map nsName (filter (\<lambda>n. nsName n \<notin> set excluded) primary)"

definition syncNamespaces ::
  "env \<Rightarrow> restConfig \<Rightarrow> string list \<Rightarrow> namespaceObj list \<Rightarrow> namespaceObj list \<Rightarrow> ('z base_scheme, goerror list) op" where
  "syncNamespaces E c excluded primary secondary =
     bindE (collectE primary (createMissing E c excluded (map nsName secondary))) (\<lambda>e1.
     bindE (collectE secondary (deleteOrphaned E c (desiredNamespaces excluded primary))) (\<lambda>e2.
     returnE (e1 @ e2)))"

definition nsSetReady :: "env \<Rightarrow> history \<Rightarrow> string \<Rightarrow> string \<Rightarrow> string \<Rightarrow> namespaceSync \<Rightarrow> namespaceSync" where
  "nsSetReady E h st rsn msg nsSync =
     nsSync\<lparr>nsy_status := (nsy_status nsSync)\<lparr>
       nst_conditions := setStatusCondition E h (nst_conditions (nsy_status nsSync))
         (mkCondition ''Ready'' st rsn msg (om_generation (nsy_meta nsSync))),
       nst_observedGeneration := om_generation (nsy_meta nsSync)\<rparr>\<rparr>"

definition nsUnavailable :: "env \<Rightarrow> namespaceSync \<Rightarrow> string \<Rightarrow> goerror \<Rightarrow> ('z base_scheme, unit) op" where
  "nsUnavailable E nsSync msg err =
     bindE (getsE tr) (\<lambda>h.
     bindE (tryE (requestU E (StatusUpdateCall (KNamespaceSync
       (nsSetReady E h ConditionFalse ''SecondaryUnavailable'' msg nsSync))))) (\<lambda>_.
     throwE err))"

definition nsReport :: "env \<Rightarrow> namespaceSync \<Rightarrow> nat \<Rightarrow> goerror list \<Rightarrow> ('z base_scheme, unit) op" where
  "nsReport E nsSync count syncErrors =
     bindE (getsE tr) (\<lambda>h.
       let counted = nsSync\<lparr>nsy_status := (nsy_status nsSync)\<lparr>nst_syncedNamespaces := int32_of (int count)\<rparr>\<rparr>;
           ready = (if syncErrors \<noteq> []
             then nsSetReady E h ConditionFalse ''SyncErrors''
                    (itoa (int (length syncErrors)) @ '' namespace(s) failed to sync'') counted
             else nsSetReady E h ConditionTrue ''SyncComplete'' (itoa (int count) @ '' namespace(s) synced'') counted)
       in requestU E (StatusUpdateCall (KNamespaceSync
            (ready\<lparr>nsy_status := (nsy_status ready)\<lparr>nst_lastSyncTime := Some (now E h)\<rparr>\<rparr>))))"

definition namespaceSyncWith :: "env \<Rightarrow> namespaceSync \<Rightarrow> restConfig \<Rightarrow> ('z base_scheme, unit) op" where
  "namespaceSyncWith E nsSync c =
     bindE (wrapE ''invalid label selector'' (liftE (labelSelectorAsSelector E (nss_labelSelector (nsy_spec nsSync))))) (\<lambda>sel.
     bindE (wrapE ''listing primary namespaces'' (listObjs E asNamespace Primary NamespaceKind None (Some sel))) (\<lambda>primary.
     let excluded = nss_excludeNamespaces (nsy_spec nsSync) in
     bindE (tryE (listObjs E asNamespace (Secondary c) NamespaceKind None None)) (\<lambda>listed.
       case listed of
         Inl err \<Rightarrow>
           bindE (Invalidate (syncCacheKey (nsy_meta nsSync))) (\<lambda>_.
           nsUnavailable E nsSync (''failed to list secondary namespaces: '' @ err_msg err) err)
       | Inr secondary \<Rightarrow>
           bindE (syncNamespaces E c excluded primary secondary) (\<lambda>syncErrors.
           nsReport E nsSync (setLen (desiredNamespaces excluded primary)) syncErrors))))"

definition namespaceSync_Reconcile :: "env \<Rightarrow> nsname \<Rightarrow> ('z base_scheme, unit) op" where
  "namespaceSync_Reconcile E req =
     bindE (tryE (getObj E asNamespaceSync Primary NamespaceSyncKind req)) (\<lambda>got.
       case got of
         Inl e \<Rightarrow> if IsNotFound e then returnE () else throwE e
       | Inr nsSync \<Rightarrow>
           bindE (tryE (ns_buildSecondaryClient E nsSync)) (\<lambda>built.
             case built of
               Inl err \<Rightarrow> nsUnavailable E nsSync (err_msg err) err
             | Inr c \<Rightarrow> namespaceSyncWith E nsSync c))"

section \<open>Event handlers\<close>

definition ns_enqueueAll :: "env \<Rightarrow> ('z base_scheme, nsname list) op" where
  "ns_enqueueAll E =
     bindE (listOrNone (listObjs E asNamespaceSync Primary NamespaceSyncKind None None)) (\<lambda>items.
       returnE (map (\<lambda>x. requestOf (nsy_meta x)) items))"

definition secretToNamespaceSyncMapper :: "env \<Rightarrow> objectMeta \<Rightarrow> ('z base_scheme, nsname list) op" where
  "secretToNamespaceSyncMapper E obj =
     bindE (listOrNone (listObjs E asNamespaceSync Primary NamespaceSyncKind (Some (om_namespace obj)) None)) (\<lambda>items.
       returnE (map (\<lambda>x. requestOf (nsy_meta x))
         (filter (\<lambda>x. usesSecret (om_name obj) (nss_secondaryConnection (nsy_spec x))) items)))"

section \<open>Lemmas\<close>

text \<open>The effect of a call on the namespaces of the secondary.\<close>

fun tolerated :: "(goerror \<Rightarrow> bool) \<Rightarrow> resp \<Rightarrow> bool" where
  "tolerated p (RErr e) = p e"
| "tolerated p _ = True"

fun nsEffect :: "restConfig \<Rightarrow> event \<Rightarrow> string set \<Rightarrow> string set" where
  "nsEffect c (CreateCall cl (KNamespace n), r) X =
     (if cl = Secondary c \<and> tolerated IsAlreadyExists r then insert (nsName n) X else X)"
| "nsEffect c (DeleteCall cl (KNamespace n), r) X =
     (if cl = Secondary c \<and> tolerated IsNotFound r then X - {nsName n} else X)"
| "nsEffect c _ X = X"

lemma ensureNamespaceOnSecondary_run:
  "ensureNamespaceOnSecondary E c ns s = (Inr u, t) \<longleftrightarrow>
     (let call = CreateCall (Secondary c) (KNamespace (newNamespace ns)); r = answer E (tr s) call
      in tolerated IsAlreadyExists r \<and> t = s\<lparr>tr := tr s @ [(call, r)]\<rparr>)"
  by (auto simp: ensureNamespaceOnSecondary_def bindE_def tryE_def requestU_cases returnE_def throwE_def Let_def
      split: resp.splits)

lemma deleteNamespaceOnSecondary_run:
  "name \<notin> set systemNamespaces \<Longrightarrow> deleteNamespaceOnSecondary E c name s = (Inr u, t) \<longleftrightarrow>
     (let call = DeleteCall (Secondary c) (KNamespace \<lparr>ns_meta = emptyMeta\<lparr>om_name := name\<rparr>\<rparr>); r = answer E (tr s) call
      in tolerated IsNotFound r \<and> t = s\<lparr>tr := tr s @ [(call, r)]\<rparr>)"
  by (auto simp: deleteNamespaceOnSecondary_def bindE_def tryE_def requestU_cases returnE_def throwE_def Let_def
      split: resp.splits)

lemma keeps_createMissing [keeps_intros]:
  assumes "\<And>r. nsName ns \<notin> set excluded \<Longrightarrow> nsName ns \<notin> set existing \<Longrightarrow>
      P (CreateCall (Secondary c) (KNamespace (newNamespace ns)), r)"
  shows "keeps (extends P) (createMissing E c excluded existing ns)"
  unfolding createMissing_def ensureNamespaceOnSecondary_def
  by (auto split: sum.splits intro!: keeps_intros assms)

lemma keeps_deleteOrphaned [keeps_intros]:
  assumes "\<And>r. nsName ns \<notin> set desired \<Longrightarrow> nsName ns \<notin> set systemNamespaces \<Longrightarrow>
      P (DeleteCall (Secondary c) (KNamespace \<lparr>ns_meta = emptyMeta\<lparr>om_name := nsName ns\<rparr>\<rparr>), r)"
  shows "keeps (extends P) (deleteOrphaned E c desired ns)"
  unfolding deleteOrphaned_def deleteNamespaceOnSecondary_def
  by (auto split: sum.splits intro!: keeps_intros assms)

interpretation nsCreate: effect_loop "nsEffect c" "createMissing E c excluded existing"
  "\<lambda>n X. if nsName n \<in> set excluded \<or> nsName n \<in> set existing then X else insert (nsName n) X"
proof unfold_locales
  show "\<exists>errs t. createMissing E c excluded existing n s = (Inr errs, t)" for n and s :: "'z base_scheme"
    using recordE_total by (auto simp: createMissing_def returnE_def)
  show "grows (createMissing E c excluded existing n :: ('z base_scheme, goerror list) op)" for n
    by (rule keeps_createMissing) simp
  show "fold (nsEffect c) (newEvents s t) X =
      (if nsName n \<in> set excluded \<or> nsName n \<in> set existing then X else insert (nsName n) X)"
    if "createMissing E c excluded existing n s = (Inr [], t)" for n X and s t :: "'z base_scheme"
    using that
    by (auto simp: createMissing_def recordE_Nil ensureNamespaceOnSecondary_run runs Let_def newEvents_def
        newNamespace_def emptyMeta_def split: if_splits)
qed

interpretation nsDelete: effect_loop "nsEffect c" "deleteOrphaned E c desired"
  "\<lambda>n X. if nsName n \<in> set desired \<or> nsName n \<in> set systemNamespaces then X else X - {nsName n}"
proof unfold_locales
  show "\<exists>errs t. deleteOrphaned E c desired n s = (Inr errs, t)" for n and s :: "'z base_scheme"
    using recordE_total by (auto simp: deleteOrphaned_def returnE_def)
  show "grows (deleteOrphaned E c desired n :: ('z base_scheme, goerror list) op)" for n
    by (rule keeps_deleteOrphaned) simp
  show "fold (nsEffect c) (newEvents s t) X =
      (if nsName n \<in> set desired \<or> nsName n \<in> set systemNamespaces then X else X - {nsName n})"
    if "deleteOrphaned E c desired n s = (Inr [], t)" for n X and s t :: "'z base_scheme"
    using that
    by (auto simp: deleteOrphaned_def recordE_Nil deleteNamespaceOnSecondary_run runs Let_def newEvents_def
        emptyMeta_def split: if_splits)
qed

lemma fold_insert_targets:
  "fold (\<lambda>n X. if p n then X else insert (f n) X) xs X = X \<union> f ` {n \<in> set xs. \<not> p n}"
  by (induction xs arbitrary: X) auto

lemma fold_remove_targets:
  "fold (\<lambda>n X. if p n then X else X - {f n}) xs X = X - f ` {n \<in> set xs. \<not> p n}"
  by (induction xs arbitrary: X) auto

lemma grows_nsUnavailable: "grows (nsUnavailable E ny msg err)"
  unfolding nsUnavailable_def by (intro keeps_intros) simp

lemma grows_nsReport: "grows (nsReport E ny n errs)"
  unfolding nsReport_def Let_def by (intro keeps_intros) simp

lemma keeps_syncNamespaces:
  assumes "\<And>n r. n \<in> set primary \<Longrightarrow> nsName n \<notin> set excluded \<Longrightarrow> P (CreateCall (Secondary c) (KNamespace (newNamespace n)), r)"
    and "\<And>n r. n \<in> set secondary \<Longrightarrow> nsName n \<notin> set (desiredNamespaces excluded primary) \<Longrightarrow>
      nsName n \<notin> set systemNamespaces \<Longrightarrow> P (DeleteCall (Secondary c) (KNamespace \<lparr>ns_meta = emptyMeta\<lparr>om_name := nsName n\<rparr>\<rparr>), r)"
  shows "keeps (extends P) (syncNamespaces E c excluded primary secondary)"
  unfolding syncNamespaces_def
  by (intro ext.keeps_bind ext.keeps_collect ext.keeps_return keeps_createMissing keeps_deleteOrphaned)
     (use assms in auto)

lemma grows_syncNamespaces: "grows (syncNamespaces E c excluded primary secondary)"
  by (rule keeps_syncNamespaces) simp_all

text \<open>What a reconcile has read: the object, and the primary namespaces its selector matches.\<close>

definition nsView :: "env \<Rightarrow> nsname \<Rightarrow> event list \<Rightarrow> namespaceSyncSpec \<Rightarrow> namespaceObj list \<Rightarrow> bool" where
  "nsView E req es sp primary =
     ((\<exists>ny. (GetCall Primary NamespaceSyncKind req, RObj (KNamespaceSync ny)) \<in> set es \<and> nsy_spec ny = sp) \<and>
      (\<exists>sel. labelSelectorAsSelector E (nss_labelSelector sp) = Inr sel \<and>
         (ListCall Primary NamespaceKind None (Some sel), RObjs (map KNamespace primary)) \<in> set es))"

text \<open>
  The calls of \<open>es\<close> brought the namespaces of the secondary, as they were listed, to the desired ones
  and the system namespaces that were there.
\<close>

definition nsConverged :: "env \<Rightarrow> nsname \<Rightarrow> event list \<Rightarrow> namespaceSync \<Rightarrow> bool" where
  "nsConverged E req es ny =
     (\<exists>c primary secondary. nsView E req es (nsy_spec ny) primary \<and>
        (ListCall (Secondary c) NamespaceKind None None, RObjs (map KNamespace secondary)) \<in> set es \<and>
        fold (nsEffect c) es (nsName ` set secondary) =
          set (desiredNamespaces (nss_excludeNamespaces (nsy_spec ny)) primary) \<union>
          (nsName ` set secondary \<inter> set systemNamespaces) \<and>
        nst_syncedNamespaces (nsy_status ny) =
          int32_of (int (card (set (desiredNamespaces (nss_excludeNamespaces (nsy_spec ny)) primary)))))"

definition nsReady :: "env \<Rightarrow> namespaceSync \<Rightarrow> bool" where
  "nsReady E ny = (map_option c_status (findStatusCondition E (nst_conditions (nsy_status ny)) ''Ready'') = Some ConditionTrue)"

fun nsGuard :: "env \<Rightarrow> nsname \<Rightarrow> nat \<Rightarrow> history \<Rightarrow> event \<Rightarrow> bool" where
  "nsGuard E req k h (StatusUpdateCall (KNamespaceSync ny), r) = (nsReady E ny \<longrightarrow> nsConverged E req (drop k h) ny)"
| "nsGuard E req k h (CreateCall (Secondary c) (KNamespace n), r) =
     (\<exists>sp primary p. nsView E req (drop k h) sp primary \<and> p \<in> set primary \<and>
        nsName p \<notin> set (nss_excludeNamespaces sp) \<and> n = newNamespace p)"
| "nsGuard E req k h (DeleteCall (Secondary c) (KNamespace n), r) =
     (\<exists>sp primary. nsView E req (drop k h) sp primary \<and>
        nsName n \<notin> set (desiredNamespaces (nss_excludeNamespaces sp) primary) \<and> nsName n \<notin> set systemNamespaces)"
| "nsGuard E req k h e = isRead e"

lemma nsGuard_read: "isRead e \<Longrightarrow> nsGuard E req k h e"
  by (cases "(E, req, k, h, e)" rule: nsGuard.cases) auto

lemma nsView_mono: "nsView E req es sp p \<Longrightarrow> set es \<subseteq> set fs \<Longrightarrow> nsView E req fs sp p"
  unfolding nsView_def by blast

lemma nsEffect_read: "isRead e \<Longrightarrow> nsEffect c e X = X"
  by (cases "(c, e, X)" rule: nsEffect.cases) auto

lemma nsEffect_reads: "list_all isRead es \<Longrightarrow> fold (nsEffect c) es X = X"
  by (induction es) (auto simp: nsEffect_read)

lemma nsSetReady_sel [simp]:
  "nsy_spec (nsSetReady E h st rsn msg ny) = nsy_spec ny" "nsy_meta (nsSetReady E h st rsn msg ny) = nsy_meta ny"
  "nst_syncedNamespaces (nsy_status (nsSetReady E h st rsn msg ny)) = nst_syncedNamespaces (nsy_status ny)"
  by (simp_all add: nsSetReady_def)

lemma nsReady_set:
  assumes "condition_laws E"
  shows "nsReady E (nsSetReady E h st rsn msg ny) \<longleftrightarrow> st = ConditionTrue"
  using condition_store.status_set [OF assms] by (simp add: nsReady_def nsSetReady_def)

lemma syncNamespaces_effect:
  assumes "syncNamespaces E c excluded primary secondary s = (Inr [], t)"
  shows "fold (nsEffect c) (newEvents s t) (nsName ` set secondary) =
    set (desiredNamespaces excluded primary) \<union> (nsName ` set secondary \<inter> set systemNamespaces)"
proof -
  from assms obtain u where 1: "collectE primary (createMissing E c excluded (map nsName secondary)) s = (Inr [], u)"
    and 2: "collectE secondary (deleteOrphaned E c (desiredNamespaces excluded primary)) u = (Inr [], t)"
    by (auto simp: syncNamespaces_def runs)
  have "newEvents s t = newEvents s u @ newEvents u t"
    using grows_run [OF nsCreate.loop_grows 1] grows_run [OF nsDelete.loop_grows 2] by (rule newEvents_trans)
  then show ?thesis
    by (simp add: nsCreate.loop_effect [OF 1] nsDelete.loop_effect [OF 2] fold_insert_targets fold_remove_targets
        desiredNamespaces_def) auto
qed

lemma wp_nsUnavailable:
  assumes "condition_laws E"
  shows "wp (nsGuard E req k) (nsUnavailable E ny msg err) Q (\<lambda>_ _. True) s"
  unfolding nsUnavailable_def by (intro wps) (auto simp: nsReady_set [OF assms])

lemma wp_nsReport:
  assumes laws: "condition_laws E"
    and conv: "syncErrors = [] \<Longrightarrow> (\<And>ny'. nsy_spec ny' = nsy_spec ny \<Longrightarrow>
      nst_syncedNamespaces (nsy_status ny') = int32_of (int count) \<Longrightarrow> nsConverged E req (drop k (tr s)) ny')"
  shows "wp (nsGuard E req k) (nsReport E ny count syncErrors) (\<lambda>_ _. True) (\<lambda>_ _. True) s"
proof -
  have ready: "nsReady E (x\<lparr>nsy_status := (nsy_status x)\<lparr>nst_lastSyncTime := ts\<rparr>\<rparr>) = nsReady E x" for x ts
    by (simp add: nsReady_def)
  show ?thesis
    unfolding nsReport_def Let_def
    by (intro wps) (auto simp: ready nsReady_set [OF laws] conv)
qed

text \<open>The work of a reconcile, from the state after its reads.\<close>

lemma wp_syncNamespaces:
  fixes s :: "'z base_scheme"
  assumes laws: "condition_laws E"
    and reads: "tr s = h @ es" "list_all isRead es" and k: "k = length h"
    and view: "nsView E req es (nsy_spec ny) primary"
    and sec: "(ListCall (Secondary c) NamespaceKind None None, RObjs (map KNamespace secondary)) \<in> set es"
    and excl: "excl = nss_excludeNamespaces (nsy_spec ny)"
  shows "wp (nsGuard E req k) (bindE (syncNamespaces E c excl primary secondary)
      (nsReport E ny (setLen (desiredNamespaces excl primary)))) (\<lambda>_ _. True) (\<lambda>_ _. True) s"
proof (rule wp_bind)
  let ?P = "\<lambda>e :: event. (\<exists>r p. e = (CreateCall (Secondary c) (KNamespace (newNamespace p)), r) \<and> p \<in> set primary \<and> nsName p \<notin> set excl) \<or>
    (\<exists>r n. e = (DeleteCall (Secondary c) (KNamespace n), r) \<and> nsName n \<notin> set (desiredNamespaces excl primary) \<and>
       nsName n \<notin> set systemNamespaces)"
  have keep: "keeps (extends ?P) (syncNamespaces E c excl primary secondary :: ('z base_scheme, goerror list) op)"
    by (rule keeps_syncNamespaces) (auto simp: emptyMeta_def)
  show "wp (nsGuard E req k) (syncNamespaces E c excl primary secondary)
     (\<lambda>errs. wp (nsGuard E req k) (nsReport E ny (setLen (desiredNamespaces excl primary)) errs) (\<lambda>_ _. True) (\<lambda>_ _. True))
     (\<lambda>_ _. True) s"
  proof (rule wp_extends [OF keep])
    fix h' e assume h': "prefix (tr s) h'" and e: "?P e"
    have "set es \<subseteq> set (drop k h')" using h' reads(1) k by (auto simp: prefix_def)
    then have "nsView E req (drop k h') (nsy_spec ny) primary" by (rule nsView_mono [OF view])
    with e excl show "nsGuard E req k h' e" by (auto; blast)
  next
    fix errs t assume run: "syncNamespaces E c excl primary secondary s = (Inr errs, t)" and ext: "extends ?P s t"
    show "wp (nsGuard E req k) (nsReport E ny (setLen (desiredNamespaces excl primary)) errs) (\<lambda>_ _. True) (\<lambda>_ _. True) t"
    proof (rule wp_nsReport [OF laws])
      fix ny' :: namespaceSync assume "errs = []" and ny': "nsy_spec ny' = nsy_spec ny"
        "nst_syncedNamespaces (nsy_status ny') = int32_of (int (setLen (desiredNamespaces excl primary)))"
      then have eff: "fold (nsEffect c) (newEvents s t) (nsName ` set secondary) =
          set (desiredNamespaces excl primary) \<union> (nsName ` set secondary \<inter> set systemNamespaces)"
        using syncNamespaces_effect run by blast
      have dr: "drop k (tr t) = es @ newEvents s t"
        using ext reads(1) k by (auto simp: extends_def newEvents_def)
      have "fold (nsEffect c) (drop k (tr t)) (nsName ` set secondary) =
          set (desiredNamespaces excl primary) \<union> (nsName ` set secondary \<inter> set systemNamespaces)"
        using eff by (simp add: dr nsEffect_reads [OF reads(2)])
      moreover have "nsView E req (drop k (tr t)) (nsy_spec ny') primary"
        using nsView_mono [OF view] by (simp add: dr ny')
      ultimately show "nsConverged E req (drop k (tr t)) ny'"
        using sec excl ny' unfolding nsConverged_def
        by (intro exI [of _ c] exI [of _ primary] exI [of _ secondary]) (simp add: dr setLen_card)
    qed
  qed simp
qed

lemma wp_namespaceSyncWith:
  fixes s :: "'z base_scheme"
  assumes laws: "condition_laws E"
    and reads: "tr s = h @ es" "list_all isRead es" and k: "k = length h"
    and got: "(GetCall Primary NamespaceSyncKind req, RObj (KNamespaceSync ny)) \<in> set es"
  shows "wp (nsGuard E req k) (namespaceSyncWith E ny c) (\<lambda>_ _. True) (\<lambda>_ _. True) s"
proof -
  have work: "wp (nsGuard E req k) (bindE (syncNamespaces E c (nss_excludeNamespaces (nsy_spec ny)) primary secondary)
      (nsReport E ny (setLen (desiredNamespaces (nss_excludeNamespaces (nsy_spec ny)) primary)))) (\<lambda>_ _. True) (\<lambda>_ _. True)
      (logged (ListCall (Secondary c) NamespaceKind None None) (RObjs zs)
        (logged (ListCall Primary NamespaceKind None (Some sel)) (RObjs ys) s))"
    if "labelSelectorAsSelector E (nss_labelSelector (nsy_spec ny)) = Inr sel"
      "ys = map KNamespace primary" "zs = map KNamespace secondary"
    for sel ys zs primary secondary
    by (rule wp_syncNamespaces [OF laws, of _ h "es @ [(ListCall Primary NamespaceKind None (Some sel), RObjs ys),
          (ListCall (Secondary c) NamespaceKind None None, RObjs zs)]"])
       (use reads k that got in \<open>auto simp: nsView_def\<close>)
  show ?thesis
    unfolding namespaceSyncWith_def Let_def
    by (intro work wp_nsUnavailable wp_bind wp_wrap wp_lift wp_listObjs wp_try wp_case_sum wp_Invalidate laws TrueI)
       (simp_all add: nsGuard_read)
qed

lemma wp_namespaceSync_Reconcile:
  assumes laws: "condition_laws E"
  shows "wp (nsGuard E req (length (tr s))) (namespaceSync_Reconcile E req) (\<lambda>_ _. True) (\<lambda>_ _. True) s"
proof -
  let ?got = "\<lambda>y. (GetCall Primary NamespaceSyncKind req, RObj y)"
  have go: "wp (nsGuard E req (length (tr s))) (namespaceSyncWith E ny c) (\<lambda>_ _. True) (\<lambda>_ _. True) t"
    if y: "asNamespaceSync y = Some ny" and ext: "extends isRead (logged (fst (?got y)) (snd (?got y)) s) t" for y ny c t
  proof -
    from ext obtain es where es: "tr t = tr s @ (?got y # es)" "list_all isRead es" by (auto simp: extends_def)
    show ?thesis
      by (rule wp_namespaceSyncWith [OF laws es(1)]) (use y es(2) in auto)
  qed
  show ?thesis
    unfolding namespaceSync_Reconcile_def ns_buildSecondaryClient_def
    by (intro wp_nsUnavailable wp_BuildClient wp_bind wp_getObj wp_try wp_case_sum wp_if wp_return wp_throw laws TrueI)
       (auto intro: go simp: nsGuard_read)
qed

section \<open>Properties\<close>

text \<open>
  C8: whatever the two API servers answer, a reconcile that reports \<open>Ready\<close> has brought the
  secondary in line: applied to the namespaces it listed there, the calls it made before the
  report leave exactly the selected, non-excluded namespaces of the primary and the system
  namespaces that were already there, and the reported count is the number of selected namespaces.
\<close>

theorem namespaceSync_ready_converged:
  assumes "condition_laws E"
    and "newEvents s (snd (namespaceSync_Reconcile E req s)) = es @ (StatusUpdateCall (KNamespaceSync ny), r) # fs"
    and "nsReady E ny"
  shows "nsConverged E req es ny"
  using wp_event [OF wp_namespaceSync_Reconcile [OF assms(1)] assms(2)] assms(3) by simp

text \<open>
  C23: a reconcile never deletes a system namespace nor a namespace that the selector matches on
  the primary and that is not excluded, and it deletes from the secondary only.
\<close>

theorem namespaceSync_deletes_orphans_only:
  assumes "condition_laws E"
    and "newEvents s (snd (namespaceSync_Reconcile E req s)) = es @ (DeleteCall cl obj, r) # fs"
  shows "\<exists>c n sp primary. cl = Secondary c \<and> obj = KNamespace n \<and> nsView E req es sp primary \<and>
    nsName n \<notin> set systemNamespaces \<and>
    nsName n \<notin> set (desiredNamespaces (nss_excludeNamespaces sp) primary)"
proof -
  have "nsGuard E req (length (tr s)) (tr s @ es) (DeleteCall cl obj, r)"
    using wp_event [OF wp_namespaceSync_Reconcile [OF assms(1)] assms(2)] .
  then show ?thesis by (cases cl; cases obj) auto
qed

definition syncSample :: namespaceSync where
  "syncSample = \<lparr>nsy_meta = emptyMeta\<lparr>om_name := ''sync'', om_namespace := ''ns''\<rparr>,
     nsy_spec = \<lparr>nss_secondaryConnection = connSample,
       nss_labelSelector = \<lparr>ls_matchLabels = [], ls_matchExpressions = []\<rparr>, nss_excludeNamespaces = []\<rparr>,
     nsy_status = \<lparr>nst_conditions = [], nst_syncedNamespaces = 0, nst_lastSyncTime = None, nst_observedGeneration = 0\<rparr>\<rparr>"

definition nsObject :: "string \<Rightarrow> namespaceObj" where
  "nsObject nm = \<lparr>ns_meta = emptyMeta\<lparr>om_name := nm\<rparr>\<rparr>"

text \<open>The primary has one namespace; the secondary has a system namespace and a stale one.\<close>

fun syncServer :: "history \<Rightarrow> call \<Rightarrow> resp" where
  "syncServer h (GetCall cl NamespaceSyncKind key) = RObj (KNamespaceSync syncSample)"
| "syncServer h (ListCall Primary NamespaceKind ns sel) = RObjs [KNamespace (nsObject ''team'')]"
| "syncServer h (ListCall (Secondary c) NamespaceKind ns sel) =
     RObjs [KNamespace (nsObject ''default''), KNamespace (nsObject ''stale'')]"
| "syncServer h c = connServer h c"

definition syncRun :: "event list" where
  "syncRun = newEvents initialBase (snd (namespaceSync_Reconcile (refEnv syncServer) (''ns'', ''sync'') initialBase))"

theorem namespaceSync_ready_converged_witness:
  "\<exists>ny. nsReady (refEnv syncServer) ny \<and> nsConverged (refEnv syncServer) (''ns'', ''sync'') (take 7 syncRun) ny"
proof -
  have "case syncRun ! 7 of (StatusUpdateCall (KNamespaceSync ny), r) \<Rightarrow> nsReady (refEnv syncServer) ny | _ \<Rightarrow> False"
    by code_simp
  then obtain ny r where last: "syncRun ! 7 = (StatusUpdateCall (KNamespaceSync ny), r)" and ready: "nsReady (refEnv syncServer) ny"
    by (auto split: prod.splits call.splits kobj.splits)
  have "7 < length syncRun" by code_simp
  from id_take_nth_drop [OF this]
  have "newEvents initialBase (snd (namespaceSync_Reconcile (refEnv syncServer) (''ns'', ''sync'') initialBase)) =
      take 7 syncRun @ (StatusUpdateCall (KNamespaceSync ny), r) # drop (Suc 7) syncRun"
    by (simp only: last syncRun_def [symmetric])
  from namespaceSync_ready_converged [OF refEnv_condition_laws this ready] ready show ?thesis by blast
qed

theorem namespaceSync_deletes_orphans_only_witness:
  "\<exists>sp primary. nsView (refEnv syncServer) (''ns'', ''sync'') (take 6 syncRun) sp primary \<and>
     ''stale'' \<notin> set (desiredNamespaces (nss_excludeNamespaces sp) primary)"
proof -
  have "case syncRun ! 6 of (DeleteCall _ (KNamespace n), r) \<Rightarrow> nsName n = ''stale'' | _ \<Rightarrow> False"
    by code_simp
  then obtain cl n r where del: "syncRun ! 6 = (DeleteCall cl (KNamespace n), r)" and n: "nsName n = ''stale''"
    by (auto split: prod.splits call.splits kobj.splits)
  have "6 < length syncRun" by code_simp
  from id_take_nth_drop [OF this]
  have "newEvents initialBase (snd (namespaceSync_Reconcile (refEnv syncServer) (''ns'', ''sync'') initialBase)) =
      take 6 syncRun @ (DeleteCall cl (KNamespace n), r) # drop (Suc 6) syncRun"
    by (simp only: del syncRun_def [symmetric])
  from namespaceSync_deletes_orphans_only [OF refEnv_condition_laws this] n show ?thesis by auto
qed

end
