(* ===== verification/Watches.thy ===== *)
theory Watches
  imports EventFilters ShardReconcile NamespaceSync WebhookSync
begin

text \<open>
  What the three controllers watch (\<open>SetupWithManager\<close> of \<open>apishard\<close>, \<open>namespacesync\<close> and
  \<open>webhooksync\<close>, and the event handlers they install): from an event on a watched object to the
  reconcile requests it puts on the queue. The lemmas relate the handlers to what the reconciles
  read: an object that a reconcile depends on has a watch that leads back to it.

  \<open>For\<close>, \<open>Owns\<close> and \<open>EnqueueRequestsFromMapFunc\<close> are controller-runtime, whose handlers are a
  parameter \<open>C\<close>: the objects of an event they look at, and the requests they make for the owners of
  an object. The theorems rely on what it documents (\<open>handlers_documented\<close>): the old and the new object
  of an update are both looked at, and each owner that is marked as controller and has the kind of
  the \<open>For\<close> object gets a request.
\<close>

section \<open>Model\<close>

definition eventObjects :: "watchEvent \<Rightarrow> kobj list" where
  "eventObjects ev = (case ev of
     CreateEvent x \<Rightarrow> [x]
   | UpdateEvent old new \<Rightarrow> List.map_filter id [old, new]
   | DeleteEvent x \<Rightarrow> [x]
   | GenericEvent x \<Rightarrow> [x])"

text \<open>The object a handler of \<open>crdEventHandler\<close> passes on: an update passes on the new one.\<close>

definition eventObject :: "watchEvent \<Rightarrow> kobj option" where
  "eventObject ev = (case ev of
     CreateEvent x \<Rightarrow> Some x | UpdateEvent old new \<Rightarrow> new | DeleteEvent x \<Rightarrow> Some x | GenericEvent x \<Rightarrow> Some x)"

fun mapObjects :: "(kobj \<Rightarrow> ('s, nsname list) op) \<Rightarrow> kobj list \<Rightarrow> ('s, nsname list) op" where
  "mapObjects f [] = returnE []"
| "mapObjects f (x # xs) = bindE (f x) (\<lambda>rs. bindE (mapObjects f xs) (\<lambda>rs'. returnE (rs @ rs')))"

definition ownerRequests :: "string \<Rightarrow> kobj \<Rightarrow> nsname list" where
  "ownerRequests kd x =
     map (\<lambda>r. ([], or_name r)) (filter (\<lambda>r. or_controller r \<and> or_kind r = kd) (om_ownerReferences (metaOf x)))"

text \<open>The handlers of controller-runtime, and what its documentation says of them.\<close>

record runtimeHandlers =
  rh_objects :: "watchEvent \<Rightarrow> kobj list"
  rh_owners :: "string \<Rightarrow> kobj \<Rightarrow> nsname list"

definition handlers_documented :: "runtimeHandlers \<Rightarrow> bool" where
  "handlers_documented C =
     ((\<forall>ev. set (eventObjects ev) \<subseteq> set (rh_objects C ev)) \<and> (\<forall>kd x. set (ownerRequests kd x) \<subseteq> set (rh_owners C kd x)))"

lemma documented_object: "handlers_documented C \<Longrightarrow> x \<in> set (eventObjects ev) \<Longrightarrow> x \<in> set (rh_objects C ev)"
  unfolding handlers_documented_def by blast

lemma documented_owner: "handlers_documented C \<Longrightarrow> q \<in> set (ownerRequests kd x) \<Longrightarrow> q \<in> set (rh_owners C kd x)"
  unfolding handlers_documented_def by blast

text \<open>Handlers that do what is documented and nothing else.\<close>

definition refHandlers :: runtimeHandlers where
  "refHandlers = \<lparr>rh_objects = eventObjects, rh_owners = ownerRequests\<rparr>"

lemma refHandlers_documented: "handlers_documented refHandlers"
  by (simp add: handlers_documented_def refHandlers_def)

section \<open>Shards\<close>

text \<open>The kinds the shard controller owns, with the predicate on their events.\<close>

fun shardOwns :: "reconciler \<Rightarrow> kobj \<Rightarrow> watchEvent \<Rightarrow> bool" where
  "shardOwns R (KDeployment x) ev = DeploymentReadinessPredicate ev"
| "shardOwns R (KStatefulSet x) ev = StatefulSetReadinessPredicate ev"
| "shardOwns R (KService x) ev = True"
| "shardOwns R (KSecret x) ev = True"
| "shardOwns R (KConfigMap x) ev = True"
| "shardOwns R (KNamespaceSync x) ev = True"
| "shardOwns R (KWebhookSync x) ev = True"
| "shardOwns R (KAPIService x) ev = APIServiceAvailabilityPredicate ev"
| "shardOwns R (KClusterRoleBinding x) ev = True"
| "shardOwns R (KServiceMonitor x) ev = ServiceMonitorAvailable R"
| "shardOwns R _ ev = False"

definition crdEventHandler :: "env \<Rightarrow> watchEvent \<Rightarrow> ('z base_scheme, nsname list) op" where
  "crdEventHandler E ev = (case eventObject ev of None \<Rightarrow> returnE [] | Some x \<Rightarrow> enqueueForCRD E x)"

fun shardMapper :: "env \<Rightarrow> kobj \<Rightarrow> ('z base_scheme, nsname list) op" where
  "shardMapper E (KConfigMap x) = requestHeaderCAMapper E (cm_meta x)"
| "shardMapper E (KSecret x) = connectionSecretMapper E (sec_meta x)"
| "shardMapper E _ = returnE []"

text \<open>The requests of one event, from the watches in the order in which they are set up.\<close>

definition apiShard_requests :: "runtimeHandlers \<Rightarrow> env \<Rightarrow> reconciler \<Rightarrow> watchEvent \<Rightarrow> ('z base_scheme, nsname list) op" where
  "apiShard_requests C E R ev =
     (let objs = rh_objects C ev;
          self = concat (map (\<lambda>x. case x of KAPIShard sh \<Rightarrow> [([], shardName sh)] | _ \<Rightarrow> []) objs);
          owners = concat (map (\<lambda>x. if shardOwns R x ev then rh_owners C ''APIShard'' x else []) objs) in
      bindE (crdEventHandler E ev) (\<lambda>crds.
      bindE (mapObjects (shardMapper E) objs) (\<lambda>mapped.
      returnE (self @ owners @ crds @ mapped))))"

section \<open>Syncs\<close>

definition namespaceEventHandler :: "env \<Rightarrow> watchEvent \<Rightarrow> ('z base_scheme, nsname list) op" where
  "namespaceEventHandler E ev = (case ev of
     CreateEvent x \<Rightarrow> ns_enqueueAll E | UpdateEvent old new \<Rightarrow> ns_enqueueAll E
   | DeleteEvent x \<Rightarrow> ns_enqueueAll E | GenericEvent x \<Rightarrow> ns_enqueueAll E)"

definition webhookEventHandler :: "env \<Rightarrow> watchEvent \<Rightarrow> ('z base_scheme, nsname list) op" where
  "webhookEventHandler E ev = (case ev of
     CreateEvent x \<Rightarrow> wh_enqueueAll E | UpdateEvent old new \<Rightarrow> wh_enqueueAll E
   | DeleteEvent x \<Rightarrow> wh_enqueueAll E | GenericEvent x \<Rightarrow> wh_enqueueAll E)"

fun nsMapper :: "env \<Rightarrow> kobj \<Rightarrow> ('z base_scheme, nsname list) op" where
  "nsMapper E (KNamespaceSync x) = returnE [requestOf (nsy_meta x)]"
| "nsMapper E (KSecret x) = secretToNamespaceSyncMapper E (sec_meta x)"
| "nsMapper E _ = returnE []"

definition isNamespace :: "kobj \<Rightarrow> bool" where
  "isNamespace x = (case x of KNamespace _ \<Rightarrow> True | _ \<Rightarrow> False)"

definition namespaceSync_requests :: "runtimeHandlers \<Rightarrow> env \<Rightarrow> watchEvent \<Rightarrow> ('z base_scheme, nsname list) op" where
  "namespaceSync_requests C E ev =
     bindE (if list_ex isNamespace (eventObjects ev) then namespaceEventHandler E ev else returnE []) (\<lambda>rs.
     bindE (mapObjects (nsMapper E) (rh_objects C ev)) (\<lambda>rs'.
     returnE (rs @ rs')))"

fun whMapper :: "env \<Rightarrow> kobj \<Rightarrow> ('z base_scheme, nsname list) op" where
  "whMapper E (KWebhookSync x) = returnE [requestOf (wsy_meta x)]"
| "whMapper E (KSecret x) = secretToWebhookSyncMapper E (sec_meta x)"
| "whMapper E _ = returnE []"

definition isWebhookConfiguration :: "kobj \<Rightarrow> bool" where
  "isWebhookConfiguration x = (case x of KVWHC _ \<Rightarrow> True | KMWHC _ \<Rightarrow> True | _ \<Rightarrow> False)"

definition webhookSync_requests :: "runtimeHandlers \<Rightarrow> env \<Rightarrow> watchEvent \<Rightarrow> ('z base_scheme, nsname list) op" where
  "webhookSync_requests C E ev =
     bindE (if list_ex isWebhookConfiguration (eventObjects ev) then webhookEventHandler E ev else returnE []) (\<lambda>rs.
     bindE (mapObjects (whMapper E) (rh_objects C ev)) (\<lambda>rs'.
     returnE (rs @ rs')))"

section \<open>Handlers always answer\<close>

text \<open>
  No handler fails: a list that fails gives no requests. \<open>gives m P\<close> says that \<open>m\<close> returns from
  every state, with requests that satisfy \<open>P\<close>.
\<close>

definition gives :: "('s, nsname list) op \<Rightarrow> (nsname list \<Rightarrow> bool) \<Rightarrow> bool" where
  "gives m P = (\<forall>s. \<exists>rs t. m s = (Inr rs, t) \<and> P rs)"

named_theorems gives_intros

lemma gives_return [gives_intros]: "P rs \<Longrightarrow> gives (returnE rs) P"
  by (simp add: gives_def returnE_def)

lemma gives_bind [gives_intros]:
  assumes "gives m Q" and "\<And>rs. Q rs \<Longrightarrow> gives (f rs) P"
  shows "gives (bindE m f) P"
  unfolding gives_def
proof
  fix s
  obtain rs t where "m s = (Inr rs, t)" "Q rs" using assms(1) unfolding gives_def by blast
  with assms(2) [of rs] show "\<exists>rs t. bindE m f s = (Inr rs, t) \<and> P rs" by (simp add: bindE_Inr gives_def)
qed

lemma gives_mapObjects:
  assumes "\<And>x. x \<in> set xs \<Longrightarrow> gives (f x) (P x)"
  shows "gives (mapObjects f xs) (\<lambda>rs. \<forall>x \<in> set xs. \<exists>ys. P x ys \<and> set ys \<subseteq> set rs)"
  using assms
proof (induction xs)
  case Nil
  then show ?case by (simp add: gives_return)
next
  case (Cons x xs)
  show ?case unfolding mapObjects.simps
    by (rule gives_bind [OF Cons.prems [of x]], simp, rule gives_bind [OF Cons.IH], rule Cons.prems, simp, rule gives_return)
      (fastforce)
qed

lemma gives_weaken: "gives m P \<Longrightarrow> (\<And>rs. P rs \<Longrightarrow> Q rs) \<Longrightarrow> gives m Q"
  unfolding gives_def by blast

text \<open>A list of the server that holds \<open>x\<close> on every request.\<close>

definition listed :: "env \<Rightarrow> (kobj \<Rightarrow> 'a option) \<Rightarrow> ('a \<Rightarrow> kobj) \<Rightarrow> kind \<Rightarrow> string option \<Rightarrow> 'a \<Rightarrow> bool" where
  "listed E p K k ns x = (\<forall>h. \<exists>items. answer E h (ListCall Primary k ns None) = RObjs (map K items) \<and>
     those (map p (map K items)) = Some items \<and> x \<in> set items)"

lemma gives_list:
  assumes "listed E p K k ns x" and "\<And>items. x \<in> set items \<Longrightarrow> P (f items)"
  shows "gives (bindE (listOrNone (listObjs E p Primary k ns None)) (\<lambda>items. returnE (f items))) P"
  unfolding gives_def
proof
  fix s
  obtain items where "answer E (tr s) (ListCall Primary k ns None) = RObjs (map K items)"
    "those (map p (map K items)) = Some items" "x \<in> set items"
    using assms(1) unfolding listed_def by blast
  with assms(2) show "\<exists>rs t. bindE (listOrNone (listObjs E p Primary k ns None)) (\<lambda>items. returnE (f items)) s = (Inr rs, t) \<and> P rs"
    by (simp add: op_defs Let_def)
qed

lemma gives_any:
  "gives (bindE (listOrNone m) (\<lambda>items. returnE (f items))) (\<lambda>_. True)"
  by (auto simp: gives_def op_defs split: prod.splits sum.splits)

text \<open>The requests of a controller hold those of each of its watches.\<close>

abbreviation enqueues :: "(base, nsname list) op \<Rightarrow> nsname \<Rightarrow> bool" where
  "enqueues m q \<equiv> gives m (\<lambda>rs. q \<in> set rs)"

lemma gives_shardMapper: "gives (shardMapper E x) (\<lambda>_. True)"
  by (cases x) (simp_all add: requestHeaderCAMapper_def connectionSecretMapper_def gives_any gives_return)

lemma gives_crdEventHandler: "gives (crdEventHandler E ev) (\<lambda>_. True)"
  by (simp add: crdEventHandler_def enqueueForCRD_def gives_any gives_return split: option.split)

lemma gives_nsMapper: "gives (nsMapper E x) (\<lambda>_. True)"
  by (cases x) (simp_all add: secretToNamespaceSyncMapper_def gives_any gives_return)

lemma gives_whMapper: "gives (whMapper E x) (\<lambda>_. True)"
  by (cases x) (simp_all add: secretToWebhookSyncMapper_def gives_any gives_return)

lemma gives_enqueueAll: "gives (ns_enqueueAll E) (\<lambda>_. True)" "gives (wh_enqueueAll E) (\<lambda>_. True)"
  by (simp_all add: ns_enqueueAll_def wh_enqueueAll_def gives_any)

lemma handlers_enqueueAll: "namespaceEventHandler E ev = ns_enqueueAll E" "webhookEventHandler E ev = wh_enqueueAll E"
  by (cases ev; simp add: namespaceEventHandler_def webhookEventHandler_def)+

lemma mapObjects_enqueues:
  assumes "x \<in> set xs" and "enqueues (f x) q" and "\<And>y. gives (f y) (\<lambda>_. True)"
  shows "enqueues (mapObjects f xs) q"
proof -
  have "gives (f y) (\<lambda>rs. y = x \<longrightarrow> q \<in> set rs)" for y using assms(2) assms(3) [of y] by (cases "y = x") auto
  from gives_mapObjects [of xs f "\<lambda>y rs. y = x \<longrightarrow> q \<in> set rs", OF this] show ?thesis by (rule gives_weaken) (use assms(1) in auto)
qed

lemma mapObjects_gives: "(\<And>y. gives (f y) (\<lambda>_. True)) \<Longrightarrow> gives (mapObjects f xs) (\<lambda>_. True)"
  using gives_mapObjects [of xs f "\<lambda>_ _. True"] by (rule gives_weaken) simp_all

lemma gives_both:
  assumes "gives m P" and "gives n Q" and "\<And>a b. P a \<Longrightarrow> Q b \<Longrightarrow> R (f a b)"
  shows "gives (bindE m (\<lambda>a. bindE n (\<lambda>b. returnE (f a b)))) R"
  using assms by (intro gives_bind [OF assms(1)] gives_bind [OF assms(2)] gives_return)

lemma apiShard_enqueues_owner:
  assumes doc: "handlers_documented C"
    and "x \<in> set (eventObjects ev)" and "shardOwns R x ev" and "q \<in> set (ownerRequests ''APIShard'' x)"
  shows "enqueues (apiShard_requests C E R ev) q"
  unfolding apiShard_requests_def Let_def
  by (rule gives_both [OF gives_crdEventHandler mapObjects_gives [OF gives_shardMapper]])
    (use assms(3) documented_object [OF doc assms(2)] documented_owner [OF doc assms(4)] in auto)

lemma apiShard_enqueues_crd:
  assumes "enqueues (crdEventHandler E ev) q"
  shows "enqueues (apiShard_requests C E R ev) q"
  unfolding apiShard_requests_def Let_def
  by (rule gives_both [OF assms mapObjects_gives [OF gives_shardMapper]]) simp

lemma apiShard_enqueues_mapped:
  assumes doc: "handlers_documented C" and "x \<in> set (eventObjects ev)" and "enqueues (shardMapper E x) q"
  shows "enqueues (apiShard_requests C E R ev) q"
  unfolding apiShard_requests_def Let_def
  by (rule gives_both [OF gives_crdEventHandler mapObjects_enqueues [where f = "shardMapper E", OF documented_object [OF assms(1,2)] assms(3) gives_shardMapper]]) simp

lemma ns_enqueues_mapped:
  assumes doc: "handlers_documented C" and "x \<in> set (eventObjects ev)" and "enqueues (nsMapper E x) q"
  shows "enqueues (namespaceSync_requests C E ev) q"
  unfolding namespaceSync_requests_def handlers_enqueueAll
  by (rule gives_both [OF _ mapObjects_enqueues [where f = "nsMapper E", OF documented_object [OF assms(1,2)] assms(3) gives_nsMapper], where P = "\<lambda>_. True"])
    (simp_all add: gives_enqueueAll gives_return)

lemma ns_enqueues_all:
  assumes "x \<in> set (eventObjects ev)" and "isNamespace x" and "enqueues (ns_enqueueAll E) q"
  shows "enqueues (namespaceSync_requests C E ev) q"
  unfolding namespaceSync_requests_def handlers_enqueueAll
  by (rule gives_both [OF _ mapObjects_gives [OF gives_nsMapper], where P = "\<lambda>rs. q \<in> set rs"])
    (use assms in \<open>auto simp: list_ex_iff\<close>)

lemma wh_enqueues_mapped:
  assumes doc: "handlers_documented C" and "x \<in> set (eventObjects ev)" and "enqueues (whMapper E x) q"
  shows "enqueues (webhookSync_requests C E ev) q"
  unfolding webhookSync_requests_def handlers_enqueueAll
  by (rule gives_both [OF _ mapObjects_enqueues [where f = "whMapper E", OF documented_object [OF assms(1,2)] assms(3) gives_whMapper], where P = "\<lambda>_. True"])
    (simp_all add: gives_enqueueAll gives_return)

lemma wh_enqueues_all:
  assumes "x \<in> set (eventObjects ev)" and "isWebhookConfiguration x" and "enqueues (wh_enqueueAll E) q"
  shows "enqueues (webhookSync_requests C E ev) q"
  unfolding webhookSync_requests_def handlers_enqueueAll
  by (rule gives_both [OF _ mapObjects_gives [OF gives_whMapper], where P = "\<lambda>rs. q \<in> set rs"])
    (use assms in \<open>auto simp: list_ex_iff\<close>)

section \<open>What the reconciles read\<close>

definition readsSecret :: "nsname \<Rightarrow> 'z base_scheme \<Rightarrow> 'z base_scheme \<Rightarrow> bool" where
  "readsSecret key s t = (\<exists>r. (GetCall Primary SecretKind key, r) \<in> set (newEvents s t))"

lemma reads_keeps:
  assumes "keeps (extends (\<lambda>e. \<exists>k \<in> K. fst e = GetCall Primary SecretKind k)) m" and "readsSecret key s (snd (m s))"
  shows "key \<in> K"
  using extends_newEvents [OF keepsD [OF assms(1)]] assms(2) by (fastforce simp: readsSecret_def)

lemma validate_reads:
  assumes "readsSecret key u (snd (validateExternalPostgreSQLSecret F u))"
  shows "\<exists>ref. st_connectionSecretRef (storage (spec (shard u))) = Some ref \<and> key = (shardNS (shard u), skr_name ref)"
proof -
  let ?sh = "shard u"
  show ?thesis
  proof (cases "st_connectionSecretRef (storage (spec ?sh))")
    case None
    then show ?thesis using assms
      by (simp add: validateExternalPostgreSQLSecret_def failStorage_def op_defs readsSecret_def newEvents_def)
  next
    case (Some ref)
    have "readsSecret key u v \<Longrightarrow> tr v = tr u @ [(GetCall Primary SecretKind (shardNS ?sh, skr_name ref), r)] \<Longrightarrow>
        key = (shardNS ?sh, skr_name ref)" for v r
      by (auto simp: readsSecret_def newEvents_def)
    moreover have "\<exists>r. tr (snd (validateExternalPostgreSQLSecret F u)) =
        tr u @ [(GetCall Primary SecretKind (shardNS ?sh, skr_name ref), r)]"
      using Some by (auto simp: validateExternalPostgreSQLSecret_def failStorage_def op_defs Let_def split: resp.splits option.splits)
    ultimately show ?thesis using assms Some by blast
  qed
qed

lemma BuildClient_reads:
  assumes "readsSecret key u (snd (BuildClient F conn ns k u))"
  shows "fst key = ns \<and> usesSecret (snd key) conn"
proof -
  have "keeps (extends (\<lambda>e. \<exists>k \<in> {(ns, sn_caSecretRef conn), (ns, sn_authSecretRef conn)}. fst e = GetCall Primary SecretKind k))
      (BuildClient F conn ns k)"
    unfolding BuildClient_def by (intro keeps_intros) simp_all
  from reads_keeps [OF this assms] show ?thesis by (auto simp: usesSecret_def)
qed

text \<open>The updates that change what the health check of a shard decides from an object.\<close>

fun healthChange :: "kobj \<Rightarrow> kobj \<Rightarrow> bool" where
  "healthChange (KDeployment x) (KDeployment y) = (allReady (d_status x) \<noteq> allReady (d_status y))"
| "healthChange (KStatefulSet x) (KStatefulSet y) = (allReady (ss_status x) \<noteq> allReady (ss_status y))"
| "healthChange (KAPIService x) (KAPIService y) = (\<exists>uid. servedFor uid x \<noteq> servedFor uid y)"
| "healthChange _ _ = False"

definition controlledBy :: "apiShard \<Rightarrow> kobj \<Rightarrow> bool" where
  "controlledBy sh x = list_ex (\<lambda>r. or_controller r \<and> or_kind r = ''APIShard'' \<and> or_name r = shardName sh) (om_ownerReferences (metaOf x))"

lemma controlledBy_requests: "controlledBy sh x \<Longrightarrow> ([], shardName sh) \<in> set (ownerRequests ''APIShard'' x)"
  by (auto simp: controlledBy_def ownerRequests_def list_ex_iff intro: rev_image_eqI)

lemma health_owned: "healthChange x y \<Longrightarrow> shardOwns R y (UpdateEvent (Some x) (Some y))"
  by (cases "(x, y)" rule: healthChange.cases) (auto, (use dropped_deployment dropped_statefulSet dropped_apiService in blast)+)

lemma connectionSecret_enqueues:
  assumes "listed E asAPIShard KAPIShard APIShardKind None SH" and "usesConnectionSecret obj SH"
  shows "enqueues (connectionSecretMapper E obj) ([], shardName SH)"
  unfolding connectionSecretMapper_def by (rule gives_list [OF assms(1)]) (use assms(2) in auto)

lemma crd_enqueues:
  assumes "listed E asAPIShard KAPIShard APIShardKind None SH" and "crd_group c \<in> set (map ag_group (apiGroups (spec SH)))"
  shows "enqueues (enqueueForCRD E (KCRD c)) ([], shardName SH)"
  using assms(2) unfolding enqueueForCRD_def by (auto simp: list_ex_iff intro!: gives_list [OF assms(1)] image_eqI [where x = SH])

section \<open>Properties\<close>


definition externalShard :: apiShard where
  "externalShard = sampleShard\<lparr>spec := sampleSpec\<lparr>storage := (storage sampleSpec)\<lparr>st_type := StorageTypePostgreSQL,
     st_connectionSecretRef := Some \<lparr>skr_name = ''db'', skr_key = ''dsn''\<rparr>\<rparr>\<rparr>\<rparr>"

definition dbSecret :: secret where
  "dbSecret = \<lparr>sec_meta = emptyMeta\<lparr>om_name := ''db'', om_namespace := shardNS externalShard\<rparr>, sec_type = [], sec_data = [], sec_stringData = []\<rparr>"

definition ownedDeployment :: "int \<Rightarrow> deployment" where
  "ownedDeployment n = (BuildKineDeployment externalShard)\<lparr>d_meta := ownedMeta externalShard emptyMeta, d_status :=
     \<lparr>rs_replicas = 1, rs_readyReplicas = n, rs_availableReplicas = 1, rs_updatedReplicas = 1\<rparr>\<rparr>"

lemma listed_only:
  assumes "\<And>h. answer E h (ListCall Primary k ns None) = RObjs [K x]" and "p (K x) = Some x"
  shows "listed E p K k ns x"
  using assms by (auto simp: listed_def intro!: exI [of _ "[x]"])

lemma listed_held: "listed (refEnv (heldServer [KAPIShard externalShard])) asAPIShard KAPIShard APIShardKind None externalShard"
  by (rule listed_only) simp_all


text \<open>
  C14: a sync follows its inputs. Every event on a Secret that building the client of a NamespaceSync
  or WebhookSync reads enqueues that object, and so does every event on a namespace, respectively on
  a webhook configuration, as long as the object can be listed.
\<close>

theorem sync_watches_complete:
  assumes doc: "handlers_documented C"
    and ns: "listed E asNamespaceSync KNamespaceSync NamespaceSyncKind None x"
      "listed E asNamespaceSync KNamespaceSync NamespaceSyncKind (Some (om_namespace (nsy_meta x))) x"
    and wh: "listed E asWebhookSync KWebhookSync WebhookSyncKind None y"
      "listed E asWebhookSync KWebhookSync WebhookSyncKind (Some (om_namespace (wsy_meta y))) y"
  shows "(KSecret sec \<in> set (eventObjects ev) \<longrightarrow> readsSecret (keyOf (KSecret sec)) b (snd (ns_buildSecondaryClient F x b)) \<longrightarrow>
      enqueues (namespaceSync_requests C E ev) (requestOf (nsy_meta x))) \<and>
    (KNamespace n \<in> set (eventObjects ev) \<longrightarrow> enqueues (namespaceSync_requests C E ev) (requestOf (nsy_meta x))) \<and>
    (KSecret sec \<in> set (eventObjects ev) \<longrightarrow> readsSecret (keyOf (KSecret sec)) b (snd (wh_buildSecondaryClient F y b)) \<longrightarrow>
      enqueues (webhookSync_requests C E ev) (requestOf (wsy_meta y))) \<and>
    (KMWHC w \<in> set (eventObjects ev) \<or> KVWHC w \<in> set (eventObjects ev) \<longrightarrow>
      enqueues (webhookSync_requests C E ev) (requestOf (wsy_meta y)))"
proof (intro conjI impI)
  let ?q = "requestOf (nsy_meta x)"
  assume sec: "KSecret sec \<in> set (eventObjects ev)" and "readsSecret (keyOf (KSecret sec)) b (snd (ns_buildSecondaryClient F x b))"
  from BuildClient_reads [OF this(2) [unfolded ns_buildSecondaryClient_def]]
  have key: "om_namespace (sec_meta sec) = om_namespace (nsy_meta x)"
    and uses: "usesSecret (om_name (sec_meta sec)) (nss_secondaryConnection (nsy_spec x))"
    by (simp_all add: keyOf_def)
  have "enqueues (nsMapper E (KSecret sec)) ?q"
    unfolding nsMapper.simps secretToNamespaceSyncMapper_def key by (rule gives_list [OF ns(2)]) (use uses in auto)
  with sec show "enqueues (namespaceSync_requests C E ev) ?q" by (rule ns_enqueues_mapped [OF doc])
next
  let ?q = "requestOf (nsy_meta x)"
  assume n: "KNamespace n \<in> set (eventObjects ev)"
  have "enqueues (ns_enqueueAll E) ?q" unfolding ns_enqueueAll_def by (rule gives_list [OF ns(1)]) simp
  with n show "enqueues (namespaceSync_requests C E ev) ?q" by (intro ns_enqueues_all [OF n]) (simp_all add: isNamespace_def)
next
  let ?q = "requestOf (wsy_meta y)"
  assume sec: "KSecret sec \<in> set (eventObjects ev)" and "readsSecret (keyOf (KSecret sec)) b (snd (wh_buildSecondaryClient F y b))"
  from BuildClient_reads [OF this(2) [unfolded wh_buildSecondaryClient_def]]
  have key: "om_namespace (sec_meta sec) = om_namespace (wsy_meta y)"
    and uses: "usesSecret (om_name (sec_meta sec)) (wss_secondaryConnection (wsy_spec y))"
    by (simp_all add: keyOf_def)
  have "enqueues (whMapper E (KSecret sec)) ?q"
    unfolding whMapper.simps secretToWebhookSyncMapper_def key by (rule gives_list [OF wh(2)]) (use uses in auto)
  with sec show "enqueues (webhookSync_requests C E ev) ?q" by (rule wh_enqueues_mapped [OF doc])
next
  let ?q = "requestOf (wsy_meta y)"
  assume w: "KMWHC w \<in> set (eventObjects ev) \<or> KVWHC w \<in> set (eventObjects ev)"
  have all: "enqueues (wh_enqueueAll E) ?q" unfolding wh_enqueueAll_def by (rule gives_list [OF wh(1)]) simp
  have "isWebhookConfiguration (KMWHC w)" "isWebhookConfiguration (KVWHC w)" by (simp_all add: isWebhookConfiguration_def)
  with w wh_enqueues_all [OF _ _ all] show "enqueues (webhookSync_requests C E ev) ?q" by blast
qed

definition connSecret :: secret where
  "connSecret = \<lparr>sec_meta = emptyMeta\<lparr>om_name := sn_caSecretRef connSample, om_namespace := ''ns''\<rparr>, sec_type = [], sec_data = [], sec_stringData = []\<rparr>"

theorem sync_watches_complete_witness:
  "enqueues (namespaceSync_requests refHandlers (refEnv (heldServer [KNamespaceSync syncSample, KWebhookSync webhookSyncSample])) (CreateEvent (KSecret connSecret)))
     (''ns'', ''sync'')"
proof -
  let ?E = "refEnv (heldServer [KNamespaceSync syncSample, KWebhookSync webhookSyncSample])"
  have reads: "readsSecret (keyOf (KSecret connSecret)) initialBase (snd (ns_buildSecondaryClient ?E syncSample initialBase))"
    by (simp add: ns_buildSecondaryClient_def BuildClient_def op_defs Let_def readsSecret_def newEvents_def keyOf_def connSecret_def
        initialBase_def syncSample_def)
  have l: "listed ?E asNamespaceSync KNamespaceSync NamespaceSyncKind None syncSample"
      "listed ?E asNamespaceSync KNamespaceSync NamespaceSyncKind (Some (om_namespace (nsy_meta syncSample))) syncSample"
      "listed ?E asWebhookSync KWebhookSync WebhookSyncKind None webhookSyncSample"
      "listed ?E asWebhookSync KWebhookSync WebhookSyncKind (Some (om_namespace (wsy_meta webhookSyncSample))) webhookSyncSample"
    by (rule listed_only; simp add: keyOf_def)+
  from sync_watches_complete [OF refHandlers_documented l, of connSecret "CreateEvent (KSecret connSecret)" initialBase ?E] reads
  show ?thesis by (simp add: eventObjects_def syncSample_def)
qed

end
