(* ===== verification/OTelConfig.thy ===== *)
theory OTelConfig
  imports Monitoring Reference Lines
begin

text \<open>
  The OpenTelemetry Collector configuration written from a connection string the operator did not
  choose: a key of the Secret of an external database, taken apart by \<open>ParsePostgreSQLDSN\<close> and
  interpolated by \<open>BuildOTelCollectorConfig\<close> (\<open>resources/otel_collector.go\<close>). The configuration is read line by
  line; the lines that carry a value of the connection string are numbered from zero.
\<close>

definition oneLine :: "string \<Rightarrow> bool" where
  "oneLine s = (\<not> hasNewline s)"

definition oneLineIntervals :: "apiShard \<Rightarrow> bool" where
  "oneLineIntervals sh = (oneLine (fst (otelIntervals sh)) \<and> oneLine (snd (otelIntervals sh)))"

text \<open>The lines of the template with the five interpolated lines blanked.\<close>

definition valueLines :: "nat list" where
  "valueLines = [6, 9, 10, 17, 18]"

definition blankValues :: "string list \<Rightarrow> string list" where
  "blankValues ls = fold (\<lambda>i ls. ls[i := []]) valueLines ls"

definition valuesAt :: "string list \<Rightarrow> string list" where
  "valuesAt ls = map ((!) ls) valueLines"

definition datasource :: "oTelConnectionParams \<Rightarrow> string" where
  "datasource p =
     (let q = (\<lambda>s. [CHR 0x27] @ s @ [CHR 0x27]) in
      ''host='' @ q (op_Host p) @ '' port='' @ q (op_Port p) @ '' user='' @ q ''${env:PG_USERNAME}'' @
      '' password='' @ q ''${env:PG_PASSWORD}'' @ '' dbname='' @ q (op_DBName p) @
      '' sslmode=verify-full sslrootcert='' @ otelCACertFile)"

section \<open>Texts of one line\<close>

lemma oneLine_simps [simp]:
  "oneLine []"
  "oneLine (c # s) \<longleftrightarrow> c \<noteq> CHR 0x0A \<and> c \<noteq> CHR 0x0D \<and> oneLine s"
  "oneLine (s @ t) \<longleftrightarrow> oneLine s \<and> oneLine t"
  by (auto simp: oneLine_def hasNewline_def)

lemma oneLine_digits: "list_all isDigit s \<Longrightarrow> oneLine s"
  by (induction s) (auto simp: isDigit_def)

lemma oneLine_defaults: "oneLine ''5432''" "oneLine ''kine''"
  by simp_all

lemma oneLine_JoinHostPort: "oneLine h \<Longrightarrow> oneLine p \<Longrightarrow> oneLine (JoinHostPort h p)"
  by (simp add: JoinHostPort_def)

lemma oneLine_lines: "list_all oneLine ls \<Longrightarrow> splitLines (unlines ls) = ls @ [[]]"
  by (rule splitLines_unlines) (auto simp: list_all_iff oneLine_def hasNewline_def)

lemma oneLine_no_return: "list_all oneLine ls \<Longrightarrow> CHR 0x0D \<notin> set (unlines ls)"
  by (induction ls) (auto simp: unlines_def oneLine_def hasNewline_def)

lemma oneLine_itoa: "oneLine (itoa i)"
proof -
  have "oneLine (nat_dec n)" for n using nat_dec_digits [of n] by (auto simp: oneLine_def hasNewline_def)
  then show ?thesis by (simp add: itoa_def)
qed

lemma otelQueries_oneLine: "list_all oneLine otelQueries"
  by (simp add: otelQueries_def)

section \<open>The parsed connection string\<close>

lemma parsed_DSN:
  assumes "ParsePostgreSQLDSN E dsn = Inr p"
  shows "oneLine (op_Host p)" "oneLine (op_Port p)" "oneLine (op_DBName p)"
  using assms oneLine_digits oneLine_defaults
  by (auto simp: ParsePostgreSQLDSN_def Let_def oneLine_def simp del: oneLine_simps split: sum.splits if_splits)

text \<open>The template as a list of lines, by whether a line carries a value.\<close>

definition otelLines :: "string \<times> string \<Rightarrow> oTelConnectionParams \<Rightarrow> string list" where
  "otelLines ivs p =
     (let dq = [CHR 0x22] in
      [''extensions:'', ''  health_check:'', ''    endpoint: '' @ dq @ ''0.0.0.0:'' @ itoa OTelHealthPort @ dq, '''',
       ''receivers:'', ''  postgresql:'',
       ''    endpoint: '' @ JoinHostPort (op_Host p) (op_Port p),
       ''    username: ${env:PG_USERNAME}'', ''    password: ${env:PG_PASSWORD}'',
       ''    databases: ['' @ op_DBName p @ '']'',
       ''    collection_interval: '' @ fst ivs,
       ''    tls:'', ''      insecure: false'', ''      ca_file: '' @ otelCACertFile, '''',
       ''  sqlquery:'', ''    driver: postgres'',
       ''    datasource: '' @ dq @ datasource p @ dq,
       ''    collection_interval: '' @ snd ivs] @ otelQueries @
      ['''', ''exporters:'', ''  prometheus:'', ''    endpoint: '' @ dq @ ''0.0.0.0:'' @ itoa OTelMetricsPort @ dq, '''',
       ''service:'', ''  extensions: [health_check]'', ''  pipelines:'', ''    metrics:'',
       ''      receivers: [postgresql, sqlquery]'', ''      exporters: [prometheus]''])"

lemma config_otelLines: "BuildOTelCollectorConfig sh p = unlines (otelLines (otelIntervals sh) p)"
  by (simp add: BuildOTelCollectorConfig_def otelLines_def datasource_def Let_def case_prod_beta)

lemma otelLines_oneLine:
  assumes "oneLine (op_Host p)" "oneLine (op_Port p)" "oneLine (op_DBName p)" "oneLine (fst ivs)" "oneLine (snd ivs)"
  shows "list_all oneLine (otelLines ivs p)"
  using assms otelQueries_oneLine
  by (simp add: otelLines_def datasource_def Let_def oneLine_JoinHostPort oneLine_itoa otelCACertFile_def)

lemma otelLines_blank: "blankValues (otelLines ivs p @ [[]]) = blankValues (otelLines ivs' p' @ [[]])"
  by (simp add: otelLines_def blankValues_def valueLines_def Let_def eval_nat_numeral)

lemma otelLines_values:
  "valuesAt (otelLines ivs p @ [[]]) =
     [''    endpoint: '' @ JoinHostPort (op_Host p) (op_Port p),
      ''    databases: ['' @ op_DBName p @ '']'',
      ''    collection_interval: '' @ fst ivs,
      ''    datasource: '' @ [CHR 0x22] @ datasource p @ [CHR 0x22],
      ''    collection_interval: '' @ snd ivs]"
  by (simp add: otelLines_def valuesAt_def valueLines_def Let_def eval_nat_numeral)

section \<open>Properties\<close>

text \<open>
  C31: a connection string that the parser accepts cannot add or change a line of the collector's
  configuration. For every two accepted strings, whatever the URL parser makes of them, the two
  configurations have the same lines except the five that carry a value, no carriage return, and
  those five lines are the template's with the value in place. The user name and the password
  never reach the configuration, whose text stays the same when they change.
\<close>

theorem otel_config_fixed_lines:
  assumes "ParsePostgreSQLDSN E dsn = Inr p" "ParsePostgreSQLDSN E' dsn' = Inr p'"
    and "oneLineIntervals sh" "oneLineIntervals sh'"
  defines "ls \<equiv> splitLines (BuildOTelCollectorConfig sh p)"
  shows "blankValues ls = blankValues (splitLines (BuildOTelCollectorConfig sh' p')) \<and>
    CHR 0x0D \<notin> set (BuildOTelCollectorConfig sh p) \<and>
    valuesAt ls =
      [''    endpoint: '' @ JoinHostPort (op_Host p) (op_Port p),
       ''    databases: ['' @ op_DBName p @ '']'',
       ''    collection_interval: '' @ fst (otelIntervals sh),
       ''    datasource: '' @ [CHR 0x22] @ datasource p @ [CHR 0x22],
       ''    collection_interval: '' @ snd (otelIntervals sh)] \<and>
    BuildOTelCollectorConfig sh (p\<lparr>op_User := u, op_Password := w\<rparr>) = BuildOTelCollectorConfig sh p"
proof -
  have one: "list_all oneLine (otelLines (otelIntervals sh) p)" "list_all oneLine (otelLines (otelIntervals sh') p')"
    using parsed_DSN [OF assms(1)] parsed_DSN [OF assms(2)] assms(3,4)
    by (auto intro!: otelLines_oneLine simp: oneLineIntervals_def)
  have "BuildOTelCollectorConfig sh (p\<lparr>op_User := u, op_Password := w\<rparr>) = BuildOTelCollectorConfig sh p"
    by (simp add: BuildOTelCollectorConfig_def)
  with one show ?thesis
    unfolding ls_def config_otelLines
    by (simp add: oneLine_lines oneLine_no_return otelLines_values otelLines_blank [of _ p _ p'])
qed

text \<open>An environment whose URL parser reads every connection string as one on the given host and path.\<close>

definition dsnEnv :: "string \<Rightarrow> string \<Rightarrow> env" where
  "dsnEnv host path = (refEnv (heldServer []))\<lparr>parseDSNURL :=
     (\<lambda>s. Inr (''postgres'', Some (''kine'', Some ''secret''), host, [], path))\<rparr>"

definition dsnParams :: "string \<Rightarrow> string \<Rightarrow> oTelConnectionParams" where
  "dsnParams host db =
     \<lparr>op_Host = host, op_Port = ''5432'', op_User = ''kine'', op_Password = ''secret'', op_DBName = db,
      op_CACertSecretName = [], op_CACertSecretKey = []\<rparr>"

lemma dsnEnv_parses:
  "h \<noteq> [] \<Longrightarrow> db \<noteq> [] \<Longrightarrow> oneLine h \<Longrightarrow> oneLine db \<Longrightarrow>
   ParsePostgreSQLDSN (dsnEnv h (CHR 0x2F # db)) dsn = Inr (dsnParams h db)"
  by (simp add: ParsePostgreSQLDSN_def dsnEnv_def dsnParams_def Let_def TrimPrefix_def isDigit_def oneLine_def hasNewline_def)

theorem otel_config_fixed_lines_witness:
  "blankValues (splitLines (BuildOTelCollectorConfig sampleShard (dsnParams ''db'' ''one''))) =
     blankValues (splitLines (BuildOTelCollectorConfig sampleShard (dsnParams ''2001:db8::1'' ''two''))) \<and>
   valuesAt (splitLines (BuildOTelCollectorConfig sampleShard (dsnParams ''db'' ''one''))) ! 1 = ''    databases: [one]''"
proof -
  have "ParsePostgreSQLDSN (dsnEnv ''db'' ''/one'') [] = Inr (dsnParams ''db'' ''one'')"
    "ParsePostgreSQLDSN (dsnEnv ''2001:db8::1'' ''/two'') [] = Inr (dsnParams ''2001:db8::1'' ''two'')"
    by (rule dsnEnv_parses; simp)+
  moreover have "oneLineIntervals sampleShard" by code_simp
  ultimately show ?thesis
    using otel_config_fixed_lines [of "dsnEnv ''db'' ''/one''" "[]" _ "dsnEnv ''2001:db8::1'' ''/two''" "[]" _ sampleShard sampleShard]
    by (simp add: dsnParams_def)
qed

text \<open>
  The check keeps values on their line and no more: a database name with a comma is accepted and
  reaches the flow sequence of \<open>databases\<close> unquoted, where it names two databases.
\<close>

lemma otel_config_unquoted_database:
  "ParsePostgreSQLDSN (dsnEnv ''db'' ''/kine, postgres'') dsn = Inr (dsnParams ''db'' ''kine, postgres'') \<and>
   ''    databases: [kine, postgres]'' \<in> set (otelLines (otelIntervals sh) (dsnParams ''db'' ''kine, postgres''))"
  by (simp add: dsnEnv_parses otelLines_def dsnParams_def Let_def)

end
