(* ===== verification/StorageSteps.thy ===== *)
theory StorageSteps
  imports ShardStorage
begin

text \<open>
  Properties of the storage steps: the claim templates and the password of the in-cluster
  PostgreSQL survive reconciles, and what happens when the Secret with the password cannot be read.
\<close>

section \<open>Lemmas\<close>

lemma wp_GeneratePassword [wps]:
  assumes "\<And>b. randomBytes E (tr s) 16 = Inr b \<Longrightarrow> Q (hexEncode b) s" and "\<And>e. X e s"
  shows "wp G (GeneratePassword E) Q X s"
  using assms by (auto simp: wp_def GeneratePassword_def guards_refl split: sum.splits)

text \<open>Each apply of the StatefulSet comes right after the read that decides its claim templates.\<close>

definition liveClaims :: "reconciler \<Rightarrow> apiShard \<Rightarrow> statefulSet \<Rightarrow> resp \<Rightarrow> bool" where
  "liveClaims R sh x ans =
     (case ans of
        RObj y \<Rightarrow> (\<exists>live. y = KStatefulSet live \<and> ss_volumeClaimTemplates x = ss_volumeClaimTemplates live)
      | RErr e \<Rightarrow> IsNotFound e \<and> x = postgresStatefulSet R sh
      | _ \<Rightarrow> False)"

definition claimGuard :: "reconciler \<Rightarrow> apiShard \<Rightarrow> nat \<Rightarrow> history \<Rightarrow> event \<Rightarrow> bool" where
  "claimGuard R sh k h e =
     (case e of
        (ApplyOwnedCall (KStatefulSet x), r) \<Rightarrow>
          (\<exists>pre ans. k \<le> length pre \<and> h = pre @ [(GetCall Primary StatefulSetKind (keyOf (KStatefulSet x)), ans)] \<and> liveClaims R sh x ans)
      | _ \<Rightarrow> True)"

lemma align_key [simp]: "keyOf (KStatefulSet (AlignPostgreSQLVolumeClaims d e)) = keyOf (KStatefulSet d)"
  by (simp add: keyOf_def AlignPostgreSQLVolumeClaims_def Let_def)

lemma wp_preserve:
  assumes k: "k \<le> length (tr s)"
    and Q: "\<And>x t pre ans. tr t = pre @ [(GetCall Primary StatefulSetKind (keyOf (KStatefulSet x)), ans)] \<Longrightarrow> k \<le> length pre \<Longrightarrow>
      (case ans of RObj y \<Rightarrow> (\<exists>live. y = KStatefulSet live \<and> ss_volumeClaimTemplates x = ss_volumeClaimTemplates live)
       | RErr e \<Rightarrow> IsNotFound e \<and> x = d | _ \<Rightarrow> False) \<Longrightarrow> Q x t"
  shows "wp (claimGuard R sh k) (preservePostgreSQLVolumeClaimTemplates E d) Q (\<lambda>_ _. True) s"
proof -
  have a: "y = KStatefulSet x" if "asStatefulSet y = Some x" for y x using that by (cases y) auto
  show ?thesis
    unfolding preservePostgreSQLVolumeClaimTemplates_def Let_def
    by (intro wps) (use k in \<open>auto simp: claimGuard_def decodeError_def align_claims dest!: a intro!: Q\<close>)
qed

lemma wp_inCluster:
  "wp (claimGuard R (shard s) (length (tr s))) (reconcileInClusterPostgreSQL E R) (\<lambda>_ _. True) (\<lambda>_ _. True) s"
  unfolding reconcileInClusterPostgreSQL_def getOrGeneratePostgresPassword_def applyAll_simps
  by (intro wps wp_preserve) (auto simp: claimGuard_def liveClaims_def split: resp.splits)

definition secretGuard :: "apiShard \<Rightarrow> string \<Rightarrow> history \<Rightarrow> event \<Rightarrow> bool" where
  "secretGuard sh pw h e = (case e of (ApplyOwnedCall (KSecret x), r) \<Rightarrow> x = BuildPostgreSQLSecret sh pw | _ \<Rightarrow> True)"

lemma wp_known: "m s = (Inr x, t) \<Longrightarrow> guards G s t \<Longrightarrow> Q x t \<Longrightarrow> wp G m Q X s"
  by (simp add: wp_def)

lemma password_read:
  assumes "answer E (tr s) (GetCall Primary SecretKind (shardNS (shard s), PostgreSQLSecretName (shard s))) = RObj (KSecret sec)"
    and "map_of (sec_data sec) ''POSTGRES_PASSWORD'' = Some pw" and "pw \<noteq> []"
  shows "getOrGeneratePostgresPassword E s =
    (Inr pw, logged (GetCall Primary SecretKind (shardNS (shard s), PostgreSQLSecretName (shard s))) (RObj (KSecret sec)) s)"
  using assms by (simp add: getOrGeneratePostgresPassword_def bindE_def getsE_def tryE_def getObj_def request_def asOne_def returnE_def Let_def)

lemma password_generated:
  assumes "answer E (tr s) (GetCall Primary SecretKind (shardNS (shard s), PostgreSQLSecretName (shard s))) = RErr e"
    and "randomBytes E (tr s @ [(GetCall Primary SecretKind (shardNS (shard s), PostgreSQLSecretName (shard s)), RErr e)]) 16 = Inr b"
  shows "getOrGeneratePostgresPassword E s =
    (Inr (hexEncode b), logged (GetCall Primary SecretKind (shardNS (shard s), PostgreSQLSecretName (shard s))) (RErr e) s)"
  using assms by (simp add: getOrGeneratePostgresPassword_def bindE_def getsE_def tryE_def getObj_def request_def GeneratePassword_def Let_def)

lemma wp_secret:
  assumes "answer E (tr s) (GetCall Primary SecretKind (shardNS (shard s), PostgreSQLSecretName (shard s))) = RObj (KSecret sec)"
    and "map_of (sec_data sec) ''POSTGRES_PASSWORD'' = Some pw" and "pw \<noteq> []"
  shows "wp (secretGuard (shard s) pw) (reconcileInClusterPostgreSQL E R) (\<lambda>_ _. True) (\<lambda>_ _. True) s"
  unfolding reconcileInClusterPostgreSQL_def preservePostgreSQLVolumeClaimTemplates_def applyAll_simps Let_def
  by (rule wp_bind, rule wp_gets, rule wp_bind, rule wp_wrap, rule wp_known, rule password_read [OF assms],
      rule guards_logged, simp add: secretGuard_def, intro wps) (auto simp: secretGuard_def)

text \<open>The first calls of the step, once the password is known.\<close>

lemma inCluster_first:
  assumes "getOrGeneratePostgresPassword E s = (Inr pw, logged c r s)"
  shows "\<exists>r' fs. newEvents s (snd (reconcileInClusterPostgreSQL E R s)) =
    [(c, r), (ApplyOwnedCall (KSecret (BuildPostgreSQLSecret (shard s) pw)), r')] @ fs"
proof -
  let ?a = "ApplyOwnedCall (KSecret (BuildPostgreSQLSecret (shard s) pw))"
  define rest where "rest = bindE (applyAll E [(''postgresql init configmap'', KConfigMap (BuildPostgreSQLInitConfigMap (shard s)))]) (\<lambda>_.
     bindE (wrapE ''preserving postgresql volume claim templates''
              (preservePostgreSQLVolumeClaimTemplates E (postgresStatefulSet R (shard s)))) (\<lambda>sts.
     applyAll E [(''postgresql statefulset'', KStatefulSet sts), (''postgresql service'', KService (BuildPostgreSQLService (shard s)))]))"
  define s2 where "s2 = logged ?a (answer E (tr (logged c r s)) ?a) (logged c r s)"
  have "reconcileInClusterPostgreSQL E R s = bindE (wrapE ''postgresql secret'' (requestU E ?a)) (\<lambda>_. rest) (logged c r s)"
    using assms unfolding reconcileInClusterPostgreSQL_def rest_def
    by (simp add: applyAll_simps bindE_assoc bindE_Inr [where m = "getsE shard" and x = "shard s" and t = s]
        bindE_Inr [where m = "wrapE ''postgres password'' (getOrGeneratePostgresPassword E)"] getsE_def)
  also have "snd \<dots> = (case answer E (tr (logged c r s)) ?a of RErr e \<Rightarrow> s2 | _ \<Rightarrow> snd (rest s2))"
    by (simp add: s2_def bindE_def wrapE_def requestU_def request_def returnE_def Let_def split: resp.split)
  finally have run: "snd (reconcileInClusterPostgreSQL E R s) = \<dots>" .
  have "keeps (extends (\<lambda>_. True)) rest"
    unfolding rest_def preservePostgreSQLVolumeClaimTemplates_def Let_def
    by (auto intro!: keeps_intros keeps_applyAll split: sum.splits)
  then have "prefix (tr s2) (tr (snd (rest s2)))" by (rule grows_prefix)
  then have "prefix (tr s2) (tr (snd (reconcileInClusterPostgreSQL E R s)))" by (simp add: run split: resp.splits)
  then show ?thesis by (auto simp: s2_def newEvents_def prefix_def)
qed

section \<open>Properties\<close>

text \<open>
  C21: the StatefulSet of the in-cluster PostgreSQL is applied right after the live one was read, and
  with the volume claim templates of the live one, whatever the spec asks for, so that the apply
  never touches the immutable field; the requested templates are applied only when there is no
  live StatefulSet, and no StatefulSet is applied after a failed read.
\<close>

theorem statefulSet_keeps_live_claims:
  assumes "newEvents s (snd (reconcileInClusterPostgreSQL E R s)) = es @ (ApplyOwnedCall (KStatefulSet x), r) # fs"
  shows "\<exists>pre ans. es = pre @ [(GetCall Primary StatefulSetKind (keyOf (KStatefulSet x)), ans)] \<and> liveClaims R (shard s) x ans"
proof -
  from wp_event [OF wp_inCluster assms] obtain pre ans where "length (tr s) \<le> length pre"
    and eq: "tr s @ es = pre @ [(GetCall Primary StatefulSetKind (keyOf (KStatefulSet x)), ans)]" and l: "liveClaims R (shard s) x ans"
    by (auto simp: claimGuard_def)
  then have "es \<noteq> []" by auto
  with eq have "es = butlast es @ [(GetCall Primary StatefulSetKind (keyOf (KStatefulSet x)), ans)]"
    by (metis append_butlast_last_id last_appendR last_snoc)
  with l show ?thesis by blast
qed

definition pgShard :: apiShard where
  "pgShard = sampleShard\<lparr>spec := sampleSpec\<lparr>storage := (storage sampleSpec)\<lparr>st_type := StorageTypeInClusterPostgreSQL\<rparr>\<rparr>\<rparr>"

definition pgState :: shardst where
  "pgState = \<lparr>tr = [], clients = [], shard = pgShard\<rparr>"

definition plainR :: reconciler where
  "plainR = \<lparr>ClientProvider = True, ServiceMonitorAvailable = False, SCCAvailable = False, PrimaryIssuer = ''i''\<rparr>"

lemma pg_run:
  "\<exists>es fs. newEvents pgState (snd (reconcileInClusterPostgreSQL (refEnv (heldServer [])) plainR pgState)) =
     es @ (ApplyOwnedCall (KStatefulSet (postgresStatefulSet plainR pgShard)), ROk) # fs"
proof -
  let ?E = "refEnv (heldServer [])"
  have nf: "IsNotFound notFoundError" by (simp add: IsNotFound_def notFoundError_def)
  have r: "randomBytes ?E h 16 = Inr (replicate 16 (CHR 0x2A))" for h by (simp add: refEnv_def)
  have "getOrGeneratePostgresPassword ?E pgState = (Inr (hexEncode (replicate 16 (CHR 0x2A))),
      logged (GetCall Primary SecretKind (shardNS (shard pgState), PostgreSQLSecretName (shard pgState))) (RErr notFoundError) pgState)"
    by (rule password_generated) (simp_all only: r, simp add: pgState_def)
  then have "\<exists>a b c d fs. newEvents pgState (snd (reconcileInClusterPostgreSQL ?E plainR pgState)) =
      [a, b, c, d] @ (ApplyOwnedCall (KStatefulSet (postgresStatefulSet plainR pgShard)), ROk) # fs"
    using nf
    by (simp add: reconcileInClusterPostgreSQL_def preservePostgreSQLVolumeClaimTemplates_def applyAll_simps newEvents_def
        bindE_def getsE_def wrapE_def tryE_def requestU_def request_def getObj_def returnE_def setCond_def modifyE_def Let_def pgState_def)
  then show ?thesis by blast
qed

theorem statefulSet_keeps_live_claims_witness:
  "\<exists>es fs. newEvents pgState (snd (reconcileInClusterPostgreSQL (refEnv (heldServer [])) plainR pgState)) =
     es @ (ApplyOwnedCall (KStatefulSet (postgresStatefulSet plainR pgShard)), ROk) # fs \<and>
     (\<exists>ans. liveClaims plainR pgShard (postgresStatefulSet plainR pgShard) ans)"
proof -
  from pg_run obtain es fs where ev: "newEvents pgState (snd (reconcileInClusterPostgreSQL (refEnv (heldServer [])) plainR pgState)) =
     es @ (ApplyOwnedCall (KStatefulSet (postgresStatefulSet plainR pgShard)), ROk) # fs" by blast
  from statefulSet_keeps_live_claims [OF this] ev show ?thesis by (auto simp: pgState_def)
qed

text \<open>
  C22: a password that can be read stays. While the Secret of the in-cluster PostgreSQL is readable
  and holds a password, every reconcile applies the Secret with that password and no other.
\<close>

theorem postgres_password_stable:
  assumes "answer E (tr s) (GetCall Primary SecretKind (shardNS (shard s), PostgreSQLSecretName (shard s))) = RObj (KSecret sec)"
    and "map_of (sec_data sec) ''POSTGRES_PASSWORD'' = Some pw" and "pw \<noteq> []"
    and "newEvents s (snd (reconcileInClusterPostgreSQL E R s)) = es @ (ApplyOwnedCall (KSecret x), r) # fs"
  shows "x = BuildPostgreSQLSecret (shard s) pw"
  using wp_event [OF wp_secret [OF assms(1-3)] assms(4)] by (simp add: secretGuard_def)

definition pgSecret :: secret where
  "pgSecret = \<lparr>sec_meta = emptyMeta\<lparr>om_name := PostgreSQLSecretName pgShard, om_namespace := shardNS pgShard\<rparr>, sec_type = [],
     sec_data = [(''POSTGRES_PASSWORD'', ''secret'')], sec_stringData = []\<rparr>"

theorem postgres_password_stable_witness:
  "\<exists>es x r fs. newEvents pgState (snd (reconcileInClusterPostgreSQL (refEnv (heldServer [KSecret pgSecret])) plainR pgState)) =
     es @ (ApplyOwnedCall (KSecret x), r) # fs \<and> x = BuildPostgreSQLSecret pgShard ''secret''"
proof -
  let ?E = "refEnv (heldServer [KSecret pgSecret])"
  have get: "answer ?E (tr pgState) (GetCall Primary SecretKind (shardNS (shard pgState), PostgreSQLSecretName (shard pgState))) = RObj (KSecret pgSecret)"
    and pw: "map_of (sec_data pgSecret) ''POSTGRES_PASSWORD'' = Some ''secret''"
    by (simp_all add: pgState_def pgSecret_def keyOf_def)
  from inCluster_first [OF password_read [OF get pw], of plainR] obtain e x r fs
    where "newEvents pgState (snd (reconcileInClusterPostgreSQL ?E plainR pgState)) = [e] @ (ApplyOwnedCall (KSecret x), r) # fs" by auto
  with postgres_password_stable [OF get pw _ this] show ?thesis
    by (intro exI [of _ "[e]"] exI [of _ x] exI [of _ r] exI [of _ fs]) (simp add: pgState_def)
qed

text \<open>
  C40: any failure to read the Secret, not only that there is none, makes the reconcile generate a
  new password and apply it over the live Secret. The database keeps the password it was
  initialised with.
\<close>

theorem postgres_password_replaced_on_read_error:
  assumes "answer E (tr s) (GetCall Primary SecretKind (shardNS (shard s), PostgreSQLSecretName (shard s))) = RErr e"
    and "randomBytes E (tr s @ [(GetCall Primary SecretKind (shardNS (shard s), PostgreSQLSecretName (shard s)), RErr e)]) 16 = Inr b"
  shows "\<exists>r fs. newEvents s (snd (reconcileInClusterPostgreSQL E R s)) =
    [(GetCall Primary SecretKind (shardNS (shard s), PostgreSQLSecretName (shard s)), RErr e),
     (ApplyOwnedCall (KSecret (BuildPostgreSQLSecret (shard s) (hexEncode b))), r)] @ fs"
  by (rule inCluster_first [OF password_generated [OF assms]])

definition slowServer :: "history \<Rightarrow> call \<Rightarrow> resp" where
  "slowServer h c = (if c = GetCall Primary SecretKind (shardNS pgShard, PostgreSQLSecretName pgShard)
     then RErr (errorf ''context deadline exceeded'') else heldServer [KSecret pgSecret] h c)"

theorem postgres_password_replaced_on_read_error_witness:
  "\<exists>pw r fs. newEvents pgState (snd (reconcileInClusterPostgreSQL (refEnv slowServer) plainR pgState)) =
    [(GetCall Primary SecretKind (shardNS pgShard, PostgreSQLSecretName pgShard), RErr (errorf ''context deadline exceeded'')),
     (ApplyOwnedCall (KSecret (BuildPostgreSQLSecret pgShard pw)), r)] @ fs \<and> pw \<noteq> ''secret''"
proof -
  let ?b = "replicate 16 (CHR 0x2A)"
  have "length (hexEncode ?b) = 32" by (simp add: hexEncode_length)
  moreover have "length ''secret'' \<noteq> 32" by simp
  ultimately have "hexEncode ?b \<noteq> ''secret''" by (intro notI) (simp only:)
  moreover have "randomBytes (refEnv slowServer) h 16 = Inr ?b" for h by (simp add: refEnv_def)
  ultimately show ?thesis
    using postgres_password_replaced_on_read_error [of "refEnv slowServer" pgState "errorf ''context deadline exceeded''" ?b plainR]
    by (auto simp: pgState_def slowServer_def)
qed

end
