(* ===== verification/ClientConcurrency.thy ===== *)
theory ClientConcurrency
  imports SecondaryClient
begin

text \<open>
  Concurrent use of the client provider (\<open>operator/internal/secondary/client.go\<close>). The three
  controllers share one \<open>ClientProvider\<close> and call it from several goroutines. Here a call is the
  sequence of its atomic actions (lock, read, check, build, store, unlock), the goroutines
  interleave freely, and the mutex is the \<open>sync.RWMutex\<close> of the code, including that a waiting
  writer holds up new readers.

  The specification is the provider whose operations are atomic: \<open>GetOrCreate\<close>,
  \<open>InjectClientForTest\<close> and \<open>Invalidate\<close> of \<open>SecondaryClient\<close>, each taking effect at one instant
  between its call and its return. The concurrent provider refines it, and every call returns.
\<close>

section \<open>The provider with its lock\<close>

datatype providerOp = GetOrCreateOp string clientConfiguration | InjectOp string restConfig | InvalidateOp string

type_synonym opResult = "goerror + restConfig option"

text \<open>A \<open>sync.RWMutex\<close>: the number of readers that hold it, and whether a writer does.\<close>

record rwMutex =
  mu_readers :: nat
  mu_writer :: bool

text \<open>
  Where a goroutine is in the code of the call it makes: \<open>AtRead\<close> and \<open>AtRUnlock\<close> hold the read lock,
  \<open>AtRecheck\<close> to \<open>AtUnlock\<close> the write lock.
\<close>

datatype pc =
    Idle
  | AtRLock string clientConfiguration
  | AtRead string clientConfiguration
  | AtRUnlock string clientConfiguration "clientEntry option"
  | AtFast string clientConfiguration "clientEntry option"
  | AtLock providerOp
  | AtRecheck string clientConfiguration
  | AtBuild string clientConfiguration
  | AtStore string clientConfiguration restConfig
  | AtMutate providerOp
  | AtUnlock providerOp opResult
  | AtReturn providerOp opResult

definition newEntry :: "env \<Rightarrow> clientConfiguration \<Rightarrow> restConfig \<Rightarrow> clientEntry" where
  "newEntry E cfg c = \<lparr>ce_client = c, ce_host = cfg_Host cfg, ce_fingerprint = fingerprint E cfg, ce_pinned = False\<rparr>"

fun mutate :: "providerOp \<Rightarrow> clientEntry gomap \<Rightarrow> clientEntry gomap" where
  "mutate (InjectOp k c) m = mapPut k \<lparr>ce_client = c, ce_host = [], ce_fingerprint = [], ce_pinned = True\<rparr> m"
| "mutate (InvalidateOp k) m = mapDelete k m"
| "mutate (GetOrCreateOp k cfg) m = m"

fun enter :: "providerOp \<Rightarrow> pc" where
  "enter (GetOrCreateOp k cfg) = AtRLock k cfg"
| "enter op = AtLock op"

fun locked :: "providerOp \<Rightarrow> pc" where
  "locked (GetOrCreateOp k cfg) = AtRecheck k cfg"
| "locked op = AtMutate op"

text \<open>
  One action of a goroutine on the mutex and the map; \<open>None\<close> when it has to wait. \<open>waiting\<close> says that
  some goroutine waits for the write lock.
\<close>

fun act :: "env \<Rightarrow> bool \<Rightarrow> rwMutex \<Rightarrow> clientEntry gomap \<Rightarrow> pc \<Rightarrow> (rwMutex \<times> clientEntry gomap \<times> pc) option" where
  "act E waiting mu m (AtRLock k cfg) =
     (if mu_writer mu \<or> waiting \<and> mu_readers mu > 0 then None
      else Some (mu\<lparr>mu_readers := mu_readers mu + 1\<rparr>, m, AtRead k cfg))"
| "act E waiting mu m (AtRead k cfg) = Some (mu, m, AtRUnlock k cfg (map_of m k))"
| "act E waiting mu m (AtRUnlock k cfg e) = Some (mu\<lparr>mu_readers := mu_readers mu - 1\<rparr>, m, AtFast k cfg e)"
| "act E waiting mu m (AtFast k cfg e) =
     Some (mu, m, case e of
        Some x \<Rightarrow> if cacheHit E cfg x then AtReturn (GetOrCreateOp k cfg) (Inr (Some (ce_client x))) else AtLock (GetOrCreateOp k cfg)
      | None \<Rightarrow> AtLock (GetOrCreateOp k cfg))"
| "act E waiting mu m (AtLock op) =
     (if mu_writer mu \<or> mu_readers mu > 0 then None else Some (mu\<lparr>mu_writer := True\<rparr>, m, locked op))"
| "act E waiting mu m (AtRecheck k cfg) =
     Some (mu, m, case cachedClient E k cfg m of
        Some c \<Rightarrow> AtUnlock (GetOrCreateOp k cfg) (Inr (Some c)) | None \<Rightarrow> AtBuild k cfg)"
| "act E waiting mu m (AtBuild k cfg) =
     Some (mu, m, case newClient E (buildRESTConfig cfg) of
        Some e \<Rightarrow> AtUnlock (GetOrCreateOp k cfg) (Inl (wrap (''creating client for shard '' @ k) e))
      | None \<Rightarrow> AtStore k cfg (buildRESTConfig cfg))"
| "act E waiting mu m (AtStore k cfg c) =
     Some (mu, mapPut k (newEntry E cfg c) m, AtUnlock (GetOrCreateOp k cfg) (Inr (Some c)))"
| "act E waiting mu m (AtMutate op) = Some (mu, mutate op m, AtUnlock op (Inr None))"
| "act E waiting mu m (AtUnlock op r) = Some (mu\<lparr>mu_writer := False\<rparr>, m, AtReturn op r)"
| "act E waiting mu m Idle = None"
| "act E waiting mu m (AtReturn op r) = None"

text \<open>The provider and the goroutines that use it.\<close>

record provider =
  pv_mu :: rwMutex
  pv_clients :: "clientEntry gomap"
  pv_pcs :: "pc list"

fun waitsForLock :: "pc \<Rightarrow> bool" where
  "waitsForLock (AtLock op) = True"
| "waitsForLock _ = False"

datatype label = Call nat providerOp | Ret nat providerOp opResult

inductive providerStep :: "env \<Rightarrow> provider \<Rightarrow> label option \<Rightarrow> provider \<Rightarrow> bool" for E where
  call: "t < length (pv_pcs p) \<Longrightarrow> pv_pcs p ! t = Idle \<Longrightarrow>
    providerStep E p (Some (Call t op)) (p\<lparr>pv_pcs := (pv_pcs p)[t := enter op]\<rparr>)"
| act: "t < length (pv_pcs p) \<Longrightarrow>
    act E (list_ex waitsForLock (pv_pcs p)) (pv_mu p) (pv_clients p) (pv_pcs p ! t) = Some (mu, m, q) \<Longrightarrow>
    providerStep E p None \<lparr>pv_mu = mu, pv_clients = m, pv_pcs = (pv_pcs p)[t := q]\<rparr>"
| ret: "t < length (pv_pcs p) \<Longrightarrow> pv_pcs p ! t = AtReturn op r \<Longrightarrow>
    providerStep E p (Some (Ret t op r)) (p\<lparr>pv_pcs := (pv_pcs p)[t := Idle]\<rparr>)"

text \<open>Runs, with the calls and returns they show; a silent step has no label.\<close>

inductive runOf :: "('c \<Rightarrow> 'l option \<Rightarrow> 'c \<Rightarrow> bool) \<Rightarrow> 'c \<Rightarrow> 'l list \<Rightarrow> 'c \<Rightarrow> bool" for step where
  run_none: "runOf step c [] c"
| run_more: "runOf step c ls d \<Longrightarrow> step d l d' \<Longrightarrow> runOf step c (case l of None \<Rightarrow> ls | Some v \<Rightarrow> ls @ [v]) d'"

abbreviation providerRun :: "env \<Rightarrow> provider \<Rightarrow> label list \<Rightarrow> provider \<Rightarrow> bool" where
  "providerRun E \<equiv> runOf (providerStep E)"

definition newProvider :: "nat \<Rightarrow> provider" where
  "newProvider n = \<lparr>pv_mu = \<lparr>mu_readers = 0, mu_writer = False\<rparr>, pv_clients = NewClientProvider, pv_pcs = replicate n Idle\<rparr>"

section \<open>The specification: atomic operations\<close>

datatype callState = NoCall | Pending providerOp | Finished providerOp opResult

record atomicProvider =
  ap_clients :: "clientEntry gomap"
  ap_calls :: "callState list"

definition onClients :: "(base, 'a) op \<Rightarrow> clientEntry gomap \<Rightarrow> (goerror + 'a) \<times> clientEntry gomap" where
  "onClients f m = (case f \<lparr>tr = [], clients = m\<rparr> of (r, s) \<Rightarrow> (r, clients s))"

fun atomically :: "env \<Rightarrow> providerOp \<Rightarrow> clientEntry gomap \<Rightarrow> opResult \<times> clientEntry gomap" where
  "atomically E (GetOrCreateOp k cfg) m = (case onClients (GetOrCreate E k cfg) m of (r, m') \<Rightarrow> (map_sum id Some r, m'))"
| "atomically E (InjectOp k c) m = (case onClients (InjectClientForTest k c) m of (r, m') \<Rightarrow> (map_sum id (\<lambda>_. None) r, m'))"
| "atomically E (InvalidateOp k) m = (case onClients (Invalidate k) m of (r, m') \<Rightarrow> (map_sum id (\<lambda>_. None) r, m'))"

inductive atomicStep :: "env \<Rightarrow> atomicProvider \<Rightarrow> label option \<Rightarrow> atomicProvider \<Rightarrow> bool" for E where
  a_call: "t < length (ap_calls a) \<Longrightarrow> ap_calls a ! t = NoCall \<Longrightarrow>
    atomicStep E a (Some (Call t op)) (a\<lparr>ap_calls := (ap_calls a)[t := Pending op]\<rparr>)"
| a_op: "t < length (ap_calls a) \<Longrightarrow> ap_calls a ! t = Pending op \<Longrightarrow> atomically E op (ap_clients a) = (r, m) \<Longrightarrow>
    atomicStep E a None \<lparr>ap_clients = m, ap_calls = (ap_calls a)[t := Finished op r]\<rparr>"
| a_ret: "t < length (ap_calls a) \<Longrightarrow> ap_calls a ! t = Finished op r \<Longrightarrow>
    atomicStep E a (Some (Ret t op r)) (a\<lparr>ap_calls := (ap_calls a)[t := NoCall]\<rparr>)"

abbreviation atomicRun :: "env \<Rightarrow> atomicProvider \<Rightarrow> label list \<Rightarrow> atomicProvider \<Rightarrow> bool" where
  "atomicRun E \<equiv> runOf (atomicStep E)"

section \<open>Lock discipline\<close>

fun holdsRead :: "pc \<Rightarrow> bool" where
  "holdsRead (AtRead k cfg) = True"
| "holdsRead (AtRUnlock k cfg e) = True"
| "holdsRead _ = False"

fun holdsWrite :: "pc \<Rightarrow> bool" where
  "holdsWrite (AtRecheck k cfg) = True"
| "holdsWrite (AtBuild k cfg) = True"
| "holdsWrite (AtStore k cfg c) = True"
| "holdsWrite (AtMutate op) = True"
| "holdsWrite (AtUnlock op r) = True"
| "holdsWrite _ = False"

text \<open>What a goroutine knows about the map: a miss seen under the write lock still is one.\<close>

fun knows :: "env \<Rightarrow> clientEntry gomap \<Rightarrow> pc \<Rightarrow> bool" where
  "knows E m (AtBuild k cfg) = (cachedClient E k cfg m = None)"
| "knows E m (AtStore k cfg c) = (cachedClient E k cfg m = None \<and> c = buildRESTConfig cfg \<and> newClient E c = None)"
| "knows E m (AtMutate op) = (\<forall>k cfg. op \<noteq> GetOrCreateOp k cfg)"
| "knows E m _ = True"

definition lockInv :: "env \<Rightarrow> provider \<Rightarrow> bool" where
  "lockInv E p = (mu_readers (pv_mu p) = length (filter holdsRead (pv_pcs p)) \<and>
     length (filter holdsWrite (pv_pcs p)) = (if mu_writer (pv_mu p) then 1 else 0) \<and>
     (mu_writer (pv_mu p) \<longrightarrow> mu_readers (pv_mu p) = 0) \<and>
     list_all (knows E (pv_clients p)) (pv_pcs p))"

lemma filter_update:
  assumes "t < length xs"
  shows "length (filter P (xs[t := y])) + (if P (xs ! t) then 1 else 0) = length (filter P xs) + (if P y then 1 else 0)"
  using assms
proof (induction xs arbitrary: t)
  case (Cons x xs)
  then show ?case by (cases t) (auto split: if_splits)
qed simp

lemma filter_none: "length (filter P xs) = 0 \<Longrightarrow> i < length xs \<Longrightarrow> \<not> P (xs ! i)"
  by (auto simp: filter_empty_conv)

lemma filter_one:
  assumes "length (filter P xs) = 1" and "i < length xs" "j < length xs" "i \<noteq> j" "P (xs ! i)"
  shows "\<not> P (xs ! j)"
proof
  assume "P (xs ! j)"
  then have "{i, j} \<subseteq> {n. n < length xs \<and> P (xs ! n)}" using assms by auto
  then have "card {i, j} \<le> length (filter P xs)" by (simp add: length_filter_conv_card card_mono)
  with assms show False by simp
qed

lemma locked_holds [simp]: "holdsWrite (locked op)" "\<not> holdsRead (locked op)" "knows E m (locked op)"
  by (cases op; simp)+

lemma enter_holds [simp]: "\<not> holdsWrite (enter op)" "\<not> holdsRead (enter op)"
  by (cases op; simp)+

lemma knows_free: "\<not> holdsWrite q \<Longrightarrow> knows E m q"
  by (cases q) simp_all

lemma list_all_update:
  assumes "t < length xs" and "P y" and "\<And>j. j < length xs \<Longrightarrow> j \<noteq> t \<Longrightarrow> P (xs ! j)"
  shows "list_all P (xs[t := y])"
  using assms by (auto simp: list_all_length nth_list_update)

lemma lockInv_counts:
  assumes "lockInv E p" and "t < length (pv_pcs p)"
  shows "holdsRead (pv_pcs p ! t) \<Longrightarrow> mu_readers (pv_mu p) > 0" and "holdsWrite (pv_pcs p ! t) \<Longrightarrow> mu_writer (pv_mu p)"
    and "knows E (pv_clients p) (pv_pcs p ! t)"
proof -
  show "mu_readers (pv_mu p) > 0" if "holdsRead (pv_pcs p ! t)"
    using that assms filter_none [of holdsRead "pv_pcs p" t] unfolding lockInv_def by fastforce
  show "mu_writer (pv_mu p)" if "holdsWrite (pv_pcs p ! t)"
    using that assms filter_none [of holdsWrite "pv_pcs p" t] unfolding lockInv_def by (auto split: if_splits)
  show "knows E (pv_clients p) (pv_pcs p ! t)" using assms by (simp add: lockInv_def list_all_length)
qed

text \<open>What one action does to the lock, and that only the holder of the write lock changes the map.\<close>

lemma act_lock:
  assumes "act E w mu m p = Some (mu', m', q)" and "holdsRead p \<longrightarrow> mu_readers mu > 0" and "holdsWrite p \<longrightarrow> mu_writer mu"
    and "mu_writer mu \<longrightarrow> mu_readers mu = 0"
  shows "mu_readers mu' + (if holdsRead p then 1 else 0) = mu_readers mu + (if holdsRead q then 1 else 0) \<and>
    (if mu_writer mu' then 1 else 0) + (if holdsWrite p then 1 else 0) = (if mu_writer mu then 1 else 0) + (if holdsWrite q then 1 else (0::nat)) \<and>
    (mu_writer mu' \<longrightarrow> mu_readers mu' = 0)"
  using assms by (cases p) (auto split: if_splits option.splits)

lemma act_map: "act E w mu m p = Some (mu', m', q) \<Longrightarrow> holdsWrite p \<or> m' = m"
  by (cases p) (auto split: if_splits)

lemma act_knows: "act E w mu m p = Some (mu', m', q) \<Longrightarrow> knows E m p \<Longrightarrow> knows E m' q"
  by (cases p) (auto split: if_splits option.splits)

lemma lockInv_update:
  assumes inv: "lockInv E p" and t: "t < length (pv_pcs p)"
    and readers: "mu_readers mu + (if holdsRead (pv_pcs p ! t) then 1 else 0) = mu_readers (pv_mu p) + (if holdsRead q then 1 else 0)"
    and writer: "(if mu_writer mu then 1 else 0) + (if holdsWrite (pv_pcs p ! t) then 1 else 0) =
      (if mu_writer (pv_mu p) then 1 else 0) + (if holdsWrite q then 1 else (0::nat))"
    and excl: "mu_writer mu \<longrightarrow> mu_readers mu = 0"
    and map: "holdsWrite (pv_pcs p ! t) \<or> m = pv_clients p" and knows: "knows E m q"
  shows "lockInv E \<lparr>pv_mu = mu, pv_clients = m, pv_pcs = (pv_pcs p)[t := q]\<rparr>"
proof -
  let ?ps = "pv_pcs p"
  have "mu_readers mu = length (filter holdsRead (?ps[t := q]))"
    using filter_update [OF t, of holdsRead q] readers inv by (simp add: lockInv_def)
  moreover have "length (filter holdsWrite (?ps[t := q])) = (if mu_writer mu then 1 else 0)"
    using filter_update [OF t, of holdsWrite q] writer inv by (simp add: lockInv_def)
  moreover have "list_all (knows E m) (?ps[t := q])"
  proof (rule list_all_update [where P = "knows E m", OF t knows])
    fix j assume j: "j < length ?ps" "j \<noteq> t"
    show "knows E m (?ps ! j)"
    proof (cases "holdsWrite (?ps ! t)")
      case True
      with inv lockInv_counts(2) [OF inv t] have "length (filter holdsWrite ?ps) = 1" by (simp add: lockInv_def)
      from filter_one [OF this t j(1) _ True] j(2) show ?thesis by (simp add: knows_free)
    next
      case False
      with map lockInv_counts(3) [OF inv j(1)] show ?thesis by simp
    qed
  qed
  ultimately show ?thesis using excl by (simp add: lockInv_def)
qed

lemma lockInv_step:
  assumes "providerStep E p l p'" and inv: "lockInv E p"
  shows "lockInv E p'"
proof -
  have c: "mu_writer (pv_mu p) \<longrightarrow> mu_readers (pv_mu p) = 0" using inv unfolding lockInv_def by blast
  from assms(1) show ?thesis
  proof cases
    case (call t op)
    from call(2) have p': "p' = \<lparr>pv_mu = pv_mu p, pv_clients = pv_clients p, pv_pcs = (pv_pcs p)[t := enter op]\<rparr>" by simp
    show ?thesis unfolding p' using call(4) c by (intro lockInv_update [OF inv call(3)]) (simp_all add: knows_free)
  next
    case (act t mu m q)
    have "holdsRead (pv_pcs p ! t) \<longrightarrow> mu_readers (pv_mu p) > 0" "holdsWrite (pv_pcs p ! t) \<longrightarrow> mu_writer (pv_mu p)"
      using lockInv_counts(1,2) [OF inv act(3)] by blast+
    from act_lock [OF act(4) this c] act_map [OF act(4)] act_knows [OF act(4) lockInv_counts(3) [OF inv act(3)]]
    show ?thesis unfolding act(2) by (intro lockInv_update [OF inv act(3)]) blast+
  next
    case (ret t op r)
    from ret(2) have p': "p' = \<lparr>pv_mu = pv_mu p, pv_clients = pv_clients p, pv_pcs = (pv_pcs p)[t := Idle]\<rparr>" by simp
    show ?thesis unfolding p' using ret(4) c by (intro lockInv_update [OF inv ret(3)]) simp_all
  qed
qed

lemma lockInv_new: "lockInv E (newProvider n)"
  by (simp add: lockInv_def newProvider_def list_all_iff)

section \<open>Refinement\<close>

text \<open>
  A stuttering simulation through an abstraction function: every step of the implementation is a
  step of the specification with the same label, or is silent and changes nothing there. Then
  every run of the implementation is one of the specification with the same visible labels.
\<close>

locale stuttering_simulation =
  fixes step :: "'c \<Rightarrow> 'l option \<Rightarrow> 'c \<Rightarrow> bool"
    and spec :: "'a \<Rightarrow> 'l option \<Rightarrow> 'a \<Rightarrow> bool"
    and abs :: "'c \<Rightarrow> 'a"
    and inv :: "'c \<Rightarrow> bool"
  assumes inv_step: "step c l c' \<Longrightarrow> inv c \<Longrightarrow> inv c'"
    and sim_step: "step c l c' \<Longrightarrow> inv c \<Longrightarrow> l = None \<and> abs c' = abs c \<or> spec (abs c) l (abs c')"
begin

lemma inv_run: "runOf step c ls c' \<Longrightarrow> inv c \<Longrightarrow> inv c'"
  by (induction rule: runOf.induct) (auto dest: inv_step)

lemma run_refines: "runOf step c ls c' \<Longrightarrow> inv c \<Longrightarrow> runOf spec (abs c) ls (abs c')"
proof (induction rule: runOf.induct)
  case (run_none c)
  show ?case by (rule runOf.run_none)
next
  case (run_more c ls d l d')
  from sim_step [OF run_more.hyps(2) inv_run [OF run_more.hyps(1) run_more.prems]] run_more.IH [OF run_more.prems]
  show ?case by (auto intro: runOf.run_more)
qed

end

text \<open>
  The state of a call as the specification sees it. A call that found a usable entry under the
  read lock has taken effect there, before it has looked at what it found.
\<close>

fun callOf :: "env \<Rightarrow> pc \<Rightarrow> callState" where
  "callOf E Idle = NoCall"
| "callOf E (AtRUnlock k cfg e) = (case e of Some x \<Rightarrow>
     if cacheHit E cfg x then Finished (GetOrCreateOp k cfg) (Inr (Some (ce_client x))) else Pending (GetOrCreateOp k cfg)
   | None \<Rightarrow> Pending (GetOrCreateOp k cfg))"
| "callOf E (AtFast k cfg e) = (case e of Some x \<Rightarrow>
     if cacheHit E cfg x then Finished (GetOrCreateOp k cfg) (Inr (Some (ce_client x))) else Pending (GetOrCreateOp k cfg)
   | None \<Rightarrow> Pending (GetOrCreateOp k cfg))"
| "callOf E (AtUnlock op r) = Finished op r"
| "callOf E (AtReturn op r) = Finished op r"
| "callOf E (AtLock op) = Pending op"
| "callOf E (AtMutate op) = Pending op"
| "callOf E (AtRLock k cfg) = Pending (GetOrCreateOp k cfg)"
| "callOf E (AtRead k cfg) = Pending (GetOrCreateOp k cfg)"
| "callOf E (AtRecheck k cfg) = Pending (GetOrCreateOp k cfg)"
| "callOf E (AtBuild k cfg) = Pending (GetOrCreateOp k cfg)"
| "callOf E (AtStore k cfg c) = Pending (GetOrCreateOp k cfg)"

definition atomicView :: "env \<Rightarrow> provider \<Rightarrow> atomicProvider" where
  "atomicView E p = \<lparr>ap_clients = pv_clients p, ap_calls = map (callOf E) (pv_pcs p)\<rparr>"

lemma callOf_enter [simp]: "callOf E (enter op) = Pending op"
  by (cases op) simp_all

lemma callOf_locked [simp]: "callOf E (locked op) = Pending op"
  by (cases op) simp_all

lemma atomically_get:
  "atomically E (GetOrCreateOp k cfg) m =
     (case cachedClient E k cfg m of Some c \<Rightarrow> (Inr (Some c), m)
      | None \<Rightarrow> (case newClient E (buildRESTConfig cfg) of
           Some e \<Rightarrow> (Inl (wrap (''creating client for shard '' @ k) e), m)
         | None \<Rightarrow> (Inr (Some (buildRESTConfig cfg)), mapPut k (newEntry E cfg (buildRESTConfig cfg)) m)))"
  by (simp add: onClients_def GetOrCreate_locked getOrCreateLocked_cases newEntry_def split: option.splits)

lemma atomically_mutate:
  assumes "\<forall>k cfg. op \<noteq> GetOrCreateOp k cfg"
  shows "atomically E op m = (Inr None, mutate op m)"
  using assms by (cases op) (simp_all add: onClients_def InjectClientForTest_def Invalidate_def modifyE_def)

text \<open>
  An action of a goroutine leaves its call and the map as they were for the specification, or it
  is the instant at which the pending operation takes effect.
\<close>

lemma act_atomic:
  assumes "act E w mu m p = Some (mu', m', q)" and "knows E m p"
  shows "callOf E q = callOf E p \<and> m' = m \<or>
    (\<exists>op r. callOf E p = Pending op \<and> callOf E q = Finished op r \<and> atomically E op m = (r, m'))"
proof (cases p)
  case (AtRead k cfg)
  with assms show ?thesis by (auto simp: atomically_get cachedClient_def simp del: atomically.simps split: option.splits)
next
  case (AtMutate op)
  with assms atomically_mutate [of op E m] show ?thesis by auto
qed (use assms in \<open>auto simp: atomically_get simp del: atomically.simps split: option.splits if_splits\<close>)

interpretation ps: stuttering_simulation "providerStep E" "atomicStep E" "atomicView E" "lockInv E"
proof unfold_locales
  show "lockInv E p'" if "providerStep E p l p'" "lockInv E p" for p l p' using that by (rule lockInv_step)
  show "l = None \<and> atomicView E p' = atomicView E p \<or> atomicStep E (atomicView E p) l (atomicView E p')"
    if st: "providerStep E p l p'" and inv: "lockInv E p" for p l p'
    using st
  proof cases
    case (call t op)
    then have "atomicView E p' = (atomicView E p)\<lparr>ap_calls := (ap_calls (atomicView E p))[t := Pending op]\<rparr>"
      by (simp add: atomicView_def map_update)
    with call show ?thesis using a_call [of t "atomicView E p" E op] by (simp add: atomicView_def)
  next
    case (act t mu m q)
    have same: "map (callOf E) (pv_pcs p) = (map (callOf E) (pv_pcs p))[t := callOf E (pv_pcs p ! t)]"
      using act(3) by (simp add: list_update_id flip: map_update)
    from act_atomic [OF act(4) lockInv_counts(3) [OF inv act(3)]] show ?thesis
    proof (elim disjE exE conjE)
      assume "callOf E q = callOf E (pv_pcs p ! t)" "m = pv_clients p"
      with act same show ?thesis by (simp add: atomicView_def map_update)
    next
      fix op r
      assume "callOf E (pv_pcs p ! t) = Pending op" "callOf E q = Finished op r" "atomically E op (pv_clients p) = (r, m)"
      with act show ?thesis using a_op [of t "atomicView E p" op E r m] by (simp add: atomicView_def map_update)
    qed
  next
    case (ret t op r)
    then have "atomicView E p' = (atomicView E p)\<lparr>ap_calls := (ap_calls (atomicView E p))[t := NoCall]\<rparr>"
      by (simp add: atomicView_def map_update)
    with ret show ?thesis using a_ret [of t "atomicView E p" op r E] by (simp add: atomicView_def)
  qed
qed

section \<open>Progress\<close>

text \<open>An upper bound of the actions a goroutine still makes before it is idle again.\<close>

fun weight :: "pc \<Rightarrow> nat" where
  "weight Idle = 0"
| "weight (AtReturn op r) = 1"
| "weight (AtUnlock op r) = 2"
| "weight (AtMutate op) = 3"
| "weight (AtStore k cfg c) = 3"
| "weight (AtBuild k cfg) = 4"
| "weight (AtRecheck k cfg) = 5"
| "weight (AtLock op) = 6"
| "weight (AtFast k cfg e) = 7"
| "weight (AtRUnlock k cfg e) = 8"
| "weight (AtRead k cfg) = 9"
| "weight (AtRLock k cfg) = 10"

text \<open>Steps other than a new call, and how many of them a run makes.\<close>

definition quietStep :: "env \<Rightarrow> provider \<Rightarrow> provider \<Rightarrow> bool" where
  "quietStep E p q = (\<exists>l. providerStep E p l q \<and> (\<forall>t op. l \<noteq> Some (Call t op)))"

inductive quietRun :: "env \<Rightarrow> provider \<Rightarrow> nat \<Rightarrow> provider \<Rightarrow> bool" for E where
  quiet_none: "quietRun E p 0 p"
| quiet_more: "quietRun E p k q \<Longrightarrow> quietStep E q q' \<Longrightarrow> quietRun E p (Suc k) q'"

lemma weight_locked [simp]: "weight (locked op) < 6"
  by (cases op) simp_all

lemma act_weight: "act E w mu m p = Some (mu', m', q) \<Longrightarrow> weight q < weight p"
  by (cases p) (auto split: if_splits option.splits)

lemma weight_le: "weight p \<le> 10"
  by (cases p) simp_all

lemma sum_list_update_less:
  fixes f :: "'a \<Rightarrow> nat"
  assumes "t < length xs" and "f y < f (xs ! t)"
  shows "sum_list (map f (xs[t := y])) < sum_list (map f xs)"
  using assms
proof (induction xs arbitrary: t)
  case (Cons x xs)
  then show ?case by (cases t) auto
qed simp

lemma quietStep_weight:
  assumes "quietStep E p q"
  shows "sum_list (map weight (pv_pcs q)) < sum_list (map weight (pv_pcs p)) \<and> length (pv_pcs q) = length (pv_pcs p)"
proof -
  from assms obtain l where st: "providerStep E p l q" and l: "\<And>t op. l \<noteq> Some (Call t op)" by (auto simp: quietStep_def)
  from st show ?thesis
  proof cases
    case (call t op)
    with l show ?thesis by blast
  next
    case (act t mu m r)
    with sum_list_update_less [OF act(3), of weight r] act_weight [OF act(4)] show ?thesis by simp
  next
    case (ret t op r)
    with sum_list_update_less [OF ret(3), of weight Idle] show ?thesis by simp
  qed
qed

lemma quietRun_weight:
  "quietRun E p k q \<Longrightarrow> k + sum_list (map weight (pv_pcs q)) \<le> sum_list (map weight (pv_pcs p)) \<and> length (pv_pcs q) = length (pv_pcs p)"
proof (induction rule: quietRun.induct)
  case (quiet_more p k q q')
  with quietStep_weight [OF quiet_more.hyps(2)] show ?case by linarith
qed simp

lemma quietRun_inv: "quietRun E p k q \<Longrightarrow> lockInv E p \<Longrightarrow> lockInv E q"
  by (induction rule: quietRun.induct) (auto simp: quietStep_def dest: lockInv_step)

lemma length_run: "providerRun E p ls q \<Longrightarrow> length (pv_pcs q) = length (pv_pcs p)"
  by (induction rule: runOf.induct) (auto elim: providerStep.cases)

text \<open>
  The only actions that can wait are those that take the lock, and when no goroutine holds it the
  lock is free for one of them.
\<close>

lemma act_waits: "act E w mu m p = None \<Longrightarrow> p = Idle \<or> (\<exists>op r. p = AtReturn op r) \<or> weight p = 10 \<or> waitsForLock p"
  by (cases p) (auto split: if_splits)

lemma waits_free:
  assumes "weight p = 10 \<or> waitsForLock p" and "mu_readers mu = 0" and "\<not> mu_writer mu"
  shows "act E w mu m p \<noteq> None"
  using assms by (cases p) simp_all

lemma not_stuck:
  assumes inv: "lockInv E p" and "t < length (pv_pcs p)" and "pv_pcs p ! t \<noteq> Idle"
  shows "\<exists>q. quietStep E p q"
proof (rule ccontr)
  let ?act = "act E (list_ex waitsForLock (pv_pcs p)) (pv_mu p) (pv_clients p)"
  assume stuck: "\<nexists>q. quietStep E p q"
  then have no: "\<not> providerStep E p None q" "\<not> providerStep E p (Some (Ret i op r)) q" for q i op r
    unfolding quietStep_def by blast+
  have none: "?act (pv_pcs p ! i) = None" if "i < length (pv_pcs p)" for i
  proof (cases "?act (pv_pcs p ! i)")
    case (Some a)
    obtain mu m q where "a = (mu, m, q)" by (cases a)
    with Some no(1) providerStep.act [OF that] show ?thesis by blast
  qed
  have "pv_pcs p ! i \<noteq> AtReturn op r" if "i < length (pv_pcs p)" for i op r
    using no(2) ret [OF that] by blast
  then have wait: "pv_pcs p ! i = Idle \<or> weight (pv_pcs p ! i) = 10 \<or> waitsForLock (pv_pcs p ! i)" if "i < length (pv_pcs p)" for i
    using act_waits [OF none [OF that]] that by blast
  have out: "weight q = 10 \<or> waitsForLock q \<or> q = Idle \<Longrightarrow> \<not> holdsRead q \<and> \<not> holdsWrite q" for q by (cases q) simp_all
  have "\<not> holdsRead q \<and> \<not> holdsWrite q" if "q \<in> set (pv_pcs p)" for q
    using that out wait unfolding in_set_conv_nth by blast
  then have "filter holdsRead (pv_pcs p) = [] \<and> filter holdsWrite (pv_pcs p) = []"
    by (simp add: filter_empty_conv)
  with inv have "mu_readers (pv_mu p) = 0" "\<not> mu_writer (pv_mu p)" by (auto simp: lockInv_def split: if_splits)
  with waits_free wait [OF assms(2)] assms(3) none [OF assms(2)] show False by blast
qed

section \<open>Properties\<close>

definition newAtomic :: "nat \<Rightarrow> atomicProvider" where
  "newAtomic n = \<lparr>ap_clients = NewClientProvider, ap_calls = replicate n NoCall\<rparr>"

lemma atomicView_new: "atomicView E (newProvider n) = newAtomic n"
  by (simp add: atomicView_def newProvider_def newAtomic_def)

text \<open>
  C4: the shared client provider is atomic. However the goroutines interleave, their calls and
  returns are those of a provider in which each call of \<open>GetOrCreate\<close>, \<open>InjectClientForTest\<close> and
  \<open>Invalidate\<close> takes effect at one instant between its call and its return, with the same
  results and the same cached clients.
\<close>

theorem provider_refines_atomic:
  assumes "providerRun E (newProvider n) ls p"
  shows "atomicRun E (newAtomic n) ls (atomicView E p)"
  using ps.run_refines [OF assms lockInv_new] by (simp add: atomicView_new)

text \<open>One action of goroutine \<open>t\<close>, if it does not have to wait; to compute example runs.\<close>

definition advance :: "env \<Rightarrow> nat \<Rightarrow> provider \<Rightarrow> provider" where
  "advance E t p = (case act E (list_ex waitsForLock (pv_pcs p)) (pv_mu p) (pv_clients p) (pv_pcs p ! t) of
     None \<Rightarrow> p | Some (mu, m, q) \<Rightarrow> \<lparr>pv_mu = mu, pv_clients = m, pv_pcs = (pv_pcs p)[t := q]\<rparr>)"

lemma run_advance: "providerRun E p ls q \<Longrightarrow> t < length (pv_pcs q) \<Longrightarrow> providerRun E p ls (advance E t q)"
  using run_more [where l = None and step = "providerStep E"] providerStep.act [of t q E]
  by (auto simp: advance_def split: option.splits)

lemma length_advance [simp]: "length (pv_pcs (advance E t p)) = length (pv_pcs p)"
  by (simp add: advance_def split: option.splits)

lemma run_schedule:
  "providerRun E p ls q \<Longrightarrow> \<forall>t \<in> set ts. t < length (pv_pcs q) \<Longrightarrow> providerRun E p ls (fold (advance E) ts q)"
proof (induction ts arbitrary: q)
  case (Cons t ts)
  then show ?case using run_advance [of E p ls q t] Cons.IH [of "advance E t q"] by simp
qed simp

definition raced :: provider where
  "raced = fold (advance (refEnv (heldServer []))) [0, 1, 0, 1, 0, 1, 0, 1, 0, 1, 0, 0, 0, 0, 1, 1]
     ((newProvider 2)\<lparr>pv_pcs := [AtRLock ''k'' oldCredentials, AtRLock ''k'' newCredentials]\<rparr>)"

lemma raced_run:
  "providerRun (refEnv (heldServer [])) (newProvider 2)
     [Call 0 (GetOrCreateOp ''k'' oldCredentials), Call 1 (GetOrCreateOp ''k'' newCredentials)] raced"
proof -
  let ?E = "refEnv (heldServer [])"
  let ?p = "(newProvider 2)\<lparr>pv_pcs := [AtRLock ''k'' oldCredentials, Idle]\<rparr>"
  let ?q = "(newProvider 2)\<lparr>pv_pcs := [AtRLock ''k'' oldCredentials, AtRLock ''k'' newCredentials]\<rparr>"
  have "providerStep ?E (newProvider 2) (Some (Call 0 (GetOrCreateOp ''k'' oldCredentials))) ?p"
    using call [of 0 "newProvider 2" ?E "GetOrCreateOp ''k'' oldCredentials"] by (simp add: newProvider_def numeral_2_eq_2)
  from run_more [where step = "providerStep ?E" and ls = "[]", OF run_none this] have one: "providerRun ?E (newProvider 2) [Call 0 (GetOrCreateOp ''k'' oldCredentials)] ?p" by simp
  have "providerStep ?E ?p (Some (Call 1 (GetOrCreateOp ''k'' newCredentials))) ?q"
    using call [of 1 ?p ?E "GetOrCreateOp ''k'' newCredentials"] by (simp add: newProvider_def)
  from run_more [where step = "providerStep ?E", OF one this] show ?thesis unfolding raced_def by (intro run_schedule) simp_all
qed

lemma raced_calls:
  "pv_pcs raced = [AtReturn (GetOrCreateOp ''k'' oldCredentials) (Inr (Some (buildRESTConfig oldCredentials))),
     AtBuild ''k'' newCredentials]"
  by (simp add: raced_def advance_def newProvider_def NewClientProvider_def cachedClient_def cacheHit_def newEntry_def mapPut_def mapDelete_def
      oldCredentials_def newCredentials_def fingerprint_def credentialBytes_def)

theorem provider_refines_atomic_witness:
  "\<exists>a. atomicRun (refEnv (heldServer [])) (newAtomic 2)
     [Call 0 (GetOrCreateOp ''k'' oldCredentials), Call 1 (GetOrCreateOp ''k'' newCredentials)] a \<and>
   ap_calls a = [Finished (GetOrCreateOp ''k'' oldCredentials) (Inr (Some (buildRESTConfig oldCredentials))),
     Pending (GetOrCreateOp ''k'' newCredentials)]"
  using provider_refines_atomic [OF raced_run] raced_calls by (auto simp: atomicView_def)

text \<open>
  C18: every call of the provider returns. In every reachable state, whatever the goroutines do,
  they make at most ten actions each before all of them are idle again, unless new calls
  come in, and until then there always is an action that does not have to wait: the two phases of
  locking cannot deadlock.
\<close>

theorem provider_calls_return:
  assumes "providerRun E (newProvider n) ls p" and "quietRun E p k q"
  shows "k \<le> 10 * n \<and> (pv_pcs q = replicate n Idle \<or> (\<exists>q'. quietStep E q q'))"
proof -
  have len: "length (pv_pcs p) = n" using length_run [OF assms(1)] by (simp add: newProvider_def)
  have inv: "lockInv E q" by (rule quietRun_inv [OF assms(2) ps.inv_run [OF assms(1) lockInv_new]])
  have "sum_list (map weight (pv_pcs p)) \<le> sum_list (map (\<lambda>_. 10) (pv_pcs p))" by (intro sum_list_mono weight_le)
  then have "k \<le> 10 * n" using quietRun_weight [OF assms(2)] len by (simp add: sum_list_triv)
  moreover have "\<exists>q'. quietStep E q q'" if "pv_pcs q \<noteq> replicate n Idle"
  proof -
    from that len quietRun_weight [OF assms(2)] obtain t where "t < length (pv_pcs q)" "pv_pcs q ! t \<noteq> Idle"
      by (auto simp: list_eq_iff_nth_eq)
    then show ?thesis by (rule not_stuck [OF inv])
  qed
  ultimately show ?thesis by blast
qed

theorem provider_calls_return_witness:
  "\<exists>q'. quietStep (refEnv (heldServer [])) raced q'"
  using provider_calls_return [OF raced_run quiet_none] raced_calls by (auto simp: numeral_2_eq_2)

end
