(* ===== verification/ErrorReport.thy ===== *)
theory ErrorReport
  imports ShardReconcile
begin

text \<open>
  How a failed reconcile is reported: the generic handler of \<open>operator/internal/condition\<close>, which
  works on any object through the pointers it is given, and the error path of the \<open>APIShard\<close>
  reconciler. The handler and \<open>setErrorAndRequeue\<close> report the same phase and conditions.
\<close>

section \<open>The generic handler (condition.go)\<close>

text \<open>
  The fields of \<open>ReconcileErrorHandler\<close>: the object, the conditions it points to, and \<open>setPhase\<close>,
  which may be nil.
\<close>

record 's reconcileErrorHandler =
  hn_generation :: "'s \<Rightarrow> int"
  hn_object :: "'s \<Rightarrow> kobj"
  hn_conditions :: "'s \<Rightarrow> condition list"
  hn_putConditions :: "condition list \<Rightarrow> 's \<Rightarrow> 's"
  hn_setPhase :: "(string \<Rightarrow> 's \<Rightarrow> 's) option"

definition SetCondition ::
  "env \<Rightarrow> 'z base_scheme reconcileErrorHandler \<Rightarrow> condition \<Rightarrow> ('z base_scheme, unit) op" where
  "SetCondition E H c =
     modifyE (\<lambda>s. hn_putConditions H
       (setStatusCondition E (tr s) (hn_conditions H s) (c\<lparr>c_observedGeneration := hn_generation H s\<rparr>)) s)"

definition Handle ::
  "env \<Rightarrow> 'z base_scheme reconcileErrorHandler \<Rightarrow> goerror \<Rightarrow> string \<Rightarrow> ('z base_scheme, 'a) op" where
  "Handle E H err msg =
     bindE (case hn_setPhase H of None \<Rightarrow> returnE () | Some f \<Rightarrow> modifyE (f ''Error'')) (\<lambda>_.
     bindE (SetCondition E H (mkCondition ''Reconciled'' ConditionFalse ''ReconcileError'' (msg @ '': '' @ err_msg err) 0)) (\<lambda>_.
     bindE (getsE (hn_object H)) (\<lambda>obj.
     bindE (tryE (requestU E (StatusUpdateCall obj))) (\<lambda>_.
     throwE err))))"

text \<open>The handler for an \<open>APIShard\<close>.\<close>

definition shardHandler :: "shardst reconcileErrorHandler" where
  "shardHandler =
     \<lparr>hn_generation = (\<lambda>s. om_generation (sh_meta (shard s))), hn_object = (\<lambda>s. KAPIShard (shard s)),
      hn_conditions = (\<lambda>s. conditions (status (shard s))),
      hn_putConditions = (\<lambda>cs s. s\<lparr>shard := (shard s)\<lparr>status := (status (shard s))\<lparr>conditions := cs\<rparr>\<rparr>\<rparr>),
      hn_setPhase = Some (\<lambda>p s. s\<lparr>shard := (shard s)\<lparr>status := (status (shard s))\<lparr>phase := p\<rparr>\<rparr>\<rparr>)\<rparr>"

section \<open>Lemmas\<close>

lemma setCond_SetCondition: "setCond E ty st rsn msg = SetCondition E shardHandler (mkCondition ty st rsn msg g)"
  by (simp add: setCond_def SetCondition_def shardHandler_def mkCondition_def)

text \<open>One run of the error path: the edits of the status, one status update whatever it answers, and the error.\<close>

definition errorShard :: "env \<Rightarrow> goerror \<Rightarrow> shardst \<Rightarrow> apiShard" where
  "errorShard E err s =
     (shard s)\<lparr>status := (status (shard s))\<lparr>phase := PhaseError, message := err_msg err,
        observedGeneration := om_generation (sh_meta (shard s)),
        conditions := setStatusCondition E (tr s) (conditions (status (shard s)))
          (mkCondition ConditionReconciled ConditionFalse ''ReconcileError'' (err_msg err) (om_generation (sh_meta (shard s))))\<rparr>\<rparr>"

lemma storeAnswer_trace [simp]: "tr (storeAnswer r s) = tr s"
  by (simp add: storeAnswer_def split: resp.splits kobj.splits)

lemma setErrorAndRequeue_run:
  "\<exists>u. setErrorAndRequeue E err s = (Inl err, u) \<and>
     tr u = tr s @ [(StatusUpdateCall (KAPIShard (errorShard E err s)), answer E (tr s) (StatusUpdateCall (KAPIShard (errorShard E err s))))]"
  by (simp add: setErrorAndRequeue_def errorShard_def updateShardStatus_def writeShard_def setStatus_def setCond_def bindE_def getsE_def
      modifyE_def tryE_def throwE_def request_def Let_def split: resp.splits)

lemma Handle_shard_run:
  "\<exists>u x. Handle E shardHandler err msg s = (Inl err, u) \<and> tr u = tr s @ [(StatusUpdateCall (KAPIShard x), answer E (tr s) (StatusUpdateCall (KAPIShard x)))] \<and>
     phase (status x) = phase (status (errorShard E (wrap msg err) s)) \<and> conditions (status x) = conditions (status (errorShard E (wrap msg err) s)) \<and>
     sh_meta x = sh_meta (shard s) \<and> spec x = spec (shard s)"
  by (simp add: Handle_def SetCondition_def shardHandler_def errorShard_def bindE_def getsE_def modifyE_def tryE_def throwE_def requestU_def
      request_def returnE_def Let_def mkCondition_def ConditionReconciled_def PhaseError_def split: resp.splits)

lemma errorShard_report:
  assumes "condition_laws E"
  shows "phase (status (errorShard E err s)) = PhaseError" "message (status (errorShard E err s)) = err_msg err"
    "observedGeneration (status (errorShard E err s)) = om_generation (sh_meta (shard s))"
    "sameSh (shard s) (errorShard E err s)" "condIs E (status (errorShard E err s)) ConditionReconciled ConditionFalse"
    "ty \<noteq> ConditionReconciled \<Longrightarrow> findStatusCondition E (conditions (status (errorShard E err s))) ty =
       findStatusCondition E (conditions (status (shard s))) ty"
  using condition_store.find_set_fields [OF assms, of "tr s" "conditions (status (shard s))"
      "mkCondition ConditionReconciled ConditionFalse ''ReconcileError'' (err_msg err) (om_generation (sh_meta (shard s)))"]
    condition_store.find_set_other [OF assms]
  by (auto simp: errorShard_def condIs_def)

section \<open>What failures leave behind\<close>

text \<open>
  Calls on the cluster do not touch the shard in memory. So a registration that fails half way leaves
  the list of registered APIServices as it was, although some may have been applied, and a failed
  search for conflicting CRDs leaves the report of an earlier pass.
\<close>

interpretation held: frame_rel "\<lambda>s t. shard t = shard s"
  by unfold_locales auto

lemma held_request: "keeps (\<lambda>s t. shard t = shard s) (request E c)"
  by (rule keepsI) (simp add: request_def Let_def split: resp.split)

lemma held_requestU: "keeps (\<lambda>s t. shard t = shard s) (requestU E c)"
  unfolding requestU_def by (intro held.keeps_bind held_request held.keeps_return)

lemma held_getObj: "keeps (\<lambda>s t. shard t = shard s) (getObj E p cl k key)"
  unfolding getObj_def asOne_def
  by (intro held.keeps_bind held_request) (auto split: resp.splits option.splits intro: held.keeps_return held.keeps_throw)

lemma held_liftE: "keeps (\<lambda>s t. shard t = shard s) (liftE r)"
  by (cases r) (simp_all add: liftE_def held.keeps_return held.keeps_throw)

lemma held_aggregation: "keeps (\<lambda>s t. shard t = shard s) (aggregation_Reconcile E sh ca prev)"
  unfolding aggregation_Reconcile_def applyAPIService_def deleteOrphan_def Let_def
  by (auto intro!: held.keeps_rules held.keeps_for held_requestU held_getObj held_liftE split: sum.splits)

lemma failed_registration_unrecorded:
  assumes "reconcileAPIServices E s = (Inl e, t)"
  shows "registeredAPIServices (status (shard t)) = registeredAPIServices (status (shard s))"
proof -
  let ?sh = "shard s"
  obtain r u where get: "getSecret E (shardNS ?sh, PKISecretName ?sh) s = (r, u)" by (cases "getSecret E (shardNS ?sh, PKISecretName ?sh) s")
  have u: "shard u = ?sh" using keepsD [OF held_getObj, of E asSecret Primary SecretKind "(shardNS ?sh, PKISecretName ?sh)" s] get by simp
  show ?thesis
  proof (cases r)
    case (Inl err)
    with assms get u show ?thesis by (simp add: reconcileAPIServices_def bindE_def getsE_def tryE_def throwE_def split: if_splits)
  next
    case (Inr sec)
    let ?a = "aggregation_Reconcile E ?sh (mapGet (sec_data sec) CACertKey) (registeredAPIServices (status ?sh))"
    obtain q v where agg: "?a u = (q, v)" by (cases "?a u")
    have "shard v = shard u" using keepsD [OF held_aggregation, of E ?sh _ _ u] agg by (metis snd_conv)
    with assms get u Inr agg show ?thesis
      by (cases q) (simp_all add: reconcileAPIServices_def bindE_def getsE_def tryE_def setStatus_def modifyE_def)
  qed
qed

lemma conflict_report_stale:
  assumes "answer E (tr s) (ListCall Primary CRDKind None None) = RErr e"
  shows "\<exists>t. reconcileCRDConflicts E R s = (Inr (), t) \<and> shard t = shard s"
  using assms by (simp add: reconcileCRDConflicts_def DetectCRDConflicts_def op_defs Let_def)

section \<open>Properties\<close>

text \<open>
  C26: a provisioning step that fails ends the reconcile: its error is returned unchanged, no health
  check and no clean-up of orphans follows, and the one call after it is a status update that
  reports phase \<open>Error\<close>, the text of the error, the generation of the shard and
  \<open>Reconciled\<close> as false, and keeps every other condition and the spec.
\<close>

theorem shard_error_reported:
  assumes "condition_laws E"
    and "ensureFinalizer E s = (Inr (), s1)" and "ensureNamespace E s1 = (Inr (), s2)" and "initPhase E s2 = (Inr (), s3)"
    and "provisionShard E R s3 = (Inl err, t)"
  shows "\<exists>u x r. reconcileShard E R s = (Inl err, u) \<and> tr u = tr t @ [(StatusUpdateCall (KAPIShard x), r)] \<and>
    phase (status x) = PhaseError \<and> message (status x) = err_msg err \<and>
    observedGeneration (status x) = om_generation (sh_meta (shard t)) \<and> sameSh (shard t) x \<and>
    condIs E (status x) ConditionReconciled ConditionFalse \<and>
    (\<forall>ty. ty = ConditionReconciled \<or>
       findStatusCondition E (conditions (status x)) ty = findStatusCondition E (conditions (status (shard t))) ty)"
proof -
  obtain u where u: "setErrorAndRequeue E err t = (Inl err :: goerror + unit, u)"
    and tr: "tr u = tr t @ [(StatusUpdateCall (KAPIShard (errorShard E err t)),
      answer E (tr t) (StatusUpdateCall (KAPIShard (errorShard E err t))))]" using setErrorAndRequeue_run by blast
  have "orError E (ensureNamespace E) s1 = (Inr (), s2)" using assms(3) by (simp add: orError_def bindE_def tryE_def returnE_def)
  moreover have "orError E (provisionShard E R) s3 = (Inl err, u)" using assms(5) u by (simp add: orError_def bindE_def tryE_def)
  ultimately have "reconcileShard E R s = (Inl err, u)" using assms(2,4) by (simp add: reconcileShard_def bindE_def)
  with tr show ?thesis using errorShard_report [OF assms(1)] by blast
qed

definition unboundShard :: apiShard where
  "unboundShard = sampleShard\<lparr>sh_meta := (sh_meta sampleShard)\<lparr>om_finalizers := [finalizerName]\<rparr>,
     spec := sampleSpec\<lparr>storage := (storage sampleSpec)\<lparr>st_type := StorageTypePostgreSQL\<rparr>\<rparr>,
     status := sampleStatus\<lparr>phase := PhaseProvisioning\<rparr>\<rparr>"

definition unboundState :: shardst where
  "unboundState = \<lparr>tr = [], clients = [], shard = unboundShard\<rparr>"

theorem shard_error_reported_witness:
  "\<exists>err u. reconcileShard (refEnv (heldServer [])) \<lparr>ClientProvider = True, ServiceMonitorAvailable = False, SCCAvailable = False,
      PrimaryIssuer = ''i''\<rparr> unboundState = (Inl err, u) \<and>
    (\<exists>h x r. tr u = h @ [(StatusUpdateCall (KAPIShard x), r)] \<and> phase (status x) = PhaseError \<and> message (status x) = err_msg err)"
proof -
  let ?E = "refEnv (heldServer [])"
  let ?R = "\<lparr>ClientProvider = True, ServiceMonitorAvailable = False, SCCAvailable = False, PrimaryIssuer = ''i''\<rparr> :: reconciler"
  have sh: "containsFinalizer unboundShard" "phase (status unboundShard) \<noteq> []"
    "st_type (storage (spec unboundShard)) = StorageTypePostgreSQL" "st_connectionSecretRef (storage (spec unboundShard)) = None"
    by (simp_all add: unboundShard_def containsFinalizer_def phase_names sampleSpec_def)
  obtain s2 where ns: "ensureNamespace ?E unboundState = (Inr (), s2)" and s2: "shard s2 = unboundShard"
    by (simp add: ensureNamespace_def unboundState_def bindE_def getsE_def requestU_def request_def returnE_def Let_def)
  have "\<exists>err t. provisionShard ?E ?R s2 = (Inl err, t)"
    using s2 sh by (simp add: provisionShard_def reconcileStorage_def validateExternalPostgreSQLSecret_def failStorage_def bindE_def getsE_def
        wrapE_def throwE_def setCond_def modifyE_def storage_names)
  then obtain err t where p: "provisionShard ?E ?R s2 = (Inl err, t)" by blast
  have f: "ensureFinalizer ?E unboundState = (Inr (), unboundState)"
    using sh by (simp add: ensureFinalizer_def unboundState_def bindE_def getsE_def returnE_def)
  have i: "initPhase ?E s2 = (Inr (), s2)" using s2 sh by (simp add: initPhase_def bindE_def getsE_def returnE_def)
  from shard_error_reported [OF refEnv_condition_laws f ns i p] show ?thesis by blast
qed


end
