(* ===== verification/Periodic.thy ===== *)
theory Periodic
  imports NamespaceSync WebhookSync
begin

text \<open>
  The periodic trigger (\<open>operator/internal/periodic/ticker.go\<close>): a goroutine that turns ticks into
  events on a channel of capacity one, and the source that turns each event into reconcile
  requests. The goroutine, the timer, the source and the cancellation of the context interleave
  freely; a step relation says what each of them can do.
\<close>

section \<open>Model\<close>

text \<open>
  \<open>tk_timer\<close> is the channel \<open>ticker.C\<close>, of capacity one, which drops ticks while it is full;
  \<open>tk_ch\<close> is \<open>ch\<close>; \<open>tk_world\<close> is the state \<open>listFunc\<close> reads and changes.
\<close>

record 'w tickst =
  tk_timer :: bool
  tk_ch :: "string list"
  tk_cancelled :: bool
  tk_returned :: bool
  tk_queue :: "nsname list"
  tk_world :: 'w

datatype tickAct = Fire | Tick | Cancel | Return | Deliver

definition sentinel :: string where
  "sentinel = ''periodic-sync''"

text \<open>\<open>select { case ch <- sentinel: default: }\<close> on a channel of capacity one.\<close>

definition trySend :: "string \<Rightarrow> string list \<Rightarrow> string list" where
  "trySend x c = (if length c < 1 then c @ [x] else c)"

definition tickInit :: "'w \<Rightarrow> 'w tickst" where
  "tickInit w = \<lparr>tk_timer = False, tk_ch = [], tk_cancelled = False, tk_returned = False, tk_queue = [], tk_world = w\<rparr>"

inductive tickStep :: "('w \<Rightarrow> nsname list \<times> 'w) \<Rightarrow> 'w tickst \<Rightarrow> tickAct \<Rightarrow> 'w tickst \<Rightarrow> bool"
  for listFunc :: "'w \<Rightarrow> nsname list \<times> 'w" where
  fire: "\<not> tk_returned s \<Longrightarrow> tickStep listFunc s Fire (s\<lparr>tk_timer := True\<rparr>)"
| tick: "\<not> tk_returned s \<Longrightarrow> tk_timer s \<Longrightarrow>
    tickStep listFunc s Tick (s\<lparr>tk_timer := False, tk_ch := trySend sentinel (tk_ch s)\<rparr>)"
| cancel: "tickStep listFunc s Cancel (s\<lparr>tk_cancelled := True\<rparr>)"
| return: "\<not> tk_returned s \<Longrightarrow> tk_cancelled s \<Longrightarrow> tickStep listFunc s Return (s\<lparr>tk_returned := True, tk_timer := False\<rparr>)"
| deliver: "tk_ch s = x # rest \<Longrightarrow> listFunc (tk_world s) = (rs, w) \<Longrightarrow>
    tickStep listFunc s Deliver (s\<lparr>tk_ch := rest, tk_queue := tk_queue s @ rs, tk_world := w\<rparr>)"

inductive tickRun :: "('w \<Rightarrow> nsname list \<times> 'w) \<Rightarrow> 'w tickst \<Rightarrow> tickAct list \<Rightarrow> 'w tickst \<Rightarrow> bool"
  for listFunc :: "'w \<Rightarrow> nsname list \<times> 'w" where
  stop: "tickRun listFunc s [] s"
| more: "tickStep listFunc s a t \<Longrightarrow> tickRun listFunc t as u \<Longrightarrow> tickRun listFunc s (a # as) u"

inductive_cases tickStepE: "tickStep listFunc s a t"
inductive_cases tickDeliverE: "tickStep listFunc s Deliver t"
inductive_cases tickTickE: "tickStep listFunc s Tick t"
inductive_simps tickRun_Nil [simp]: "tickRun listFunc s [] t"
inductive_simps tickRun_Cons: "tickRun listFunc s (a # as) t"

text \<open>The list functions of the two sync controllers, which swallow a failed list.\<close>

definition requestsOf :: "('w, nsname list) op \<Rightarrow> 'w \<Rightarrow> nsname list \<times> 'w" where
  "requestsOf m w = (case m w of (Inr rs, w') \<Rightarrow> (rs, w') | (Inl e, w') \<Rightarrow> ([], w'))"

definition ns_periodicRequests :: "env \<Rightarrow> base \<Rightarrow> nsname list \<times> base" where
  "ns_periodicRequests E =
     requestsOf (bindE (listOrNone (listObjs E asNamespaceSync Primary NamespaceSyncKind None None)) (\<lambda>items.
       returnE (map (\<lambda>x. requestOf (nsy_meta x)) items)))"

definition wh_periodicRequests :: "env \<Rightarrow> base \<Rightarrow> nsname list \<times> base" where
  "wh_periodicRequests E =
     requestsOf (bindE (listOrNone (listObjs E asWebhookSync Primary WebhookSyncKind None None)) (\<lambda>items.
       returnE (map (\<lambda>x. requestOf (wsy_meta x)) items)))"

section \<open>Lemmas\<close>

definition tickWf :: "'w tickst \<Rightarrow> bool" where
  "tickWf s = ((tk_ch s = [] \<or> tk_ch s = [sentinel]) \<and> (tk_returned s \<longrightarrow> tk_cancelled s \<and> \<not> tk_timer s))"

lemma tickWf_init: "tickWf (tickInit w)"
  by (simp add: tickWf_def tickInit_def)

lemma tickWf_step: "tickStep f s a t \<Longrightarrow> tickWf s \<Longrightarrow> tickWf t"
  by (erule tickStepE) (auto simp: tickWf_def trySend_def)

lemma tickWf_run: "tickRun f s as t \<Longrightarrow> tickWf s \<Longrightarrow> tickWf t"
  by (induction rule: tickRun.induct) (auto dest: tickWf_step)

lemma tickRun_append: "tickRun f s (as @ bs) u \<longleftrightarrow> (\<exists>t. tickRun f s as t \<and> tickRun f t bs u)"
  by (induction as arbitrary: s) (auto simp: tickRun_Cons)

text \<open>Only a delivery empties the channel, and a processed tick leaves it full.\<close>

lemma pending_step: "tickStep f s a t \<Longrightarrow> tk_ch s \<noteq> [] \<Longrightarrow> a \<noteq> Deliver \<Longrightarrow> tk_ch t \<noteq> []"
  by (erule tickStepE) (auto simp: trySend_def)

lemma pending_run: "tickRun f s as t \<Longrightarrow> tk_ch s \<noteq> [] \<Longrightarrow> Deliver \<notin> set as \<Longrightarrow> tk_ch t \<noteq> []"
  by (induction rule: tickRun.induct) (auto dest: pending_step)

lemma tick_pending: "tickStep f s Tick t \<Longrightarrow> tk_ch t \<noteq> []"
  by (erule tickTickE) (auto simp: trySend_def)

section \<open>Properties\<close>

text \<open>
  C25: no tick is lost. In every interleaving, after the goroutine has handled a tick, either the
  source has taken an event from the channel since, so that the objects were listed and enqueued
  after that tick, or such an event is still waiting, and taking it is possible and enqueues
  what \<open>listFunc\<close> returns. The channel never holds more than one event.
\<close>

theorem tick_not_lost:
  assumes "tickRun listFunc (tickInit w) (as @ Tick # bs) t"
  shows "(Deliver \<in> set bs \<or>
      (\<exists>u. tickStep listFunc t Deliver u \<and> tk_queue u = tk_queue t @ fst (listFunc (tk_world t)))) \<and> length (tk_ch t) \<le> 1"
proof -
  from assms obtain s v where "tickStep listFunc s Tick v" and run: "tickRun listFunc v bs t"
    by (auto simp: tickRun_append tickRun_Cons)
  then have "tk_ch t \<noteq> []" if "Deliver \<notin> set bs" using that tick_pending pending_run by blast
  moreover have "\<exists>u. tickStep listFunc t Deliver u \<and> tk_queue u = tk_queue t @ fst (listFunc (tk_world t))" if ne: "tk_ch t \<noteq> []"
  proof -
    obtain x rest where "tk_ch t = x # rest" using ne by (cases "tk_ch t") auto
    moreover obtain rs w' where "listFunc (tk_world t) = (rs, w')" by fastforce
    ultimately show ?thesis using deliver [of t x rest listFunc rs w'] by auto
  qed
  moreover have "length (tk_ch t) \<le> 1" using tickWf_run [OF assms tickWf_init] by (auto simp: tickWf_def)
  ultimately show ?thesis by blast
qed

theorem tick_not_lost_witness:
  "\<exists>t. tickRun (ns_periodicRequests (refEnv syncServer)) (tickInit initialBase) [Fire, Tick, Fire, Tick] t \<and>
     (\<exists>u. tickStep (ns_periodicRequests (refEnv syncServer)) t Deliver u) \<and> length (tk_ch t) \<le> 1"
proof -
  let ?f = "ns_periodicRequests (refEnv syncServer)"
  have "\<exists>t. tickRun ?f (tickInit initialBase) [Fire, Tick, Fire, Tick] t"
    unfolding tickRun_Cons tickRun_Nil
    by (intro exI conjI, rule fire, simp add: tickInit_def, rule tick, simp add: tickInit_def, simp, rule fire,
        simp add: tickInit_def, rule tick, simp add: tickInit_def, simp, simp)
  then obtain t where t: "tickRun ?f (tickInit initialBase) ([Fire, Tick, Fire] @ Tick # []) t" by auto
  from tick_not_lost [OF t] t show ?thesis by auto
qed

end
