(* ===== verification/Startup.thy ===== *)
theory Startup
  imports ShardStorage
begin

text \<open>
  The start of the operator: what it discovers of the primary cluster (\<open>apishard/discovery.go\<close>), and
  \<open>cmd/main.go\<close>, which makes the options of the manager and its two servers from the flags, sets up the
  three controllers and registers everything with the manager. The discovery client, the REST client,
  the JSON decoder, the certificate watchers and the manager are arguments.
\<close>

section \<open>Model\<close>

record discovery =
  serverResourcesForGroupVersion :: "string \<Rightarrow> goerror + string list"
  newForConfig :: "goerror option"
  newDiscoveryClient :: "goerror option"
  doRaw :: "string \<Rightarrow> goerror + bytes"
  unmarshalIssuer :: "bytes \<Rightarrow> goerror + string"

definition DiscoverPrimaryIssuer :: "discovery \<Rightarrow> goerror + string" where
  "DiscoverPrimaryIssuer D =
     (case newForConfig D of
        Some e \<Rightarrow> Inl (wrap ''creating clientset'' e)
      | None \<Rightarrow>
         (case doRaw D ''/.well-known/openid-configuration'' of
            Inl e \<Rightarrow> Inl (wrap ''fetching OIDC discovery'' e)
          | Inr body \<Rightarrow>
             (case unmarshalIssuer D body of
                Inl e \<Rightarrow> Inl (wrap ''parsing OIDC discovery response'' e)
              | Inr issuer \<Rightarrow>
                  if issuer = [] then Inl (errorf ''OIDC discovery response has empty issuer'') else Inr issuer)))"

text \<open>A probe returns the Go pair \<open>(bool, error)\<close>: its caller goes on with the value after an error.\<close>

definition DiscoverServiceMonitor :: "discovery \<Rightarrow> bool \<times> goerror option" where
  "DiscoverServiceMonitor D =
     (case serverResourcesForGroupVersion D ''monitoring.coreos.com/v1'' of
        Inl e \<Rightarrow>
          if IsNotFound e \<or> IsNoMatchError e then (False, None)
          else (False, Some (wrap ''querying monitoring.coreos.com/v1'' e))
      | Inr kinds \<Rightarrow> (list_ex (\<lambda>k. k = ''ServiceMonitor'') kinds, None))"

definition DiscoverSCC :: "discovery \<Rightarrow> bool \<times> goerror option" where
  "DiscoverSCC D =
     (case serverResourcesForGroupVersion D ''security.openshift.io/v1'' of
        Inl e \<Rightarrow>
          if IsNotFound e \<or> IsNoMatchError e then (False, None)
          else (False, Some (wrap ''querying security.openshift.io/v1'' e))
      | Inr kinds \<Rightarrow> (list_ex (\<lambda>k. k = ''SecurityContextConstraints'') kinds, None))"

text \<open>The reconciler that \<open>main\<close> sets up; \<open>None\<close> is an exit of the process.\<close>

definition setupReconciler :: "discovery \<Rightarrow> reconciler option" where
  "setupReconciler D =
     (case newDiscoveryClient D of
        Some e \<Rightarrow> None
      | None \<Rightarrow>
         let serviceMonitorAvailable = fst (DiscoverServiceMonitor D);
             sccAvailable = fst (DiscoverSCC D) in
         (case DiscoverPrimaryIssuer D of
            Inl e \<Rightarrow> None
          | Inr primaryIssuer \<Rightarrow>
              Some \<lparr>ClientProvider = True, ServiceMonitorAvailable = serviceMonitorAvailable,
                    SCCAvailable = sccAvailable, PrimaryIssuer = primaryIssuer\<rparr>))"

section \<open>Flags and servers\<close>

record operatorFlags =
  metricsAddr :: string
  metricsCertPath :: string
  metricsCertName :: string
  metricsCertKey :: string
  webhookCertPath :: string
  webhookCertName :: string
  webhookCertKey :: string
  enableLeaderElection :: bool
  probeAddr :: string
  secureMetrics :: bool
  enableHTTP2 :: bool

definition defaultOperatorFlags :: operatorFlags where
  "defaultOperatorFlags =
     \<lparr>metricsAddr = ''0'', metricsCertPath = [], metricsCertName = ''tls.crt'', metricsCertKey = ''tls.key'',
      webhookCertPath = [], webhookCertName = ''tls.crt'', webhookCertKey = ''tls.key'', enableLeaderElection = False,
      probeAddr = '':8081'', secureMetrics = True, enableHTTP2 = False\<rparr>"

text \<open>\<open>filepath.Clean\<close> on the elements of a path, and \<open>filepath.Join\<close> of two elements.\<close>

fun pathElements :: "string \<Rightarrow> string list" where
  "pathElements [] = [[]]"
| "pathElements (c # cs) =
     (if c = CHR 0x2F then [] # pathElements cs
      else case pathElements cs of l # ls \<Rightarrow> (c # l) # ls | [] \<Rightarrow> [[c]])"

definition cleanStep :: "bool \<Rightarrow> string \<Rightarrow> string list \<Rightarrow> string list" where
  "cleanStep rooted e out =
     (if e = [] \<or> e = ''.'' then out
      else if e = ''..''
      then (case out of [] \<Rightarrow> if rooted then [] else [e] | x # xs \<Rightarrow> if x = ''..'' then e # out else xs)
      else e # out)"

definition Clean :: "string \<Rightarrow> string" where
  "Clean path =
     (let rooted = (path \<noteq> [] \<and> hd path = CHR 0x2F);
          p = (if rooted then ''/'' else []) @ joinWith ''/'' (rev (fold (cleanStep rooted) (pathElements path) [])) in
      if p = [] then ''.'' else p)"

definition Join :: "string \<Rightarrow> string \<Rightarrow> string" where
  "Join a b = (if a \<noteq> [] then Clean (a @ ''/'' @ b) else if b \<noteq> [] then Clean b else [])"

text \<open>A certificate watcher, by the files of the certificate and the key, and what \<open>main\<close> sets of a \<open>tls.Config\<close>.\<close>

type_synonym certWatcher = "string \<times> string"

record tlsConfig =
  nextProtos :: "string list"
  getCertificate :: "certWatcher option"

datatype tlsOption = DisableHTTP2 | UseWatcher certWatcher

fun applyOption :: "tlsOption \<Rightarrow> tlsConfig \<Rightarrow> tlsConfig" where
  "applyOption DisableHTTP2 c = c\<lparr>nextProtos := [''http/1.1'']\<rparr>"
| "applyOption (UseWatcher w) c = c\<lparr>getCertificate := Some w\<rparr>"

record metricsOptions =
  mt_bindAddress :: string
  mt_secureServing :: bool
  mt_authFilter :: bool
  mt_tlsOpts :: "tlsOption list"

record managerOptions =
  mg_metrics :: metricsOptions
  mg_webhookTLS :: "tlsOption list"
  mg_probeAddress :: string
  mg_leaderElection :: bool
  mg_leaderElectionID :: string
  mg_leaseDuration :: nat
  mg_renewDeadline :: nat
  mg_retryPeriod :: nat

datatype registration =
    TickerRunnable string
  | ControllerReg string
  | WatcherRunnable certWatcher
  | HealthzCheck string
  | ReadyzCheck string

text \<open>The manager and the watchers: \<open>None\<close> is success.\<close>

record platform =
  newCertWatcher :: "certWatcher \<Rightarrow> goerror option"
  newManager :: "managerOptions \<Rightarrow> goerror option"
  register :: "registration list \<Rightarrow> registration \<Rightarrow> goerror option"

definition certFiles :: "string \<Rightarrow> string \<Rightarrow> string \<Rightarrow> certWatcher" where
  "certFiles path name key = (Join path name, Join path key)"

definition certOption :: "platform \<Rightarrow> string \<Rightarrow> certWatcher \<Rightarrow> certWatcher option option" where
  "certOption P path files =
     (if path = [] then Some None else if newCertWatcher P files = None then Some (Some files) else None)"

definition tlsOptions :: "operatorFlags \<Rightarrow> tlsOption list" where
  "tlsOptions F = (if enableHTTP2 F then [] else [DisableHTTP2])"

definition managerOptionsOf :: "operatorFlags \<Rightarrow> certWatcher option \<Rightarrow> certWatcher option \<Rightarrow> managerOptions" where
  "managerOptionsOf F webhookWatcher metricsWatcher =
     (let withWatcher = (\<lambda>w. tlsOptions F @ (case w of None \<Rightarrow> [] | Some x \<Rightarrow> [UseWatcher x])) in
      \<lparr>mg_metrics = \<lparr>mt_bindAddress = metricsAddr F, mt_secureServing = secureMetrics F, mt_authFilter = secureMetrics F,
         mt_tlsOpts = withWatcher metricsWatcher\<rparr>,
       mg_webhookTLS = withWatcher webhookWatcher, mg_probeAddress = probeAddr F, mg_leaderElection = enableLeaderElection F,
       mg_leaderElectionID = ''5f84582e.konflux-ci.dev'', mg_leaseDuration = 30, mg_renewDeadline = 20, mg_retryPeriod = 5\<rparr>)"

section \<open>The start\<close>

text \<open>The calls on the manager, in order; the process exits at the first one that fails.\<close>

fun registerAll :: "platform \<Rightarrow> registration list \<Rightarrow> registration list \<Rightarrow> registration list option" where
  "registerAll P reg [] = Some reg"
| "registerAll P reg (x # xs) = (if register P reg x = None then registerAll P (reg @ [x]) xs else None)"

definition registrations :: "certWatcher option \<Rightarrow> certWatcher option \<Rightarrow> registration list" where
  "registrations metricsWatcher webhookWatcher =
     [ControllerReg ''apishard'', TickerRunnable ''namespacesync'', ControllerReg ''namespacesync'',
      TickerRunnable ''webhooksync'', ControllerReg ''webhooksync''] @
     (case metricsWatcher of None \<Rightarrow> [] | Some w \<Rightarrow> [WatcherRunnable w]) @
     (case webhookWatcher of None \<Rightarrow> [] | Some w \<Rightarrow> [WatcherRunnable w]) @
     [HealthzCheck ''healthz'', ReadyzCheck ''readyz'']"

record operator =
  op_options :: managerOptions
  op_reconciler :: reconciler
  op_registered :: "registration list"

text \<open>\<open>main\<close> up to the start of the manager; \<open>None\<close> is an exit with status 1.\<close>

definition operatorMain :: "operatorFlags \<Rightarrow> platform \<Rightarrow> discovery \<Rightarrow> operator option" where
  "operatorMain F P D =
     Option.bind (certOption P (webhookCertPath F) (certFiles (webhookCertPath F) (webhookCertName F) (webhookCertKey F))) (\<lambda>webhookWatcher.
     Option.bind (certOption P (metricsCertPath F) (certFiles (metricsCertPath F) (metricsCertName F) (metricsCertKey F))) (\<lambda>metricsWatcher.
       let opts = managerOptionsOf F webhookWatcher metricsWatcher in
       if newManager P opts \<noteq> None then None
       else
         Option.bind (setupReconciler D) (\<lambda>R.
         Option.bind (registerAll P [] (registrations metricsWatcher webhookWatcher)) (\<lambda>reg.
           Some \<lparr>op_options = opts, op_reconciler = R, op_registered = reg\<rparr>))))"

section \<open>Lemmas\<close>

lemma registerAll_all: "registerAll P ds xs = Some reg \<Longrightarrow> reg = ds @ xs"
  by (induction P ds xs rule: registerAll.induct) (auto split: if_splits)

lemma registerAll_accepted: "registerAll P ds xs = Some reg \<Longrightarrow> \<forall>i < length xs. register P (ds @ take i xs) (xs ! i) = None"
proof (induction P ds xs rule: registerAll.induct)
  case (2 P ds x xs)
  then show ?case by (auto simp: less_Suc_eq_0_disj nth_Cons' split: if_splits)
qed simp

lemma setup_probes:
  assumes "setupReconciler D = Some R"
  shows "ClientProvider R \<and> PrimaryIssuer R \<noteq> [] \<and>
    (\<exists>body. doRaw D ''/.well-known/openid-configuration'' = Inr body \<and> unmarshalIssuer D body = Inr (PrimaryIssuer R)) \<and>
    (ServiceMonitorAvailable R \<longleftrightarrow>
      (\<exists>kinds. serverResourcesForGroupVersion D ''monitoring.coreos.com/v1'' = Inr kinds \<and> ''ServiceMonitor'' \<in> set kinds)) \<and>
    (SCCAvailable R \<longleftrightarrow>
      (\<exists>kinds. serverResourcesForGroupVersion D ''security.openshift.io/v1'' = Inr kinds \<and> ''SecurityContextConstraints'' \<in> set kinds))"
  using assms
  by (auto simp: setupReconciler_def DiscoverPrimaryIssuer_def DiscoverServiceMonitor_def DiscoverSCC_def list_ex_iff Let_def
      split: option.splits sum.splits if_splits)

text \<open>What a server makes of its options, from the configuration it starts with.\<close>

abbreviation serverTLS :: "tlsOption list \<Rightarrow> tlsConfig \<Rightarrow> tlsConfig" where
  "serverTLS opts c \<equiv> fold applyOption opts c"

definition serverSecured :: "operatorFlags \<Rightarrow> string \<Rightarrow> certWatcher \<Rightarrow> registration list \<Rightarrow> tlsOption list \<Rightarrow> bool" where
  "serverSecured F path files reg opts =
     ((\<forall>c. nextProtos (serverTLS opts c) = (if enableHTTP2 F then nextProtos c else [''http/1.1''])) \<and>
      (\<forall>c. getCertificate (serverTLS opts c) = (if path = [] then getCertificate c else Some files)) \<and>
      (path \<noteq> [] \<longrightarrow> WatcherRunnable files \<in> set reg))"

lemma serverSecured_options:
  assumes "certOption P path files = Some w" and "\<And>x. w = Some x \<Longrightarrow> WatcherRunnable x \<in> set reg"
  shows "serverSecured F path files reg (tlsOptions F @ (case w of None \<Rightarrow> [] | Some x \<Rightarrow> [UseWatcher x]))"
  using assms by (auto simp: serverSecured_def certOption_def tlsOptions_def split: if_splits)

section \<open>Properties\<close>

text \<open>
  C32: an operator that starts is set up as its flags say. Its metrics and its webhook server speak HTTP/2
  only if that is enabled, serve the certificate of their own flags, whose watcher runs with the
  manager, and the metrics endpoint checks who reads it exactly if it is secured. All three
  controllers and the tickers of the two syncs are registered, each accepted by the manager. The
  reconciler has a client provider and the non-empty issuer that the primary announces, and uses
  ServiceMonitors and SecurityContextConstraints exactly when the primary lists the kind: a failed
  probe disables the feature and does not stop the operator.
\<close>

theorem operatorMain_correct:
  assumes "operatorMain F P D = Some op"
  defines "reg \<equiv> op_registered op" and "mt \<equiv> mg_metrics (op_options op)" and "R \<equiv> op_reconciler op"
  shows "serverSecured F (metricsCertPath F) (certFiles (metricsCertPath F) (metricsCertName F) (metricsCertKey F)) reg (mt_tlsOpts mt) \<and>
    serverSecured F (webhookCertPath F) (certFiles (webhookCertPath F) (webhookCertName F) (webhookCertKey F)) reg
      (mg_webhookTLS (op_options op)) \<and>
    (mt_authFilter mt \<longleftrightarrow> secureMetrics F) \<and> (mt_secureServing mt \<longleftrightarrow> secureMetrics F) \<and>
    {ControllerReg ''apishard'', ControllerReg ''namespacesync'', ControllerReg ''webhooksync'',
      TickerRunnable ''namespacesync'', TickerRunnable ''webhooksync''} \<subseteq> set reg \<and>
    (\<forall>i < length reg. register P (take i reg) (reg ! i) = None) \<and>
    ClientProvider R \<and> PrimaryIssuer R \<noteq> [] \<and>
    (\<exists>body. doRaw D ''/.well-known/openid-configuration'' = Inr body \<and> unmarshalIssuer D body = Inr (PrimaryIssuer R)) \<and>
    (ServiceMonitorAvailable R \<longleftrightarrow>
      (\<exists>kinds. serverResourcesForGroupVersion D ''monitoring.coreos.com/v1'' = Inr kinds \<and> ''ServiceMonitor'' \<in> set kinds)) \<and>
    (SCCAvailable R \<longleftrightarrow>
      (\<exists>kinds. serverResourcesForGroupVersion D ''security.openshift.io/v1'' = Inr kinds \<and> ''SecurityContextConstraints'' \<in> set kinds))"
proof -
  from assms(1) obtain ww mw where
    w: "certOption P (webhookCertPath F) (certFiles (webhookCertPath F) (webhookCertName F) (webhookCertKey F)) = Some ww"
      "certOption P (metricsCertPath F) (certFiles (metricsCertPath F) (metricsCertName F) (metricsCertKey F)) = Some mw"
    and o: "op_options op = managerOptionsOf F ww mw" and sr: "setupReconciler D = Some R"
    and all: "registerAll P [] (registrations mw ww) = Some reg"
    by (auto simp: operatorMain_def Let_def bind_eq_Some_conv R_def reg_def split: if_splits)
  have reg: "reg = registrations mw ww" using registerAll_all [OF all] by simp
  then have mem: "\<And>x. mw = Some x \<Longrightarrow> WatcherRunnable x \<in> set reg" "\<And>x. ww = Some x \<Longrightarrow> WatcherRunnable x \<in> set reg"
    "{ControllerReg ''apishard'', ControllerReg ''namespacesync'', ControllerReg ''webhooksync'',
      TickerRunnable ''namespacesync'', TickerRunnable ''webhooksync''} \<subseteq> set reg"
    by (auto simp: registrations_def)
  have "\<forall>i < length reg. register P (take i reg) (reg ! i) = None"
    using registerAll_accepted [OF all] reg by simp
  with mem(3) setup_probes [OF sr] serverSecured_options [OF w(2) mem(1), of F] serverSecured_options [OF w(1) mem(2), of F]
  show ?thesis by (simp add: mt_def o managerOptionsOf_def)
qed

definition plainCluster :: discovery where
  "plainCluster =
     \<lparr>serverResourcesForGroupVersion = (\<lambda>gv. if gv = ''monitoring.coreos.com/v1'' then Inr [''PodMonitor'', ''ServiceMonitor'']
        else Inl (errorf ''connection refused'')),
      newForConfig = None, newDiscoveryClient = None, doRaw = (\<lambda>p. Inr p), unmarshalIssuer = (\<lambda>b. Inr ''https://issuer'')\<rparr>"

definition plainPlatform :: platform where
  "plainPlatform = \<lparr>newCertWatcher = (\<lambda>_. None), newManager = (\<lambda>_. None), register = (\<lambda>_ _. None)\<rparr>"

theorem operatorMain_correct_witness:
  "\<exists>op. operatorMain (defaultOperatorFlags\<lparr>metricsCertPath := ''/certs/''\<rparr>) plainPlatform plainCluster = Some op \<and>
     PrimaryIssuer (op_reconciler op) = ''https://issuer'' \<and> ServiceMonitorAvailable (op_reconciler op) \<and> \<not> SCCAvailable (op_reconciler op) \<and>
     WatcherRunnable (''/certs/tls.crt'', ''/certs/tls.key'') \<in> set (op_registered op)"
proof -
  let ?F = "defaultOperatorFlags\<lparr>metricsCertPath := ''/certs/''\<rparr>"
  have files: "certFiles ''/certs/'' ''tls.crt'' ''tls.key'' = (''/certs/tls.crt'', ''/certs/tls.key'')" by code_simp
  obtain op where run: "operatorMain ?F plainPlatform plainCluster = Some op"
    by (simp add: operatorMain_def certOption_def plainPlatform_def plainCluster_def setupReconciler_def DiscoverPrimaryIssuer_def
        defaultOperatorFlags_def registrations_def Let_def)
  from operatorMain_correct [OF run] run files show ?thesis
    by (auto simp: plainCluster_def serverSecured_def defaultOperatorFlags_def)
qed

end
