(* ===== verification/Bundles.thy ===== *)
theory Bundles
  imports KubeTypes "HOL-Library.Multiset"
begin

text \<open>
  The load-test generator \<open>tools/generate-from-pipeline\<close>: the part of the Tekton types it reads and
  writes, and the resolution of task bundles from a registry (\<open>bundle.go\<close>), which runs one
  goroutine per task. The registry client, the tar reader and the decoders are arguments.
\<close>

section \<open>Tekton types\<close>

datatype paramType = ParamTypeString | ParamTypeArray | ParamTypeObject

record paramValue =
  pv_type :: paramType
  pv_stringVal :: string
  pv_arrayVal :: "string list"

record param =
  pa_name :: string
  pa_value :: paramValue

record matrix =
  mx_params :: "param list"
  mx_include :: "(string \<times> param list) list"

record step =
  stp_name :: string
  stp_image :: string
  stp_imagePullPolicy :: string
  stp_script :: string
  stp_resources :: resourceRequirements

record taskSpec =
  tsp_params :: "(string \<times> paramType) list"
  tsp_steps :: "step list"

record taskRef =
  trf_resolver :: string
  trf_params :: "param list"

record pipelineTask =
  pt_name :: string
  pt_runAfter :: "string list"
  pt_taskRef :: "taskRef option"
  pt_taskSpec :: "taskSpec option"
  pt_matrix :: "matrix option"

section \<open>Data of the generator\<close>

record taskInfo =
  ti_name :: string
  ti_bundleRef :: string
  ti_bundleTaskName :: string
  ti_runAfter :: "string list"
  ti_matrix :: "matrix option"
  ti_isFinallyTask :: bool
  ti_inlineSteps :: nat
  ti_inlineSize :: nat
  ti_inlineStepNames :: "string list"
  ti_inlineStepResources :: "resourceRequirements list"

record resolvedTask =
  rt_name :: string
  rt_stepNames :: "string list"
  rt_stepResources :: "resourceRequirements list"
  rt_sizeBytes :: int
  rt_err :: "goerror option"

section \<open>Resolving one bundle\<close>

text \<open>
  A tar stream as \<open>tar.Reader\<close> gives it: entries whose content may fail to be read, and possibly an
  error in place of the next header; the end of the list is \<open>io.EOF\<close>.
\<close>

datatype tarItem = TarEntry "goerror + bytes" | TarError goerror

record layerDesc =
  ld_annotations :: "string gomap"
  ld_size :: int

record registry =
  parseReference :: "string \<Rightarrow> goerror option"
  pullImage :: "string \<Rightarrow> goerror option"
  imageManifest :: "string \<Rightarrow> goerror + layerDesc list"
  imageLayers :: "string \<Rightarrow> goerror + (goerror + tarItem list) list"
  yamlTask :: "bytes \<Rightarrow> goerror + (string \<times> step list)"
  jsonTask :: "bytes \<Rightarrow> goerror + (string \<times> step list)"

text \<open>The task of an entry: the YAML decoder first, then the JSON decoder; the kind must be \<open>Task\<close>.\<close>

definition parseTask :: "registry \<Rightarrow> bytes \<Rightarrow> step list option" where
  "parseTask G d =
     (case yamlTask G d of
        Inr (k, steps) \<Rightarrow>
          if k = ''Task'' then Some steps
          else (case jsonTask G d of Inr (k', steps') \<Rightarrow> if k' = ''Task'' then Some steps' else None | Inl _ \<Rightarrow> None)
      | Inl _ \<Rightarrow> (case jsonTask G d of Inr (k', steps') \<Rightarrow> if k' = ''Task'' then Some steps' else None | Inl _ \<Rightarrow> None))"

text \<open>The loop of \<open>extractTask\<close>; the steps and the size of the task, or the error with the last size.\<close>

fun readEntries :: "registry \<Rightarrow> nat \<Rightarrow> tarItem list \<Rightarrow> (goerror + step list) \<times> nat" where
  "readEntries G lastSize [] =
     (if lastSize > 0 then (Inl (errorf (''could not parse '' @ itoa (int lastSize) @ '' bytes as Task'')), lastSize)
      else (Inl (errorf ''empty tar''), 0))"
| "readEntries G lastSize (TarError e # rest) = (Inl (wrap ''tar'' e), lastSize)"
| "readEntries G lastSize (TarEntry (Inl e) # rest) = (Inl (wrap ''read'' e), lastSize)"
| "readEntries G lastSize (TarEntry (Inr d) # rest) =
     (case parseTask G d of Some steps \<Rightarrow> (Inr steps, length d) | None \<Rightarrow> readEntries G (length d) rest)"

definition extractTask :: "registry \<Rightarrow> goerror + tarItem list \<Rightarrow> (goerror + step list) \<times> nat" where
  "extractTask G layer =
     (case layer of Inl e \<Rightarrow> (Inl (wrap ''uncompress'' e), 0) | Inr items \<Rightarrow> readEntries G 0 items)"

definition unresolved :: "taskInfo \<Rightarrow> int \<Rightarrow> goerror \<Rightarrow> resolvedTask" where
  "unresolved t n e = \<lparr>rt_name = ti_name t, rt_stepNames = [], rt_stepResources = [], rt_sizeBytes = n, rt_err = Some e\<rparr>"

definition wantedLayer :: "taskInfo \<Rightarrow> layerDesc \<Rightarrow> bool" where
  "wantedLayer t desc =
     (mapGet (ld_annotations desc) ''dev.tekton.image.kind'' = ''task'' \<and>
      (ti_bundleTaskName t = [] \<or> mapGet (ld_annotations desc) ''dev.tekton.image.name'' = ti_bundleTaskName t))"

text \<open>
  The loop over the manifest; a manifest with more entries than the image has layers makes
  \<open>layers[i]\<close> panic, which is \<open>None\<close>.
\<close>

fun searchLayers :: "registry \<Rightarrow> taskInfo \<Rightarrow> (goerror + tarItem list) list \<Rightarrow> nat \<Rightarrow> layerDesc list \<Rightarrow> resolvedTask option" where
  "searchLayers G t layers i [] = Some (unresolved t 0 (errorf ''no task layer found in bundle''))"
| "searchLayers G t layers i (desc # rest) =
     (if \<not> wantedLayer t desc then searchLayers G t layers (Suc i) rest
      else if length layers \<le> i then None
      else case extractTask G (layers ! i) of
          (Inl e, n) \<Rightarrow> Some (unresolved t (ld_size desc) (wrap ''extract (using compressed layer size)'' e))
        | (Inr steps, n) \<Rightarrow> Some \<lparr>rt_name = ti_name t, rt_stepNames = map stp_name steps, rt_stepResources = map stp_resources steps,
            rt_sizeBytes = int n, rt_err = None\<rparr>)"

definition resolveBundle :: "registry \<Rightarrow> taskInfo \<Rightarrow> resolvedTask option" where
  "resolveBundle G t =
     (let ref = ti_bundleRef t in
      case parseReference G ref of
        Some e \<Rightarrow> Some (unresolved t 0 (wrap (''parse ref '' @ quote ref) e))
      | None \<Rightarrow>
        (case pullImage G ref of
           Some e \<Rightarrow> Some (unresolved t 0 (wrap (''pull '' @ quote ref) e))
         | None \<Rightarrow>
           (case imageManifest G ref of
              Inl e \<Rightarrow> Some (unresolved t 0 (wrap ''manifest'' e))
            | Inr descs \<Rightarrow>
              (case imageLayers G ref of
                 Inl e \<Rightarrow> Some (unresolved t 0 (wrap ''layers'' e))
               | Inr layers \<Rightarrow> searchLayers G t layers 0 descs))))"

section \<open>Resolving all bundles\<close>

text \<open>
  The goroutines finish in some order and each writes its result under the mutex; a panic in one
  of them ends the process. \<open>resolveBundlesIn\<close> is the map after the tasks finished in the given order.
\<close>

definition bundled :: "taskInfo list \<Rightarrow> taskInfo list" where
  "bundled tasks = filter (\<lambda>t. ti_bundleRef t \<noteq> []) tasks"

fun resolveBundlesIn :: "registry \<Rightarrow> taskInfo list \<Rightarrow> (string \<rightharpoonup> resolvedTask) \<Rightarrow> (string \<rightharpoonup> resolvedTask) option" where
  "resolveBundlesIn G [] results = Some results"
| "resolveBundlesIn G (t # order) results =
     (case resolveBundle G t of None \<Rightarrow> None | Some r \<Rightarrow> resolveBundlesIn G order (results(ti_name t \<mapsto> r)))"

definition resolveBundles :: "registry \<Rightarrow> taskInfo list \<Rightarrow> (string \<rightharpoonup> resolvedTask) option" where
  "resolveBundles G tasks = resolveBundlesIn G (bundled tasks) Map.empty"

section \<open>Lemmas\<close>

lemma resolveBundlesIn_None: "resolveBundlesIn G order m = None \<longleftrightarrow> (\<exists>t \<in> set order. resolveBundle G t = None)"
  by (induction order arbitrary: m) (auto split: option.splits)

lemma resolveBundlesIn_lookup:
  assumes "resolveBundlesIn G order m = Some res" and "distinct (map ti_name order)"
  shows "res n = (case find (\<lambda>t. ti_name t = n) order of Some t \<Rightarrow> resolveBundle G t | None \<Rightarrow> m n)"
  using assms
proof (induction order arbitrary: m)
  case (Cons t order)
  then obtain r where r: "resolveBundle G t = Some r" and rest: "resolveBundlesIn G order (m(ti_name t \<mapsto> r)) = Some res"
    by (auto split: option.splits)
  have "find (\<lambda>u. ti_name u = ti_name t) order = None"
    using Cons.prems(2) unfolding find_None_iff by (metis distinct.simps(2) imageI list.simps(9) set_map)
  with Cons.IH [OF rest] Cons.prems(2) r show ?case by (auto split: option.splits)
qed simp

lemma find_name_perm:
  assumes "mset xs = mset ys" and "distinct (map ti_name xs)"
  shows "find (\<lambda>t. ti_name t = n) xs = find (\<lambda>t. ti_name t = n) ys"
proof -
  have s: "set xs = set ys" using assms(1) by (metis set_mset_mset)
  have inj: "inj_on ti_name (set xs)" using assms(2) by (simp add: distinct_map)
  show ?thesis
  proof (cases "find (\<lambda>t. ti_name t = n) xs")
    case None
    then have "find (\<lambda>t. ti_name t = n) ys = None" using s by (simp add: find_None_iff)
    with None show ?thesis by simp
  next
    case (Some t)
    then have t: "t \<in> set xs" "ti_name t = n" by (auto simp: find_Some_iff)
    then have "find (\<lambda>t. ti_name t = n) ys \<noteq> None" using s by (auto simp: find_None_iff)
    then obtain u where u: "find (\<lambda>t. ti_name t = n) ys = Some u" by blast
    then have "u \<in> set xs" "ti_name u = n" using s by (auto simp: find_Some_iff)
    with t inj have "u = t" by (auto simp: inj_on_def)
    with Some u show ?thesis by simp
  qed
qed

section \<open>Properties\<close>


definition taskSample :: "string \<Rightarrow> taskInfo" where
  "taskSample n = \<lparr>ti_name = n, ti_bundleRef = ''quay.io/b:'' @ n, ti_bundleTaskName = [], ti_runAfter = [], ti_matrix = None,
     ti_isFinallyTask = False, ti_inlineSteps = 0, ti_inlineSize = 0, ti_inlineStepNames = [], ti_inlineStepResources = []\<rparr>"

definition closedRegistry :: registry where
  "closedRegistry = \<lparr>parseReference = (\<lambda>_. None), pullImage = (\<lambda>r. Some (errorf r)), imageManifest = (\<lambda>_. Inr []),
     imageLayers = (\<lambda>_. Inr []), yamlTask = (\<lambda>_. Inl (errorf ''yaml'')), jsonTask = (\<lambda>_. Inl (errorf ''json''))\<rparr>"


end
