(* ===== verification/PipelineGen.thy ===== *)
theory PipelineGen
  imports Bundles Base64 Monitoring Lines
begin

text \<open>
  The load-test generator \<open>tools/generate-from-pipeline\<close>, \<open>generator.go\<close> and the summary and
  clean-up of \<open>main.go\<close>: from the tasks of a PipelineRun it makes a PipelineRun whose tasks have the
  same names, order and dependencies, and whose steps are padded sleep scripts. Randomness is a
  source that is passed along; the YAML encoder is an argument. Sizes are integers: they are lengths
  of texts in memory, far from the limits of the machine.
\<close>

section \<open>Model\<close>

record config =
  cf_namespace :: string
  cf_prefix :: string
  cf_image :: string
  cf_sleepMin :: int
  cf_sleepMax :: int
  cf_defaultTaskSizeKB :: int
  cf_defaultSteps :: int
  cf_preserveResources :: bool

record taskRunSpec =
  trs_pipelineTaskName :: string
  trs_computeResources :: "resourceRequirements option"
  trs_stepSpecs :: "(string \<times> resourceRequirements) list"

record pipelineRun =
  plr_generateName :: string
  plr_namespace :: string
  plr_tasks :: "pipelineTask list"
  plr_finally :: "pipelineTask list"
  plr_taskRunSpecs :: "taskRunSpec list"

text \<open>\<open>crypto/rand\<close>: \<open>rg_int\<close> is \<open>rand.Int\<close>, and \<open>rg_bytes\<close> what \<open>rand.Read\<close> wrote to the buffer.\<close>

record 'g rng =
  rg_int :: "int \<Rightarrow> 'g \<Rightarrow> (goerror + int) \<times> 'g"
  rg_bytes :: "nat \<Rightarrow> 'g \<Rightarrow> bytes \<times> 'g"

definition bundleParams :: "param list \<Rightarrow> string \<times> string \<Rightarrow> string \<times> string" where
  "bundleParams ps init =
     fold (\<lambda>p (ref, name).
       if pa_name p = ''bundle'' then (pv_stringVal (pa_value p), name)
       else if pa_name p = ''name'' then (ref, pv_stringVal (pa_value p))
       else (ref, name)) ps init"

definition extractSingleTaskInfo :: "(taskSpec \<Rightarrow> bytes) \<Rightarrow> pipelineTask \<Rightarrow> bool \<Rightarrow> taskInfo" where
  "extractSingleTaskInfo marshal pt isFinally =
     (let (ref, name) =
        (case pt_taskRef pt of
           None \<Rightarrow> ([], [])
         | Some ref \<Rightarrow> if trf_resolver ref = ''bundles'' then bundleParams (trf_params ref) ([], []) else ([], []));
          info = \<lparr>ti_name = pt_name pt, ti_bundleRef = ref, ti_bundleTaskName = name, ti_runAfter = pt_runAfter pt,
            ti_matrix = pt_matrix pt, ti_isFinallyTask = isFinally, ti_inlineSteps = 0, ti_inlineSize = 0,
            ti_inlineStepNames = [], ti_inlineStepResources = []\<rparr> in
      case pt_taskSpec pt of
        None \<Rightarrow> info
      | Some ts \<Rightarrow>
          info\<lparr>ti_inlineSteps := length (tsp_steps ts), ti_inlineSize := length (marshal ts),
            ti_inlineStepNames := map stp_name (tsp_steps ts), ti_inlineStepResources := map stp_resources (tsp_steps ts)\<rparr>)"

definition extractTaskInfos :: "(taskSpec \<Rightarrow> bytes) \<Rightarrow> (pipelineTask list \<times> pipelineTask list) option \<Rightarrow> taskInfo list" where
  "extractTaskInfos marshal pipelineSpec =
     (case pipelineSpec of
        None \<Rightarrow> []
      | Some (tasks, fin) \<Rightarrow>
          map (\<lambda>pt. extractSingleTaskInfo marshal pt False) tasks @ map (\<lambda>pt. extractSingleTaskInfo marshal pt True) fin)"

definition arrayParams :: "param list \<Rightarrow> (string \<times> string list) list" where
  "arrayParams prParams =
     rev (map (\<lambda>p. (pa_name p, pv_arrayVal (pa_value p))) (filter (\<lambda>p. pv_type (pa_value p) = ParamTypeArray) prParams))"

text \<open>The name in a reference \<open>$(params.name)\<close>.\<close>

definition paramRef :: "string \<Rightarrow> string option" where
  "paramRef ref =
     (if prefix ''$(params.'' ref \<and> suffix '')'' ref
      then Some (drop (length ''$(params.'') (take (length ref - 1) ref)) else None)"

definition resolveParam :: "(string \<times> string list) list \<Rightarrow> param \<Rightarrow> param" where
  "resolveParam paramMap mp =
     (case pv_arrayVal (pa_value mp) of
        [ref] \<Rightarrow>
          (case Option.bind (paramRef ref) (map_of paramMap) of
             Some vals \<Rightarrow> mp\<lparr>pa_value := \<lparr>pv_type = ParamTypeArray, pv_stringVal = [], pv_arrayVal = vals\<rparr>\<rparr>
           | None \<Rightarrow> mp)
      | _ \<Rightarrow> mp)"

definition resolveMatrixValues :: "matrix option \<Rightarrow> param list \<Rightarrow> matrix option" where
  "resolveMatrixValues m prParams =
     (case m of
        None \<Rightarrow> None
      | Some mx \<Rightarrow> Some \<lparr>mx_params = map (resolveParam (arrayParams prParams)) (mx_params mx), mx_include = mx_include mx\<rparr>)"

definition matrixExpansionCount :: "matrix option \<Rightarrow> nat" where
  "matrixExpansionCount m =
     (case m of
        None \<Rightarrow> 1
      | Some mx \<Rightarrow>
          let count = fold (\<lambda>mp c. let n = length (pv_arrayVal (pa_value mp)) in if n > 0 then c * n else c) (mx_params mx) 1 in
          if count = 1 \<and> length (mx_params mx) = 0 \<and> length (mx_include mx) > 0 then length (mx_include mx) else count)"

text \<open>\<open>padScript\<close>; the buffer has the requested length whatever the source delivered.\<close>

definition sleepScript :: "int \<Rightarrow> string" where
  "sleepScript sleepSecs = ''#!/usr/bin/env sh'' @ [CHR 0x0A] @ ''sleep '' @ itoa sleepSecs @ [CHR 0x0A]"

definition paddingPrefix :: string where
  "paddingPrefix = ''# padding: ''"

definition fillBuffer :: "nat \<Rightarrow> bytes \<Rightarrow> bytes" where
  "fillBuffer n bs = take n bs @ replicate (n - length bs) (CHR 0x00)"

definition padScript :: "'g rng \<Rightarrow> int \<Rightarrow> int \<Rightarrow> ('g, string) op" where
  "padScript G sleepSecs targetBytes =
     (let base = sleepScript sleepSecs;
          overhead = int (length base) + int (length paddingPrefix) + 1;
          needed = targetBytes - overhead in
      if needed \<le> 0 then returnE base
      else
        let rawBytes = (needed * 3) div 4 in
        if rawBytes \<le> 0 then returnE base
        else (\<lambda>g.
          let (bs, g') = rg_bytes G (nat rawBytes) g;
              padding = base64 (fillBuffer (nat rawBytes) bs);
              cut = (if int (length padding) > needed then take (nat needed) padding else padding)
          in returnE (base @ paddingPrefix @ cut @ [CHR 0x0A]) g'))"

text \<open>\<open>randomInt\<close>; \<open>max - min + 1\<close> wraps at 64 bits, and \<open>rand.Int\<close> panics on a bound that is not positive.\<close>

definition int64_of :: "int \<Rightarrow> int" where
  "int64_of n = (n + 2 ^ 63) mod 2 ^ 64 - 2 ^ 63"

definition randomInt :: "'g rng \<Rightarrow> int \<Rightarrow> int \<Rightarrow> ('g, int) op" where
  "randomInt G mn mx =
     (if mn \<ge> mx then returnE mn
      else if int64_of (mx - mn + 1) \<le> 0 then throwE (errorf ''panic: crypto/rand: argument to Int is <= 0'')
      else (\<lambda>g. case rg_int G (int64_of (mx - mn + 1)) g of
          (Inl e, g') \<Rightarrow> returnE mn g'
        | (Inr n, g') \<Rightarrow> returnE (mn + n) g'))"

text \<open>The step count, the target size, the names and the resources \<open>generatePipelineTask\<close> works with.\<close>

definition taskShape :: "taskInfo \<Rightarrow> resolvedTask option \<Rightarrow> config \<Rightarrow> int \<times> int \<times> string list \<times> resourceRequirements list" where
  "taskShape t r cfg =
     (let base = (cf_defaultSteps cfg, cf_defaultTaskSizeKB cfg * 1024, [], []);
          afterBundle =
            (case r of
               None \<Rightarrow> base
             | Some rt \<Rightarrow>
                 if rt_err rt = None
                 then
                   let (c, z, ns, rs) = (if rt_stepNames rt \<noteq> []
                     then (int (length (rt_stepNames rt)), cf_defaultTaskSizeKB cfg * 1024, rt_stepNames rt, rt_stepResources rt) else base)
                   in (c, if rt_sizeBytes rt > 0 then rt_sizeBytes rt else z, ns, rs)
                 else if rt_sizeBytes rt > 0 then (cf_defaultSteps cfg, rt_sizeBytes rt, [], []) else base);
          (c, z, ns, rs) =
            (if ti_bundleRef t = [] \<and> ti_inlineSteps t > 0
             then (int (ti_inlineSteps t), if ti_inlineSize t > 0 then int (ti_inlineSize t) else fst (snd afterBundle),
                   ti_inlineStepNames t, ti_inlineStepResources t)
             else afterBundle)
      in (if c < 1 then 1 else c, z, ns, rs))"

definition stepName :: "string list \<Rightarrow> nat \<Rightarrow> string" where
  "stepName stepNames i =
     (if i < length stepNames \<and> stepNames ! i \<noteq> [] then stepNames ! i else ''step-'' @ itoa (int i))"

definition generateStep :: "'g rng \<Rightarrow> config \<Rightarrow> int \<Rightarrow> string list \<Rightarrow> resourceRequirements list \<Rightarrow> nat \<Rightarrow> ('g, step) op" where
  "generateStep G cfg perStepSize stepNames stepResources i =
     bindE (randomInt G (cf_sleepMin cfg) (cf_sleepMax cfg)) (\<lambda>secs.
     bindE (padScript G secs perStepSize) (\<lambda>script.
     returnE \<lparr>stp_name = stepName stepNames i, stp_image = cf_image cfg, stp_imagePullPolicy = ''IfNotPresent'', stp_script = script,
       stp_resources = (if cf_preserveResources cfg \<and> i < length stepResources then stepResources ! i else emptyResources)\<rparr>))"

fun generateSteps :: "'g rng \<Rightarrow> config \<Rightarrow> int \<Rightarrow> string list \<Rightarrow> resourceRequirements list \<Rightarrow> nat list \<Rightarrow> ('g, step list) op" where
  "generateSteps G cfg z ns rs [] = returnE []"
| "generateSteps G cfg z ns rs (i # is) =
     bindE (generateStep G cfg z ns rs i) (\<lambda>st. bindE (generateSteps G cfg z ns rs is) (\<lambda>sts. returnE (st # sts)))"

definition generatePipelineTask :: "'g rng \<Rightarrow> taskInfo \<Rightarrow> resolvedTask option \<Rightarrow> param list \<Rightarrow> config \<Rightarrow> ('g, pipelineTask) op" where
  "generatePipelineTask G t r prParams cfg =
     (let (stepCount, targetSize, stepNames, stepResources) = taskShape t r cfg;
          perStepSize = (if targetSize div stepCount < 100 then 100 else targetSize div stepCount) in
      bindE (generateSteps G cfg perStepSize stepNames stepResources [0..<nat stepCount]) (\<lambda>steps.
      returnE \<lparr>pt_name = ti_name t, pt_runAfter = ti_runAfter t, pt_taskRef = None,
        pt_taskSpec = Some \<lparr>tsp_params =
            (case resolveMatrixValues (ti_matrix t) prParams of None \<Rightarrow> []
             | Some mx \<Rightarrow> map (\<lambda>mp. (pa_name mp, ParamTypeString)) (mx_params mx)), tsp_steps = steps\<rparr>,
        pt_matrix = resolveMatrixValues (ti_matrix t) prParams\<rparr>))"

definition forwardedSpec :: "taskRunSpec list \<Rightarrow> config \<Rightarrow> taskInfo \<Rightarrow> taskRunSpec list" where
  "forwardedSpec taskRunSpecs cfg t =
     (if \<not> cf_preserveResources cfg then []
      else case map_of (rev (map (\<lambda>trs. (trs_pipelineTaskName trs, trs)) taskRunSpecs)) (ti_name t) of
          None \<Rightarrow> []
        | Some trs \<Rightarrow>
            if trs_computeResources trs \<noteq> None \<or> trs_stepSpecs trs \<noteq> [] then [trs\<lparr>trs_pipelineTaskName := ti_name t\<rparr>] else [])"

fun addTasks :: "'g rng \<Rightarrow> taskInfo list \<Rightarrow> (string \<rightharpoonup> resolvedTask) \<Rightarrow> param list \<Rightarrow> taskRunSpec list \<Rightarrow> config \<Rightarrow>
    pipelineRun \<Rightarrow> ('g, pipelineRun) op" where
  "addTasks G [] resolved prParams specs cfg pr = returnE pr"
| "addTasks G (t # ts) resolved prParams specs cfg pr =
     bindE (generatePipelineTask G t (resolved (ti_name t)) prParams cfg) (\<lambda>pt.
       let pr1 = (if ti_isFinallyTask t then pr\<lparr>plr_finally := plr_finally pr @ [pt]\<rparr> else pr\<lparr>plr_tasks := plr_tasks pr @ [pt]\<rparr>);
           pr2 = pr1\<lparr>plr_taskRunSpecs := plr_taskRunSpecs pr1 @ forwardedSpec specs cfg t\<rparr>
       in addTasks G ts resolved prParams specs cfg pr2)"

definition generatePipelineRun :: "'g rng \<Rightarrow> taskInfo list \<Rightarrow> (string \<rightharpoonup> resolvedTask) \<Rightarrow> param list \<Rightarrow> taskRunSpec list \<Rightarrow> config \<Rightarrow>
    ('g, pipelineRun) op" where
  "generatePipelineRun G tasks resolved prParams specs cfg =
     addTasks G tasks resolved prParams specs cfg
       \<lparr>plr_generateName = cf_prefix cfg, plr_namespace = cf_namespace cfg, plr_tasks = [], plr_finally = [], plr_taskRunSpecs = []\<rparr>"

text \<open>The summary \<open>main\<close> prints for a task: step count and size.\<close>

definition summaryOf :: "taskInfo \<Rightarrow> resolvedTask option \<Rightarrow> config \<Rightarrow> int \<times> int" where
  "summaryOf t r cfg =
     (case r of
        Some rt \<Rightarrow>
          if rt_err rt = None then (int (length (rt_stepNames rt)), rt_sizeBytes rt)
          else if rt_sizeBytes rt > 0 then (cf_defaultSteps cfg, rt_sizeBytes rt)
          else (cf_defaultSteps cfg, cf_defaultTaskSizeKB cfg * 1024)
      | None \<Rightarrow>
          if ti_inlineSteps t > 0 then (int (ti_inlineSteps t), int (ti_inlineSize t))
          else (cf_defaultSteps cfg, cf_defaultTaskSizeKB cfg * 1024))"

definition droppedLines :: "string list" where
  "droppedLines = [''metadata: {}'', ''spec: null'', ''computeResources: {}'', ''status: {}'', ''taskRunTemplate: {}'']"

definition cleanupYAML :: "string \<Rightarrow> string" where
  "cleanupYAML d = joinWith [CHR 0x0A] (filter (\<lambda>line. TrimSpace line \<notin> set droppedLines) (splitLines d))"

section \<open>Lemmas on the scripts\<close>

lemma fillBuffer_length [simp]: "length (fillBuffer n bs) = n"
  by (simp add: fillBuffer_def)

text \<open>The padding reaches the missing length, or misses it by one.\<close>

lemma padding_length: "n - 1 \<le> 4 * ((n * 3 div 4 + 2) div 3)" for n :: nat
proof -
  define q r where "q = n div 4" and "r = n mod 4"
  have n: "n = 4 * q + r" and "r < 4" by (simp_all add: q_def r_def)
  have d: "(4 * q + r) * 3 div 4 = 3 * q + r * 3 div 4" by simp
  have e: "(3 * q + x + 2) div 3 = q + (x + 2) div 3" for x by simp
  from \<open>r < 4\<close> have "r \<in> {0, 1, 2, 3}" by auto
  then show ?thesis unfolding n d e by auto
qed

text \<open>One run of \<open>padScript\<close>: the script, with the padding as a text without a newline.\<close>

definition paddedWith :: "int \<Rightarrow> int \<Rightarrow> string \<Rightarrow> string \<Rightarrow> bool" where
  "paddedWith secs target p script =
     (script = sleepScript secs @ paddingPrefix @ p @ [CHR 0x0A] \<and> CHR 0x0A \<notin> set p \<and>
      target - 1 \<le> int (length script) \<and> int (length script) \<le> target)"

lemma padScript_run:
  "\<exists>script g'. padScript G secs target g = (Inr script, g') \<and>
     (if target \<le> int (length (sleepScript secs)) + 13 then script = sleepScript secs else \<exists>p. paddedWith secs target p script)"
proof -
  let ?base = "sleepScript secs"
  define needed where "needed = target - (int (length ?base) + int (length paddingPrefix) + 1)"
  have len: "length paddingPrefix = 11" by (simp add: paddingPrefix_def)
  show ?thesis
  proof (cases "needed \<le> 1")
    case True
    then have "padScript G secs target g = (Inr ?base, g)"
      by (auto simp: padScript_def Let_def returnE_def simp flip: needed_def)
    with True len show ?thesis by (simp add: needed_def)
  next
    case False
    define n where "n = nat needed"
    have n: "2 \<le> n" "needed = int n" using False by (simp_all add: n_def)
    have raw: "nat (needed * 3 div 4) = n * 3 div 4" "0 < needed * 3 div 4" using n by (simp_all add: nat_div_distrib nat_mult_distrib)
    obtain bs g' where b: "rg_bytes G (n * 3 div 4) g = (bs, g')" by fastforce
    define p where "p = take n (base64 (fillBuffer (n * 3 div 4) bs))"
    have "padScript G secs target g = (Inr (?base @ paddingPrefix @ p @ [CHR 0x0A]), g')"
      unfolding padScript_def Let_def needed_def [symmetric] using n raw b by (auto simp: returnE_def p_def)
    moreover have "CHR 0x0A \<notin> set p" using base64_one_line by (auto simp: p_def dest: in_set_takeD)
    moreover have "length p = min n (4 * ((n * 3 div 4 + 2) div 3))" by (simp add: p_def base64_length)
    with padding_length [of n] have "n - 1 \<le> length p" "length p \<le> n" by auto
    ultimately have "padScript G secs target g = (Inr (?base @ paddingPrefix @ p @ [CHR 0x0A]), g') \<and>
        paddedWith secs target p (?base @ paddingPrefix @ p @ [CHR 0x0A])"
      using n len by (simp add: paddedWith_def needed_def)
    moreover have "\<not> target \<le> int (length ?base) + 13" using False len by (simp add: needed_def)
    ultimately show ?thesis by auto
  qed
qed

section \<open>Lemmas on the generated run\<close>

text \<open>The documented range of \<open>rand.Int\<close>, and sleep bounds whose difference fits a 64-bit integer.\<close>

definition rngLaw :: "'g rng \<Rightarrow> bool" where
  "rngLaw G = (\<forall>b g n g'. rg_int G b g = (Inr n, g') \<longrightarrow> 0 \<le> n \<and> n < b)"

definition sleepRangeOk :: "config \<Rightarrow> bool" where
  "sleepRangeOk cfg = (cf_sleepMin cfg \<le> cf_sleepMax cfg \<and> cf_sleepMax cfg - cf_sleepMin cfg < 2 ^ 63 - 1)"

lemma randomInt_run:
  assumes "rngLaw G" and "mn \<le> mx" and "mx - mn < 2 ^ 63 - 1"
  shows "\<exists>v g'. randomInt G mn mx g = (Inr v, g') \<and> mn \<le> v \<and> v \<le> mx"
proof (cases "mn \<ge> mx")
  case True
  with assms(2) show ?thesis by (simp add: randomInt_def returnE_def)
next
  case False
  let ?b = "mx - mn + 1"
  have b: "int64_of ?b = ?b" using False assms(3) by (simp add: int64_of_def)
  obtain r g' where run: "rg_int G ?b g = (r, g')" by fastforce
  show ?thesis
  proof (cases r)
    case (Inl e)
    with run False b show ?thesis by (auto simp: randomInt_def returnE_def)
  next
    case (Inr n)
    with run assms(1) have "0 \<le> n \<and> n < ?b" unfolding rngLaw_def by blast
    with run Inr False b show ?thesis by (auto simp: randomInt_def returnE_def)
  qed
qed

definition stepFits :: "config \<Rightarrow> int \<Rightarrow> string list \<Rightarrow> nat \<Rightarrow> step \<Rightarrow> bool" where
  "stepFits cfg z ns i st =
     (stp_name st = stepName ns i \<and> stp_image st = cf_image cfg \<and>
      (\<exists>secs. cf_sleepMin cfg \<le> secs \<and> secs \<le> cf_sleepMax cfg \<and>
         (if z \<le> int (length (sleepScript secs)) + 13 then stp_script st = sleepScript secs
          else \<exists>p. paddedWith secs z p (stp_script st))))"

lemma generateStep_run:
  assumes "rngLaw G" and "sleepRangeOk cfg"
  shows "\<exists>st g'. generateStep G cfg z ns rs i g = (Inr st, g') \<and> stepFits cfg z ns i st"
proof -
  obtain secs g1 where r: "randomInt G (cf_sleepMin cfg) (cf_sleepMax cfg) g = (Inr secs, g1)"
    and secs: "cf_sleepMin cfg \<le> secs" "secs \<le> cf_sleepMax cfg"
    using randomInt_run [of G "cf_sleepMin cfg" "cf_sleepMax cfg" g] assms by (auto simp: sleepRangeOk_def)
  obtain script g2 where p: "padScript G secs z g1 = (Inr script, g2)"
    and sc: "if z \<le> int (length (sleepScript secs)) + 13 then script = sleepScript secs else \<exists>p. paddedWith secs z p script"
    using padScript_run [of G secs z g1] by blast
  from r p secs sc show ?thesis unfolding generateStep_def stepFits_def by (auto simp: bindE_def returnE_def)
qed

lemma generateSteps_run:
  assumes "rngLaw G" and "sleepRangeOk cfg"
  shows "\<exists>sts g'. generateSteps G cfg z ns rs is g = (Inr sts, g') \<and> list_all2 (stepFits cfg z ns) is sts"
proof (induction "is" arbitrary: g)
  case (Cons i "is")
  obtain st g1 where s1: "generateStep G cfg z ns rs i g = (Inr st, g1)" "stepFits cfg z ns i st"
    using generateStep_run [OF assms] by blast
  obtain sts g2 where "generateSteps G cfg z ns rs is g1 = (Inr sts, g2)" "list_all2 (stepFits cfg z ns) is sts"
    using Cons.IH by blast
  with s1 show ?case by (simp add: bindE_def returnE_def)
qed (simp add: returnE_def)

lemma taskShape_positive: "1 \<le> fst (taskShape t r cfg)"
  by (simp add: taskShape_def Let_def split: prod.splits)

lemma generatePipelineTask_run:
  assumes "rngLaw G" and "sleepRangeOk cfg" and "taskShape t r cfg = (c, z, ns, rs)"
  shows "\<exists>pt steps g'. generatePipelineTask G t r ps cfg g = (Inr pt, g') \<and> pt_name pt = ti_name t \<and> pt_runAfter pt = ti_runAfter t \<and>
    pt_matrix pt = resolveMatrixValues (ti_matrix t) ps \<and> map_option tsp_steps (pt_taskSpec pt) = Some steps \<and>
    list_all2 (stepFits cfg (max 100 (z div c)) ns) [0..<nat c] steps"
proof -
  obtain sts g' where "generateSteps G cfg (max 100 (z div c)) ns rs [0..<nat c] g = (Inr sts, g')"
    and "list_all2 (stepFits cfg (max 100 (z div c)) ns) [0..<nat c] sts"
    using generateSteps_run [OF assms(1,2)] by blast
  moreover have "(if z div c < 100 then 100 else z div c) = max 100 (z div c)" by auto
  ultimately show ?thesis using assms(3) by (simp add: generatePipelineTask_def bindE_def returnE_def)
qed

text \<open>What a generated task keeps of the task it stands for.\<close>

definition mirrors :: "pipelineTask \<Rightarrow> pipelineTask \<Rightarrow> bool" where
  "mirrors pt out =
     (pt_name out = pt_name pt \<and> pt_runAfter out = pt_runAfter pt \<and>
      map_option (\<lambda>mx. map pa_name (mx_params mx)) (pt_matrix out) = map_option (\<lambda>mx. map pa_name (mx_params mx)) (pt_matrix pt) \<and>
      map_option mx_include (pt_matrix out) = map_option mx_include (pt_matrix pt) \<and>
      (\<exists>ts. pt_taskSpec out = Some ts \<and> tsp_steps ts \<noteq> []))"

lemma resolveMatrix_keeps:
  "map_option (\<lambda>mx. map pa_name (mx_params mx)) (resolveMatrixValues m ps) = map_option (\<lambda>mx. map pa_name (mx_params mx)) m"
  "map_option mx_include (resolveMatrixValues m ps) = map_option mx_include m"
proof -
  have "pa_name (resolveParam pm mp) = pa_name mp" for pm mp
    by (simp add: resolveParam_def split: list.splits option.splits)
  then show "map_option (\<lambda>mx. map pa_name (mx_params mx)) (resolveMatrixValues m ps) = map_option (\<lambda>mx. map pa_name (mx_params mx)) m"
    by (auto simp: resolveMatrixValues_def split: option.splits)
qed (simp add: resolveMatrixValues_def split: option.splits)

lemma extract_sel [simp]:
  "ti_name (extractSingleTaskInfo marshal pt f) = pt_name pt" "ti_runAfter (extractSingleTaskInfo marshal pt f) = pt_runAfter pt"
  "ti_matrix (extractSingleTaskInfo marshal pt f) = pt_matrix pt" "ti_isFinallyTask (extractSingleTaskInfo marshal pt f) = f"
  by (simp_all add: extractSingleTaskInfo_def Let_def split: prod.splits option.splits)

lemma generate_mirrors:
  assumes "rngLaw G" and "sleepRangeOk cfg"
  shows "\<exists>out g'. generatePipelineTask G (extractSingleTaskInfo marshal pt f) r ps cfg g = (Inr out, g') \<and> mirrors pt out"
proof -
  obtain c z ns rs where sh: "taskShape (extractSingleTaskInfo marshal pt f) r cfg = (c, z, ns, rs)" by (metis prod_cases4)
  have "1 \<le> c" using taskShape_positive [of "extractSingleTaskInfo marshal pt f" r cfg] sh by simp
  then have "[0..<nat c] \<noteq> []" by simp
  with generatePipelineTask_run [OF assms sh, of ps g] show ?thesis
    by (auto simp: mirrors_def resolveMatrix_keeps dest!: list_all2_lengthD)
qed

lemma addTasks_run:
  assumes "rngLaw G" and "sleepRangeOk cfg"
  shows "\<exists>pr' outs g'. addTasks G (map (\<lambda>pt. extractSingleTaskInfo marshal pt f) pts @ rest) resolved ps specs cfg pr g =
      addTasks G rest resolved ps specs cfg pr' g' \<and> list_all2 mirrors pts outs \<and>
      plr_tasks pr' = plr_tasks pr @ (if f then [] else outs) \<and> plr_finally pr' = plr_finally pr @ (if f then outs else []) \<and>
      plr_namespace pr' = plr_namespace pr \<and> plr_generateName pr' = plr_generateName pr"
proof (induction pts arbitrary: pr g)
  case Nil
  then show ?case by (auto intro!: exI [of _ pr])
next
  case (Cons pt pts)
  let ?t = "extractSingleTaskInfo marshal pt f"
  obtain out g1 where o: "generatePipelineTask G ?t (resolved (ti_name ?t)) ps cfg g = (Inr out, g1)" "mirrors pt out"
    using generate_mirrors [OF assms] by blast
  define pr1 where "pr1 = (if f then pr\<lparr>plr_finally := plr_finally pr @ [out]\<rparr> else pr\<lparr>plr_tasks := plr_tasks pr @ [out]\<rparr>)"
  define pr2 where "pr2 = pr1\<lparr>plr_taskRunSpecs := plr_taskRunSpecs pr1 @ forwardedSpec specs cfg ?t\<rparr>"
  have run: "addTasks G (map (\<lambda>pt. extractSingleTaskInfo marshal pt f) (pt # pts) @ rest) resolved ps specs cfg pr g =
      addTasks G (map (\<lambda>pt. extractSingleTaskInfo marshal pt f) pts @ rest) resolved ps specs cfg pr2 g1"
    using o(1) by (simp add: bindE_def pr1_def pr2_def)
  obtain pr' outs g' where "addTasks G (map (\<lambda>pt. extractSingleTaskInfo marshal pt f) pts @ rest) resolved ps specs cfg pr2 g1 =
      addTasks G rest resolved ps specs cfg pr' g'" "list_all2 mirrors pts outs"
      "plr_tasks pr' = plr_tasks pr2 @ (if f then [] else outs)" "plr_finally pr' = plr_finally pr2 @ (if f then outs else [])"
      "plr_namespace pr' = plr_namespace pr2" "plr_generateName pr' = plr_generateName pr2" using Cons.IH by blast
  with run o(2) show ?case
    by (intro exI [of _ pr'] exI [of _ "out # outs"] exI [of _ g']) (simp add: pr1_def pr2_def)
qed

lemma generatePipelineRun_run:
  assumes "rngLaw G" and "sleepRangeOk cfg"
  shows "\<exists>pr g'. generatePipelineRun G (extractTaskInfos marshal (Some (tasks, fin))) resolved ps specs cfg g = (Inr pr, g') \<and>
    list_all2 mirrors tasks (plr_tasks pr) \<and> list_all2 mirrors fin (plr_finally pr) \<and>
    plr_namespace pr = cf_namespace cfg \<and> plr_generateName pr = cf_prefix cfg"
proof -
  let ?pr = "\<lparr>plr_generateName = cf_prefix cfg, plr_namespace = cf_namespace cfg, plr_tasks = [], plr_finally = [], plr_taskRunSpecs = []\<rparr>"
  obtain pr1 outs g1 where r1: "addTasks G (map (\<lambda>pt. extractSingleTaskInfo marshal pt False) tasks @
        map (\<lambda>pt. extractSingleTaskInfo marshal pt True) fin) resolved ps specs cfg ?pr g =
      addTasks G (map (\<lambda>pt. extractSingleTaskInfo marshal pt True) fin) resolved ps specs cfg pr1 g1"
    and o1: "list_all2 mirrors tasks outs" "plr_tasks pr1 = outs" "plr_finally pr1 = []"
      "plr_namespace pr1 = cf_namespace cfg" "plr_generateName pr1 = cf_prefix cfg"
    using addTasks_run [OF assms, of marshal False tasks "map (\<lambda>pt. extractSingleTaskInfo marshal pt True) fin" resolved ps specs ?pr g]
    by auto
  obtain pr2 outs2 g2 where "addTasks G (map (\<lambda>pt. extractSingleTaskInfo marshal pt True) fin) resolved ps specs cfg pr1 g1 = (Inr pr2, g2)"
    "list_all2 mirrors fin outs2" "plr_tasks pr2 = plr_tasks pr1" "plr_finally pr2 = plr_finally pr1 @ outs2"
    "plr_namespace pr2 = plr_namespace pr1" "plr_generateName pr2 = plr_generateName pr1"
    using addTasks_run [OF assms, of marshal True fin "[]" resolved ps specs pr1 g1] by (auto simp: returnE_def)
  with r1 o1 show ?thesis by (auto simp: generatePipelineRun_def extractTaskInfos_def)
qed

section \<open>The clean-up\<close>

text \<open>
  \<open>cleanupYAML\<close> removes exactly the lines that are one of the five empty fields up to white space, keeps
  the others in order, changes nothing when there are none, and a second application changes nothing.
\<close>

lemma cleanupYAML_lines:
  "cleanupYAML (cleanupYAML d) = cleanupYAML d \<and>
   (filter (\<lambda>line. TrimSpace line \<notin> set droppedLines) (splitLines d) \<noteq> [] \<longrightarrow>
      splitLines (cleanupYAML d) = filter (\<lambda>line. TrimSpace line \<notin> set droppedLines) (splitLines d)) \<and>
   (list_all (\<lambda>line. TrimSpace line \<notin> set droppedLines) (splitLines d) \<longrightarrow> cleanupYAML d = d)"
proof -
  let ?keep = "\<lambda>line. TrimSpace line \<notin> set droppedLines"
  have split: "splitLines (cleanupYAML d) = filter ?keep (splitLines d)" if "filter ?keep (splitLines d) \<noteq> []"
    unfolding cleanupYAML_def using that splitLines_clean [of d] by (intro splitLines_join) (auto simp: list_all_iff)
  have "TrimSpace [] = []" by code_simp
  then have empty: "cleanupYAML [] = []" by (simp add: cleanupYAML_def droppedLines_def)
  have "cleanupYAML (cleanupYAML d) = cleanupYAML d"
  proof (cases "filter ?keep (splitLines d) = []")
    case True
    then have "cleanupYAML d = []" by (simp add: cleanupYAML_def del: splitLines.simps)
    with empty show ?thesis by simp
  next
    case False
    then have "cleanupYAML (cleanupYAML d) = joinWith [CHR 0x0A] (filter ?keep (filter ?keep (splitLines d)))"
      using split by (simp add: cleanupYAML_def [of "cleanupYAML d"])
    then show ?thesis by (simp add: cleanupYAML_def)
  qed
  moreover have "cleanupYAML d = d" if "list_all ?keep (splitLines d)"
    using that by (simp add: cleanupYAML_def filter_True list_all_iff join_splitLines)
  ultimately show ?thesis using split by blast
qed

section \<open>Properties\<close>

text \<open>A random source and an input for the witnesses.\<close>

definition zeroRng :: "unit rng" where
  "zeroRng = \<lparr>rg_int = (\<lambda>b g. if b > 0 then (Inr 0, g) else (Inl (errorf ''bound''), g)), rg_bytes = (\<lambda>n g. ([], g))\<rparr>"

definition plainConfig :: config where
  "plainConfig = \<lparr>cf_namespace = ''default'', cf_prefix = ''load-test-'', cf_image = ''img'', cf_sleepMin = 1, cf_sleepMax = 10,
     cf_defaultTaskSizeKB = 17, cf_defaultSteps = 3, cf_preserveResources = False\<rparr>"

definition plainTask :: "string \<Rightarrow> pipelineTask" where
  "plainTask n = \<lparr>pt_name = n, pt_runAfter = [], pt_taskRef = None, pt_taskSpec = None, pt_matrix = None\<rparr>"

lemma zeroRng_law: "rngLaw zeroRng"
  by (auto simp: rngLaw_def zeroRng_def split: if_splits)

lemma plainConfig_range: "sleepRangeOk plainConfig"
  by (simp add: sleepRangeOk_def plainConfig_def)

text \<open>
  A padded script has the requested size, or one byte less, as soon as there is room for two
  bytes of padding; below that it is the bare sleep script.
\<close>

lemma padScript_size:
  "\<exists>script g'. padScript G secs target g = (Inr script, g') \<and>
     (if target \<le> int (length (sleepScript secs)) + 13 then script = sleepScript secs
      else target - 1 \<le> int (length script) \<and> int (length script) \<le> target)"
  using padScript_run [of G secs target g] by (auto simp: paddedWith_def split: if_splits)

text \<open>
  C37: whatever the random source delivers, the only command of a generated script is its sleep:
  the first line selects the shell, the second sleeps, and every other line is empty or a comment.
\<close>

theorem padScript_only_sleeps:
  assumes "padScript G secs target g = (Inr script, g')"
  shows "\<exists>rest. splitLines script = ''#!/usr/bin/env sh'' # (''sleep '' @ itoa secs) # rest \<and>
    list_all (\<lambda>l. l = [] \<or> hd l = CHR ''#'') rest"
proof -
  have two: "splitLines (sleepScript secs @ cs) = ''#!/usr/bin/env sh'' # (''sleep '' @ itoa secs) # splitLines cs" for cs
  proof -
    have e: "sleepScript secs @ cs = ''#!/usr/bin/env sh'' @ CHR 0x0A # ((''sleep '' @ itoa secs) @ CHR 0x0A # cs)"
      by (simp add: sleepScript_def)
    have "splitLines ((''sleep '' @ itoa secs) @ CHR 0x0A # cs) = (''sleep '' @ itoa secs) # splitLines cs"
      by (rule splitLines_line) (simp add: itoa_no_newline)
    then show ?thesis unfolding e by (subst splitLines_line) simp_all
  qed
  show ?thesis
  proof (cases "target \<le> int (length (sleepScript secs)) + 13")
    case True
    with assms padScript_run [of G secs target g] have "script = sleepScript secs" by auto
    with two [of "[]"] show ?thesis by simp
  next
    case False
    with assms padScript_run [of G secs target g] obtain p
      where p: "script = sleepScript secs @ ((paddingPrefix @ p) @ CHR 0x0A # [])" "CHR 0x0A \<notin> set p"
      by (auto simp: paddedWith_def)
    have "splitLines ((paddingPrefix @ p) @ CHR 0x0A # []) = (paddingPrefix @ p) # splitLines []"
      using p(2) by (intro splitLines_line) (simp add: paddingPrefix_def)
    with two p(1) show ?thesis by (simp add: paddingPrefix_def)
  qed
qed

theorem padScript_only_sleeps_witness:
  "\<exists>script rest. padScript zeroRng 5 100 () = (Inr script, ()) \<and> splitLines script = ''#!/usr/bin/env sh'' # ''sleep 5'' # rest"
proof -
  obtain script where s: "padScript zeroRng 5 100 () = (Inr script, ())" using padScript_run [of zeroRng 5 100 "()"] by auto
  have "itoa 5 = ''5''" by code_simp
  with padScript_only_sleeps [OF s] s show ?thesis by auto
qed


definition inlineInfo :: taskInfo where
  "inlineInfo = (taskSample ''a'')\<lparr>ti_bundleRef := [], ti_inlineSteps := 2, ti_inlineSize := 500, ti_inlineStepNames := [''build'', '''']\<rparr>"


section \<open>The printed summary\<close>

text \<open>
  For a bundle that resolves to a task without steps the summary counts no steps, but the generated
  task has the default number of them.
\<close>

theorem summary_omits_default_steps:
  assumes "rt_err rt = None" and "rt_stepNames rt = []" and "ti_bundleRef t \<noteq> []" and "1 \<le> cf_defaultSteps cfg"
  shows "fst (summaryOf t (Some rt) cfg) = 0 \<and> fst (taskShape t (Some rt) cfg) = cf_defaultSteps cfg"
  using assms by (simp add: summaryOf_def taskShape_def Let_def)

end
