(* ===== verification/GeneratorMain.thy ===== *)
theory GeneratorMain
  imports PipelineGen
begin

text \<open>
  The command line of the load-test generator (\<open>tools/generate-from-pipeline/main.go\<close>): the flags, the
  scanner of the sleep range, and \<open>main\<close> from the input file to the written file and the printed
  summary. Files, the YAML codec, the registry and the random source are arguments. The result is the
  exit status, the files handed to \<open>os.WriteFile\<close> and the summary.
\<close>

section \<open>Flags\<close>

record toolFlags =
  tf_input :: string
  tf_output :: string
  tf_namespace :: string
  tf_prefix :: string
  tf_image :: string
  tf_sleepRange :: string
  tf_skipResolve :: bool
  tf_defaultTaskSizeKB :: int
  tf_defaultSteps :: int
  tf_preserveResources :: bool

definition defaultFlags :: toolFlags where
  "defaultFlags =
     \<lparr>tf_input = [], tf_output = [], tf_namespace = ''default'', tf_prefix = ''load-test-'',
      tf_image = ''registry.access.redhat.com/hi/core-runtime:2.43'', tf_sleepRange = ''1,10'', tf_skipResolve = False,
      tf_defaultTaskSizeKB = 17, tf_defaultSteps = 3, tf_preserveResources = False\<rparr>"

text \<open>
  \<open>fmt.Sscanf\<close> with the verb \<open>%d\<close>: white space but no newline is skipped, then a sign and decimal
  digits are read; \<open>None\<close> is an error, after which the variable keeps its value.
\<close>

function skipSpace :: "string \<Rightarrow> string option" where
  "skipSpace s =
     (if s \<noteq> [] \<and> hd s = CHR 0x0A then None
      else case find (\<lambda>r. r \<noteq> [] \<and> prefix r s) spaceRunes of None \<Rightarrow> Some s | Some r \<Rightarrow> skipSpace (drop (length r) s))"
  by pat_completeness auto
termination
  by (relation "measure length") (auto simp: find_Some_iff prefix_def)

declare skipSpace.simps [simp del]

definition digitValue :: "char \<Rightarrow> int" where
  "digitValue c = int (of_char c) - 48"

definition decimalValue :: "string \<Rightarrow> int" where
  "decimalValue ds = foldl (\<lambda>n c. 10 * n + digitValue c) 0 ds"

definition splitSign :: "string \<Rightarrow> bool \<times> string" where
  "splitSign s =
     (case s of [] \<Rightarrow> (False, []) | c # cs \<Rightarrow> if c = CHR ''-'' then (True, cs) else if c = CHR ''+'' then (False, cs) else (False, s))"

definition scanInt :: "string \<Rightarrow> int option" where
  "scanInt s =
     (case skipSpace s of
        None \<Rightarrow> None
      | Some r \<Rightarrow>
          let (neg, rest) = splitSign r; ds = takeWhile isDigit rest;
              v = (if neg then - decimalValue ds else decimalValue ds) in
          if ds = [] \<or> v < - (2 ^ 63) \<or> 2 ^ 63 \<le> v then None else Some v)"

definition sleepBounds :: "string \<Rightarrow> int \<times> int" where
  "sleepBounds sleepRange =
     (if CHR '','' \<in> set sleepRange
      then (case scanInt (takeWhile (\<lambda>c. c \<noteq> CHR '','') sleepRange) of None \<Rightarrow> 1 | Some v \<Rightarrow> v,
            case scanInt (tl (dropWhile (\<lambda>c. c \<noteq> CHR '','') sleepRange)) of None \<Rightarrow> 10 | Some v \<Rightarrow> v)
      else (1, 10))"

definition configOf :: "toolFlags \<Rightarrow> config" where
  "configOf F =
     (let (sleepMin, sleepMax) = sleepBounds (tf_sleepRange F) in
      \<lparr>cf_namespace = tf_namespace F, cf_prefix = tf_prefix F, cf_image = tf_image F, cf_sleepMin = sleepMin,
       cf_sleepMax = sleepMax, cf_defaultTaskSizeKB = tf_defaultTaskSizeKB F, cf_defaultSteps = tf_defaultSteps F,
       cf_preserveResources = tf_preserveResources F\<rparr>)"

section \<open>The run of the tool\<close>

record sourceRun =
  sr_pipelineSpec :: "(pipelineTask list \<times> pipelineTask list) option"
  sr_params :: "param list"
  sr_taskRunSpecs :: "taskRunSpec list"

record toolIO =
  readFile :: "string \<Rightarrow> goerror + bytes"
  unmarshalRun :: "bytes \<Rightarrow> goerror + sourceRun"
  marshalTaskSpec :: "taskSpec \<Rightarrow> bytes"
  marshalRun :: "pipelineRun \<Rightarrow> goerror + bytes"
  writeFile :: "string \<Rightarrow> bytes \<Rightarrow> goerror option"

datatype exitStatus = Exit nat | Panic

record summary =
  sm_tasks :: nat
  sm_taskRuns :: nat
  sm_steps :: int
  sm_yamlBytes :: nat
  sm_storageKB :: int

text \<open>The sums of the printed table; \<open>totalSize / 1024\<close> is cut towards zero.\<close>

definition multiplierOf :: "param list \<Rightarrow> taskInfo \<Rightarrow> nat" where
  "multiplierOf ps t = matrixExpansionCount (resolveMatrixValues (ti_matrix t) ps)"

definition summarize :: "taskInfo list \<Rightarrow> (string \<rightharpoonup> resolvedTask) \<Rightarrow> param list \<Rightarrow> config \<Rightarrow> bytes \<Rightarrow> summary" where
  "summarize tasks resolved ps cfg outData =
     (let totalSize = sum_list (map (\<lambda>t. snd (summaryOf t (resolved (ti_name t)) cfg) * int (multiplierOf ps t)) tasks) in
      \<lparr>sm_tasks = length tasks, sm_taskRuns = sum_list (map (multiplierOf ps) tasks),
       sm_steps = sum_list (map (\<lambda>t. fst (summaryOf t (resolved (ti_name t)) cfg) * int (multiplierOf ps t)) tasks),
       sm_yamlBytes = length outData,
       sm_storageKB = (if totalSize < 0 then - (- totalSize div 1024) else totalSize div 1024)\<rparr>)"

definition resolveAll :: "registry \<Rightarrow> toolFlags \<Rightarrow> taskInfo list \<Rightarrow> (string \<rightharpoonup> resolvedTask) option" where
  "resolveAll Rg F tasks =
     (if \<not> tf_skipResolve F \<and> bundled tasks \<noteq> [] then resolveBundles Rg tasks else Some Map.empty)"

definition fails :: "exitStatus \<times> (string \<times> bytes) list \<times> summary option" where
  "fails = (Exit 1, [], None)"

definition writeRun :: "toolFlags \<Rightarrow> toolIO \<Rightarrow> taskInfo list \<Rightarrow> (string \<rightharpoonup> resolvedTask) \<Rightarrow> param list \<Rightarrow> pipelineRun \<Rightarrow>
    exitStatus \<times> (string \<times> bytes) list \<times> summary option" where
  "writeRun F IO tasks resolved ps outPR =
     (case marshalRun IO outPR of
        Inl e \<Rightarrow> fails
      | Inr outData \<Rightarrow>
          let cleaned = cleanupYAML outData in
          (case writeFile IO (tf_output F) cleaned of
             Some e \<Rightarrow> (Exit 1, [(tf_output F, cleaned)], None)
           | None \<Rightarrow> (Exit 0, [(tf_output F, cleaned)], Some (summarize tasks resolved ps (configOf F) cleaned))))"

definition generatorMain :: "toolFlags \<Rightarrow> registry \<Rightarrow> toolIO \<Rightarrow> 'g rng \<Rightarrow> 'g \<Rightarrow> exitStatus \<times> (string \<times> bytes) list \<times> summary option" where
  "generatorMain F Rg IO G g =
     (if tf_input F = [] \<or> tf_output F = [] then fails
      else case readFile IO (tf_input F) of
        Inl e \<Rightarrow> fails
      | Inr d \<Rightarrow>
        (case unmarshalRun IO d of
           Inl e \<Rightarrow> fails
         | Inr pr \<Rightarrow>
            if sr_pipelineSpec pr = None then fails
            else
              let tasks = extractTaskInfos (marshalTaskSpec IO) (sr_pipelineSpec pr) in
              if tasks = [] then fails
              else case resolveAll Rg F tasks of
                None \<Rightarrow> (Panic, [], None)
              | Some resolved \<Rightarrow>
                  (case generatePipelineRun G tasks resolved (sr_params pr) (sr_taskRunSpecs pr) (configOf F) g of
                     (Inl e, g') \<Rightarrow> (Panic, [], None)
                   | (Inr outPR, g') \<Rightarrow> writeRun F IO tasks resolved (sr_params pr) outPR)))"

section \<open>Scanning what was printed\<close>

lemma digit_code: "d < 10 \<Longrightarrow> digitValue (digit d) = int d"
  by (auto simp: less_Suc_eq numeral_eq_Suc digit_def digitValue_def)

lemma decimalValue_snoc: "decimalValue (ds @ [c]) = 10 * decimalValue ds + digitValue c"
  by (simp add: decimalValue_def)

lemma decimalValue_nat_dec: "decimalValue (nat_dec n) = int n"
proof (induction n rule: nat_dec.induct)
  case (1 n)
  show ?case
  proof (cases "n < 10")
    case True
    then show ?thesis by (simp add: nat_dec.simps [of n] decimalValue_def digit_code)
  next
    case False
    then have "nat_dec n = nat_dec (n div 10) @ [digit (n mod 10)]" by (simp add: nat_dec.simps [of n])
    then have "decimalValue (nat_dec n) = 10 * int (n div 10) + int (n mod 10)"
      using 1 [OF False] by (simp add: decimalValue_snoc digit_code)
    also have "\<dots> = int n" by (simp add: zdiv_int zmod_int)
    finally show ?thesis .
  qed
qed

lemma takeWhile_nat_dec: "takeWhile isDigit (nat_dec n) = nat_dec n"
  unfolding takeWhile_eq_all_conv isDigit_def using nat_dec_digits [of n] by blast

lemma skipSpace_none: "s \<noteq> [] \<Longrightarrow> hd s \<in> set ''0123456789-'' \<Longrightarrow> skipSpace s = Some s"
proof -
  assume s: "s \<noteq> []" "hd s \<in> set ''0123456789-''"
  have "list_all (\<lambda>r. hd r \<notin> set ''0123456789-'') spaceRunes" by code_simp
  with s have "\<not> prefix r s" if "r \<in> set spaceRunes" for r
    using spaceRunes_nonempty [OF that] that by (auto simp: list_all_iff prefix_def hd_append)
  then have "find (\<lambda>r. r \<noteq> [] \<and> prefix r s) spaceRunes = None" by (auto simp: find_None_iff)
  with s show ?thesis by (subst skipSpace.simps) auto
qed

lemma scanInt_itoa: "- (2 ^ 63) \<le> i \<Longrightarrow> i < 2 ^ 63 \<Longrightarrow> scanInt (itoa i) = Some i"
proof -
  assume range: "- (2 ^ 63) \<le> i" "i < 2 ^ 63"
  obtain c cs where hd: "nat_dec (nat \<bar>i\<bar>) = c # cs" by (cases "nat_dec (nat \<bar>i\<bar>)") (simp add: nat_dec_nonempty)
  then have c: "c \<in> set ''0123456789''" using nat_dec_digits [of "nat \<bar>i\<bar>"] by auto
  show ?thesis
  proof (cases "i < 0")
    case True
    with hd have "itoa i = CHR ''-'' # nat_dec (nat \<bar>i\<bar>)" by (simp add: itoa_def)
    with True range show ?thesis
      by (simp add: scanInt_def skipSpace_none splitSign_def takeWhile_nat_dec decimalValue_nat_dec nat_dec_nonempty)
  next
    case False
    then have it: "itoa i = nat_dec (nat \<bar>i\<bar>)" by (simp add: itoa_def)
    have "splitSign (nat_dec (nat \<bar>i\<bar>)) = (False, nat_dec (nat \<bar>i\<bar>))" using c by (auto simp: hd splitSign_def)
    moreover have "skipSpace (itoa i) = Some (itoa i)" by (rule skipSpace_none) (use it hd c in auto)
    ultimately show ?thesis using False range
      by (simp add: scanInt_def it takeWhile_nat_dec decimalValue_nat_dec nat_dec_nonempty)
  qed
qed

lemma itoa_no_comma: "CHR '','' \<notin> set (itoa i)"
proof -
  have "CHR '','' \<notin> set (nat_dec n)" for n using nat_dec_digits [of n] by auto
  then show ?thesis by (auto simp: itoa_def)
qed

lemma sleepBounds_itoa:
  assumes "- (2 ^ 63) \<le> a" "a < 2 ^ 63" "- (2 ^ 63) \<le> b" "b < 2 ^ 63"
  shows "sleepBounds (itoa a @ '','' @ itoa b) = (a, b)"
proof -
  have "\<forall>c \<in> set (itoa a). c \<noteq> CHR '',''" using itoa_no_comma [of a] by auto
  with assms show ?thesis by (simp add: sleepBounds_def scanInt_itoa)
qed

section \<open>The summary counts the generated TaskRuns\<close>

definition expansions :: "pipelineRun \<Rightarrow> nat" where
  "expansions pr = sum_list (map (\<lambda>pt. matrixExpansionCount (pt_matrix pt)) (plr_tasks pr @ plr_finally pr))"

lemma generated_matrix:
  "generatePipelineTask G t r ps cfg g = (Inr pt, g') \<Longrightarrow> pt_matrix pt = resolveMatrixValues (ti_matrix t) ps"
  by (auto simp: generatePipelineTask_def Let_def bindE_def returnE_def split: prod.splits sum.splits)

lemma addTasks_expansions:
  "addTasks G ts resolved ps specs cfg pr g = (Inr pr', g') \<Longrightarrow>
   expansions pr' = expansions pr + sum_list (map (multiplierOf ps) ts)"
proof (induction ts arbitrary: pr g)
  case (Cons t ts)
  then obtain pt g1 where pt: "generatePipelineTask G t (resolved (ti_name t)) ps cfg g = (Inr pt, g1)"
    by (auto simp: bindE_def split: prod.splits sum.splits)
  with Cons.prems Cons.IH show ?case
    by (auto simp: bindE_def expansions_def multiplierOf_def generated_matrix Let_def split: if_splits)
qed (simp add: returnE_def)

section \<open>Properties\<close>

text \<open>The input the tool goes on with: both files are named, the input is read and parsed, and it has tasks.\<close>

definition usableInput :: "toolFlags \<Rightarrow> toolIO \<Rightarrow> (sourceRun \<times> pipelineTask list \<times> pipelineTask list) option" where
  "usableInput F IO =
     (if tf_input F = [] \<or> tf_output F = [] then None
      else case readFile IO (tf_input F) of
        Inl e \<Rightarrow> None
      | Inr d \<Rightarrow>
        (case unmarshalRun IO d of
           Inl e \<Rightarrow> None
         | Inr src \<Rightarrow>
            (case sr_pipelineSpec src of
               None \<Rightarrow> None
             | Some (tasks, fin) \<Rightarrow> if tasks = [] \<and> fin = [] then None else Some (src, tasks, fin))))"

text \<open>What a run leaves behind when the generated PipelineRun is \<open>pr\<close>.\<close>

definition reportsRun :: "toolFlags \<Rightarrow> toolIO \<Rightarrow> nat \<Rightarrow> pipelineRun \<Rightarrow> exitStatus \<times> (string \<times> bytes) list \<times> summary option \<Rightarrow> bool" where
  "reportsRun F IO n pr res =
     (case marshalRun IO pr of
        Inl e \<Rightarrow> res = (Exit 1, [], None)
      | Inr y \<Rightarrow>
          fst (snd res) = [(tf_output F, cleanupYAML y)] \<and>
          (if writeFile IO (tf_output F) (cleanupYAML y) = None
           then fst res = Exit 0 \<and>
             (\<exists>sm. snd (snd res) = Some sm \<and> sm_tasks sm = n \<and> sm_taskRuns sm = expansions pr \<and> sm_yamlBytes sm = length (cleanupYAML y))
           else fst res = Exit 1 \<and> snd (snd res) = None))"

lemma generatorMain_unusable: "usableInput F IO = None \<Longrightarrow> generatorMain F Rg IO G g = (Exit 1, [], None)"
  by (auto simp: usableInput_def generatorMain_def fails_def extractTaskInfos_def split: if_splits sum.splits option.splits prod.splits)

lemma generatorMain_usable:
  assumes "usableInput F IO = Some (src, tasks, fin)"
  defines "infos \<equiv> extractTaskInfos (marshalTaskSpec IO) (Some (tasks, fin))"
  shows "generatorMain F Rg IO G g =
    (case resolveAll Rg F infos of
       None \<Rightarrow> (Panic, [], None)
     | Some resolved \<Rightarrow>
         (case generatePipelineRun G infos resolved (sr_params src) (sr_taskRunSpecs src) (configOf F) g of
            (Inl e, g') \<Rightarrow> (Panic, [], None)
          | (Inr outPR, g') \<Rightarrow> writeRun F IO infos resolved (sr_params src) outPR)) \<and> length infos = length tasks + length fin"
proof -
  have infos: "infos = [] \<longleftrightarrow> tasks = [] \<and> fin = []" "length infos = length tasks + length fin"
    by (simp_all add: infos_def extractTaskInfos_def)
  from assms(1) obtain d where d: "tf_input F \<noteq> []" "tf_output F \<noteq> []" "readFile IO (tf_input F) = Inr d" "unmarshalRun IO d = Inr src"
      "sr_pipelineSpec src = Some (tasks, fin)" "\<not> (tasks = [] \<and> fin = [])"
    by (auto simp: usableInput_def split: if_splits sum.split_asm option.split_asm prod.split_asm)
  with infos show ?thesis by (simp add: generatorMain_def Let_def flip: infos_def)
qed

lemma writeRun_reports:
  assumes "sum_list (map (multiplierOf ps) tasks) = expansions pr"
  shows "reportsRun F IO (length tasks) pr (writeRun F IO tasks resolved ps pr)"
  using assms by (simp add: reportsRun_def writeRun_def fails_def summarize_def Let_def split: sum.split option.split)


definition sampleIO :: toolIO where
  "sampleIO =
     \<lparr>readFile = Inr,
      unmarshalRun = (\<lambda>d. Inr \<lparr>sr_pipelineSpec = Some ([plainTask ''a''], [plainTask ''b'']), sr_params = [], sr_taskRunSpecs = []\<rparr>),
      marshalTaskSpec = (\<lambda>_. []), marshalRun = (\<lambda>pr. Inr ''kind: PipelineRun''), writeFile = (\<lambda>p d. None)\<rparr>"


end
