(* ===== verification/OperatorRun.thy ===== *)
theory OperatorRun
  imports ShardSafety NamespaceSync WebhookSync
begin

text \<open>
  The three controllers over one \<open>ClientProvider\<close> (\<open>cmd/main.go\<close> hands the same provider to all of
  them): a run of the operator is a sequence of reconcile passes, of any controllers in any order and
  one after the other, that share the cache of clients. That callers of the provider may overlap is
  the subject of \<open>ClientConcurrency\<close>; here the passes as a whole do not.

  The provenance of a client is followed through the cache and through every step of the
  controllers: whatever the API servers answer, a call to a secondary is made with a client whose
  host and credentials come from an object of the API and its Secrets, all read before the call.
\<close>

section \<open>Runs of the operator\<close>

datatype pass = ShardPass nsname | NamespacePass nsname | WebhookPass nsname

text \<open>One pass; \<open>z\<close> is the zero value that the \<open>APIShard\<close> reconciler declares its variable with.\<close>

fun runPass :: "env \<Rightarrow> reconciler \<Rightarrow> apiShard \<Rightarrow> pass \<Rightarrow> base \<Rightarrow> base" where
  "runPass E R z (ShardPass req) s =
     (let t = snd (apiShard_Reconcile E R req \<lparr>tr = tr s, clients = clients s, shard = z\<rparr>)
      in \<lparr>tr = tr t, clients = clients t\<rparr>)"
| "runPass E R z (NamespacePass req) s = snd (namespaceSync_Reconcile E req s)"
| "runPass E R z (WebhookPass req) s = snd (webhookSync_Reconcile E req s)"

definition runOperator :: "env \<Rightarrow> reconciler \<Rightarrow> apiShard \<Rightarrow> pass list \<Rightarrow> base" where
  "runOperator E R z ps = fold (runPass E R z) ps \<lparr>tr = [], clients = NewClientProvider\<rparr>"

section \<open>Where a client comes from\<close>

fun clusterOf :: "call \<Rightarrow> cluster" where
  "clusterOf (GetCall cl k key) = cl"
| "clusterOf (ListCall cl k ns sel) = cl"
| "clusterOf (ApplyCall cl x) = cl"
| "clusterOf (CreateCall cl x) = cl"
| "clusterOf (UpdateCall cl x) = cl"
| "clusterOf (DeleteCall cl x) = cl"
| "clusterOf c = Primary"

definition secretRead :: "history \<Rightarrow> nsname \<Rightarrow> secret \<Rightarrow> bool" where
  "secretRead h key x = ((GetCall Primary SecretKind key, RObj (KSecret x)) \<in> set h)"

text \<open>The configuration of a shard's own clients, and that of a sync object's connection.\<close>

definition shardConfig :: "history \<Rightarrow> apiShard \<Rightarrow> clientConfiguration \<Rightarrow> bool" where
  "shardConfig h sh cfg = (\<exists>pki admin. secretRead h (shardNS sh, PKISecretName sh) pki \<and>
     secretRead h (shardNS sh, AdminClientSecretName sh) admin \<and> cfg_Host cfg = SecondaryEndpoint sh \<and>
     cfg_CACert cfg = mapGet (sec_data pki) ''ca.crt'' \<and> cfg_Token cfg = [] \<and>
     cfg_ClientCert cfg = mapGet (sec_data admin) ''tls.crt'' \<and> cfg_ClientKey cfg = mapGet (sec_data admin) ''tls.key'')"

definition connectionConfig :: "secondaryConnectionSpec \<Rightarrow> secret \<Rightarrow> secret \<Rightarrow> clientConfiguration \<Rightarrow> bool" where
  "connectionConfig conn ca auth cfg =
     (let root = mapGet (sec_data ca) ''ca.crt''; cert = mapGet (sec_data auth) ''tls.crt''; key = mapGet (sec_data auth) ''tls.key'' in
      cfg_Host cfg = connectionHost conn \<and> cfg_CACert cfg \<noteq> [] \<and>
      cfg_CACert cfg = (if root \<noteq> [] then root else mapGet (sec_data ca) ''tls.crt'') \<and>
      (if cert \<noteq> [] \<and> key \<noteq> [] then cfg_ClientCert cfg = cert \<and> cfg_ClientKey cfg = key \<and> cfg_Token cfg = []
       else cfg_ClientCert cfg = [] \<and> cfg_ClientKey cfg = [] \<and> cfg_Token cfg = mapGet (sec_data auth) ''token'' \<and> cfg_Token cfg \<noteq> []))"

definition syncConfig :: "history \<Rightarrow> secondaryConnectionSpec \<times> string \<Rightarrow> clientConfiguration \<Rightarrow> bool" where
  "syncConfig h c cfg = (\<exists>ca auth. secretRead h (snd c, sn_caSecretRef (fst c)) ca \<and>
     secretRead h (snd c, sn_authSecretRef (fst c)) auth \<and> connectionConfig (fst c) ca auth cfg)"

lemma connectionConfig_run:
  assumes "connectionCA nm ca = Inr cert"
    and "connectionAuth nm' auth \<lparr>cfg_Host = [], cfg_CACert = cert, cfg_Token = [], cfg_ClientCert = [], cfg_ClientKey = []\<rparr> = Inr cfg"
  shows "connectionConfig conn ca auth (cfg\<lparr>cfg_Host := connectionHost conn\<rparr>)"
  using assms by (auto simp: connectionConfig_def connectionCA_def connectionAuth_def Let_def split: if_splits)

text \<open>The connection of a sync object, and the namespace its Secrets are in.\<close>

fun connectionOf :: "kobj \<Rightarrow> (secondaryConnectionSpec \<times> string) option" where
  "connectionOf (KNamespaceSync n) = Some (nss_secondaryConnection (nsy_spec n), om_namespace (nsy_meta n))"
| "connectionOf (KWebhookSync w) = Some (wss_secondaryConnection (wsy_spec w), om_namespace (wsy_meta w))"
| "connectionOf x = None"

definition sourced :: "history \<Rightarrow> clientConfiguration \<Rightarrow> bool" where
  "sourced h cfg = (\<exists>c x. (c, RObj x) \<in> set h \<and>
     ((\<exists>sh. x = KAPIShard sh \<and> shardConfig h sh cfg) \<or> (\<exists>conn. connectionOf x = Some conn \<and> syncConfig h conn cfg)))"

definition authentic :: "history \<Rightarrow> restConfig \<Rightarrow> bool" where
  "authentic h c = (\<exists>cfg. c = buildRESTConfig cfg \<and> sourced h cfg)"

definition authGuard :: "history \<Rightarrow> event \<Rightarrow> bool" where
  "authGuard h e = (case clusterOf (fst e) of Primary \<Rightarrow> True | Secondary c \<Rightarrow> authentic h c)"

definition cacheAuthentic :: "'z base_scheme \<Rightarrow> bool" where
  "cacheAuthentic s = (\<forall>e \<in> snd ` set (clients s). authentic (tr s) (ce_client e))"

lemma sourced_mono: "sourced h cfg \<Longrightarrow> sourced (h @ es) cfg"
  unfolding sourced_def shardConfig_def syncConfig_def secretRead_def set_append by blast

lemma authentic_mono: "authentic h c \<Longrightarrow> authentic (h @ es) c"
  unfolding authentic_def by (blast intro: sourced_mono)

lemma cacheAuthentic_logged: "cacheAuthentic s \<Longrightarrow> cacheAuthentic (logged c r s)"
  by (simp add: cacheAuthentic_def authentic_mono)

lemma cacheAuthentic_delete: "cacheAuthentic s \<Longrightarrow> cacheAuthentic (s\<lparr>clients := mapDelete k (clients s)\<rparr>)"
  by (auto simp: cacheAuthentic_def mapDelete_def)

lemma cacheAuthentic_put:
  "cacheAuthentic s \<Longrightarrow> authentic (tr s) (ce_client e) \<Longrightarrow> cacheAuthentic (s\<lparr>clients := mapPut k e (clients s)\<rparr>)"
  by (auto simp: cacheAuthentic_def mapPut_def mapDelete_def)

lemma cachedClient_authentic:
  "cacheAuthentic s \<Longrightarrow> cachedClient E k cfg (clients s) = Some c \<Longrightarrow> authentic (tr s) c"
  by (auto simp: cacheAuthentic_def cachedClient_def dest!: map_of_SomeD split: option.splits if_splits)

section \<open>Steps that keep the provenance\<close>

text \<open>
  \<open>J\<close> is an invariant of the states of a controller that includes the authentic cache; \<open>cs\<close> are the
  clients the code holds. A step keeps \<open>trusts J cs\<close> when it keeps both and calls a secondary only
  through an authentic client.
\<close>

definition having :: "('z base_scheme \<Rightarrow> bool) \<Rightarrow> restConfig set \<Rightarrow> 'z base_scheme \<Rightarrow> bool" where
  "having J cs s = (J s \<and> (\<forall>c \<in> cs. authentic (tr s) c))"

definition trusts :: "('z base_scheme \<Rightarrow> bool) \<Rightarrow> restConfig set \<Rightarrow> 'z base_scheme \<Rightarrow> 'z base_scheme \<Rightarrow> bool" where
  "trusts J cs s t = (having J cs s \<longrightarrow> having J cs t \<and> guards authGuard s t)"

interpretation trust: frame_rel "trusts J cs"
  by unfold_locales (auto simp: trusts_def intro: guards_refl guards_trans)

named_theorems trust_intros "steps that keep the provenance of clients"

lemma trusts_wp:
  "(\<And>s. having J cs s \<Longrightarrow> wp authGuard m (\<lambda>_. having J cs) (\<lambda>_. having J cs) s) \<Longrightarrow> keeps (trusts J cs) m"
  unfolding keeps_def trusts_def wp_def by (fastforce split: prod.splits)

lemma wp_trusts:
  assumes "keeps (trusts J cs) m" and "having J cs s"
    and "\<And>x t. having J cs t \<Longrightarrow> Q x t" and "\<And>e t. having J cs t \<Longrightarrow> X e t"
  shows "wp authGuard m Q X s"
proof (rule wpI)
  have "trusts J cs s (snd (m s))" using assms(1) by (rule keepsD)
  then have m: "having J cs (snd (m s))" "guards authGuard s (snd (m s))" using assms(2) by (simp_all add: trusts_def)
  show "guards authGuard s (snd (m s))" by (rule m(2))
  show "Q x t" if "m s = (Inr x, t)" for x t using m(1) that assms(3) by simp
  show "X e t" if "m s = (Inl e, t)" for e t using m(1) that assms(4) by simp
qed

lemma havingD: "having J cs s \<Longrightarrow> J s"
  by (simp add: having_def)

locale provenance =
  fixes J :: "'z base_scheme \<Rightarrow> bool"
  assumes cache: "J s \<Longrightarrow> cacheAuthentic s"
    and logs: "J s \<Longrightarrow> J (logged c r s)"
    and recaches: "J s \<Longrightarrow> cacheAuthentic (s\<lparr>clients := m\<rparr>) \<Longrightarrow> J (s\<lparr>clients := m\<rparr>)"
begin

lemma having_logged: "having J cs s \<Longrightarrow> having J cs (logged c r s)"
  by (simp add: having_def logs authentic_mono)

lemma trusts_request:
  assumes "\<And>x. clusterOf c = Secondary x \<Longrightarrow> x \<in> cs"
  shows "keeps (trusts J cs) (request E c)"
proof (rule trusts_wp)
  fix s
  assume s: "having J cs s"
  then have "authGuard (tr s) (c, r)" for r
    using assms by (cases "clusterOf c") (auto simp: authGuard_def having_def)
  with s show "wp authGuard (request E c) (\<lambda>_. having J cs) (\<lambda>_. having J cs) s"
    by (intro wp_request having_logged)
qed

lemma trusts_requestU:
  "(\<And>x. clusterOf c = Secondary x \<Longrightarrow> x \<in> cs) \<Longrightarrow> keeps (trusts J cs) (requestU E c)"
  unfolding requestU_def by (intro trust.keeps_bind trusts_request trust.keeps_return)

lemma trusts_getObj: "(\<And>x. cl = Secondary x \<Longrightarrow> x \<in> cs) \<Longrightarrow> keeps (trusts J cs) (getObj E p cl k key)"
  unfolding getObj_def asOne_def
  by (intro trust.keeps_bind trusts_request)
    (auto intro: trust.keeps_return trust.keeps_throw split: resp.splits option.splits)

lemma trusts_listObjs: "(\<And>x. cl = Secondary x \<Longrightarrow> x \<in> cs) \<Longrightarrow> keeps (trusts J cs) (listObjs E p cl k ns sel)"
  unfolding listObjs_def asMany_def
  by (intro trust.keeps_bind trusts_request)
    (auto intro: trust.keeps_return trust.keeps_throw split: resp.splits option.splits)

lemma trusts_applyAll: "keeps (trusts J cs) (applyAll E pxs)"
  unfolding applyAll_def by (rule trust.keeps_for) (auto intro!: trust.keeps_wrap trusts_requestU)

lemma trusts_lift: "keeps (trusts J cs) (liftE r)"
  by (auto simp: liftE_def split: sum.splits intro: trust.keeps_return trust.keeps_throw)

lemma trusts_record: "keeps (trusts J cs) m \<Longrightarrow> keeps (trusts J cs) (recordE p m)"
  unfolding recordE_def by (intro trust.keeps_bind trust.keeps_try) (auto intro: trust.keeps_return split: sum.splits)

lemma trusts_recordPlain: "keeps (trusts J cs) m \<Longrightarrow> keeps (trusts J cs) (recordPlain m)"
  unfolding recordPlain_def by (intro trust.keeps_bind trust.keeps_try) (auto intro: trust.keeps_return split: sum.splits)

lemma trusts_Invalidate: "keeps (trusts J cs) (Invalidate k)"
  unfolding Invalidate_def
  by (rule trust.keeps_modify)
    (simp add: trusts_def having_def guards_same_trace recaches cacheAuthentic_delete cache)

text \<open>A client for an authentic configuration, cached or new, is one more client the code holds.\<close>

lemma wp_trusted_GetOrCreate:
  assumes s: "having J cs s" and cfg: "sourced (tr s) cfg"
    and Q: "\<And>c t. having J (insert c cs) t \<Longrightarrow> Q c t" and X: "\<And>e. X e s"
  shows "wp authGuard (GetOrCreate E k cfg) Q X s"
proof (rule wpI)
  let ?e = "\<lparr>ce_client = buildRESTConfig cfg, ce_host = cfg_Host cfg, ce_fingerprint = fingerprint E cfg, ce_pinned = False\<rparr>"
  have auth: "authentic (tr s) (buildRESTConfig cfg)" using cfg by (auto simp: authentic_def)
  have put: "J (s\<lparr>clients := mapPut k ?e (clients s)\<rparr>)"
    using s auth by (simp add: having_def recaches cacheAuthentic_put cache)
  show "guards authGuard s (snd (GetOrCreate E k cfg s))" by (rule guards_same_trace) simp
  show "Q c t" if run: "GetOrCreate E k cfg s = (Inr c, t)" for c t
  proof (rule Q, cases "cachedClient E k cfg (clients s)")
    case None
    with run have "c = buildRESTConfig cfg" "t = s\<lparr>clients := mapPut k ?e (clients s)\<rparr>"
      by (auto simp: GetOrCreate_locked getOrCreateLocked_cases split: option.splits)
    with s auth put show "having J (insert c cs) t" by (simp add: having_def)
  next
    case (Some d)
    with run have "c = d" "t = s" by (auto simp: GetOrCreate_locked getOrCreateLocked_cases)
    with s Some cachedClient_authentic [OF cache] show "having J (insert c cs) t" by (simp add: having_def)
  qed
  show "X e t" if "GetOrCreate E k cfg s = (Inl e, t)" for e t
    using that X by (auto simp: GetOrCreate_locked getOrCreateLocked_cases split: option.splits)
qed

lemma wp_trusted_read:
  assumes s: "having J cs s"
    and Q: "\<And>x t. having J cs t \<Longrightarrow> secretRead (tr t) key x \<Longrightarrow> set (tr s) \<subseteq> set (tr t) \<Longrightarrow> Q x t"
    and X: "\<And>e t. having J cs t \<Longrightarrow> X e t"
  shows "wp authGuard (getSecret E key) Q X s"
proof (rule wp_getObj)
  show "authGuard (tr s) (GetCall Primary SecretKind key, r)" for r by (simp add: authGuard_def)
  show "Q x (logged (GetCall Primary SecretKind key) (RObj y) s)" if "asSecret y = Some x" for x y
  proof (rule Q)
    show "secretRead (tr (logged (GetCall Primary SecretKind key) (RObj y) s)) key x"
      using that by (cases y) (auto simp: secretRead_def)
  qed (use s in \<open>auto intro: having_logged\<close>)
qed (use s X in \<open>auto intro: having_logged\<close>)

lemma wp_trusted_BuildClient:
  assumes s: "having J cs s" and x: "(c0, RObj x) \<in> set (tr s)" "connectionOf x = Some (conn, ns)"
    and Q: "\<And>c t. having J (insert c cs) t \<Longrightarrow> Q c t" and X: "\<And>e t. having J cs t \<Longrightarrow> X e t"
  shows "wp authGuard (BuildClient E conn ns key) Q X s"
  unfolding BuildClient_def
proof (intro wp_bind wp_wrap)
  let ?cfg0 = "\<lambda>ca. \<lparr>cfg_Host = [], cfg_CACert = ca, cfg_Token = [], cfg_ClientCert = [], cfg_ClientKey = []\<rparr>"
  have get: "wp authGuard (GetOrCreate E key (cfg\<lparr>cfg_Host := connectionHost conn\<rparr>)) Q X u"
    if u: "having J cs u" "(c0, RObj x) \<in> set (tr u)" "secretRead (tr u) (ns, sn_caSecretRef conn) ca"
      "secretRead (tr u) (ns, sn_authSecretRef conn) auth" and cert: "connectionCA (sn_caSecretRef conn) ca = Inr cert"
      "connectionAuth (sn_authSecretRef conn) auth (?cfg0 cert) = Inr cfg" for u ca auth cert cfg
  proof (rule wp_trusted_GetOrCreate [OF u(1)])
    have "connectionConfig conn ca auth (cfg\<lparr>cfg_Host := connectionHost conn\<rparr>)"
      using cert by (rule connectionConfig_run)
    with u x(2) show "sourced (tr u) (cfg\<lparr>cfg_Host := connectionHost conn\<rparr>)"
      unfolding sourced_def syncConfig_def by fastforce
  qed (use Q X u(1) in auto)
  have auth: "wp authGuard (bindE (wrapE p (getSecret E (ns, sn_authSecretRef conn))) (\<lambda>authSecret.
       bindE (liftE (connectionAuth (sn_authSecretRef conn) authSecret (?cfg0 cert))) (\<lambda>cfg.
       GetOrCreate E key (cfg\<lparr>cfg_Host := connectionHost conn\<rparr>)))) Q X t"
    if t: "having J cs t" "(c0, RObj x) \<in> set (tr t)" "secretRead (tr t) (ns, sn_caSecretRef conn) ca"
      and cert: "connectionCA (sn_caSecretRef conn) ca = Inr cert" for t ca cert p
  proof (intro wp_bind wp_wrap, rule wp_trusted_read [OF t(1)])
    fix auth u
    assume u: "having J cs u" "secretRead (tr u) (ns, sn_authSecretRef conn) auth" "set (tr t) \<subseteq> set (tr u)"
    then have "(c0, RObj x) \<in> set (tr u)" "secretRead (tr u) (ns, sn_caSecretRef conn) ca"
      using t by (auto simp: secretRead_def)
    from get [OF u(1) this u(2) cert] X [OF u(1)]
    show "wp authGuard (bindE (liftE (connectionAuth (sn_authSecretRef conn) auth (?cfg0 cert))) (\<lambda>cfg.
       GetOrCreate E key (cfg\<lparr>cfg_Host := connectionHost conn\<rparr>))) Q X u"
      by - (rule wp_bind, rule wp_lift)
  qed (rule X)
  show "wp authGuard (getSecret E (ns, sn_caSecretRef conn)) (\<lambda>caSecret. wp authGuard
      (bindE (liftE (connectionCA (sn_caSecretRef conn) caSecret)) (\<lambda>caCert.
       bindE (wrapE (''reading auth secret '' @ sn_authSecretRef conn) (getSecret E (ns, sn_authSecretRef conn))) (\<lambda>authSecret.
       bindE (liftE (connectionAuth (sn_authSecretRef conn) authSecret (?cfg0 caCert))) (\<lambda>cfg.
       GetOrCreate E key (cfg\<lparr>cfg_Host := connectionHost conn\<rparr>))))) Q X)
      (\<lambda>e. X (wrap (''reading CA secret '' @ sn_caSecretRef conn) e)) s"
  proof (rule wp_trusted_read [OF s])
    fix ca t
    assume t: "having J cs t" "secretRead (tr t) (ns, sn_caSecretRef conn) ca" "set (tr s) \<subseteq> set (tr t)"
    then have "(c0, RObj x) \<in> set (tr t)" using x(1) by blast
    from auth [OF t(1) this t(2)] X [OF t(1)]
    show "wp authGuard (bindE (liftE (connectionCA (sn_caSecretRef conn) ca)) (\<lambda>caCert.
       bindE (wrapE (''reading auth secret '' @ sn_authSecretRef conn) (getSecret E (ns, sn_authSecretRef conn))) (\<lambda>authSecret.
       bindE (liftE (connectionAuth (sn_authSecretRef conn) authSecret (?cfg0 caCert))) (\<lambda>cfg.
       GetOrCreate E key (cfg\<lparr>cfg_Host := connectionHost conn\<rparr>))))) Q X t"
      by - (rule wp_bind, rule wp_lift)
  qed (rule X)
qed

lemmas steps =
  trust.keeps_return trust.keeps_throw trust.keeps_gets trust.keeps_wrap trust.keeps_try trust.keeps_if
  trust.keeps_for trust.keeps_collect trusts_requestU trusts_getObj trusts_listObjs trusts_applyAll trusts_lift
  trusts_record trusts_recordPlain trusts_Invalidate frame_case_sum frame_case_option frame_case_prod frame_let
  trust.keeps_bind

end

section \<open>The sync controllers\<close>

interpretation mirror: provenance cacheAuthentic
  by unfold_locales (auto intro: cacheAuthentic_logged)

abbreviation synced :: "restConfig set \<Rightarrow> base \<Rightarrow> base \<Rightarrow> bool" where
  "synced \<equiv> trusts cacheAuthentic"

lemma syncNamespaces_trusts: "keeps (synced {c}) (syncNamespaces E c excluded primary secondary)"
  unfolding syncNamespaces_def createMissing_def ensureNamespaceOnSecondary_def deleteOrphaned_def deleteNamespaceOnSecondary_def
  by (intro mirror.steps) simp_all

lemma namespaceSyncWith_trusts: "keeps (synced {c}) (namespaceSyncWith E y c)"
  unfolding namespaceSyncWith_def nsUnavailable_def nsReport_def
  by (intro syncNamespaces_trusts mirror.steps) simp_all

lemma nsUnavailable_trusts: "keeps (synced cs) (nsUnavailable E y msg err)"
  unfolding nsUnavailable_def by (intro mirror.steps) simp_all

lemma syncKind_trusts: "keeps (synced {c}) (syncKind E c kd groups)"
  unfolding syncKind_def syncWebhook_def upsertWebhook_def by (intro mirror.steps) simp_all

lemma deleteStale_trusts: "keeps (synced {c}) (deleteStale E c kd names)"
  unfolding deleteStale_def deleteStaleItem_def by (intro mirror.steps) simp_all

lemma whReport_trusts: "keeps (synced cs) (whReport E y nv nm errs)"
  unfolding whReport_def by (intro mirror.steps) simp_all

lemma webhookSyncWith_trusts: "keeps (synced {c}) (webhookSyncWith E y c)"
  unfolding webhookSyncWith_def by (intro syncKind_trusts deleteStale_trusts whReport_trusts mirror.steps)

lemma whUnavailable_trusts: "keeps (synced cs) (whUnavailable E y err)"
  unfolding whUnavailable_def by (intro mirror.steps) simp_all

lemma having_none [simp]: "having J {} s = J s"
  by (simp add: having_def)

text \<open>A pass that reads its object, builds the client of its connection and works with it.\<close>

lemma wp_sync_pass:
  assumes s: "cacheAuthentic s" and p: "\<And>y x. p y = Some x \<Longrightarrow> connectionOf y = Some (conn x, ns x)"
    and work: "\<And>x c. keeps (synced {c}) (work x c)" and fail: "\<And>x e. keeps (synced {}) (fail x e)"
  shows "wp authGuard
    (bindE (tryE (getObj E p Primary k req)) (\<lambda>got. case got of
       Inl e \<Rightarrow> if IsNotFound e then returnE () else throwE e
     | Inr x \<Rightarrow> bindE (tryE (BuildClient E (conn x) (ns x) (key x))) (\<lambda>built. case built of
         Inl err \<Rightarrow> fail x err | Inr c \<Rightarrow> work x c)))
    (\<lambda>_. cacheAuthentic) (\<lambda>_. cacheAuthentic) s"
proof -
  have logged: "cacheAuthentic (logged c r s)" for c r using s by (rule cacheAuthentic_logged)
  have build: "wp authGuard (bindE (tryE (BuildClient E (conn x) (ns x) (key x))) (\<lambda>built. case built of
         Inl err \<Rightarrow> fail x err | Inr c \<Rightarrow> work x c)) (\<lambda>_. cacheAuthentic) (\<lambda>_. cacheAuthentic)
      (logged (GetCall Primary k req) (RObj y) s)" if "p y = Some x" for x y
  proof (intro wp_bind wp_try, rule mirror.wp_trusted_BuildClient [where cs = "{}" and x = y])
    show "connectionOf y = Some (conn x, ns x)" using that by (rule p)
  qed (auto simp: logged intro: wp_trusts [OF work] wp_trusts [OF fail] dest: havingD)
  show ?thesis
    by (intro wp_bind wp_try wp_getObj) (auto simp: authGuard_def logged intro: build wps)
qed

lemma wp_namespaceSync_trusts:
  "cacheAuthentic (s :: base) \<Longrightarrow> wp authGuard (namespaceSync_Reconcile E req) (\<lambda>_. cacheAuthentic) (\<lambda>_. cacheAuthentic) s"
  unfolding namespaceSync_Reconcile_def ns_buildSecondaryClient_def
  by (rule wp_sync_pass) (auto intro: namespaceSyncWith_trusts nsUnavailable_trusts elim: asNamespaceSync.elims)

lemma wp_webhookSync_trusts:
  "cacheAuthentic (s :: base) \<Longrightarrow> wp authGuard (webhookSync_Reconcile E req) (\<lambda>_. cacheAuthentic) (\<lambda>_. cacheAuthentic) s"
  unfolding webhookSync_Reconcile_def wh_buildSecondaryClient_def
  by (rule wp_sync_pass) (auto intro: webhookSyncWith_trusts whUnavailable_trusts elim: asWebhookSync.elims)

section \<open>The shard controller\<close>

text \<open>
  The shard the reconciler works on has the name and the specification of one the server answered
  with: between two answers only the status and the finalizers are edited.
\<close>

definition sameTarget :: "apiShard \<Rightarrow> apiShard \<Rightarrow> bool" where
  "sameTarget x sh = (shardName sh = shardName x \<and> spec sh = spec x)"

definition shardKnown :: "shardst \<Rightarrow> bool" where
  "shardKnown s = (\<exists>c x. (c, RObj (KAPIShard x)) \<in> set (tr s) \<and> sameTarget x (shard s))"

definition shardTrusted :: "shardst \<Rightarrow> bool" where
  "shardTrusted s = (cacheAuthentic s \<and> shardKnown s)"

interpretation owner: provenance shardTrusted
proof unfold_locales
  show "cacheAuthentic s" if "shardTrusted s" for s using that by (simp add: shardTrusted_def)
  show "shardTrusted (logged c r s)" if "shardTrusted s" for c r s
    using that by (auto simp: shardTrusted_def shardKnown_def cacheAuthentic_logged)
  show "shardTrusted (s\<lparr>clients := m\<rparr>)" if "shardTrusted s" "cacheAuthentic (s\<lparr>clients := m\<rparr>)" for s m
    using that by (simp add: shardTrusted_def shardKnown_def)
qed

abbreviation owned :: "restConfig set \<Rightarrow> shardst \<Rightarrow> shardst \<Rightarrow> bool" where
  "owned \<equiv> trusts shardTrusted"

lemma clientConfigOf_target:
  "sameTarget x sh \<Longrightarrow> clientConfigOf sh pki admin = clientConfigOf x pki admin"
  "sameTarget x sh \<Longrightarrow> PKISecretName sh = PKISecretName x" "sameTarget x sh \<Longrightarrow> AdminClientSecretName sh = AdminClientSecretName x"
  "sameTarget x sh \<Longrightarrow> shardNS sh = shardNS x"
  by (simp_all add: sameTarget_def clientConfigOf_def SecondaryEndpoint_def SecondaryServiceName_def
      PKISecretName_def AdminClientSecretName_def)

lemma shard_sourced:
  assumes "shardKnown s" and "secretRead (tr s) (shardNS (shard s), PKISecretName (shard s)) pki"
    and "secretRead (tr s) (shardNS (shard s), AdminClientSecretName (shard s)) admin"
  shows "sourced (tr s) (clientConfigOf (shard s) pki admin)"
proof -
  from assms(1) obtain c x where x: "(c, RObj (KAPIShard x)) \<in> set (tr s)" "sameTarget x (shard s)"
    by (auto simp: shardKnown_def)
  with assms have "shardConfig (tr s) x (clientConfigOf (shard s) pki admin)"
    unfolding shardConfig_def clientConfigOf_target [OF x(2)]
    by (intro exI [of _ pki] exI [of _ admin]) (simp add: clientConfigOf_def CACertKey_def)
  with x(1) show ?thesis unfolding sourced_def by blast
qed

text \<open>Edits of the shard.\<close>

lemma keeps_edit:
  assumes "\<And>s. sameTarget (shard s) (f s)"
  shows "keeps (owned cs) (modifyE (\<lambda>s. s\<lparr>shard := f s\<rparr>))"
proof (rule trust.keeps_modify)
  fix s :: shardst
  have "shardKnown (s\<lparr>shard := f s\<rparr>)" if "shardKnown s" using that assms [of s] by (auto simp: shardKnown_def sameTarget_def)
  then show "owned cs s (s\<lparr>shard := f s\<rparr>)"
    by (simp add: trusts_def having_def shardTrusted_def cacheAuthentic_def guards_same_trace)
qed

lemma edits_trusts [trust_intros]:
  "keeps (owned cs) (setStatus f)" "keeps (owned cs) (setCond E ty st rsn msg)" "keeps (owned cs) (removeCond E ty)"
  "keeps (owned cs) (setPhase p)"
  "keeps (owned cs) (modifyE (\<lambda>s. s\<lparr>shard := addFinalizer (shard s)\<rparr>))"
  "keeps (owned cs) (modifyE (\<lambda>s. s\<lparr>shard := removeFinalizer (shard s)\<rparr>))"
  unfolding setPhase_def removeCond_def setStatus_def setCond_def
  by (rule keeps_edit, simp add: sameTarget_def addFinalizer_def removeFinalizer_def)+

lemma writeShard_trusts [trust_intros]:
  assumes "\<And>sh. clusterOf (c sh) = Primary"
  shows "keeps (owned cs) (writeShard E c)"
proof (rule trusts_wp)
  fix s
  assume s: "having shardTrusted cs s"
  have store: "having shardTrusted cs (storeAnswer r (logged d r s))" for d r
  proof (cases "\<exists>x. r = RObj (KAPIShard x)")
    case True
    then obtain x where "r = RObj (KAPIShard x)" by blast
    then show ?thesis using owner.having_logged [OF s, of d r]
      by (auto simp: storeAnswer_def having_def shardTrusted_def shardKnown_def sameTarget_def cacheAuthentic_def)
  next
    case False
    then have "storeAnswer r (logged d r s) = logged d r s" by (auto simp: storeAnswer_def split: resp.splits kobj.splits)
    with owner.having_logged [OF s] show ?thesis by simp
  qed
  show "wp authGuard (writeShard E c) (\<lambda>_. having shardTrusted cs) (\<lambda>_. having shardTrusted cs) s"
    unfolding writeShard_def
    by (intro wp_bind wp_gets wp_request wp_modify)
      (auto simp: authGuard_def assms storeAnswer_accepted(2) store intro: owner.having_logged [OF s])
qed

lemma GeneratePassword_trusts [trust_intros]: "keeps (owned cs) (GeneratePassword E)"
  by (rule keepsI) (simp add: GeneratePassword_def trusts_def guards_refl split: sum.splits)

declare owner.steps [trust_intros]

text \<open>Provisioning talks to the primary alone.\<close>

lemma storage_trusts: "keeps (owned cs) (reconcileStorage E R)"
  unfolding reconcileStorage_def reconcileInClusterPostgreSQL_def getOrGeneratePostgresPassword_def
    preservePostgreSQLVolumeClaimTemplates_def validateExternalPostgreSQLSecret_def failStorage_def reconcileKine_def
    applyKineService_def reconcilePostgreSQLMetrics_def metricsCollector_def externalCollector_def
    ensureOTelCredentialSecret_def applyOTelCollector_def
  by (intro trust_intros) simp_all

lemma aggregation_trusts: "keeps (owned cs) (aggregation_Reconcile E sh ca prev)"
  unfolding aggregation_Reconcile_def applyAPIService_def deleteOrphan_def by (intro trust_intros) simp_all

lemma access_trusts:
  "keeps (owned cs) (reconcileCertManager E)" "keeps (owned cs) (reconcileAuthConfig E)"
  "keeps (owned cs) (reconcileSecondaryServiceAccount E)" "keeps (owned cs) (reconcileAuthDelegator E)"
  "keeps (owned cs) (reconcileAPIServerSCC E R)" "keeps (owned cs) (reconcileMetrics E R)"
  "keeps (owned cs) (reconcileRequestHeaderCA E)" "keeps (owned cs) (reconcileAdminKubeconfig E)"
  "keeps (owned cs) (reconcileSecondary E R ns)" "keeps (owned cs) (reconcileAPIServices E)"
  unfolding reconcileCertManager_def reconcileAuthConfig_def reconcileSecondaryServiceAccount_def reconcileAuthDelegator_def
    reconcileAPIServerSCC_def reconcileMetrics_def reconcileRequestHeaderCA_def reconcileAdminKubeconfig_def getIfPresent_def
    writeAdminKubeconfig_def reconcileSecondary_def reconcileAPIServices_def
  by (intro aggregation_trusts trust_intros; simp)+

lemma provisionShard_trusts: "keeps (owned cs) (provisionShard E R)"
  unfolding provisionShard_def by (intro storage_trusts access_trusts trust_intros)

text \<open>The secondary is called after both Secrets of the shard were read.\<close>

lemma syncCRD_trusts: "keeps (owned {c}) (syncCRD E c n)"
  unfolding syncCRD_def by (intro trust_intros) simp_all

lemma listSecondary_trusts: "keeps (owned {c}) (listSecondary E sh c)"
  unfolding listSecondary_def by (intro trust_intros) simp_all

text \<open>Both Secrets of the shard in hand, with whatever the code does in between and with the client.\<close>

lemma wp_shard_client:
  assumes s: "shardTrusted s" and pki: "secretRead (tr s) (shardNS (shard s), PKISecretName (shard s)) pki"
    and admin: "secretRead (tr s) (shardNS (shard s), AdminClientSecretName (shard s)) admin"
    and Q: "\<And>c t. having shardTrusted {c} t \<Longrightarrow> Q c t" and X: "\<And>e. X e s"
  shows "wp authGuard (GetOrCreate E k (clientConfigOf (shard s) pki admin)) Q X s"
  using s Q X shard_sourced [OF _ pki admin]
  by (intro owner.wp_trusted_GetOrCreate [where cs = "{}"]) (auto simp: shardTrusted_def)

lemma wp_shard_secret:
  assumes s: "shardTrusted s" and X: "\<And>e t. shardTrusted t \<Longrightarrow> X e t"
    and Q: "\<And>x t. shardTrusted t \<Longrightarrow> shard t = shard s \<Longrightarrow> secretRead (tr t) key x \<Longrightarrow>
      (\<forall>k y. secretRead (tr s) k y \<longrightarrow> secretRead (tr t) k y) \<Longrightarrow> Q x t"
  shows "wp authGuard (getSecret E key) Q X s"
proof (rule wp_getObj)
  note logged = owner.logs [OF s]
  show "authGuard (tr s) (GetCall Primary SecretKind key, r)" for r by (simp add: authGuard_def)
  show "Q x (logged (GetCall Primary SecretKind key) (RObj y) s)" if "asSecret y = Some x" for x y
    using that by (cases y) (auto intro!: Q logged simp: secretRead_def)
  show "X e (logged (GetCall Primary SecretKind key) r s)" for e r by (rule X) (rule logged)
qed

lemma syncCRDs_trusts: "keeps (owned {}) (syncCRDsToSecondary E R ns)"
proof (rule trusts_wp)
  fix s :: shardst
  assume s: "having shardTrusted {} s"
  let ?T = "\<lambda>_. having shardTrusted {}"
  have work: "wp authGuard (bindE (collectE ns (syncCRD E c)) (\<lambda>errs. case joinErrors errs of None \<Rightarrow> returnE () | Some e \<Rightarrow> throwE e)) ?T ?T t"
    if "having shardTrusted {c} t" for c t
    by (rule wp_trusts [OF _ that]) (auto intro!: trust_intros syncCRD_trusts dest: havingD)
  have client: "wp authGuard (bindE (wrapE p (GetOrCreate E k (clientConfigOf (shard s) pki admin))) (\<lambda>c.
      bindE (collectE ns (syncCRD E c)) (\<lambda>errs. case joinErrors errs of None \<Rightarrow> returnE () | Some e \<Rightarrow> throwE e))) ?T ?T t"
    if "shardTrusted t" "shard t = shard s" "secretRead (tr t) (shardNS (shard s), PKISecretName (shard s)) pki"
      "secretRead (tr t) (shardNS (shard s), AdminClientSecretName (shard s)) admin" for t pki admin p k
    by (rule wp_bind, rule wp_wrap, subst that(2) [symmetric], rule wp_shard_client) (use that in \<open>auto intro: work\<close>)
  show "wp authGuard (syncCRDsToSecondary E R ns) ?T ?T s"
    unfolding syncCRDsToSecondary_def
    by (intro wp_bind wp_gets wp_if wp_throw wp_wrap wp_shard_secret client) (use s in auto)
qed

lemma verifySecondaryAuth_trusts: "keeps (owned {}) (verifySecondaryAuth E R)"
proof (rule trusts_wp)
  fix s :: shardst
  assume s: "having shardTrusted {} s"
  let ?T = "\<lambda>_. having shardTrusted {}"
  have work: "wp authGuard (listSecondary E (shard s) c) ?T ?T t" if "having shardTrusted {c} t" for c t
    by (rule wp_trusts [OF listSecondary_trusts that]) (auto dest: havingD)
  have client: "wp authGuard (bindE (tryE (GetOrCreate E k (clientConfigOf (shard s) pki admin))) (\<lambda>r.
      case r of Inl _ \<Rightarrow> returnE False | Inr c \<Rightarrow> listSecondary E (shard s) c)) ?T ?T t"
    if "shardTrusted t" "shard t = shard s" "secretRead (tr t) (shardNS (shard s), PKISecretName (shard s)) pki"
      "secretRead (tr t) (shardNS (shard s), AdminClientSecretName (shard s)) admin" for t pki admin k
    by (rule wp_bind, rule wp_try, subst that(2) [symmetric], rule wp_shard_client)
      (use that in \<open>auto intro!: work wp_return\<close>)
  show "wp authGuard (verifySecondaryAuth E R) ?T ?T s"
    unfolding verifySecondaryAuth_def Let_def
    by (intro wp_bind wp_gets wp_try wp_case_sum wp_if wp_return wp_throw wp_shard_secret client) (use s in auto)
qed

lemma completeShard_trusts: "keeps (owned {}) (completeShard E R)"
  unfolding completeShard_def reconcileCRDConflicts_def DetectCRDConflicts_def updateHealthStatus_def checkDeploymentHealth_def
    reportUnhealthy_def reportHealthy_def reconcileSubCRs_def reconcileNamespaceSync_def reconcileWebhookSync_def
    aggregateSubCRStatus_def propagateReady_def checkAPIServiceAvailability_def CheckAvailability_def cleanupOrphans_def
    reportReconciled_def updateShardStatus_def
  by (intro syncCRDs_trusts verifySecondaryAuth_trusts trust_intros) simp_all

lemma orError_trusts: "keeps (owned {}) m \<Longrightarrow> keeps (owned {}) (orError E m)"
  unfolding orError_def setErrorAndRequeue_def updateShardStatus_def by (intro trust_intros) simp_all

lemma reconcileShard_trusts: "keeps (owned {}) (reconcileShard E R)"
  unfolding reconcileShard_def ensureFinalizer_def ensureNamespace_def initPhase_def updateShardStatus_def
  by (intro orError_trusts provisionShard_trusts completeShard_trusts trust_intros) simp_all

lemma finalizeShard_trusts: "keeps (owned {}) (finalizeShard E)"
  unfolding finalizeShard_def deregister_def by (intro trust_intros) simp_all

lemma wp_apiShard_trusts:
  assumes "cacheAuthentic s"
  shows "wp authGuard (apiShard_Reconcile E R req) (\<lambda>_. cacheAuthentic) (\<lambda>_. cacheAuthentic) s"
proof -
  let ?c = "GetCall Primary APIShardKind req"
  have logged: "cacheAuthentic (logged ?c r s)" for r using assms by (rule cacheAuthentic_logged)
  have read: "shardTrusted ((logged ?c (RObj y) s)\<lparr>shard := x\<rparr>)" if "asAPIShard y = Some x" for x y
    using that logged [of "RObj y"]
    by (cases y) (auto simp: shardTrusted_def shardKnown_def sameTarget_def cacheAuthentic_def)
  have whole: "wp authGuard m (\<lambda>_. cacheAuthentic) (\<lambda>_. cacheAuthentic) t"
    if "keeps (owned {}) m" "shardTrusted t" for m :: "(shardst, nat) op" and t
    by (rule wp_trusts [OF that(1)]) (use that(2) in \<open>auto simp: shardTrusted_def\<close>)
  have fin: "keeps (owned {}) (bindE (finalizeShard E) (\<lambda>_. returnE 0))" by (intro finalizeShard_trusts trust_intros)
  have body: "wp authGuard (if om_deletionTimestamp (sh_meta x) \<noteq> None then bindE (finalizeShard E) (\<lambda>_. returnE 0) else reconcileShard E R)
      (\<lambda>_. cacheAuthentic) (\<lambda>_. cacheAuthentic) ((logged ?c (RObj y) s)\<lparr>shard := x\<rparr>)" if "asAPIShard y = Some x" for x y
    by (rule wp_if) (rule whole [OF fin read [OF that]], rule whole [OF reconcileShard_trusts read [OF that]])
  have got: "wp authGuard (bindE (modifyE (\<lambda>s. s\<lparr>shard := x\<rparr>)) (\<lambda>_.
      if om_deletionTimestamp (sh_meta x) \<noteq> None then bindE (finalizeShard E) (\<lambda>_. returnE 0) else reconcileShard E R))
      (\<lambda>_. cacheAuthentic) (\<lambda>_. cacheAuthentic) (logged ?c (RObj y) s)" if "asAPIShard y = Some x" for x y
    by (rule wp_bind, rule wp_modify, simp, rule body [OF that])
  show ?thesis
    unfolding apiShard_Reconcile_def
  proof (rule wp_bind, rule wp_try, rule wp_getObj)
    show "authGuard (tr s) (?c, r)" for r by (simp add: authGuard_def)
  qed (simp_all only: sum.case, rule got, assumption, auto simp: logged intro: wps)
qed

section \<open>Every run\<close>

definition provenRun :: "base \<Rightarrow> bool" where
  "provenRun s = (cacheAuthentic s \<and> guardedFrom authGuard [] (tr s))"

lemma runPass_proven:
  assumes "provenRun s"
  shows "provenRun (runPass E R z p s)"
proof -
  have step: "cacheAuthentic (snd (m u))" "guardedFrom authGuard [] (tr (snd (m u)))"
    if "wp authGuard m (\<lambda>_. cacheAuthentic) (\<lambda>_. cacheAuthentic) u" "tr u = tr s" for m and u :: "'z base_scheme"
    using assms that by (auto simp: provenRun_def wp_def guards_def split: prod.splits)
  have c: "cacheAuthentic s" "cacheAuthentic \<lparr>tr = tr s, clients = clients s, shard = z\<rparr>"
    using assms by (simp_all add: provenRun_def cacheAuthentic_def)
  show ?thesis
  proof (cases p)
    case (ShardPass req)
    with step [OF wp_apiShard_trusts [OF c(2)]] show ?thesis by (simp add: provenRun_def Let_def cacheAuthentic_def)
  next
    case (NamespacePass req)
    with step [OF wp_namespaceSync_trusts [OF c(1)]] show ?thesis by (simp add: provenRun_def)
  next
    case (WebhookPass req)
    with step [OF wp_webhookSync_trusts [OF c(1)]] show ?thesis by (simp add: provenRun_def)
  qed
qed

lemma runOperator_proven: "provenRun (runOperator E R z ps)"
proof -
  have "provenRun s \<Longrightarrow> provenRun (fold (runPass E R z) ps s)" for s
    by (induction ps arbitrary: s) (auto intro: runPass_proven)
  then show ?thesis by (simp add: runOperator_def provenRun_def cacheAuthentic_def NewClientProvider_def)
qed

lemma sourced_insecure:
  assumes "sourced h cfg" and "rc_insecure (buildRESTConfig cfg)"
  shows "\<exists>c sh pki. (c, RObj (KAPIShard sh)) \<in> set h \<and> secretRead h (shardNS sh, PKISecretName sh) pki \<and>
    mapGet (sec_data pki) ''ca.crt'' = []"
proof -
  have empty: "cfg_CACert cfg = []" using assms(2) by (simp add: buildRESTConfig_def Let_def split: if_splits)
  have "\<not> syncConfig h conn cfg" for conn
    using empty by (auto simp: syncConfig_def connectionConfig_def Let_def)
  with assms(1) obtain c sh where "(c, RObj (KAPIShard sh)) \<in> set h" "shardConfig h sh cfg"
    unfolding sourced_def by blast
  moreover from this(2) empty obtain pki where "secretRead h (shardNS sh, PKISecretName sh) pki" "mapGet (sec_data pki) ''ca.crt'' = []"
    by (auto simp: shardConfig_def)
  ultimately show ?thesis by blast
qed

section \<open>Properties\<close>

text \<open>
  C13: in every run of the operator, of passes of its three controllers one after the other, in any
  order, over their shared cache and whatever the API servers answer, a call to a secondary API server goes through a
  client built from a configuration with a source before the call: an \<open>APIShard\<close> that the primary
  answered with, with the host of its secondary, the CA of its PKI Secret and the certificate of its
  administrator Secret; or a \<open>NamespaceSync\<close> or \<open>WebhookSync\<close>, with the host of its connection and
  the CA and the credentials of the two Secrets it names, in its own namespace. A client that does
  not verify its server comes from a shard whose PKI Secret was read without a CA certificate.
\<close>

theorem operator_secondary_calls_sourced:
  assumes "tr (runOperator E R z ps) = h @ (call, r) # es" and "clusterOf call = Secondary c"
  shows "\<exists>cfg. c = buildRESTConfig cfg \<and> sourced h cfg \<and>
    (rc_insecure c \<longrightarrow> (\<exists>d sh pki. (d, RObj (KAPIShard sh)) \<in> set h \<and> secretRead h (shardNS sh, PKISecretName sh) pki \<and>
      mapGet (sec_data pki) ''ca.crt'' = []))"
proof -
  have "guardedFrom authGuard [] (h @ (call, r) # es)"
    using runOperator_proven [of E R z ps] assms(1) by (simp add: provenRun_def)
  then have "authentic h c" using assms(2) by (simp add: authGuard_def)
  then show ?thesis using sourced_insecure by (auto simp: authentic_def)
qed

text \<open>Two passes over one \<open>NamespaceSync\<close>: the second lists the secondary with the cached client.\<close>

definition bareOperator :: reconciler where
  "bareOperator = \<lparr>ClientProvider = True, ServiceMonitorAvailable = False, SCCAvailable = False, PrimaryIssuer = []\<rparr>"

definition twoPasses :: base where
  "twoPasses = runOperator (refEnv syncServer) bareOperator sampleShard
     [NamespacePass (''ns'', ''sync''), NamespacePass (''ns'', ''sync'')]"

theorem operator_secondary_calls_sourced_witness:
  "\<exists>cfg c r. tr twoPasses ! 12 = (ListCall (Secondary c) NamespaceKind None None, r) \<and>
     c = buildRESTConfig cfg \<and> sourced (take 12 (tr twoPasses)) cfg"
proof -
  have "case tr twoPasses ! 12 of (ListCall (Secondary c) NamespaceKind None None, r) \<Rightarrow> True | _ \<Rightarrow> False"
    by code_simp
  then obtain c r where e: "tr twoPasses ! 12 = (ListCall (Secondary c) NamespaceKind None None, r)"
    by (auto split: prod.splits call.splits cluster.splits kind.splits option.splits)
  have "12 < length (tr twoPasses)" by code_simp
  from id_take_nth_drop [OF this]
  have "tr twoPasses = take 12 (tr twoPasses) @ (ListCall (Secondary c) NamespaceKind None None, r) # drop (Suc 12) (tr twoPasses)"
    by (simp only: e)
  from operator_secondary_calls_sourced [OF this [unfolded twoPasses_def]] e show ?thesis
    by (auto simp: twoPasses_def)
qed

text \<open>
  The exception is reachable: CRDs are copied through an unverified client while the PKI Secret has
  no \<open>ca.crt\<close>, which the verification of the secondary and the admin kubeconfig wait for.
\<close>

definition bareServer :: "history \<Rightarrow> call \<Rightarrow> resp" where
  "bareServer = heldServer
     [KCRD \<lparr>crd_meta = emptyMeta\<lparr>om_name := ''tasks.tekton.dev''\<rparr>, crd_group = ''tekton.dev'', crd_conversion = None, crd_specRest = JNull\<rparr>,
      KSecret \<lparr>sec_meta = emptyMeta\<lparr>om_name := ''a-pki'', om_namespace := ''shards''\<rparr>, sec_type = [], sec_data = [(''tls.crt'', ''leaf'')], sec_stringData = []\<rparr>,
      KSecret \<lparr>sec_meta = emptyMeta\<lparr>om_name := ''a-admin-client-cert'', om_namespace := ''shards''\<rparr>, sec_type = [],
        sec_data = [(''tls.crt'', ''cert''), (''tls.key'', ''key'')], sec_stringData = []\<rparr>]"

definition bareCopy :: "(goerror + unit) \<times> shardst" where
  "bareCopy = syncCRDsToSecondary (refEnv bareServer) bareOperator [''tasks.tekton.dev''] \<lparr>tr = [], clients = [], shard = sampleShard\<rparr>"

lemma unverified_copy_reachable:
  "\<exists>c x r. (ApplyCall (Secondary c) (KCRD x), r) \<in> set (tr (snd bareCopy)) \<and> rc_insecure c"
proof -
  have "list_ex (\<lambda>e. case fst e of ApplyCall (Secondary c) (KCRD x) \<Rightarrow> rc_insecure c | _ \<Rightarrow> False)
    (tr (snd bareCopy))"
    by code_simp
  then obtain call r where e: "(call, r) \<in> set (tr (snd bareCopy))"
    and c: "case call of ApplyCall (Secondary c) (KCRD x) \<Rightarrow> rc_insecure c | _ \<Rightarrow> False"
    by (auto simp: list_ex_iff)
  from c obtain c x where "call = ApplyCall (Secondary c) (KCRD x)" "rc_insecure c"
    by (auto split: call.splits cluster.splits kobj.splits)
  with e show ?thesis by blast
qed

end
