(* ===== verification/GoMemory.thy ===== *)
theory GoMemory
  imports Prelude
begin

text \<open>
  Memory of a Go program, as far as copying of objects is concerned: structs hold scalars, nested
  structs and references; a pointer or a map refers to a cell, a slice to a window of one. Values are
  read through a static type, which makes the memory below a reference a finite tree. The
  statements that deep-copy functions are made of act on this memory, and the locale \<open>deep_copier\<close> is
  their contract: the copy reads the same and shares no memory with the original.
\<close>

section \<open>Values and memory\<close>

datatype scalar = StrV string | IntV int | BoolV bool

datatype gv = Scalar scalar | Struct "(string \<times> gv) list" | NilRef | Ref nat | SliceRef nat nat nat

record memory =
  mem_limit :: nat
  mem_cells :: "nat \<Rightarrow> gv list"

type_synonym copier = "gv \<Rightarrow> memory \<Rightarrow> gv \<times> memory"

definition fieldOf :: "(string \<times> gv) list \<Rightarrow> string \<Rightarrow> gv" where
  "fieldOf vs f = (case map_of vs f of None \<Rightarrow> NilRef | Some x \<Rightarrow> x)"

fun setField :: "string \<Rightarrow> gv \<Rightarrow> (string \<times> gv) list \<Rightarrow> (string \<times> gv) list" where
  "setField f x [] = []"
| "setField f x ((g, y) # vs) = (if g = f then (g, x) # vs else (g, y) # setField f x vs)"

definition alloc :: "gv list \<Rightarrow> memory \<Rightarrow> nat \<times> memory" where
  "alloc xs M = (mem_limit M, \<lparr>mem_limit = Suc (mem_limit M), mem_cells = (mem_cells M)(mem_limit M := xs)\<rparr>)"

definition window :: "memory \<Rightarrow> nat \<Rightarrow> nat \<Rightarrow> nat \<Rightarrow> gv list" where
  "window M a off n = take n (drop off (mem_cells M a))"

section \<open>Types\<close>

datatype gotype = GoScalar | GoStruct "(string \<times> gotype) list" | GoPtr gotype | GoSlice gotype | GoMap

definition isScalar :: "gv \<Rightarrow> bool" where
  "isScalar v = (case v of Scalar _ \<Rightarrow> True | _ \<Rightarrow> False)"

definition isMapCell :: "gv list \<Rightarrow> bool" where
  "isMapCell xs = (case xs of [Struct es] \<Rightarrow> distinct (map fst es) \<and> list_all (isScalar \<circ> snd) es | _ \<Rightarrow> False)"

fun hasType :: "gotype \<Rightarrow> memory \<Rightarrow> gv \<Rightarrow> bool" where
  "hasType GoScalar M v = isScalar v"
| "hasType (GoStruct fs) M v =
     (case v of
        Struct vs \<Rightarrow> map fst vs = map fst fs \<and> list_all (\<lambda>p. hasType (snd p) M (fieldOf vs (fst p))) fs
      | _ \<Rightarrow> False)"
| "hasType (GoPtr t) M v =
     (case v of
        NilRef \<Rightarrow> True
      | Ref a \<Rightarrow> a < mem_limit M \<and> (case mem_cells M a of [x] \<Rightarrow> hasType t M x | _ \<Rightarrow> False)
      | _ \<Rightarrow> False)"
| "hasType (GoSlice t) M v =
     (case v of
        NilRef \<Rightarrow> True
      | SliceRef a off n \<Rightarrow> a < mem_limit M \<and> off + n \<le> length (mem_cells M a) \<and> list_all (hasType t M) (window M a off n)
      | _ \<Rightarrow> False)"
| "hasType GoMap M v =
     (case v of NilRef \<Rightarrow> True | Ref a \<Rightarrow> a < mem_limit M \<and> isMapCell (mem_cells M a) | _ \<Rightarrow> False)"

text \<open>The tree a value stands for, and the addresses of the memory it occupies.\<close>

datatype gtree = TScalar scalar | TStruct "(string \<times> gtree) list" | TNil | TPtr gtree | TSlice "gtree list"

fun scalarTree :: "gv \<Rightarrow> gtree" where
  "scalarTree (Scalar x) = TScalar x"
| "scalarTree _ = TNil"

fun readAs :: "gotype \<Rightarrow> memory \<Rightarrow> gv \<Rightarrow> gtree" where
  "readAs GoScalar M v = scalarTree v"
| "readAs (GoStruct fs) M v =
     (case v of Struct vs \<Rightarrow> TStruct (map (\<lambda>p. (fst p, readAs (snd p) M (fieldOf vs (fst p)))) fs) | _ \<Rightarrow> TNil)"
| "readAs (GoPtr t) M v = (case v of Ref a \<Rightarrow> TPtr (readAs t M (hd (mem_cells M a))) | _ \<Rightarrow> TNil)"
| "readAs (GoSlice t) M v = (case v of SliceRef a off n \<Rightarrow> TSlice (map (readAs t M) (window M a off n)) | _ \<Rightarrow> TNil)"
| "readAs GoMap M v =
     (case v of
        Ref a \<Rightarrow> (case mem_cells M a of [Struct es] \<Rightarrow> TPtr (TStruct (map (\<lambda>p. (fst p, scalarTree (snd p))) es)) | _ \<Rightarrow> TNil)
      | _ \<Rightarrow> TNil)"

fun footprint :: "gotype \<Rightarrow> memory \<Rightarrow> gv \<Rightarrow> nat list" where
  "footprint GoScalar M v = []"
| "footprint (GoStruct fs) M v =
     (case v of Struct vs \<Rightarrow> concat (map (\<lambda>p. footprint (snd p) M (fieldOf vs (fst p))) fs) | _ \<Rightarrow> [])"
| "footprint (GoPtr t) M v = (case v of Ref a \<Rightarrow> a # footprint t M (hd (mem_cells M a)) | _ \<Rightarrow> [])"
| "footprint (GoSlice t) M v = (case v of SliceRef a off n \<Rightarrow> a # concat (map (footprint t M) (window M a off n)) | _ \<Rightarrow> [])"
| "footprint GoMap M v = (case v of Ref a \<Rightarrow> [a] | _ \<Rightarrow> [])"

section \<open>The statements of deep-copy functions\<close>

text \<open>An assignment copies scalars and references as they are.\<close>

definition assign :: copier where
  "assign v M = (v, M)"

text \<open>
  \<open>if in.F != nil { *out = new(T); (*in).DeepCopyInto(*out) }\<close>, which also is \<open>DeepCopy\<close>; with
  \<open>assign\<close> it is \<open>**out = **in\<close>.
\<close>

definition newOf :: "copier \<Rightarrow> copier" where
  "newOf c v M =
     (case v of
        Ref a \<Rightarrow> (case c (hd (mem_cells M a)) M of (x, M1) \<Rightarrow> (case alloc [x] M1 of (b, M2) \<Rightarrow> (Ref b, M2)))
      | _ \<Rightarrow> (v, M))"

definition ifNotNil :: "copier \<Rightarrow> copier" where
  "ifNotNil c v M = (if v = NilRef then (v, M) else c v M)"

text \<open>\<open>make\<close> of a slice of the same length and a copy of every element; with \<open>assign\<close> it is \<open>copy\<close>.\<close>

fun copyElems :: "copier \<Rightarrow> gv list \<Rightarrow> memory \<Rightarrow> gv list \<times> memory" where
  "copyElems c [] M = ([], M)"
| "copyElems c (x # xs) M = (case c x M of (y, M1) \<Rightarrow> (case copyElems c xs M1 of (ys, M2) \<Rightarrow> (y # ys, M2)))"

definition makeSlice :: "copier \<Rightarrow> copier" where
  "makeSlice c v M =
     (case v of
        SliceRef a off n \<Rightarrow>
          (case copyElems c (window M a off n) M of (ys, M1) \<Rightarrow> (case alloc ys M1 of (b, M2) \<Rightarrow> (SliceRef b 0 (length ys), M2)))
      | _ \<Rightarrow> (v, M))"

text \<open>\<open>make\<close> of a map and an assignment of every entry.\<close>

definition makeMap :: copier where
  "makeMap v M = (case v of Ref a \<Rightarrow> (case alloc (mem_cells M a) M of (b, M1) \<Rightarrow> (Ref b, M1)) | _ \<Rightarrow> (v, M))"

text \<open>\<open>*out = *in\<close> and then one statement per field.\<close>

fun runFields :: "(string \<times> gv) list \<Rightarrow> (string \<times> copier) list \<Rightarrow> (string \<times> gv) list \<Rightarrow> memory \<Rightarrow> (string \<times> gv) list \<times> memory" where
  "runFields vs [] out M = (out, M)"
| "runFields vs ((f, c) # cs) out M = (case c (fieldOf vs f) M of (x, M1) \<Rightarrow> runFields vs cs (setField f x out) M1)"

definition copyInto :: "(string \<times> copier) list \<Rightarrow> copier" where
  "copyInto cs v M = (case v of Struct vs \<Rightarrow> (case runFields vs cs vs M of (out, M1) \<Rightarrow> (Struct out, M1)) | _ \<Rightarrow> (v, M))"

text \<open>\<open>DeepCopyObject\<close>: a nil pointer becomes a nil interface, not an interface that holds one.\<close>

datatype iface = NilInterface | Interface gv

definition toObject :: "copier \<Rightarrow> gv \<Rightarrow> memory \<Rightarrow> iface \<times> memory" where
  "toObject dc v M = (case dc v M of (c, M1) \<Rightarrow> (if c \<noteq> NilRef then (Interface c, M1) else (NilInterface, M1)))"

section \<open>Reading depends on the footprint only\<close>

definition agrees :: "nat set \<Rightarrow> memory \<Rightarrow> memory \<Rightarrow> bool" where
  "agrees A M M' = (\<forall>a \<in> A. mem_cells M' a = mem_cells M a)"

definition grown :: "memory \<Rightarrow> memory \<Rightarrow> bool" where
  "grown M M' = (mem_limit M \<le> mem_limit M' \<and> agrees {..<mem_limit M} M M')"

lemma agrees_mono: "agrees B M M' \<Longrightarrow> A \<subseteq> B \<Longrightarrow> agrees A M M'"
  unfolding agrees_def by blast

lemma agrees_cell: "agrees A M M' \<Longrightarrow> a \<in> A \<Longrightarrow> mem_cells M' a = mem_cells M a"
  unfolding agrees_def by blast

lemma grown_refl [simp]: "grown M M"
  by (simp add: grown_def agrees_def)

lemma grown_trans: "grown M M' \<Longrightarrow> grown M' M'' \<Longrightarrow> grown M M''"
  by (auto simp: grown_def agrees_def)

lemma grown_alloc: "alloc xs M = (b, M') \<Longrightarrow> b = mem_limit M \<and> grown M M' \<and> mem_limit M' = Suc b \<and> mem_cells M' b = xs"
  by (auto simp: alloc_def grown_def agrees_def)

lemma footprint_allocated: "hasType t M v \<Longrightarrow> set (footprint t M v) \<subseteq> {..<mem_limit M}"
proof (induction t M v rule: hasType.induct)
  case (2 fs M v)
  then show ?case by (fastforce simp: list_all_iff split: gv.splits)
next
  case (3 t M v)
  then show ?case by (auto split: gv.splits list.splits)
next
  case (4 t M v)
  then show ?case by (fastforce simp: list_all_iff split: gv.splits)
qed (auto split: gv.splits)

lemma reads_agree:
  "agrees (set (footprint t M v)) M M' \<Longrightarrow> readAs t M' v = readAs t M v \<and> footprint t M' v = footprint t M v"
proof (induction t M v rule: footprint.induct)
  case (2 fs M v)
  then show ?case by (cases v) (auto simp: agrees_def intro!: map_cong arg_cong [where f = concat])
next
  case (3 t M v)
  then show ?case by (cases v) (auto simp: agrees_def)
next
  case (4 t M v)
  then show ?case
    by (cases v) (auto simp: agrees_def window_def intro!: map_cong arg_cong [where f = concat])
qed (auto simp: agrees_def split: gv.splits)

lemma types_agree:
  "hasType t M v \<Longrightarrow> agrees (set (footprint t M v)) M M' \<Longrightarrow> mem_limit M \<le> mem_limit M' \<Longrightarrow> hasType t M' v"
proof (induction t M v rule: hasType.induct)
  case (2 fs M v)
  then show ?case by (cases v) (auto simp: agrees_def list_all_iff)
next
  case (3 t M v)
  then show ?case by (cases v) (auto simp: agrees_def split: list.splits)
next
  case (4 t M v)
  then show ?case by (cases v) (auto simp: agrees_def window_def list_all_iff)
qed (auto simp: agrees_def split: gv.splits)

lemmas grown_reads = reads_agree [OF agrees_mono, OF _ footprint_allocated]
lemmas grown_types = types_agree [OF _ agrees_mono, OF _ _ footprint_allocated]

lemma grown_keeps:
  assumes "grown M M'" and "hasType t M v"
  shows "hasType t M' v" "readAs t M' v = readAs t M v" "footprint t M' v = footprint t M v"
  using assms grown_reads [of M M' t v] grown_types [of t M v M'] by (auto simp: grown_def)

section \<open>The contract of a copier\<close>

locale deep_copier =
  fixes t :: gotype and c :: copier
  assumes copies: "hasType t M v \<Longrightarrow> c v M = (w, M') \<Longrightarrow>
    grown M M' \<and> hasType t M' w \<and> readAs t M' w = readAs t M v \<and> set (footprint t M' w) \<subseteq> {mem_limit M..<mem_limit M'}"
begin

lemma original_kept:
  assumes "hasType t M v" and "c v M = (w, M')"
  shows "readAs t M' v = readAs t M v" "footprint t M' v = footprint t M v"
  using copies [OF assms] grown_keeps [OF _ assms(1)] by blast+

lemma separate:
  assumes "hasType t M v" and "c v M = (w, M')"
  shows "set (footprint t M' v) \<inter> set (footprint t M' w) = {}"
  using copies [OF assms] original_kept(2) [OF assms] footprint_allocated [OF assms(1)] by fastforce

text \<open>Whatever is written to the memory of one of the two, the other reads as before.\<close>

lemma isolated:
  assumes "hasType t M v" and "c v M = (w, M')"
  shows "agrees (- set (footprint t M' w)) M' M'' \<Longrightarrow> readAs t M'' v = readAs t M v"
    and "agrees (- set (footprint t M' v)) M' M'' \<Longrightarrow> readAs t M'' w = readAs t M v"
proof -
  note sep = separate [OF assms]
  show "readAs t M'' v = readAs t M v" if "agrees (- set (footprint t M' w)) M' M''"
    using reads_agree [OF agrees_mono [OF that], of t v] sep original_kept(1) [OF assms] by auto
  show "readAs t M'' w = readAs t M v" if "agrees (- set (footprint t M' v)) M' M''"
    using reads_agree [OF agrees_mono [OF that], of t w] sep copies [OF assms] by auto
qed

end

section \<open>The statements meet the contract\<close>

named_theorems copy_rules "contracts of the statements of deep-copy functions"

text \<open>Types without references can be assigned.\<close>

fun plain :: "gotype \<Rightarrow> bool" where
  "plain GoScalar = True"
| "plain (GoStruct fs) = list_all (\<lambda>p. plain (snd p)) fs"
| "plain _ = False"

lemma plain_footprint: "plain t \<Longrightarrow> footprint t M v = []"
  by (induction t M v rule: footprint.induct) (auto simp: list_all_iff split: gv.splits)

lemma assign_copier [copy_rules]: "plain t \<Longrightarrow> deep_copier t assign"
  by unfold_locales (auto simp: assign_def plain_footprint)

lemma newOf_copier [copy_rules]:
  assumes "deep_copier t c"
  shows "deep_copier (GoPtr t) (newOf c)"
proof (unfold_locales, goal_cases)
  case (1 M v w M')
  show ?case
  proof (cases v)
    case (Ref a)
    with 1(1) obtain x where x: "mem_cells M a = [x]" "hasType t M x" by (auto split: list.splits)
    obtain y M1 where y: "c x M = (y, M1)" by fastforce
    note cp = deep_copier.copies [OF assms x(2) y]
    obtain b where b: "alloc [y] M1 = (b, M')" "w = Ref b" using 1(2) Ref x y by (auto simp: newOf_def split: prod.splits)
    note al = grown_alloc [OF b(1)]
    have "hasType t M' y" "readAs t M' y = readAs t M1 y" "footprint t M' y = footprint t M1 y"
      using grown_keeps [of M1 M' t y] al cp by blast+
    moreover have "grown M M'" using cp al grown_trans by blast
    moreover have "mem_limit M \<le> mem_limit M1" using cp by (simp add: grown_def)
    ultimately show ?thesis using cp al b Ref x by auto
  qed (use 1 in \<open>auto simp: newOf_def\<close>)
qed

lemma ifNotNil_copier [copy_rules]:
  assumes "deep_copier (GoPtr t) c"
  shows "deep_copier (GoPtr t) (ifNotNil c)"
  using assms by (auto simp: deep_copier_def ifNotNil_def)

lemma copyElems_run:
  assumes "deep_copier t c"
  shows "list_all (hasType t M) xs \<Longrightarrow> copyElems c xs M = (ys, M') \<Longrightarrow>
    grown M M' \<and> list_all (hasType t M') ys \<and> map (readAs t M') ys = map (readAs t M) xs \<and>
    (\<forall>y \<in> set ys. set (footprint t M' y) \<subseteq> {mem_limit M..<mem_limit M'})"
proof (induction xs arbitrary: M ys)
  case (Cons x xs)
  obtain y M1 where y: "c x M = (y, M1)" by fastforce
  obtain zs where zs: "copyElems c xs M1 = (zs, M')" "ys = y # zs" using Cons.prems(2) y by (auto split: prod.splits)
  have x: "hasType t M x" and xs: "list_all (hasType t M) xs" using Cons.prems(1) by auto
  note cp = deep_copier.copies [OF assms x y]
  have m1: "list_all (hasType t M1) xs" "map (readAs t M1) xs = map (readAs t M) xs"
    using xs cp grown_keeps [of M M1 t] by (auto simp: list_all_iff)
  note ih = Cons.IH [OF m1(1) zs(1)]
  have "hasType t M' y" "readAs t M' y = readAs t M1 y" "footprint t M' y = footprint t M1 y"
    using grown_keeps [of M1 M' t y] ih cp by blast+
  moreover have "mem_limit M \<le> mem_limit M1" "mem_limit M1 \<le> mem_limit M'" using cp ih by (auto simp: grown_def)
  moreover have "grown M M'" using cp ih grown_trans by blast
  ultimately show ?case using cp ih m1(2) zs(2) by (fastforce simp: list_all_iff)
qed simp

lemma window_whole [simp]: "mem_cells M b = ys \<Longrightarrow> window M b 0 (length ys) = ys"
  by (simp add: window_def)

lemma makeSlice_copier [copy_rules]:
  assumes "deep_copier t c"
  shows "deep_copier (GoSlice t) (makeSlice c)"
proof (unfold_locales, goal_cases)
  case (1 M v w M')
  show ?case
  proof (cases v)
    case (SliceRef a off n)
    with 1(1) have xs: "list_all (hasType t M) (window M a off n)" by simp
    obtain ys M1 where ys: "copyElems c (window M a off n) M = (ys, M1)" by fastforce
    note cp = copyElems_run [OF assms xs ys]
    obtain b where b: "alloc ys M1 = (b, M')" "w = SliceRef b 0 (length ys)"
      using 1(2) SliceRef ys by (auto simp: makeSlice_def split: prod.splits)
    have al: "b = mem_limit M1" "grown M1 M'" "mem_limit M' = Suc b" "mem_cells M' b = ys"
      using grown_alloc [OF b(1)] by blast+
    have "hasType t M' y \<and> readAs t M' y = readAs t M1 y \<and> footprint t M' y = footprint t M1 y" if "y \<in> set ys" for y
      using grown_keeps [of M1 M' t y] al cp that by (simp add: list_all_iff)
    then have k: "list_all (hasType t M') ys" "map (readAs t M') ys = map (readAs t M1) ys"
      "\<forall>y \<in> set ys. footprint t M' y = footprint t M1 y"
      by (simp_all add: list_all_iff)
    have g: "grown M M'" "mem_limit M \<le> mem_limit M1" using cp al grown_trans by (blast, simp add: grown_def)
    have "(\<Union>y \<in> set ys. set (footprint t M' y)) \<subseteq> {mem_limit M..<mem_limit M'}"
      using k(3) cp al by fastforce
    moreover have "window M' b 0 (length ys) = ys" by (rule window_whole) (use al in blast)
    ultimately show ?thesis using k g al b(2) SliceRef cp by simp
  qed (use 1 in \<open>auto simp: makeSlice_def\<close>)
qed

lemma makeMap_copier [copy_rules]: "deep_copier GoMap makeMap"
proof (unfold_locales, goal_cases)
  case (1 M v w M')
  show ?case
  proof (cases v)
    case (Ref a)
    then obtain b where b: "alloc (mem_cells M a) M = (b, M')" "w = Ref b"
      using 1(2) by (auto simp: makeMap_def split: prod.splits)
    with grown_alloc [OF b(1)] Ref 1(1) show ?thesis by auto
  qed (use 1 in \<open>auto simp: makeMap_def\<close>)
qed

section \<open>Structs\<close>

lemma map_of_setField: "map_of (setField f x vs) g = (if g = f then map_option (\<lambda>_. x) (map_of vs f) else map_of vs g)"
  by (induction f x vs rule: setField.induct) auto

lemma fieldOf_setField: "fieldOf (setField f x vs) g = (if g = f \<and> f \<in> fst ` set vs then x else fieldOf vs g)"
  using map_of_eq_None_iff [of vs f] by (auto simp: fieldOf_def map_of_setField split: option.split)

lemma names_setField [simp]: "map fst (setField f x vs) = map fst vs"
  by (induction f x vs rule: setField.induct) auto

lemma runFields_run:
  assumes "\<And>f c. (f, c) \<in> set cs \<Longrightarrow> deep_copier (ty f) c" and "\<And>f. f \<in> fst ` set cs \<Longrightarrow> hasType (ty f) M0 (fieldOf vs f)"
    and "grown M0 M" and "runFields vs cs out M = (out', M')" and "distinct (map fst cs)" and "fst ` set cs \<subseteq> fst ` set out"
  shows "grown M M' \<and> map fst out' = map fst out \<and> (\<forall>f. f \<notin> fst ` set cs \<longrightarrow> fieldOf out' f = fieldOf out f) \<and>
    (\<forall>f \<in> fst ` set cs. hasType (ty f) M' (fieldOf out' f) \<and> readAs (ty f) M' (fieldOf out' f) = readAs (ty f) M0 (fieldOf vs f) \<and>
       set (footprint (ty f) M' (fieldOf out' f)) \<subseteq> {mem_limit M0..<mem_limit M'})"
  using assms
proof (induction cs arbitrary: out M)
  case (Cons p cs)
  obtain f c where p: "p = (f, c)" by fastforce
  obtain x M1 where x: "c (fieldOf vs f) M = (x, M1)" by fastforce
  have t0: "hasType (ty f) M0 (fieldOf vs f)" using Cons.prems(2) p by simp
  note t = grown_keeps [OF Cons.prems(3) t0]
  have "deep_copier (ty f) c" using Cons.prems(1) p by simp
  note cp = deep_copier.copies [OF this t(1) x]
  have run: "runFields vs cs (setField f x out) M1 = (out', M')" using Cons.prems(4) p x by simp
  have names: "fst ` set (setField f x out) = fst ` set out" using names_setField [of f x out] by (metis list.set_map)
  have ih: "grown M1 M' \<and> map fst out' = map fst (setField f x out) \<and>
      (\<forall>g. g \<notin> fst ` set cs \<longrightarrow> fieldOf out' g = fieldOf (setField f x out) g) \<and>
      (\<forall>g \<in> fst ` set cs. hasType (ty g) M' (fieldOf out' g) \<and> readAs (ty g) M' (fieldOf out' g) = readAs (ty g) M0 (fieldOf vs g) \<and>
         set (footprint (ty g) M' (fieldOf out' g)) \<subseteq> {mem_limit M0..<mem_limit M'})"
    by (rule Cons.IH [OF _ _ _ run]) (use Cons.prems cp names p in \<open>auto intro: grown_trans\<close>)
  have f: "fieldOf out' f = x" using ih Cons.prems(5,6) p by (auto simp: fieldOf_setField)
  have k: "hasType (ty f) M' x" "readAs (ty f) M' x = readAs (ty f) M1 x" "footprint (ty f) M' x = footprint (ty f) M1 x"
    using grown_keeps [of M1 M' "ty f" x] ih cp by blast+
  have "mem_limit M0 \<le> mem_limit M" "mem_limit M1 \<le> mem_limit M'" using ih Cons.prems(3) by (auto simp: grown_def)
  then have fresh: "set (footprint (ty f) M' x) \<subseteq> {mem_limit M0..<mem_limit M'}" using cp k(3) by fastforce
  have "grown M M'" using cp ih grown_trans by blast
  moreover have "\<forall>g. g \<notin> fst ` set (p # cs) \<longrightarrow> fieldOf out' g = fieldOf out g" using ih p by (auto simp: fieldOf_setField)
  ultimately show ?case using ih f k fresh cp t(2) p by auto
qed simp

lemma copyInto_copier [copy_rules]:
  assumes "distinct (map fst fs)" and "distinct (map fst cs)" and "fst ` set cs \<subseteq> fst ` set fs"
    and "list_all (\<lambda>(f, t). case map_of cs f of None \<Rightarrow> plain t | Some c \<Rightarrow> deep_copier t c) fs"
  shows "deep_copier (GoStruct fs) (copyInto cs)"
proof (unfold_locales, goal_cases)
  case (1 M v w M')
  define ty where "ty f = (case map_of fs f of None \<Rightarrow> GoScalar | Some t \<Rightarrow> t)" for f
  have ty: "ty f = t" if "(f, t) \<in> set fs" for f t using that assms(1) by (simp add: ty_def)
  from 1(1) obtain vs where vs: "v = Struct vs" "map fst vs = map fst fs" "list_all (\<lambda>p. hasType (snd p) M (fieldOf vs (fst p))) fs"
    by (auto split: gv.splits)
  obtain out where out: "runFields vs cs vs M = (out, M')" "w = Struct out" using 1(2) vs by (auto simp: copyInto_def split: prod.splits)
  have typed: "deep_copier (ty f) c \<and> hasType (ty f) M (fieldOf vs f)" if "(f, c) \<in> set cs" for f c
  proof -
    from that assms(3) obtain t where t: "(f, t) \<in> set fs" by force
    moreover have "map_of cs f = Some c" using that assms(2) by simp
    ultimately show ?thesis using assms(4) vs(3) ty [OF t] by (fastforce simp: list_all_iff)
  qed
  have names: "fst ` set cs \<subseteq> fst ` set vs" using assms(3) vs(2) by (metis list.set_map)
  have run: "grown M M' \<and> map fst out = map fst vs \<and> (\<forall>f. f \<notin> fst ` set cs \<longrightarrow> fieldOf out f = fieldOf vs f) \<and>
    (\<forall>f \<in> fst ` set cs. hasType (ty f) M' (fieldOf out f) \<and> readAs (ty f) M' (fieldOf out f) = readAs (ty f) M (fieldOf vs f) \<and>
       set (footprint (ty f) M' (fieldOf out f)) \<subseteq> {mem_limit M..<mem_limit M'})"
    by (rule runFields_run [OF _ _ grown_refl out(1) assms(2) names]) (use typed in auto)
  have "hasType t M' (fieldOf out f) \<and> readAs t M' (fieldOf out f) = readAs t M (fieldOf vs f) \<and>
      set (footprint t M' (fieldOf out f)) \<subseteq> {mem_limit M..<mem_limit M'}" if ft: "(f, t) \<in> set fs" for f t
  proof (cases "f \<in> fst ` set cs")
    case True
    with run ty [OF ft] show ?thesis by auto
  next
    case False
    then have "map_of cs f = None" by (simp add: map_of_eq_None_iff)
    with assms(4) ft have "plain t" by (auto simp: list_all_iff)
    moreover have "hasType t M (fieldOf vs f)" using vs(3) ft by (auto simp: list_all_iff)
    ultimately show ?thesis using run False grown_keeps [of M M' t "fieldOf vs f"] by (simp add: plain_footprint)
  qed
  with run vs out show ?case by (fastforce simp: list_all_iff)
qed

end
