(* ===== verification/DeepCopy.thy ===== *)
theory DeepCopy
  imports GoMemory
begin

text \<open>
  The deep copies of the API objects, \<open>api/v1alpha1/zz_generated.deepcopy.go\<close>, on the memory of
  \<open>GoMemory\<close>: the layout of every type of \<open>api/v1alpha1\<close> as its fields with their types, and
  \<open>DeepCopyInto\<close>, \<open>DeepCopy\<close> and \<open>DeepCopyObject\<close> of every type, one statement per field as generated.
  The types of Kubernetes (\<open>X\<close>) and their copy functions (\<open>K\<close>) are arguments.

  The controllers rely on it where they keep an object and edit it, as \<open>Reconcile\<close> does with
  \<open>base := shard.DeepCopy()\<close> before it adds the finalizer; elsewhere in the development objects
  are values, which is sound because a copy is equal and shares no memory.
\<close>

section \<open>Layouts\<close>

definition APIGroupSpec_layout :: "gotype" where
  "APIGroupSpec_layout = GoStruct
     [(''Group'', GoScalar),
      (''Versions'', GoSlice GoScalar)]"

definition SecretKeyReference_layout :: "gotype" where
  "SecretKeyReference_layout = GoStruct
     [(''Name'', GoScalar),
      (''Key'', GoScalar)]"

definition PersistenceSpec_layout :: "(string \<Rightarrow> gotype) \<Rightarrow> gotype" where
  "PersistenceSpec_layout X = GoStruct
     [(''StorageClassName'', GoPtr GoScalar),
      (''Size'', X ''Quantity'')]"

definition InClusterStorage_layout :: "(string \<Rightarrow> gotype) \<Rightarrow> gotype" where
  "InClusterStorage_layout X = GoStruct
     [(''Resources'', X ''ResourceRequirements''),
      (''Persistence'', GoPtr (PersistenceSpec_layout X))]"

definition PostgreSQLMonitoringSpec_layout :: "gotype" where
  "PostgreSQLMonitoringSpec_layout = GoStruct
     [(''BloatInterval'', GoScalar)]"

definition StorageMonitoringSpec_layout :: "gotype" where
  "StorageMonitoringSpec_layout = GoStruct
     [(''Enabled'', GoScalar),
      (''CollectionInterval'', GoScalar),
      (''CACertSecret'', GoPtr SecretKeyReference_layout),
      (''PostgreSQL'', GoPtr PostgreSQLMonitoringSpec_layout)]"

definition StorageSpec_layout :: "(string \<Rightarrow> gotype) \<Rightarrow> gotype" where
  "StorageSpec_layout X = GoStruct
     [(''Type'', GoScalar),
      (''ConnectionSecretRef'', GoPtr SecretKeyReference_layout),
      (''InCluster'', GoPtr (InClusterStorage_layout X)),
      (''Monitoring'', GoPtr StorageMonitoringSpec_layout)]"

definition NamespaceSyncConfig_layout :: "(string \<Rightarrow> gotype) \<Rightarrow> gotype" where
  "NamespaceSyncConfig_layout X = GoStruct
     [(''LabelSelector'', X ''LabelSelector'')]"

definition SecondarySpec_layout :: "(string \<Rightarrow> gotype) \<Rightarrow> gotype" where
  "SecondarySpec_layout X = GoStruct
     [(''Replicas'', GoScalar),
      (''Image'', GoScalar),
      (''Resources'', X ''ResourceRequirements''),
      (''NodeSelector'', GoMap),
      (''Tolerations'', GoSlice (X ''Toleration'')),
      (''TopologySpreadConstraints'', GoSlice (X ''TopologySpreadConstraint''))]"

definition ConnectionPoolConfig_layout :: "(string \<Rightarrow> gotype) \<Rightarrow> gotype" where
  "ConnectionPoolConfig_layout X = GoStruct
     [(''MaxIdleConnections'', GoPtr GoScalar),
      (''MaxOpenConnections'', GoPtr GoScalar),
      (''MaxLifetime'', GoPtr (X ''Duration''))]"

definition CompactionConfig_layout :: "(string \<Rightarrow> gotype) \<Rightarrow> gotype" where
  "CompactionConfig_layout X = GoStruct
     [(''Interval'', GoPtr (X ''Duration'')),
      (''MinRetain'', GoPtr GoScalar),
      (''BatchSize'', GoPtr GoScalar),
      (''Timeout'', GoPtr (X ''Duration''))]"

definition KineSpec_layout :: "(string \<Rightarrow> gotype) \<Rightarrow> gotype" where
  "KineSpec_layout X = GoStruct
     [(''Replicas'', GoScalar),
      (''Image'', GoScalar),
      (''Resources'', X ''ResourceRequirements''),
      (''NodeSelector'', GoMap),
      (''Tolerations'', GoSlice (X ''Toleration'')),
      (''TopologySpreadConstraints'', GoSlice (X ''TopologySpreadConstraint'')),
      (''ConnectionPool'', GoPtr (ConnectionPoolConfig_layout X)),
      (''Compaction'', GoPtr (CompactionConfig_layout X)),
      (''PollBatchSize'', GoPtr GoScalar),
      (''WatchProgressNotifyInterval'', GoPtr (X ''Duration''))]"

definition MonitoringSpec_layout :: "gotype" where
  "MonitoringSpec_layout = GoStruct
     [(''PrometheusServiceAccountName'', GoScalar),
      (''PrometheusNamespace'', GoScalar)]"

definition APIShardSpec_layout :: "(string \<Rightarrow> gotype) \<Rightarrow> gotype" where
  "APIShardSpec_layout X = GoStruct
     [(''TargetNamespace'', GoScalar),
      (''APIGroups'', GoSlice APIGroupSpec_layout),
      (''Storage'', StorageSpec_layout X),
      (''NamespaceSync'', NamespaceSyncConfig_layout X),
      (''Secondary'', SecondarySpec_layout X),
      (''Kine'', KineSpec_layout X),
      (''Monitoring'', GoPtr MonitoringSpec_layout),
      (''ColocateComponents'', GoPtr GoScalar)]"

definition ConnectionSecretReference_layout :: "gotype" where
  "ConnectionSecretReference_layout = GoStruct
     [(''Name'', GoScalar),
      (''Namespace'', GoScalar)]"

definition APIShardStatus_layout :: "(string \<Rightarrow> gotype) \<Rightarrow> gotype" where
  "APIShardStatus_layout X = GoStruct
     [(''Phase'', GoScalar),
      (''Message'', GoScalar),
      (''ConnectionSecret'', GoPtr ConnectionSecretReference_layout),
      (''SecondaryEndpoint'', GoScalar),
      (''RegisteredAPIServices'', GoSlice GoScalar),
      (''Conditions'', GoSlice (X ''Condition'')),
      (''ObservedGeneration'', GoScalar)]"

definition APIShard_layout :: "(string \<Rightarrow> gotype) \<Rightarrow> gotype" where
  "APIShard_layout X = GoStruct
     [(''TypeMeta'', X ''TypeMeta''),
      (''ObjectMeta'', X ''ObjectMeta''),
      (''Spec'', APIShardSpec_layout X),
      (''Status'', APIShardStatus_layout X)]"

definition APIShardList_layout :: "(string \<Rightarrow> gotype) \<Rightarrow> gotype" where
  "APIShardList_layout X = GoStruct
     [(''TypeMeta'', X ''TypeMeta''),
      (''ListMeta'', X ''ListMeta''),
      (''Items'', GoSlice (APIShard_layout X))]"

definition ServiceReference_layout :: "gotype" where
  "ServiceReference_layout = GoStruct
     [(''Name'', GoScalar),
      (''Namespace'', GoScalar),
      (''Port'', GoScalar)]"

definition LocalSecretReference_layout :: "gotype" where
  "LocalSecretReference_layout = GoStruct
     [(''Name'', GoScalar)]"

definition SecondaryConnectionSpec_layout :: "gotype" where
  "SecondaryConnectionSpec_layout = GoStruct
     [(''ServiceRef'', ServiceReference_layout),
      (''AuthSecretRef'', LocalSecretReference_layout),
      (''CASecretRef'', LocalSecretReference_layout)]"

definition NamespaceSyncSpec_layout :: "(string \<Rightarrow> gotype) \<Rightarrow> gotype" where
  "NamespaceSyncSpec_layout X = GoStruct
     [(''SecondaryConnection'', SecondaryConnectionSpec_layout),
      (''LabelSelector'', X ''LabelSelector''),
      (''ExcludeNamespaces'', GoSlice GoScalar)]"

definition NamespaceSyncStatus_layout :: "(string \<Rightarrow> gotype) \<Rightarrow> gotype" where
  "NamespaceSyncStatus_layout X = GoStruct
     [(''Conditions'', GoSlice (X ''Condition'')),
      (''SyncedNamespaces'', GoScalar),
      (''LastSyncTime'', GoPtr (X ''Time'')),
      (''ObservedGeneration'', GoScalar)]"

definition NamespaceSync_layout :: "(string \<Rightarrow> gotype) \<Rightarrow> gotype" where
  "NamespaceSync_layout X = GoStruct
     [(''TypeMeta'', X ''TypeMeta''),
      (''ObjectMeta'', X ''ObjectMeta''),
      (''Spec'', NamespaceSyncSpec_layout X),
      (''Status'', NamespaceSyncStatus_layout X)]"

definition NamespaceSyncList_layout :: "(string \<Rightarrow> gotype) \<Rightarrow> gotype" where
  "NamespaceSyncList_layout X = GoStruct
     [(''TypeMeta'', X ''TypeMeta''),
      (''ListMeta'', X ''ListMeta''),
      (''Items'', GoSlice (NamespaceSync_layout X))]"

definition SyncedWebhookCounts_layout :: "gotype" where
  "SyncedWebhookCounts_layout = GoStruct
     [(''Validating'', GoScalar),
      (''Mutating'', GoScalar)]"

definition WebhookSyncSpec_layout :: "gotype" where
  "WebhookSyncSpec_layout = GoStruct
     [(''SecondaryConnection'', SecondaryConnectionSpec_layout),
      (''APIGroups'', GoSlice GoScalar)]"

definition WebhookSyncStatus_layout :: "(string \<Rightarrow> gotype) \<Rightarrow> gotype" where
  "WebhookSyncStatus_layout X = GoStruct
     [(''Conditions'', GoSlice (X ''Condition'')),
      (''SyncedWebhooks'', SyncedWebhookCounts_layout),
      (''LastSyncTime'', GoPtr (X ''Time'')),
      (''ObservedGeneration'', GoScalar)]"

definition WebhookSync_layout :: "(string \<Rightarrow> gotype) \<Rightarrow> gotype" where
  "WebhookSync_layout X = GoStruct
     [(''TypeMeta'', X ''TypeMeta''),
      (''ObjectMeta'', X ''ObjectMeta''),
      (''Spec'', WebhookSyncSpec_layout),
      (''Status'', WebhookSyncStatus_layout X)]"

definition WebhookSyncList_layout :: "(string \<Rightarrow> gotype) \<Rightarrow> gotype" where
  "WebhookSyncList_layout X = GoStruct
     [(''TypeMeta'', X ''TypeMeta''),
      (''ListMeta'', X ''ListMeta''),
      (''Items'', GoSlice (WebhookSync_layout X))]"

section \<open>Copy functions\<close>

definition APIGroupSpec_DeepCopyInto :: "copier" where
  "APIGroupSpec_DeepCopyInto = copyInto
     [(''Versions'', makeSlice assign)]"

definition APIGroupSpec_DeepCopy :: "copier" where
  "APIGroupSpec_DeepCopy = newOf APIGroupSpec_DeepCopyInto"

definition SecretKeyReference_DeepCopyInto :: "copier" where
  "SecretKeyReference_DeepCopyInto = copyInto []"

definition SecretKeyReference_DeepCopy :: "copier" where
  "SecretKeyReference_DeepCopy = newOf SecretKeyReference_DeepCopyInto"

definition PersistenceSpec_DeepCopyInto :: "(string \<Rightarrow> copier) \<Rightarrow> copier" where
  "PersistenceSpec_DeepCopyInto K = copyInto
     [(''StorageClassName'', newOf assign),
      (''Size'', K ''Quantity'')]"

definition PersistenceSpec_DeepCopy :: "(string \<Rightarrow> copier) \<Rightarrow> copier" where
  "PersistenceSpec_DeepCopy K = newOf (PersistenceSpec_DeepCopyInto K)"

definition InClusterStorage_DeepCopyInto :: "(string \<Rightarrow> copier) \<Rightarrow> copier" where
  "InClusterStorage_DeepCopyInto K = copyInto
     [(''Resources'', K ''ResourceRequirements''),
      (''Persistence'', newOf (PersistenceSpec_DeepCopyInto K))]"

definition InClusterStorage_DeepCopy :: "(string \<Rightarrow> copier) \<Rightarrow> copier" where
  "InClusterStorage_DeepCopy K = newOf (InClusterStorage_DeepCopyInto K)"

definition PostgreSQLMonitoringSpec_DeepCopyInto :: "copier" where
  "PostgreSQLMonitoringSpec_DeepCopyInto = copyInto []"

definition PostgreSQLMonitoringSpec_DeepCopy :: "copier" where
  "PostgreSQLMonitoringSpec_DeepCopy = newOf PostgreSQLMonitoringSpec_DeepCopyInto"

definition StorageMonitoringSpec_DeepCopyInto :: "copier" where
  "StorageMonitoringSpec_DeepCopyInto = copyInto
     [(''CACertSecret'', newOf assign),
      (''PostgreSQL'', newOf assign)]"

definition StorageMonitoringSpec_DeepCopy :: "copier" where
  "StorageMonitoringSpec_DeepCopy = newOf StorageMonitoringSpec_DeepCopyInto"

definition StorageSpec_DeepCopyInto :: "(string \<Rightarrow> copier) \<Rightarrow> copier" where
  "StorageSpec_DeepCopyInto K = copyInto
     [(''ConnectionSecretRef'', newOf assign),
      (''InCluster'', newOf (InClusterStorage_DeepCopyInto K)),
      (''Monitoring'', newOf StorageMonitoringSpec_DeepCopyInto)]"

definition StorageSpec_DeepCopy :: "(string \<Rightarrow> copier) \<Rightarrow> copier" where
  "StorageSpec_DeepCopy K = newOf (StorageSpec_DeepCopyInto K)"

definition NamespaceSyncConfig_DeepCopyInto :: "(string \<Rightarrow> copier) \<Rightarrow> copier" where
  "NamespaceSyncConfig_DeepCopyInto K = copyInto
     [(''LabelSelector'', K ''LabelSelector'')]"

definition NamespaceSyncConfig_DeepCopy :: "(string \<Rightarrow> copier) \<Rightarrow> copier" where
  "NamespaceSyncConfig_DeepCopy K = newOf (NamespaceSyncConfig_DeepCopyInto K)"

definition SecondarySpec_DeepCopyInto :: "(string \<Rightarrow> copier) \<Rightarrow> copier" where
  "SecondarySpec_DeepCopyInto K = copyInto
     [(''Resources'', K ''ResourceRequirements''),
      (''NodeSelector'', makeMap),
      (''Tolerations'', makeSlice (K ''Toleration'')),
      (''TopologySpreadConstraints'', makeSlice (K ''TopologySpreadConstraint''))]"

definition SecondarySpec_DeepCopy :: "(string \<Rightarrow> copier) \<Rightarrow> copier" where
  "SecondarySpec_DeepCopy K = newOf (SecondarySpec_DeepCopyInto K)"

definition ConnectionPoolConfig_DeepCopyInto :: "copier" where
  "ConnectionPoolConfig_DeepCopyInto = copyInto
     [(''MaxIdleConnections'', newOf assign),
      (''MaxOpenConnections'', newOf assign),
      (''MaxLifetime'', newOf assign)]"

definition ConnectionPoolConfig_DeepCopy :: "copier" where
  "ConnectionPoolConfig_DeepCopy = newOf ConnectionPoolConfig_DeepCopyInto"

definition CompactionConfig_DeepCopyInto :: "copier" where
  "CompactionConfig_DeepCopyInto = copyInto
     [(''Interval'', newOf assign),
      (''MinRetain'', newOf assign),
      (''BatchSize'', newOf assign),
      (''Timeout'', newOf assign)]"

definition CompactionConfig_DeepCopy :: "copier" where
  "CompactionConfig_DeepCopy = newOf CompactionConfig_DeepCopyInto"

definition KineSpec_DeepCopyInto :: "(string \<Rightarrow> copier) \<Rightarrow> copier" where
  "KineSpec_DeepCopyInto K = copyInto
     [(''Resources'', K ''ResourceRequirements''),
      (''NodeSelector'', makeMap),
      (''Tolerations'', makeSlice (K ''Toleration'')),
      (''TopologySpreadConstraints'', makeSlice (K ''TopologySpreadConstraint'')),
      (''ConnectionPool'', newOf ConnectionPoolConfig_DeepCopyInto),
      (''Compaction'', newOf CompactionConfig_DeepCopyInto),
      (''PollBatchSize'', newOf assign),
      (''WatchProgressNotifyInterval'', newOf assign)]"

definition KineSpec_DeepCopy :: "(string \<Rightarrow> copier) \<Rightarrow> copier" where
  "KineSpec_DeepCopy K = newOf (KineSpec_DeepCopyInto K)"

definition MonitoringSpec_DeepCopyInto :: "copier" where
  "MonitoringSpec_DeepCopyInto = copyInto []"

definition MonitoringSpec_DeepCopy :: "copier" where
  "MonitoringSpec_DeepCopy = newOf MonitoringSpec_DeepCopyInto"

definition APIShardSpec_DeepCopyInto :: "(string \<Rightarrow> copier) \<Rightarrow> copier" where
  "APIShardSpec_DeepCopyInto K = copyInto
     [(''APIGroups'', makeSlice APIGroupSpec_DeepCopyInto),
      (''Storage'', StorageSpec_DeepCopyInto K),
      (''NamespaceSync'', NamespaceSyncConfig_DeepCopyInto K),
      (''Secondary'', SecondarySpec_DeepCopyInto K),
      (''Kine'', KineSpec_DeepCopyInto K),
      (''Monitoring'', newOf assign),
      (''ColocateComponents'', newOf assign)]"

definition APIShardSpec_DeepCopy :: "(string \<Rightarrow> copier) \<Rightarrow> copier" where
  "APIShardSpec_DeepCopy K = newOf (APIShardSpec_DeepCopyInto K)"

definition ConnectionSecretReference_DeepCopyInto :: "copier" where
  "ConnectionSecretReference_DeepCopyInto = copyInto []"

definition ConnectionSecretReference_DeepCopy :: "copier" where
  "ConnectionSecretReference_DeepCopy = newOf ConnectionSecretReference_DeepCopyInto"

definition APIShardStatus_DeepCopyInto :: "(string \<Rightarrow> copier) \<Rightarrow> copier" where
  "APIShardStatus_DeepCopyInto K = copyInto
     [(''ConnectionSecret'', newOf assign),
      (''RegisteredAPIServices'', makeSlice assign),
      (''Conditions'', makeSlice (K ''Condition''))]"

definition APIShardStatus_DeepCopy :: "(string \<Rightarrow> copier) \<Rightarrow> copier" where
  "APIShardStatus_DeepCopy K = newOf (APIShardStatus_DeepCopyInto K)"

definition APIShard_DeepCopyInto :: "(string \<Rightarrow> copier) \<Rightarrow> copier" where
  "APIShard_DeepCopyInto K = copyInto
     [(''TypeMeta'', assign),
      (''ObjectMeta'', K ''ObjectMeta''),
      (''Spec'', APIShardSpec_DeepCopyInto K),
      (''Status'', APIShardStatus_DeepCopyInto K)]"

definition APIShard_DeepCopy :: "(string \<Rightarrow> copier) \<Rightarrow> copier" where
  "APIShard_DeepCopy K = newOf (APIShard_DeepCopyInto K)"

definition APIShard_DeepCopyObject :: "(string \<Rightarrow> copier) \<Rightarrow> gv \<Rightarrow> memory \<Rightarrow> iface \<times> memory" where
  "APIShard_DeepCopyObject K = toObject (APIShard_DeepCopy K)"

definition APIShardList_DeepCopyInto :: "(string \<Rightarrow> copier) \<Rightarrow> copier" where
  "APIShardList_DeepCopyInto K = copyInto
     [(''TypeMeta'', assign),
      (''ListMeta'', K ''ListMeta''),
      (''Items'', makeSlice (APIShard_DeepCopyInto K))]"

definition APIShardList_DeepCopy :: "(string \<Rightarrow> copier) \<Rightarrow> copier" where
  "APIShardList_DeepCopy K = newOf (APIShardList_DeepCopyInto K)"

definition APIShardList_DeepCopyObject :: "(string \<Rightarrow> copier) \<Rightarrow> gv \<Rightarrow> memory \<Rightarrow> iface \<times> memory" where
  "APIShardList_DeepCopyObject K = toObject (APIShardList_DeepCopy K)"

definition ServiceReference_DeepCopyInto :: "copier" where
  "ServiceReference_DeepCopyInto = copyInto []"

definition ServiceReference_DeepCopy :: "copier" where
  "ServiceReference_DeepCopy = newOf ServiceReference_DeepCopyInto"

definition LocalSecretReference_DeepCopyInto :: "copier" where
  "LocalSecretReference_DeepCopyInto = copyInto []"

definition LocalSecretReference_DeepCopy :: "copier" where
  "LocalSecretReference_DeepCopy = newOf LocalSecretReference_DeepCopyInto"

definition SecondaryConnectionSpec_DeepCopyInto :: "copier" where
  "SecondaryConnectionSpec_DeepCopyInto = copyInto
     [(''ServiceRef'', assign),
      (''AuthSecretRef'', assign),
      (''CASecretRef'', assign)]"

definition SecondaryConnectionSpec_DeepCopy :: "copier" where
  "SecondaryConnectionSpec_DeepCopy = newOf SecondaryConnectionSpec_DeepCopyInto"

definition NamespaceSyncSpec_DeepCopyInto :: "(string \<Rightarrow> copier) \<Rightarrow> copier" where
  "NamespaceSyncSpec_DeepCopyInto K = copyInto
     [(''SecondaryConnection'', assign),
      (''LabelSelector'', K ''LabelSelector''),
      (''ExcludeNamespaces'', makeSlice assign)]"

definition NamespaceSyncSpec_DeepCopy :: "(string \<Rightarrow> copier) \<Rightarrow> copier" where
  "NamespaceSyncSpec_DeepCopy K = newOf (NamespaceSyncSpec_DeepCopyInto K)"

definition NamespaceSyncStatus_DeepCopyInto :: "(string \<Rightarrow> copier) \<Rightarrow> copier" where
  "NamespaceSyncStatus_DeepCopyInto K = copyInto
     [(''Conditions'', makeSlice (K ''Condition'')),
      (''LastSyncTime'', ifNotNil (K ''*Time''))]"

definition NamespaceSyncStatus_DeepCopy :: "(string \<Rightarrow> copier) \<Rightarrow> copier" where
  "NamespaceSyncStatus_DeepCopy K = newOf (NamespaceSyncStatus_DeepCopyInto K)"

definition NamespaceSync_DeepCopyInto :: "(string \<Rightarrow> copier) \<Rightarrow> copier" where
  "NamespaceSync_DeepCopyInto K = copyInto
     [(''TypeMeta'', assign),
      (''ObjectMeta'', K ''ObjectMeta''),
      (''Spec'', NamespaceSyncSpec_DeepCopyInto K),
      (''Status'', NamespaceSyncStatus_DeepCopyInto K)]"

definition NamespaceSync_DeepCopy :: "(string \<Rightarrow> copier) \<Rightarrow> copier" where
  "NamespaceSync_DeepCopy K = newOf (NamespaceSync_DeepCopyInto K)"

definition NamespaceSync_DeepCopyObject :: "(string \<Rightarrow> copier) \<Rightarrow> gv \<Rightarrow> memory \<Rightarrow> iface \<times> memory" where
  "NamespaceSync_DeepCopyObject K = toObject (NamespaceSync_DeepCopy K)"

definition NamespaceSyncList_DeepCopyInto :: "(string \<Rightarrow> copier) \<Rightarrow> copier" where
  "NamespaceSyncList_DeepCopyInto K = copyInto
     [(''TypeMeta'', assign),
      (''ListMeta'', K ''ListMeta''),
      (''Items'', makeSlice (NamespaceSync_DeepCopyInto K))]"

definition NamespaceSyncList_DeepCopy :: "(string \<Rightarrow> copier) \<Rightarrow> copier" where
  "NamespaceSyncList_DeepCopy K = newOf (NamespaceSyncList_DeepCopyInto K)"

definition NamespaceSyncList_DeepCopyObject :: "(string \<Rightarrow> copier) \<Rightarrow> gv \<Rightarrow> memory \<Rightarrow> iface \<times> memory" where
  "NamespaceSyncList_DeepCopyObject K = toObject (NamespaceSyncList_DeepCopy K)"

definition SyncedWebhookCounts_DeepCopyInto :: "copier" where
  "SyncedWebhookCounts_DeepCopyInto = copyInto []"

definition SyncedWebhookCounts_DeepCopy :: "copier" where
  "SyncedWebhookCounts_DeepCopy = newOf SyncedWebhookCounts_DeepCopyInto"

definition WebhookSyncSpec_DeepCopyInto :: "copier" where
  "WebhookSyncSpec_DeepCopyInto = copyInto
     [(''SecondaryConnection'', assign),
      (''APIGroups'', makeSlice assign)]"

definition WebhookSyncSpec_DeepCopy :: "copier" where
  "WebhookSyncSpec_DeepCopy = newOf WebhookSyncSpec_DeepCopyInto"

definition WebhookSyncStatus_DeepCopyInto :: "(string \<Rightarrow> copier) \<Rightarrow> copier" where
  "WebhookSyncStatus_DeepCopyInto K = copyInto
     [(''Conditions'', makeSlice (K ''Condition'')),
      (''SyncedWebhooks'', assign),
      (''LastSyncTime'', ifNotNil (K ''*Time''))]"

definition WebhookSyncStatus_DeepCopy :: "(string \<Rightarrow> copier) \<Rightarrow> copier" where
  "WebhookSyncStatus_DeepCopy K = newOf (WebhookSyncStatus_DeepCopyInto K)"

definition WebhookSync_DeepCopyInto :: "(string \<Rightarrow> copier) \<Rightarrow> copier" where
  "WebhookSync_DeepCopyInto K = copyInto
     [(''TypeMeta'', assign),
      (''ObjectMeta'', K ''ObjectMeta''),
      (''Spec'', WebhookSyncSpec_DeepCopyInto),
      (''Status'', WebhookSyncStatus_DeepCopyInto K)]"

definition WebhookSync_DeepCopy :: "(string \<Rightarrow> copier) \<Rightarrow> copier" where
  "WebhookSync_DeepCopy K = newOf (WebhookSync_DeepCopyInto K)"

definition WebhookSync_DeepCopyObject :: "(string \<Rightarrow> copier) \<Rightarrow> gv \<Rightarrow> memory \<Rightarrow> iface \<times> memory" where
  "WebhookSync_DeepCopyObject K = toObject (WebhookSync_DeepCopy K)"

definition WebhookSyncList_DeepCopyInto :: "(string \<Rightarrow> copier) \<Rightarrow> copier" where
  "WebhookSyncList_DeepCopyInto K = copyInto
     [(''TypeMeta'', assign),
      (''ListMeta'', K ''ListMeta''),
      (''Items'', makeSlice (WebhookSync_DeepCopyInto K))]"

definition WebhookSyncList_DeepCopy :: "(string \<Rightarrow> copier) \<Rightarrow> copier" where
  "WebhookSyncList_DeepCopy K = newOf (WebhookSyncList_DeepCopyInto K)"

definition WebhookSyncList_DeepCopyObject :: "(string \<Rightarrow> copier) \<Rightarrow> gv \<Rightarrow> memory \<Rightarrow> iface \<times> memory" where
  "WebhookSyncList_DeepCopyObject K = toObject (WebhookSyncList_DeepCopy K)"

section \<open>Every function is a deep copy\<close>

text \<open>
  What the documentation of Kubernetes says of its types: \<open>TypeMeta\<close> and \<open>Duration\<close> hold no
  references, and the other types are copied by functions that deep-copy.
\<close>

definition external_copies :: "(string \<Rightarrow> gotype) \<Rightarrow> (string \<Rightarrow> copier) \<Rightarrow> bool" where
  "external_copies X K =
     (plain (X ''TypeMeta'') \<and> plain (X ''Duration'') \<and> deep_copier (GoPtr (X ''Time'')) (K ''*Time'') \<and>
      (\<forall>n \<in> {''ObjectMeta'', ''ListMeta'', ''ResourceRequirements'', ''LabelSelector'', ''Toleration'',
         ''TopologySpreadConstraint'', ''Condition'', ''Quantity''}. deep_copier (X n) (K n)))"

lemma external_rules:
  assumes "external_copies X K"
  shows "plain (X ''TypeMeta'')" "plain (X ''Duration'')" "deep_copier (GoPtr (X ''Time'')) (K ''*Time'')"
    "deep_copier (X ''ObjectMeta'') (K ''ObjectMeta'')" "deep_copier (X ''ListMeta'') (K ''ListMeta'')"
    "deep_copier (X ''ResourceRequirements'') (K ''ResourceRequirements'')"
    "deep_copier (X ''LabelSelector'') (K ''LabelSelector'')" "deep_copier (X ''Toleration'') (K ''Toleration'')"
    "deep_copier (X ''TopologySpreadConstraint'') (K ''TopologySpreadConstraint'')"
    "deep_copier (X ''Condition'') (K ''Condition'')" "deep_copier (X ''Quantity'') (K ''Quantity'')"
  using assms unfolding external_copies_def by simp_all

lemma plain_layouts [simp]:
  "plain SecretKeyReference_layout"
  "plain PostgreSQLMonitoringSpec_layout"
  "plain MonitoringSpec_layout"
  "plain ConnectionSecretReference_layout"
  "plain ServiceReference_layout"
  "plain LocalSecretReference_layout"
  "plain SecondaryConnectionSpec_layout"
  "plain SyncedWebhookCounts_layout"
  by (simp_all add: SecretKeyReference_layout_def PostgreSQLMonitoringSpec_layout_def MonitoringSpec_layout_def ConnectionSecretReference_layout_def ServiceReference_layout_def LocalSecretReference_layout_def SecondaryConnectionSpec_layout_def SyncedWebhookCounts_layout_def)

lemma APIGroupSpec_copier [copy_rules]: "deep_copier APIGroupSpec_layout APIGroupSpec_DeepCopyInto"
  unfolding APIGroupSpec_layout_def APIGroupSpec_DeepCopyInto_def
  by (rule copyInto_copier; simp?; (intro conjI copy_rules)?; simp add: plain_layouts)

lemma SecretKeyReference_copier [copy_rules]: "deep_copier SecretKeyReference_layout SecretKeyReference_DeepCopyInto"
  unfolding SecretKeyReference_layout_def SecretKeyReference_DeepCopyInto_def
  by (rule copyInto_copier; simp?; (intro conjI copy_rules)?; simp add: plain_layouts)

lemma PersistenceSpec_copier [copy_rules]: "external_copies X K \<Longrightarrow> deep_copier (PersistenceSpec_layout X) (PersistenceSpec_DeepCopyInto K)"
  unfolding PersistenceSpec_layout_def PersistenceSpec_DeepCopyInto_def
  by (rule copyInto_copier; simp?; (intro conjI copy_rules)?; simp add: external_rules)

lemma InClusterStorage_copier [copy_rules]: "external_copies X K \<Longrightarrow> deep_copier (InClusterStorage_layout X) (InClusterStorage_DeepCopyInto K)"
  unfolding InClusterStorage_layout_def InClusterStorage_DeepCopyInto_def
  by (rule copyInto_copier; simp?; (intro conjI copy_rules)?; simp add: external_rules)

lemma PostgreSQLMonitoringSpec_copier [copy_rules]: "deep_copier PostgreSQLMonitoringSpec_layout PostgreSQLMonitoringSpec_DeepCopyInto"
  unfolding PostgreSQLMonitoringSpec_layout_def PostgreSQLMonitoringSpec_DeepCopyInto_def
  by (rule copyInto_copier; simp?; (intro conjI copy_rules)?; simp add: plain_layouts)

lemma StorageMonitoringSpec_copier [copy_rules]: "deep_copier StorageMonitoringSpec_layout StorageMonitoringSpec_DeepCopyInto"
  unfolding StorageMonitoringSpec_layout_def StorageMonitoringSpec_DeepCopyInto_def
  by (rule copyInto_copier; simp?; (intro conjI copy_rules)?; simp add: plain_layouts)

lemma StorageSpec_copier [copy_rules]: "external_copies X K \<Longrightarrow> deep_copier (StorageSpec_layout X) (StorageSpec_DeepCopyInto K)"
  unfolding StorageSpec_layout_def StorageSpec_DeepCopyInto_def
  by (rule copyInto_copier; simp?; (intro conjI copy_rules)?; simp add: external_rules)

lemma NamespaceSyncConfig_copier [copy_rules]: "external_copies X K \<Longrightarrow> deep_copier (NamespaceSyncConfig_layout X) (NamespaceSyncConfig_DeepCopyInto K)"
  unfolding NamespaceSyncConfig_layout_def NamespaceSyncConfig_DeepCopyInto_def
  by (rule copyInto_copier; simp?; (intro conjI copy_rules)?; simp add: external_rules)

lemma SecondarySpec_copier [copy_rules]: "external_copies X K \<Longrightarrow> deep_copier (SecondarySpec_layout X) (SecondarySpec_DeepCopyInto K)"
  unfolding SecondarySpec_layout_def SecondarySpec_DeepCopyInto_def
  by (rule copyInto_copier; simp?; (intro conjI copy_rules)?; simp add: external_rules)

lemma ConnectionPoolConfig_copier [copy_rules]: "external_copies X K \<Longrightarrow> deep_copier (ConnectionPoolConfig_layout X) ConnectionPoolConfig_DeepCopyInto"
  unfolding ConnectionPoolConfig_layout_def ConnectionPoolConfig_DeepCopyInto_def
  by (rule copyInto_copier; simp?; (intro conjI copy_rules)?; simp add: external_rules)

lemma CompactionConfig_copier [copy_rules]: "external_copies X K \<Longrightarrow> deep_copier (CompactionConfig_layout X) CompactionConfig_DeepCopyInto"
  unfolding CompactionConfig_layout_def CompactionConfig_DeepCopyInto_def
  by (rule copyInto_copier; simp?; (intro conjI copy_rules)?; simp add: external_rules)

lemma KineSpec_copier [copy_rules]: "external_copies X K \<Longrightarrow> deep_copier (KineSpec_layout X) (KineSpec_DeepCopyInto K)"
  unfolding KineSpec_layout_def KineSpec_DeepCopyInto_def
  by (rule copyInto_copier; simp?; (intro conjI copy_rules)?; simp add: external_rules)

lemma MonitoringSpec_copier [copy_rules]: "deep_copier MonitoringSpec_layout MonitoringSpec_DeepCopyInto"
  unfolding MonitoringSpec_layout_def MonitoringSpec_DeepCopyInto_def
  by (rule copyInto_copier; simp?; (intro conjI copy_rules)?; simp add: plain_layouts)

lemma APIShardSpec_copier [copy_rules]: "external_copies X K \<Longrightarrow> deep_copier (APIShardSpec_layout X) (APIShardSpec_DeepCopyInto K)"
  unfolding APIShardSpec_layout_def APIShardSpec_DeepCopyInto_def
  by (rule copyInto_copier; simp?; (intro conjI copy_rules)?; simp add: external_rules)

lemma ConnectionSecretReference_copier [copy_rules]: "deep_copier ConnectionSecretReference_layout ConnectionSecretReference_DeepCopyInto"
  unfolding ConnectionSecretReference_layout_def ConnectionSecretReference_DeepCopyInto_def
  by (rule copyInto_copier; simp?; (intro conjI copy_rules)?; simp add: plain_layouts)

lemma APIShardStatus_copier [copy_rules]: "external_copies X K \<Longrightarrow> deep_copier (APIShardStatus_layout X) (APIShardStatus_DeepCopyInto K)"
  unfolding APIShardStatus_layout_def APIShardStatus_DeepCopyInto_def
  by (rule copyInto_copier; simp?; (intro conjI copy_rules)?; simp add: external_rules)

lemma APIShard_copier [copy_rules]: "external_copies X K \<Longrightarrow> deep_copier (APIShard_layout X) (APIShard_DeepCopyInto K)"
  unfolding APIShard_layout_def APIShard_DeepCopyInto_def
  by (rule copyInto_copier; simp?; (intro conjI copy_rules)?; simp add: external_rules)

lemma APIShardList_copier [copy_rules]: "external_copies X K \<Longrightarrow> deep_copier (APIShardList_layout X) (APIShardList_DeepCopyInto K)"
  unfolding APIShardList_layout_def APIShardList_DeepCopyInto_def
  by (rule copyInto_copier; simp?; (intro conjI copy_rules)?; simp add: external_rules)

lemma ServiceReference_copier [copy_rules]: "deep_copier ServiceReference_layout ServiceReference_DeepCopyInto"
  unfolding ServiceReference_layout_def ServiceReference_DeepCopyInto_def
  by (rule copyInto_copier; simp?; (intro conjI copy_rules)?; simp add: plain_layouts)

lemma LocalSecretReference_copier [copy_rules]: "deep_copier LocalSecretReference_layout LocalSecretReference_DeepCopyInto"
  unfolding LocalSecretReference_layout_def LocalSecretReference_DeepCopyInto_def
  by (rule copyInto_copier; simp?; (intro conjI copy_rules)?; simp add: plain_layouts)

lemma SecondaryConnectionSpec_copier [copy_rules]: "deep_copier SecondaryConnectionSpec_layout SecondaryConnectionSpec_DeepCopyInto"
  unfolding SecondaryConnectionSpec_layout_def SecondaryConnectionSpec_DeepCopyInto_def
  by (rule copyInto_copier; simp?; (intro conjI copy_rules)?; simp add: plain_layouts)

lemma NamespaceSyncSpec_copier [copy_rules]: "external_copies X K \<Longrightarrow> deep_copier (NamespaceSyncSpec_layout X) (NamespaceSyncSpec_DeepCopyInto K)"
  unfolding NamespaceSyncSpec_layout_def NamespaceSyncSpec_DeepCopyInto_def
  by (rule copyInto_copier; simp?; (intro conjI copy_rules)?; simp add: external_rules)

lemma NamespaceSyncStatus_copier [copy_rules]: "external_copies X K \<Longrightarrow> deep_copier (NamespaceSyncStatus_layout X) (NamespaceSyncStatus_DeepCopyInto K)"
  unfolding NamespaceSyncStatus_layout_def NamespaceSyncStatus_DeepCopyInto_def
  by (rule copyInto_copier; simp?; (intro conjI copy_rules)?; simp add: external_rules)

lemma NamespaceSync_copier [copy_rules]: "external_copies X K \<Longrightarrow> deep_copier (NamespaceSync_layout X) (NamespaceSync_DeepCopyInto K)"
  unfolding NamespaceSync_layout_def NamespaceSync_DeepCopyInto_def
  by (rule copyInto_copier; simp?; (intro conjI copy_rules)?; simp add: external_rules)

lemma NamespaceSyncList_copier [copy_rules]: "external_copies X K \<Longrightarrow> deep_copier (NamespaceSyncList_layout X) (NamespaceSyncList_DeepCopyInto K)"
  unfolding NamespaceSyncList_layout_def NamespaceSyncList_DeepCopyInto_def
  by (rule copyInto_copier; simp?; (intro conjI copy_rules)?; simp add: external_rules)

lemma SyncedWebhookCounts_copier [copy_rules]: "deep_copier SyncedWebhookCounts_layout SyncedWebhookCounts_DeepCopyInto"
  unfolding SyncedWebhookCounts_layout_def SyncedWebhookCounts_DeepCopyInto_def
  by (rule copyInto_copier; simp?; (intro conjI copy_rules)?; simp add: plain_layouts)

lemma WebhookSyncSpec_copier [copy_rules]: "deep_copier WebhookSyncSpec_layout WebhookSyncSpec_DeepCopyInto"
  unfolding WebhookSyncSpec_layout_def WebhookSyncSpec_DeepCopyInto_def
  by (rule copyInto_copier; simp?; (intro conjI copy_rules)?; simp add: plain_layouts)

lemma WebhookSyncStatus_copier [copy_rules]: "external_copies X K \<Longrightarrow> deep_copier (WebhookSyncStatus_layout X) (WebhookSyncStatus_DeepCopyInto K)"
  unfolding WebhookSyncStatus_layout_def WebhookSyncStatus_DeepCopyInto_def
  by (rule copyInto_copier; simp?; (intro conjI copy_rules)?; simp add: external_rules)

lemma WebhookSync_copier [copy_rules]: "external_copies X K \<Longrightarrow> deep_copier (WebhookSync_layout X) (WebhookSync_DeepCopyInto K)"
  unfolding WebhookSync_layout_def WebhookSync_DeepCopyInto_def
  by (rule copyInto_copier; simp?; (intro conjI copy_rules)?; simp add: external_rules)

lemma WebhookSyncList_copier [copy_rules]: "external_copies X K \<Longrightarrow> deep_copier (WebhookSyncList_layout X) (WebhookSyncList_DeepCopyInto K)"
  unfolding WebhookSyncList_layout_def WebhookSyncList_DeepCopyInto_def
  by (rule copyInto_copier; simp?; (intro conjI copy_rules)?; simp add: external_rules)

text \<open>The types with their \<open>DeepCopy\<close>.\<close>

definition apiCopies :: "(string \<Rightarrow> gotype) \<Rightarrow> (string \<Rightarrow> copier) \<Rightarrow> (gotype \<times> copier) list" where
  "apiCopies X K =
     [(APIGroupSpec_layout, APIGroupSpec_DeepCopy),
      (SecretKeyReference_layout, SecretKeyReference_DeepCopy),
      (PersistenceSpec_layout X, PersistenceSpec_DeepCopy K),
      (InClusterStorage_layout X, InClusterStorage_DeepCopy K),
      (PostgreSQLMonitoringSpec_layout, PostgreSQLMonitoringSpec_DeepCopy),
      (StorageMonitoringSpec_layout, StorageMonitoringSpec_DeepCopy),
      (StorageSpec_layout X, StorageSpec_DeepCopy K),
      (NamespaceSyncConfig_layout X, NamespaceSyncConfig_DeepCopy K),
      (SecondarySpec_layout X, SecondarySpec_DeepCopy K),
      (ConnectionPoolConfig_layout X, ConnectionPoolConfig_DeepCopy),
      (CompactionConfig_layout X, CompactionConfig_DeepCopy),
      (KineSpec_layout X, KineSpec_DeepCopy K),
      (MonitoringSpec_layout, MonitoringSpec_DeepCopy),
      (APIShardSpec_layout X, APIShardSpec_DeepCopy K),
      (ConnectionSecretReference_layout, ConnectionSecretReference_DeepCopy),
      (APIShardStatus_layout X, APIShardStatus_DeepCopy K),
      (APIShard_layout X, APIShard_DeepCopy K),
      (APIShardList_layout X, APIShardList_DeepCopy K),
      (ServiceReference_layout, ServiceReference_DeepCopy),
      (LocalSecretReference_layout, LocalSecretReference_DeepCopy),
      (SecondaryConnectionSpec_layout, SecondaryConnectionSpec_DeepCopy),
      (NamespaceSyncSpec_layout X, NamespaceSyncSpec_DeepCopy K),
      (NamespaceSyncStatus_layout X, NamespaceSyncStatus_DeepCopy K),
      (NamespaceSync_layout X, NamespaceSync_DeepCopy K),
      (NamespaceSyncList_layout X, NamespaceSyncList_DeepCopy K),
      (SyncedWebhookCounts_layout, SyncedWebhookCounts_DeepCopy),
      (WebhookSyncSpec_layout, WebhookSyncSpec_DeepCopy),
      (WebhookSyncStatus_layout X, WebhookSyncStatus_DeepCopy K),
      (WebhookSync_layout X, WebhookSync_DeepCopy K),
      (WebhookSyncList_layout X, WebhookSyncList_DeepCopy K)]"

lemmas DeepCopy_defs =
  APIGroupSpec_DeepCopy_def
  SecretKeyReference_DeepCopy_def
  PersistenceSpec_DeepCopy_def
  InClusterStorage_DeepCopy_def
  PostgreSQLMonitoringSpec_DeepCopy_def
  StorageMonitoringSpec_DeepCopy_def
  StorageSpec_DeepCopy_def
  NamespaceSyncConfig_DeepCopy_def
  SecondarySpec_DeepCopy_def
  ConnectionPoolConfig_DeepCopy_def
  CompactionConfig_DeepCopy_def
  KineSpec_DeepCopy_def
  MonitoringSpec_DeepCopy_def
  APIShardSpec_DeepCopy_def
  ConnectionSecretReference_DeepCopy_def
  APIShardStatus_DeepCopy_def
  APIShard_DeepCopy_def
  APIShardList_DeepCopy_def
  ServiceReference_DeepCopy_def
  LocalSecretReference_DeepCopy_def
  SecondaryConnectionSpec_DeepCopy_def
  NamespaceSyncSpec_DeepCopy_def
  NamespaceSyncStatus_DeepCopy_def
  NamespaceSync_DeepCopy_def
  NamespaceSyncList_DeepCopy_def
  SyncedWebhookCounts_DeepCopy_def
  WebhookSyncSpec_DeepCopy_def
  WebhookSyncStatus_DeepCopy_def
  WebhookSync_DeepCopy_def
  WebhookSyncList_DeepCopy_def

lemma apiCopies_copier: "external_copies X K \<Longrightarrow> (t, d) \<in> set (apiCopies X K) \<Longrightarrow> deep_copier (GoPtr t) d"
  unfolding apiCopies_def DeepCopy_defs by (auto intro!: copy_rules)

section \<open>Registration\<close>

text \<open>
  \<open>groupversion_info.go\<close>: the group and version, and the types that are added to the scheme. A scheme
  takes values of \<open>runtime.Object\<close>, which these types are by their \<open>DeepCopyObject\<close>.
\<close>

definition GroupVersion :: "string \<times> string" where
  "GroupVersion = (''kube-shard.konflux-ci.dev'', ''v1alpha1'')"

definition knownTypes :: "(string \<Rightarrow> gotype) \<Rightarrow> (string \<Rightarrow> copier) \<Rightarrow>
    (gotype \<times> copier \<times> (gv \<Rightarrow> memory \<Rightarrow> iface \<times> memory)) list" where
  "knownTypes X K =
     [(APIShard_layout X, APIShard_DeepCopy K, APIShard_DeepCopyObject K),
      (APIShardList_layout X, APIShardList_DeepCopy K, APIShardList_DeepCopyObject K),
      (NamespaceSync_layout X, NamespaceSync_DeepCopy K, NamespaceSync_DeepCopyObject K),
      (NamespaceSyncList_layout X, NamespaceSyncList_DeepCopy K, NamespaceSyncList_DeepCopyObject K),
      (WebhookSync_layout X, WebhookSync_DeepCopy K, WebhookSync_DeepCopyObject K),
      (WebhookSyncList_layout X, WebhookSyncList_DeepCopy K, WebhookSyncList_DeepCopyObject K)]"

lemma knownTypes_object: "(t, d, ob) \<in> set (knownTypes X K) \<Longrightarrow> ob = toObject d \<and> (t, d) \<in> set (apiCopies X K)"
proof -
  have "list_all (\<lambda>(t, d, ob). ob = toObject d \<and> (t, d) \<in> set (apiCopies X K)) (knownTypes X K)"
    by (simp add: knownTypes_def apiCopies_def APIShard_DeepCopyObject_def APIShardList_DeepCopyObject_def NamespaceSync_DeepCopyObject_def
        NamespaceSyncList_DeepCopyObject_def WebhookSync_DeepCopyObject_def WebhookSyncList_DeepCopyObject_def)
  then show "(t, d, ob) \<in> set (knownTypes X K) \<Longrightarrow> ob = toObject d \<and> (t, d) \<in> set (apiCopies X K)"
    by (auto simp: list_all_iff)
qed

interpretation apiGroups: deep_copier APIGroupSpec_layout APIGroupSpec_DeepCopyInto
  by (rule APIGroupSpec_copier)

interpretation webhookSyncs: deep_copier WebhookSyncSpec_layout WebhookSyncSpec_DeepCopyInto
  by (rule WebhookSyncSpec_copier)

section \<open>Properties\<close>

text \<open>
  C38: \<open>DeepCopy\<close> of every API type copies. From any memory and for any pointer to an object of the type, the
  copy reads as the original, the original reads as before, and whatever is then written to the
  memory of one of them, the other still reads the same. A nil pointer gives a nil pointer. The
  types registered with the scheme are among them, and their \<open>DeepCopyObject\<close> is that copy as an
  interface, or the nil interface for a nil pointer.
\<close>

theorem deepCopy_isolates:
  assumes "external_copies X K" and "(t, d) \<in> set (apiCopies X K)"
    and "hasType (GoPtr t) M v" and "d v M = (w, M')"
  shows "readAs (GoPtr t) M' w = readAs (GoPtr t) M v \<and> readAs (GoPtr t) M' v = readAs (GoPtr t) M v \<and>
    (\<forall>M''. agrees (- set (footprint (GoPtr t) M' w)) M' M'' \<longrightarrow> readAs (GoPtr t) M'' v = readAs (GoPtr t) M v) \<and>
    (\<forall>M''. agrees (- set (footprint (GoPtr t) M' v)) M' M'' \<longrightarrow> readAs (GoPtr t) M'' w = readAs (GoPtr t) M v) \<and>
    (w = NilRef \<longleftrightarrow> v = NilRef) \<and>
    (\<forall>ob. (t, d, ob) \<in> set (knownTypes X K) \<longrightarrow> ob v M = (if v = NilRef then NilInterface else Interface w, M'))"
proof -
  have dc: "deep_copier (GoPtr t) d" by (rule apiCopies_copier [OF assms(1,2)])
  have read: "readAs (GoPtr t) M' w = readAs (GoPtr t) M v" and ty: "hasType (GoPtr t) M' w"
    using deep_copier.copies [OF dc assms(3,4)] by simp_all
  have nil: "w = NilRef \<longleftrightarrow> v = NilRef" using read ty assms(3) by (auto split: gv.splits)
  then have "ob v M = (if v = NilRef then NilInterface else Interface w, M')" if "(t, d, ob) \<in> set (knownTypes X K)" for ob
    using knownTypes_object [OF that] assms(4) by (simp add: toObject_def)
  with nil read deep_copier.original_kept [OF dc assms(3,4)] deep_copier.isolated [OF dc assms(3,4)] show ?thesis by blast
qed

text \<open>Kubernetes types that are scalars, for an example, and a group in memory.\<close>

definition scalarCopiers :: "string \<Rightarrow> copier" where
  "scalarCopiers n = (if n = ''*Time'' then newOf assign else assign)"

lemma scalar_externals: "external_copies (\<lambda>_. GoScalar) scalarCopiers"
  by (auto simp: external_copies_def scalarCopiers_def intro!: copy_rules)

definition groupMemory :: memory where
  "groupMemory = \<lparr>mem_limit = 2, mem_cells = (\<lambda>a.
     if a = 0 then [Struct [(''Group'', Scalar (StrV ''tekton.dev'')), (''Versions'', SliceRef 1 0 2)]]
     else if a = 1 then [Scalar (StrV ''v1''), Scalar (StrV ''v1beta1'')] else [])\<rparr>"

theorem deepCopy_isolates_witness:
  "\<exists>w M'. APIGroupSpec_DeepCopy (Ref 0) groupMemory = (w, M') \<and>
     readAs (GoPtr APIGroupSpec_layout) (M'\<lparr>mem_cells := (mem_cells M')(3 := [], 2 := [])\<rparr>) (Ref 0) =
     TPtr (TStruct [(''Group'', TScalar (StrV ''tekton.dev'')), (''Versions'', TSlice [TScalar (StrV ''v1''), TScalar (StrV ''v1beta1'')])])"
proof -
  obtain w M' where run: "APIGroupSpec_DeepCopy (Ref 0) groupMemory = (w, M')" by fastforce
  let ?M = "M'\<lparr>mem_cells := (mem_cells M')(3 := [], 2 := [])\<rparr>"
  have mem: "(APIGroupSpec_layout, APIGroupSpec_DeepCopy) \<in> set (apiCopies (\<lambda>_. GoScalar) scalarCopiers)" by (simp add: apiCopies_def)
  have ty: "hasType (GoPtr APIGroupSpec_layout) groupMemory (Ref 0)"
    by (simp add: groupMemory_def APIGroupSpec_layout_def fieldOf_def window_def isScalar_def)
  have "set (footprint (GoPtr APIGroupSpec_layout) M' w) = {2, 3}"
    using run by (auto simp: APIGroupSpec_DeepCopy_def APIGroupSpec_DeepCopyInto_def APIGroupSpec_layout_def newOf_def copyInto_def
        makeSlice_def assign_def alloc_def groupMemory_def fieldOf_def window_def eval_nat_numeral)
  then have "agrees (- set (footprint (GoPtr APIGroupSpec_layout) M' w)) M' ?M" by (simp add: agrees_def)
  with deepCopy_isolates [OF scalar_externals mem ty run]
  have "readAs (GoPtr APIGroupSpec_layout) ?M (Ref 0) = readAs (GoPtr APIGroupSpec_layout) groupMemory (Ref 0)" by blast
  with run show ?thesis
    by (simp add: groupMemory_def APIGroupSpec_layout_def fieldOf_def window_def)
qed

end
