(* ===== verification/Spec2Isabelle.thy ===== *)
theory Spec2Isabelle
  imports Wiring Kubeconfig Watches OTelConfig StorageSteps ClientConcurrency ErrorReport Periodic Startup GeneratorMain
    OperatorRun DeepCopy
begin

text \<open>
  Verification of the kube-shard operator and of its load-test generator (\<open>src/operator\<close>,
  \<open>src/tools/generate-from-pipeline\<close>).

  \<^bold>\<open>The program.\<close> An \<open>APIShard\<close> asks for some API groups of a Kubernetes cluster, the primary, to be
  served by a second API server with its own storage, the secondary. The shard controller
  provisions the storage (Kine over SQLite, an in-cluster or an external PostgreSQL), the
  certificates, the secondary itself and its access, registers the groups as APIServices with the
  primary, copies CRDs that are in the way, and reports the health of all that in the status. When
  the secondary answers authenticated requests it creates a \<open>NamespaceSync\<close> and a \<open>WebhookSync\<close>, whose
  controllers keep the namespaces and the admission webhooks of the secondary equal to the selected
  ones of the primary. All three controllers share one provider of clients for secondaries, which
  caches them by consumer and credentials. The generator turns a Tekton PipelineRun into one with
  the same shape whose steps only sleep.

  \<^bold>\<open>How it is modelled.\<close> A Go function that may fail is an \<open>('s, 'a) op\<close>: a function from a state to an
  error or a result, and the state after it; \<open>bindE\<close> is the early return on an error. The state of a
  controller is a record (\<open>base\<close>, for the shard controller \<open>shardst\<close>) with the trace of calls on the
  API servers and their responses, the client cache, and the object being reconciled. Everything
  that is not under \<open>src/\<close> is an argument: the record \<open>env\<close> holds the API servers as an arbitrary
  function from the history and a call to a response, the condition list functions, the hash, the
  URL parser and so on; other records hold the registry, the discovery client, the manager and the
  handlers of controller-runtime. Hypotheses on them are named (\<open>condition_laws\<close>, \<open>reads_by_name\<close>,
  \<open>cooperative\<close>, \<open>rngLaw\<close>, \<open>handlers_documented\<close>) and met by the concrete environment of
  \<open>Reference\<close>, on which the theorems with hypotheses are applied once each. Go maps are
  association lists, slices lists, pointers options, and bytes characters. Integers are unbounded
  where they are sizes or counts, and wrap where the code can overflow (\<open>int64_of\<close>).

  \<^bold>\<open>The theories and the sources they model.\<close>
  \<^item> \<open>Prelude\<close>, \<open>Lines\<close>, \<open>Base64\<close>: the parts of the Go library that are used, the sequencing of fallible
    steps, and \<open>keeps\<close> with the locale \<open>frame_rel\<close> for what composed steps preserve.
  \<^item> \<open>KubeTypes\<close>, \<open>ApiTypes\<close>: Kubernetes data, and the types of \<open>api/v1alpha1\<close>. \<open>GoMemory\<close>, \<open>DeepCopy\<close>: a
    memory with pointers, slices and maps, the generated copy functions of
    \<open>zz_generated.deepcopy.go\<close> over it, one definition per function, and the types that
    \<open>groupversion_info.go\<close> registers; copies of types from other packages are parameters.
  \<^item> \<open>Cluster\<close>, \<open>Trace\<close>, \<open>Hoare\<close>, \<open>Reference\<close>: the environment, reasoning about traces, weakest
    preconditions for guarded calls, and the concrete environment.
  \<^item> \<open>Scheduling\<close>, \<open>Kine\<close>, \<open>Postgres\<close>, \<open>SecondaryServer\<close>, \<open>Certs\<close>, \<open>Monitoring\<close>, \<open>StatusFree\<close>: the builders of
    \<open>internal/resources\<close> and \<open>internal/certs\<close>, one definition per function; \<open>OTelConfig\<close>: the
    collector configuration that is made from a connection string.
  \<^item> \<open>Aggregation\<close>: \<open>internal/aggregation\<close>.
  \<^item> \<open>SecondaryClient\<close>, \<open>ClientConcurrency\<close>: \<open>internal/secondary\<close>, sequentially and with goroutines.
  \<^item> \<open>Mirror\<close>, \<open>NamespaceSync\<close>, \<open>WebhookSync\<close>: \<open>internal/controller/namespacesync\<close> and \<open>webhooksync\<close>.
  \<^item> \<open>ShardState\<close>, \<open>ShardStorage\<close>, \<open>ShardAccess\<close>, \<open>ShardHealth\<close>, \<open>ShardReconcile\<close>: the steps of
    \<open>internal/controller/apishard/reconciler.go\<close> in the order of the source, each with its contract as an
    interpretation of \<open>shard_step\<close>. \<open>ShardSafety\<close>, \<open>ShardProgress\<close>, \<open>ShardProperties\<close>,
    \<open>StorageSteps\<close>, \<open>SubResources\<close>, \<open>Kubeconfig\<close>, \<open>Wiring\<close> and \<open>ErrorReport\<close> hold the properties;
    \<open>ErrorReport\<close> also models \<open>internal/condition\<close>.
  \<^item> \<open>OperatorRun\<close>: sequences of reconcile passes of the three controllers over the shared provider.
  \<^item> \<open>EventFilters\<close>, \<open>Watches\<close>, \<open>Periodic\<close>: \<open>internal/predicate\<close>, the watches of the three
    \<open>SetupWithManager\<close> with their handlers, and \<open>internal/periodic\<close>.
  \<^item> \<open>Startup\<close>: \<open>apishard/discovery.go\<close> and \<open>cmd/main.go\<close>.
  \<^item> \<open>Bundles\<close>, \<open>PipelineGen\<close>, \<open>GeneratorMain\<close>: \<open>bundle.go\<close>, \<open>generator.go\<close> and \<open>main.go\<close> of the generator.

  \<^bold>\<open>What is shown.\<close>
  \<^item> Safety of a shard reconcile, against an arbitrary API server: nothing is created before the
    finalizer is written, the finalizer is removed only after every registered APIService was found
    gone or deleted, orphans are cleaned up only after everything was applied, Ready is reported
    only for what was read as healthy, the spec is never changed, syncs are created only after
    the secondary was authenticated to, live volume claims and the password are kept.
  \<^item> Progress: against a cooperative server one reconcile succeeds and reports Ready.
  \<^item> What a reconcile leaves fits together: pods find their Secrets and ConfigMaps, certificates
    their issuers, clients names that are in the certificates, and the published kubeconfig reads
    back as the credentials it was made from. The collector configuration has the lines of its
    template whatever the connection string is.
  \<^item> The syncs converge: a sync that reports Ready has made the secondary equal to the selection, and
    what it deleted was not selected. Every event on an object a reconcile depends on leads to a
    request for it, and a tick is never lost.
  \<^item> The client provider refines, under every interleaving, one with atomic operations; its locks
    cannot deadlock and every call returns; a client is served only for the credentials it
    was built from, and one built for a connection verifies its server.
  \<^item> Composition of the controllers: in every run of the operator, every call to a secondary uses a
    client whose host, CA and credentials come from an object of the API and its Secrets, read
    before the call; the one case in which a client does not verify its server is identified.
  \<^item> Deep copies: the values of the model stand for Go objects that share memory; a copy reads as
    its original and writes to one of them never show in the other.
  \<^item> Error paths: how errors are reported, and two behaviours that are not intended, a copy
    deleted after a failed update and a password replaced after a failed read.
  \<^item> Start-up: servers, controllers and optional integrations are set up as flags and discovery say.
  \<^item> The generator: its output mirrors its input, its scripts only sleep and have the requested
    size, concurrent bundle resolution does not depend on the schedule, and \<open>main\<close> writes
    exactly that output.

  \<^bold>\<open>Termination.\<close> All definitions are total functions; no fuel is used. Loops of the code over lists are
  recursion on these lists. The goroutines of the client provider and of the ticker are step
  relations; for the provider every run without new calls has at most ten steps per goroutine.

  \<^bold>\<open>Not modelled.\<close> Log lines and log configuration. The scheme builder of controller-runtime beyond
  the list of types it is given. The manager after its start, that is its queues, caches and leader
  election: a reconcile is one call of \<open>Reconcile\<close>, and passes of different controllers do
  not overlap in \<open>OperatorRun\<close>. The flag package and the printed text of the generator beyond the totals
  of its summary. The field \<open>createdAt\<close> of cached clients, which nothing reads. The tests and the
  programs under \<open>operator/test\<close>.
\<close>

end
